(* ===== verification/Prelude.thy ===== *)
theory Prelude
  imports Main "HOL-Library.Word"
begin

text \<open>
  Shared vocabulary of the development: the machine types of the C code, the ways a
  call can fail to return (\<open>stop\<close>), the error composition \<open>ebind\<close>, string literals as
  byte lists, bit fields of registers, byte ranges of memory, and the generic lemmas on
  them that the component theories use.
\<close>

unbundle bit_operations_syntax

section \<open>Machine types\<close>

type_synonym u8 = "8 word"
type_synonym u16 = "16 word"
type_synonym u32 = "32 word"
type_synonym u64 = "64 word"

text \<open>A C string literal as its bytes, without the terminating zero.\<close>

definition str :: "string \<Rightarrow> u8 list" where
  "str s = map of_char s"

section \<open>Calls that do not return normally\<close>

text \<open>
  \<open>AssertFailed\<close> is a failing ASSERT of a build that has assertions enabled,
  \<open>OutOfBounds\<close> an access outside an array (undefined behaviour in C), \<open>DivideError\<close> an
  integer division by zero, and \<open>SystemReset\<close> a reset request that does not return.
\<close>

datatype stop = AssertFailed | OutOfBounds | DivideError | SystemReset

fun ebind :: "'e + 'a \<Rightarrow> ('a \<Rightarrow> 'e + 'b) \<Rightarrow> 'e + 'b" where
  "ebind (Inl e) f = Inl e"
| "ebind (Inr x) f = f x"

lemma ebind_eq_Inr [simp]: "(ebind m f = Inr y) = (\<exists>x. m = Inr x \<and> f x = Inr y)"
  by (cases m) auto

lemma ebind_assoc: "ebind (ebind m f) g = ebind m (\<lambda>x. ebind (f x) g)"
  by (cases m) auto

lemma ebind_cong [fundef_cong]:
  "m = m' \<Longrightarrow> (\<And>x. m' = Inr x \<Longrightarrow> f x = g x) \<Longrightarrow> ebind m f = ebind m' g"
  by (cases m') auto

text \<open>\<open>ASSERT\<close> is active only in builds with assertions (\<open>asserts\<close>); otherwise it is skipped.\<close>

definition ASSERT :: "bool \<Rightarrow> bool \<Rightarrow> (stop + 'a) \<Rightarrow> stop + 'a" where
  "ASSERT asserts c k = (if asserts \<and> \<not> c then Inl AssertFailed else k)"

lemma ASSERT_True [simp]: "ASSERT asserts True k = k"
  and ASSERT_off [simp]: "ASSERT False c k = k"
  by (simp_all add: ASSERT_def)

section \<open>Byte ranges of memory\<close>

text \<open>Memory is a function from 64-bit addresses to bytes; ranges wrap as addresses do.\<close>

definition read_bytes :: "(u64 \<Rightarrow> u8) \<Rightarrow> u64 \<Rightarrow> nat \<Rightarrow> u8 list" where
  "read_bytes m a n = map (\<lambda>i. m (a + of_nat i)) [0..<n]"

definition write_bytes :: "(u64 \<Rightarrow> u8) \<Rightarrow> u64 \<Rightarrow> u8 list \<Rightarrow> (u64 \<Rightarrow> u8)" where
  "write_bytes m a bs = (\<lambda>x. if unat (x - a) < length bs then bs ! unat (x - a) else m x)"

definition in_range :: "u64 \<Rightarrow> u64 \<Rightarrow> nat \<Rightarrow> bool" where
  "in_range x a n \<longleftrightarrow> unat (x - a) < n"

definition disjoint_ranges :: "u64 \<Rightarrow> u64 \<Rightarrow> nat \<Rightarrow> bool" where
  "disjoint_ranges a b n \<longleftrightarrow> n \<le> unat (b - a) \<and> n \<le> unat (a - b)"

lemma length_read_bytes [simp]: "length (read_bytes m a n) = n"
  by (simp add: read_bytes_def)

lemma nth_read_bytes [simp]: "i < n \<Longrightarrow> read_bytes m a n ! i = m (a + of_nat i)"
  by (simp add: read_bytes_def)

lemma read_bytes_0 [simp]: "read_bytes m a 0 = []"
  and write_bytes_Nil [simp]: "write_bytes m a [] = m"
  by (simp_all add: read_bytes_def write_bytes_def)

lemma take_read_bytes [simp]: "take k (read_bytes m a n) = read_bytes m a (min k n)"
  by (simp add: read_bytes_def take_map take_upt min_def)

lemma read_bytes_append:
  "read_bytes m a n @ read_bytes m (a + of_nat n) k = read_bytes m a (n + k)"
  by (rule nth_equalityI) (auto simp: nth_append add.assoc simp flip: of_nat_add)

lemma write_bytes_outside: "\<not> in_range x a (length bs) \<Longrightarrow> write_bytes m a bs x = m x"
  by (simp add: write_bytes_def in_range_def)

lemma write_bytes_inside:
  "in_range x a (length bs) \<Longrightarrow> write_bytes m a bs x = bs ! unat (x - a)"
  by (simp add: write_bytes_def in_range_def)

lemma read_bytes_in_range:
  "in_range x a n \<Longrightarrow> read_bytes m a n ! unat (x - a) = m x"
  by (simp add: in_range_def)

lemma disjoint_ranges_sym: "disjoint_ranges a b n = disjoint_ranges b a n"
  by (auto simp: disjoint_ranges_def)

lemma disjoint_rangesD:
  assumes "disjoint_ranges a b n" and "in_range x a n"
  shows "\<not> in_range x b n"
proof -
  have eq: "x - b = (x - a) + (a - b)" by simp
  have "unat a < 2 ^ LENGTH(64)" and "unat b < 2 ^ LENGTH(64)" by (rule unsigned_less)+
  then have "unat (b - a) + unat (a - b) \<le> 2 ^ 64" by (auto simp: unat_sub_if')
  then have "unat (x - a) + unat (a - b) < 2 ^ 64"
    using assms by (simp add: disjoint_ranges_def in_range_def)
  then have "unat (x - b) = unat (x - a) + unat (a - b)"
    unfolding eq by (subst unat_add_lem [THEN iffD1]) auto
  then show ?thesis using assms by (simp add: disjoint_ranges_def in_range_def)
qed

lemma write_bytes_append:
  assumes "length bs + length cs \<le> 2 ^ 64"
  shows "write_bytes (write_bytes m a bs) (a + of_nat (length bs)) cs = write_bytes m a (bs @ cs)"
proof
  fix x
  have len: "length bs < 2 ^ 64 \<or> cs = []" using assms by (cases cs) auto
  show "write_bytes (write_bytes m a bs) (a + of_nat (length bs)) cs x = write_bytes m a (bs @ cs) x"
  proof (cases "cs = []")
    case False
    then have n: "unat (of_nat (length bs) :: u64) = length bs" using len by (simp add: unat_of_nat)
    have eq: "x - (a + of_nat (length bs)) = (x - a) - of_nat (length bs)" by simp
    have d: "unat ((x - a) - of_nat (length bs)) =
        (if length bs \<le> unat (x - a) then unat (x - a) - length bs
         else unat (x - a) + 2 ^ 64 - length bs)"
      using n by (simp add: unat_sub_if')
    show ?thesis
      using assms by (auto simp: write_bytes_def eq d nth_append)
  qed simp
qed

lemma write_bytes_read_bytes [simp]: "write_bytes m a (read_bytes m a n) = m"
  by (rule ext) (auto simp: write_bytes_def)

lemma write_bytes_twice:
  "length bs = length cs \<Longrightarrow> write_bytes (write_bytes m a bs) a cs = write_bytes m a cs"
  by (rule ext) (auto simp: write_bytes_def)

lemma read_bytes_write_bytes:
  "length bs \<le> 2 ^ 64 \<Longrightarrow> read_bytes (write_bytes m a bs) a (length bs) = bs"
  by (rule nth_equalityI) (auto simp: write_bytes_def unat_of_nat)

section \<open>Bit fields of registers\<close>

definition get_field :: "u64 \<Rightarrow> nat \<Rightarrow> nat \<Rightarrow> u64" where
  "get_field v off n = take_bit n (drop_bit off v)"

definition set_field :: "u64 \<Rightarrow> nat \<Rightarrow> nat \<Rightarrow> u64 \<Rightarrow> u64" where
  "set_field v off n x = (v AND NOT (push_bit off (mask n))) OR push_bit off (take_bit n x)"

lemma bit_get_field: "bit (get_field v off n) i \<longleftrightarrow> i < n \<and> bit v (off + i)"
  by (auto simp: get_field_def bit_simps add.commute)

lemma bit_set_field:
  "bit (set_field v off n x) i \<longleftrightarrow>
     i < 64 \<and> (if off \<le> i \<and> i < off + n then bit x (i - off) else bit v i)"
  by (auto simp: set_field_def bit_simps)

lemma get_set_field_same [simp]: "off + n \<le> 64 \<Longrightarrow> get_field (set_field v off n x) off n = take_bit n x"
  by (rule bit_word_eqI) (auto simp: bit_get_field bit_set_field bit_simps)

lemma get_set_field_other [simp]:
  "off + n \<le> off' \<or> off' + n' \<le> off \<Longrightarrow> get_field (set_field v off n x) off' n' = get_field v off' n'"
  by (rule bit_word_eqI) (auto simp: bit_get_field bit_set_field dest: bit_imp_le_length)

section \<open>Searching lists\<close>

lemma find_list_update_same:
  "i < length xs \<Longrightarrow> \<not> P (xs ! i) \<Longrightarrow> \<not> P y \<Longrightarrow> find P (xs[i := y]) = find P xs"
  by (induction xs arbitrary: i) (auto split: nat.splits)

lemma find_list_update_new:
  "i < length xs \<Longrightarrow> \<forall>x \<in> set xs. \<not> P x \<Longrightarrow> P y \<Longrightarrow> find P (xs[i := y]) = Some y"
  by (induction xs arbitrary: i) (auto split: nat.splits)

end
