(* ===== verification/BaseLib.thy ===== *)
theory BaseLib
  imports Prelude
begin

text \<open>
  The runtime library the sources call. The byte-string routines of BaseLib and
  BaseMemoryLib that play the part of the C string functions in a freestanding build
  (length, bounded comparison, byte search, byte sum, case folding) are written out. The
  number parsers and the formatted printer are code outside the repository: they are
  fields of the record \<open>lib\<close>, an argument of every definition that calls them, and what
  their documentation promises is the predicate \<open>lib_ok\<close>.
\<close>

section \<open>C strings and memory blocks\<close>

text \<open>The string a pointer denotes: the bytes before the first zero byte.\<close>

definition cstr :: "u8 list \<Rightarrow> u8 list" where
  "cstr s = takeWhile (\<lambda>c. c \<noteq> 0) s"

definition AsciiStrLen :: "u8 list \<Rightarrow> nat" where
  "AsciiStrLen s = length (cstr s)"

text \<open>The character at the start of a string; a literal ends with an implicit zero.\<close>

fun c_hd :: "u8 list \<Rightarrow> u8" where
  "c_hd [] = 0"
| "c_hd (c # cs) = c"

fun AsciiStrnCmp :: "u8 list \<Rightarrow> u8 list \<Rightarrow> nat \<Rightarrow> int" where
  "AsciiStrnCmp a b 0 = 0"
| "AsciiStrnCmp a b (Suc n) =
     (if c_hd a \<noteq> 0 \<and> c_hd b \<noteq> 0 \<and> c_hd a = c_hd b \<and> 0 < n
      then AsciiStrnCmp (tl a) (tl b) n
      else uint (c_hd a) - uint (c_hd b))"

text \<open>The first of the first \<open>n\<close> bytes that equals \<open>v\<close>, as an index; \<open>None\<close> is NULL.\<close>

fun ScanMem8 :: "u8 list \<Rightarrow> nat \<Rightarrow> u8 \<Rightarrow> nat option" where
  "ScanMem8 bs 0 v = None"
| "ScanMem8 [] (Suc n) v = None"
| "ScanMem8 (b # bs) (Suc n) v = (if b = v then Some 0 else map_option Suc (ScanMem8 bs n v))"

definition CalculateSum8 :: "u8 list \<Rightarrow> nat \<Rightarrow> u8" where
  "CalculateSum8 bs n = sum_list (take n bs)"

definition AsciiCharToUpper :: "u8 \<Rightarrow> u8" where
  "AsciiCharToUpper c = (if 97 \<le> c \<and> c \<le> 122 then c - 32 else c)"

lemma cstr_append_zero [simp]: "0 \<notin> set s \<Longrightarrow> cstr (s @ 0 # t) = s"
  by (induction s) (auto simp: cstr_def)

lemma cstr_no_zero [simp]: "0 \<notin> set s \<Longrightarrow> cstr s = s"
  unfolding cstr_def by (rule takeWhile_eq_all_conv [THEN iffD2]) auto

lemma zero_notin_cstr [simp]: "0 \<notin> set (cstr s)"
  unfolding cstr_def by (auto dest: set_takeWhileD)

lemma length_cstr [simp]: "length (cstr s) \<le> length s"
  unfolding cstr_def by (rule length_takeWhile_le)

lemma AsciiStrLen_append_zero [simp]: "0 \<notin> set s \<Longrightarrow> AsciiStrLen (s @ 0 # t) = length s"
  by (simp add: AsciiStrLen_def)

lemma AsciiStrLen_no_zero [simp]: "0 \<notin> set s \<Longrightarrow> AsciiStrLen s = length s"
  by (simp add: AsciiStrLen_def)

lemma cstr_append: "0 \<notin> set s \<Longrightarrow> cstr (s @ t) = s @ cstr t"
  by (induction s) (auto simp: cstr_def)

lemma AsciiStrLen_append: "0 \<notin> set s \<Longrightarrow> AsciiStrLen (s @ t) = length s + AsciiStrLen t"
  by (simp add: AsciiStrLen_def cstr_append)

lemma AsciiStrLen_le [simp]: "AsciiStrLen s \<le> length s"
  by (simp add: AsciiStrLen_def)

lemma take_AsciiStrLen [simp]: "take (AsciiStrLen s) s = cstr s"
  unfolding AsciiStrLen_def cstr_def by (rule takeWhile_eq_take [symmetric])

text \<open>\<open>AsciiStrnCmp\<close> is zero exactly when the strings agree on their first \<open>n\<close> characters.\<close>

lemma AsciiStrnCmp_eq_0: "AsciiStrnCmp a b n = 0 \<longleftrightarrow> take n (cstr a) = take n (cstr b)"
proof (induction a b n rule: AsciiStrnCmp.induct)
  case (1 a b)
  show ?case by simp
next
  case (2 a b n)
  then show ?case
    by (cases a; cases b; cases n) (auto simp: cstr_def word_uint_eq_iff)
qed

lemma ScanMem8_SomeD:
  "ScanMem8 bs n v = Some i \<Longrightarrow> i < n \<and> i < length bs \<and> bs ! i = v \<and> v \<notin> set (take i bs)"
  by (induction bs n v arbitrary: i rule: ScanMem8.induct) (auto split: if_splits)

lemma ScanMem8_None [simp]: "ScanMem8 bs n v = None \<longleftrightarrow> v \<notin> set (take n bs)"
  by (induction bs n v rule: ScanMem8.induct) auto

lemma ScanMem8_first [simp]:
  "v \<notin> set xs \<Longrightarrow> length xs < n \<Longrightarrow> ScanMem8 (xs @ v # ys) n v = Some (length xs)"
  by (induction xs arbitrary: n; case_tac n) auto

section \<open>Hexadecimal numerals\<close>

definition is_hex :: "u8 \<Rightarrow> bool" where
  "is_hex c \<longleftrightarrow> 48 \<le> c \<and> c \<le> 57 \<or> 65 \<le> c \<and> c \<le> 70 \<or> 97 \<le> c \<and> c \<le> 102"

definition hex_digit :: "u8 \<Rightarrow> nat" where
  "hex_digit c = (if c \<le> 57 then unat c - 48 else unat (AsciiCharToUpper c) - 55)"

definition hex_val :: "u8 list \<Rightarrow> nat" where
  "hex_val ds = foldl (\<lambda>v d. 16 * v + hex_digit d) 0 ds"

lemma is_hex_nonzero: "is_hex c \<Longrightarrow> c \<noteq> 0"
  by (auto simp: is_hex_def)

lemma all_hex_nonzero: "\<forall>c \<in> set ds. is_hex c \<Longrightarrow> 0 \<notin> set ds"
  by (auto dest: is_hex_nonzero)

text \<open>The separators of the protocol are not digits.\<close>

lemma not_is_hex [simp]: "\<not> is_hex 0" "\<not> is_hex 44" "\<not> is_hex 58" "\<not> is_hex 61" "\<not> is_hex 35"
  by (simp_all add: is_hex_def)

lemma all_hex_notin: "\<forall>c \<in> set ds. is_hex c \<Longrightarrow> \<not> is_hex v \<Longrightarrow> v \<notin> set ds"
  by auto

section \<open>Library code outside the repository\<close>

datatype print_arg = PStr "u8 list" | PNum u64

text \<open>
  \<open>AsciiStrHexToUint64S s\<close> is \<open>None\<close> for an error status; \<open>AsciiStrHexToBytes s n\<close> decodes
  the first \<open>n\<close> characters; \<open>AsciiSPrint sz fmt args\<close> is the text put into the buffer,
  without its terminating zero.
\<close>

record lib =
  AsciiStrHexToUint64S :: "u8 list \<Rightarrow> u64 option"
  AsciiStrHexToUintn :: "u8 list \<Rightarrow> u64"
  AsciiStrHexToBytes :: "u8 list \<Rightarrow> nat \<Rightarrow> u8 list option"
  AsciiSPrint :: "nat \<Rightarrow> u8 list \<Rightarrow> print_arg list \<Rightarrow> u8 list"
  AsciiStriCmp :: "u8 list \<Rightarrow> u8 list \<Rightarrow> int"

text \<open>
  Documented behaviour: a terminated run of at most sixteen digits is read as its value,
  a pair of digits as its byte, a pair with another character is an error, and the printer
  leaves room for the terminating zero.
\<close>

definition lib_ok :: "lib \<Rightarrow> bool" where
  "lib_ok L \<longleftrightarrow>
     (\<forall>ds t. ds \<noteq> [] \<and> (\<forall>d \<in> set ds. is_hex d) \<and> length ds \<le> 16 \<longrightarrow>
        AsciiStrHexToUint64S L (ds @ 0 # t) = Some (of_nat (hex_val ds)) \<and>
        AsciiStrHexToUintn L (ds @ 0 # t) = of_nat (hex_val ds)) \<and>
     (\<forall>a b t. AsciiStrHexToBytes L (a # b # t) 2 =
        (if is_hex a \<and> is_hex b then Some [of_nat (hex_val [a, b])] else None)) \<and>
     (\<forall>sz fmt args. 0 < sz \<longrightarrow> length (AsciiSPrint L sz fmt args) < sz)"

lemma lib_ok_Uint64S:
  "lib_ok L \<Longrightarrow> ds \<noteq> [] \<Longrightarrow> \<forall>d \<in> set ds. is_hex d \<Longrightarrow> length ds \<le> 16 \<Longrightarrow>
     AsciiStrHexToUint64S L (ds @ 0 # t) = Some (of_nat (hex_val ds))"
  by (simp add: lib_ok_def)

lemma lib_ok_Uintn:
  "lib_ok L \<Longrightarrow> ds \<noteq> [] \<Longrightarrow> \<forall>d \<in> set ds. is_hex d \<Longrightarrow> length ds \<le> 16 \<Longrightarrow>
     AsciiStrHexToUintn L (ds @ 0 # t) = of_nat (hex_val ds)"
  by (simp add: lib_ok_def)

lemma lib_ok_Bytes:
  "lib_ok L \<Longrightarrow> AsciiStrHexToBytes L (a # b # t) 2 =
     (if is_hex a \<and> is_hex b then Some [of_nat (hex_val [a, b])] else None)"
  by (simp add: lib_ok_def)

lemma lib_ok_SPrint: "lib_ok L \<Longrightarrow> 0 < sz \<Longrightarrow> length (AsciiSPrint L sz fmt args) < sz"
  by (simp add: lib_ok_def)

text \<open>An executable library that meets the documentation, used to show that \<open>lib_ok\<close> can hold.\<close>

definition doc_lib :: lib where
  "doc_lib = \<lparr>
     AsciiStrHexToUint64S = (\<lambda>s. Some (of_nat (hex_val (takeWhile is_hex s)))),
     AsciiStrHexToUintn = (\<lambda>s. of_nat (hex_val (takeWhile is_hex s))),
     AsciiStrHexToBytes = (\<lambda>s n. if list_all is_hex (take n s)
                                   then Some [of_nat (hex_val (take n s))] else None),
     AsciiSPrint = (\<lambda>sz fmt args. take (sz - 1) fmt),
     AsciiStriCmp = (\<lambda>a b. AsciiStrnCmp (map AsciiCharToUpper a) (map AsciiCharToUpper b) (length a)) \<rparr>"

lemma takeWhile_hex: "\<forall>d \<in> set ds. is_hex d \<Longrightarrow> takeWhile is_hex (ds @ 0 # t) = ds"
  by (induction ds) auto

lemma lib_ok_doc_lib: "lib_ok doc_lib"
  by (auto simp: lib_ok_def doc_lib_def takeWhile_hex numeral_2_eq_2)

end
