(* ===== verification/DebugAgent.thy ===== *)
theory DebugAgent
  imports BaseLib
begin

text \<open>
  The interface DebugAgent.h between the debugger's parts. It holds the architecture
  independent exception information, the register table entry of GdbStub.h, and the record
  \<open>agent\<close> of the routines that the chosen architecture (X64, AARCH64) and boot phase (DXE,
  MM, PEI) link into one build; the breakpoint table and the GDB stub take it as their
  first argument. Two locales state the contracts that clients of these routines rely on:
  \<open>debug_memory\<close> for the memory accessors and \<open>watchpoint_unit\<close> for the watchpoints.
\<close>

section \<open>Types of DebugAgent.h and GdbStub.h\<close>

datatype EXCEPTION_TYPE =
    ExceptionDebugStep
  | ExceptionBreakpoint
  | ExceptionGenericFault
  | ExceptionInvalidOp
  | ExceptionAlignment
  | ExceptionAccessViolation

record EXCEPTION_INFO =
  ExceptionType :: EXCEPTION_TYPE
  ExceptionAddress :: u64
  ArchExceptionCode :: u64

datatype BREAKPOINT_REASON =
    BreakpointReasonNone
  | BreakpointReasonInitial
  | BreakpointReasonModuleLoad
  | BreakpointReasonDebuggerBreak

record GDB_REGISTER_OFFSET_DATA =
  reg_Offset :: nat
  reg_Size :: nat
  reg_Name :: "u8 list option"
  reg_Type :: "u8 list"

definition REG_NOT_PRESENT :: nat where
  "REG_NOT_PRESENT = 0xFFFFFFFF"

record GDB_TARGET_INFO =
  TargetArch :: "u8 list"
  RegistersFeature :: "u8 list"

text \<open>
  The bytes of the saved register context, addressed from the pointer the exception
  handler receives.
\<close>

type_synonym ctx = "nat \<Rightarrow> u8"

definition ctx_bytes :: "ctx \<Rightarrow> nat \<Rightarrow> nat \<Rightarrow> u8 list" where
  "ctx_bytes c off n = map (\<lambda>i. c (off + i)) [0..<n]"

definition ctx_store :: "ctx \<Rightarrow> nat \<Rightarrow> u8 list \<Rightarrow> ctx" where
  "ctx_store c off bs = (\<lambda>i. if off \<le> i \<and> i < off + length bs then bs ! (i - off) else c i)"

section \<open>The machine\<close>

text \<open>
  Memory, the module name DebugAgentDxe.c remembers for a break on load, and the state of
  code outside the repository (\<open>plat\<close>), which no part of the sources looks into. The
  architectures extend it by their registers.
\<close>

record 'p machine =
  memory :: "u64 \<Rightarrow> u8"
  mDbgBreakOnModuleLoadString :: "u8 list"
  plat :: 'p

section \<open>The routines linked into a build\<close>

text \<open>
  \<open>ag_DbgReadMemory a n w\<close> gives the result, the bytes stored into the buffer before it
  returned (all \<open>n\<close> on success), and the new world. \<open>ag_DebugGetTimeMs\<close> converts a value of
  the hardware counter. \<open>ag_DebugReboot\<close> is \<open>Inl SystemReset\<close> where it does not return.
\<close>

record 'w agent =
  ag_asserts :: bool
  ag_lib :: lib
  ag_DbgReadMemory :: "u64 \<Rightarrow> nat \<Rightarrow> 'w \<Rightarrow> bool \<times> u8 list \<times> 'w"
  ag_DbgWriteMemory :: "u64 \<Rightarrow> u8 list \<Rightarrow> 'w \<Rightarrow> bool \<times> 'w"
  ag_InvalidateInstructionCacheRange :: "u64 \<Rightarrow> nat \<Rightarrow> 'w \<Rightarrow> 'w"
  ag_mArchBreakpointInstruction :: "u8 list"
  ag_AddSingleStep :: "ctx \<Rightarrow> 'w \<Rightarrow> ctx \<times> 'w"
  ag_AddWatchpoint :: "u64 \<Rightarrow> u64 \<Rightarrow> bool \<Rightarrow> bool \<Rightarrow> 'w \<Rightarrow> bool \<times> 'w"
  ag_RemoveWatchpoint :: "u64 \<Rightarrow> u64 \<Rightarrow> bool \<Rightarrow> bool \<Rightarrow> 'w \<Rightarrow> bool \<times> 'w"
  ag_DebugGetTimeMs :: "u64 \<Rightarrow> 'w \<Rightarrow> stop + u64"
  ag_DebugReboot :: "'w \<Rightarrow> stop + 'w"
  ag_DbgSetBreakOnModuleLoad :: "u8 list \<Rightarrow> 'w \<Rightarrow> bool \<times> 'w"
  ag_gDebuggerInfo :: "u8 list"
  ag_gRegisterOffsets :: "GDB_REGISTER_OFFSET_DATA list"
  ag_GdbTargetInfo :: GDB_TARGET_INFO
  ag_GdbReadMsr :: "u8 list \<Rightarrow> nat \<Rightarrow> 'w \<Rightarrow> u8 list"
  ag_GdbDumpSystemRegisters :: "u8 list \<Rightarrow> nat \<Rightarrow> 'w \<Rightarrow> u8 list"
  ag_WindbgWorkarounds :: bool

section \<open>Contracts\<close>

text \<open>
  The memory accessors. A read returns the memory's bytes, at most as many as asked for
  and all of them on success, and leaves memory alone. A write that reports success has
  stored every byte, a write that fails has stored a prefix (page by page accessors stop
  at the first inaccessible page). Cache maintenance does not change memory.
\<close>

locale debug_memory =
  fixes rd :: "u64 \<Rightarrow> nat \<Rightarrow> 'w \<Rightarrow> bool \<times> u8 list \<times> 'w"
    and wr :: "u64 \<Rightarrow> u8 list \<Rightarrow> 'w \<Rightarrow> bool \<times> 'w"
    and mem :: "'w \<Rightarrow> u64 \<Rightarrow> u8"
  assumes rd_length: "rd a n w = (ok, bs, w') \<Longrightarrow> length bs \<le> n \<and> (ok \<longrightarrow> length bs = n)"
    and rd_bytes: "rd a n w = (ok, bs, w') \<Longrightarrow> bs = read_bytes (mem w) a (length bs)"
    and rd_frame: "rd a n w = (ok, bs, w') \<Longrightarrow> mem w' = mem w"
    and wr_prefix: "wr a bs w = (ok, w') \<Longrightarrow> length bs \<le> 2 ^ 64 \<Longrightarrow>
      \<exists>k. k \<le> length bs \<and> (ok \<longrightarrow> k = length bs) \<and> mem w' = write_bytes (mem w) a (take k bs)"
begin

lemma rd_success: "rd a n w = (True, bs, w') \<Longrightarrow> bs = read_bytes (mem w) a n"
  using rd_length rd_bytes by fastforce

lemma wr_success:
  "wr a bs w = (True, w') \<Longrightarrow> length bs \<le> 2 ^ 64 \<Longrightarrow> mem w' = write_bytes (mem w) a bs"
  using wr_prefix by fastforce

text \<open>Whatever a write reports, bytes outside its range stay.\<close>

lemma wr_frame:
  assumes "wr a bs w = (ok, w')" and "length bs \<le> 2 ^ 64" and "\<not> in_range x a (length bs)"
  shows "mem w' x = mem w x"
proof -
  obtain k where "k \<le> length bs" "mem w' = write_bytes (mem w) a (take k bs)"
    using wr_prefix [OF assms(1,2)] by blast
  with assms(3) show ?thesis by (simp add: write_bytes_def in_range_def)
qed

text \<open>Writing back what a successful read returned restores the range.\<close>

lemma wr_rd_restore:
  assumes "rd a n w = (True, bs, w1)" and "mem w2 = write_bytes (mem w1) a cs"
    and "length cs = n" and "wr a bs w2 = (True, w3)" and "n \<le> 2 ^ 64"
  shows "mem w3 = mem w"
  using assms rd_success [OF assms(1)] rd_frame [OF assms(1)] wr_success [OF assms(4)]
  by (simp add: write_bytes_twice)

end

text \<open>
  The watchpoint registers. A request denotes a hardware key (or none, when it is
  rejected); \<open>armed\<close> is the set of keys the registers currently watch. Adding succeeds
  when the key is watched afterwards and fails, changing nothing, only for a rejected
  request or when every register is in use; removing succeeds exactly on a watched key.
\<close>

locale watchpoint_unit =
  fixes add remove :: "u64 \<Rightarrow> u64 \<Rightarrow> bool \<Rightarrow> bool \<Rightarrow> 'w \<Rightarrow> bool \<times> 'w"
    and key :: "u64 \<Rightarrow> u64 \<Rightarrow> bool \<Rightarrow> bool \<Rightarrow> 'k option"
    and armed :: "'w \<Rightarrow> 'k set"
    and capacity :: nat
    and inv :: "'w \<Rightarrow> bool"
  assumes armed_capacity: "inv w \<Longrightarrow> finite (armed w) \<and> card (armed w) \<le> capacity"
    and add_True: "inv w \<Longrightarrow> add a l r s w = (True, w') \<Longrightarrow>
      \<exists>k. key a l r s = Some k \<and> armed w' = insert k (armed w)"
    and add_False: "inv w \<Longrightarrow> add a l r s w = (False, w') \<Longrightarrow>
      w' = w \<and> (case key a l r s of None \<Rightarrow> True
                 | Some k \<Rightarrow> k \<notin> armed w \<and> card (armed w) = capacity)"
    and add_inv: "inv w \<Longrightarrow> add a l r s w = (ok, w') \<Longrightarrow> inv w'"
    and remove_True: "inv w \<Longrightarrow> remove a l r s w = (True, w') \<Longrightarrow>
      \<exists>k. key a l r s = Some k \<and> k \<in> armed w \<and> armed w' = armed w - {k}"
    and remove_False: "inv w \<Longrightarrow> remove a l r s w = (False, w') \<Longrightarrow>
      w' = w \<and> (case key a l r s of None \<Rightarrow> True | Some k \<Rightarrow> k \<notin> armed w)"
    and remove_inv: "inv w \<Longrightarrow> remove a l r s w = (ok, w') \<Longrightarrow> inv w'"
begin

text \<open>A watchpoint that was added can be removed, and the registers then watch what they did.\<close>

lemma remove_after_add:
  assumes "inv w" and "add a l r s w = (True, w1)"
  shows "\<exists>w2 k. remove a l r s w1 = (True, w2) \<and> key a l r s = Some k \<and> armed w2 = armed w - {k}"
proof -
  obtain k where k: "key a l r s = Some k" "armed w1 = insert k (armed w)"
    using add_True [OF assms] by blast
  obtain ok w2 where rm: "remove a l r s w1 = (ok, w2)" by fastforce
  have "inv w1" using add_inv [OF assms] .
  with rm k have "ok" using remove_False [of w1 a l r s w2] by (cases ok) auto
  with rm k remove_True [OF \<open>inv w1\<close>, of a l r s w2] show ?thesis by auto
qed

text \<open>A second identical request succeeds and changes the watched set no further.\<close>

lemma add_twice:
  assumes "inv w" and "add a l r s w = (True, w1)" and "add a l r s w1 = (ok, w2)"
  shows "ok \<and> armed w2 = armed w1"
proof -
  obtain k where k: "key a l r s = Some k" "armed w1 = insert k (armed w)"
    using add_True [OF assms(1,2)] by blast
  have "inv w1" using add_inv [OF assms(1,2)] .
  with assms(3) k show ?thesis
    using add_False [of w1 a l r s w2] add_True [of w1 a l r s w2] by (cases ok) auto
qed

end

section \<open>Context bytes\<close>

lemma length_ctx_bytes [simp]: "length (ctx_bytes c off n) = n"
  by (simp add: ctx_bytes_def)

lemma ctx_store_same [simp]: "ctx_store c off (ctx_bytes c off n) = c"
  by (rule ext) (auto simp: ctx_store_def ctx_bytes_def)

lemma ctx_bytes_store [simp]: "ctx_bytes (ctx_store c off bs) off (length bs) = bs"
  by (rule nth_equalityI) (auto simp: ctx_store_def ctx_bytes_def)

lemma ctx_bytes_store_other:
  "off' + n \<le> off \<or> off + length bs \<le> off' \<Longrightarrow> ctx_bytes (ctx_store c off bs) off' n = ctx_bytes c off' n"
  by (rule nth_equalityI) (auto simp: ctx_store_def ctx_bytes_def)

end
