(* ===== verification/AccessMemory.thy ===== *)
theory AccessMemory
  imports DebugAgent
begin

text \<open>
  The memory accessors of the three phases: \<open>AccessMemory\<close> of DebugAgentDxe.c and
  DebugAgentMm.c, which goes page by page and lifts protections where it may, and the
  direct copies of DebugAgentPeiLib.c, with \<open>DbgReadMemory\<close>, \<open>DbgWriteMemory\<close>,
  \<open>DbgSetBreakOnModuleLoad\<close> and \<open>DebugReboot\<close>. The two loops are one function of what
  happens before and after the copy in a page; what they promise is proved once, in the
  locale \<open>page_access\<close>.
\<close>

section \<open>Memory attributes\<close>

definition EFI_MEMORY_RP :: u64 where "EFI_MEMORY_RP = 0x2000"
definition EFI_MEMORY_RO :: u64 where "EFI_MEMORY_RO = 0x20000"
definition EFI_PAGE_SIZE :: nat where "EFI_PAGE_SIZE = 0x1000"
definition EFI_PAGE_MASK :: u64 where "EFI_PAGE_MASK = 0xFFF"

text \<open>
  The attribute services (the Memory Attribute Protocol, or the \<open>Smm*MemoryAttributes\<close> of
  the MM core): base address, length and attributes; \<open>None\<close> or False is an error status.
\<close>

record 'p attribute_services =
  GetMemoryAttributes :: "u64 \<Rightarrow> nat \<Rightarrow> 'p \<Rightarrow> u64 option \<times> 'p"
  SetMemoryAttributes :: "u64 \<Rightarrow> nat \<Rightarrow> u64 \<Rightarrow> 'p \<Rightarrow> bool \<times> 'p"
  ClearMemoryAttributes :: "u64 \<Rightarrow> nat \<Rightarrow> u64 \<Rightarrow> 'p \<Rightarrow> bool \<times> 'p"

section \<open>The loop\<close>

text \<open>
  \<open>opn Address Write w\<close> is the part of the body before the copy: \<open>None\<close> when it returns
  FALSE, else the attributes to restore when they were changed. \<open>cls\<close> restores them.
  The result holds the bytes a read stored into \<open>Data\<close>.
\<close>

function AccessMemory ::
  "(u64 \<Rightarrow> bool \<Rightarrow> ('p, 'z) machine_scheme \<Rightarrow> u64 option option \<times> ('p, 'z) machine_scheme) \<Rightarrow>
   (u64 \<Rightarrow> u64 \<Rightarrow> ('p, 'z) machine_scheme \<Rightarrow> ('p, 'z) machine_scheme) \<Rightarrow>
   u64 \<Rightarrow> u8 list \<Rightarrow> nat \<Rightarrow> bool \<Rightarrow> ('p, 'z) machine_scheme \<Rightarrow>
   bool \<times> u8 list \<times> ('p, 'z) machine_scheme" where
  "AccessMemory opn cls Address Data Length Write w =
     (if Length = 0 then (True, [], w)
      else
        (let LengthInPage = min Length (EFI_PAGE_SIZE - unat (EFI_PAGE_MASK AND Address)) in
         case opn Address Write w of
           (None, w1) \<Rightarrow> (False, [], w1)
         | (Some AttributesChanged, w1) \<Rightarrow>
             (let w2 = (if Write
                        then w1\<lparr>memory := write_bytes (memory w1) Address (take LengthInPage Data)\<rparr> else w1);
                  got = (if Write then [] else read_bytes (memory w1) Address LengthInPage);
                  w3 = (case AttributesChanged of None \<Rightarrow> w2 | Some Attributes \<Rightarrow> cls Address Attributes w2);
                  (ok, rest, w4) = AccessMemory opn cls (Address + of_nat LengthInPage)
                    (drop LengthInPage Data) (Length - LengthInPage) Write w3
              in (ok, got @ rest, w4))))"
  by pat_completeness auto

lemma EFI_PAGE_MASK_mask: "EFI_PAGE_MASK = mask 12"
  by (simp add: EFI_PAGE_MASK_def mask_eq_exp_minus_1)

lemma page_offset: "unat (EFI_PAGE_MASK AND a) = unat a mod EFI_PAGE_SIZE"
proof -
  have "EFI_PAGE_MASK AND a = take_bit 12 a"
    by (simp add: EFI_PAGE_MASK_mask take_bit_eq_mask and.commute)
  then show ?thesis by (simp only: unsigned_take_bit_eq) (simp add: take_bit_eq_mod EFI_PAGE_SIZE_def)
qed

lemma page_mask_less: "unat (EFI_PAGE_MASK AND a) < EFI_PAGE_SIZE"
  by (simp add: page_offset EFI_PAGE_SIZE_def)

termination AccessMemory
proof (relation "measure (\<lambda>(_, _, _, _, n, _, _). n)", goal_cases)
  case 1
  show ?case by simp
next
  case (2 opn cls a d n)
  then show ?case using page_mask_less [of a] by simp
qed

declare AccessMemory.simps [simp del]

section \<open>DXE\<close>

definition AccessMemory_DXE_open ::
  "'p attribute_services option \<Rightarrow> (u64 \<Rightarrow> ('p, 'z) machine_scheme \<Rightarrow> bool) \<Rightarrow>
   (u64 \<Rightarrow> ('p, 'z) machine_scheme \<Rightarrow> bool) \<Rightarrow> u64 \<Rightarrow> bool \<Rightarrow> ('p, 'z) machine_scheme \<Rightarrow>
   u64 option option \<times> ('p, 'z) machine_scheme" where
  "AccessMemory_DXE_open mMemoryAttributeProtocol IsPageReadable IsPageWritable Address Write w =
     (case mMemoryAttributeProtocol of
        Some ma \<Rightarrow>
          (case GetMemoryAttributes ma (Address AND NOT EFI_PAGE_MASK) EFI_PAGE_SIZE (plat w) of
             (None, p1) \<Rightarrow> (None, w\<lparr>plat := p1\<rparr>)
           | (Some Attributes, p1) \<Rightarrow>
               if Attributes AND EFI_MEMORY_RP \<noteq> 0 then (None, w\<lparr>plat := p1\<rparr>)
               else if Write \<and> Attributes AND EFI_MEMORY_RO \<noteq> 0 then
                 (case ClearMemoryAttributes ma (Address AND NOT EFI_PAGE_MASK) EFI_PAGE_SIZE EFI_MEMORY_RO p1 of
                    (False, p2) \<Rightarrow> (None, w\<lparr>plat := p2\<rparr>)
                  | (True, p2) \<Rightarrow> (Some (Some Attributes), w\<lparr>plat := p2\<rparr>))
               else (Some None, w\<lparr>plat := p1\<rparr>))
      | None \<Rightarrow>
          if Write then (if \<not> IsPageWritable Address w then (None, w) else (Some None, w))
          else (if \<not> IsPageReadable Address w then (None, w) else (Some None, w)))"

definition AccessMemory_DXE_close ::
  "'p attribute_services option \<Rightarrow> u64 \<Rightarrow> u64 \<Rightarrow> ('p, 'z) machine_scheme \<Rightarrow> ('p, 'z) machine_scheme" where
  "AccessMemory_DXE_close mMemoryAttributeProtocol Address Attributes w =
     (case mMemoryAttributeProtocol of
        None \<Rightarrow> w
      | Some ma \<Rightarrow>
          w\<lparr>plat := snd (SetMemoryAttributes ma (Address AND NOT EFI_PAGE_MASK) EFI_PAGE_SIZE Attributes (plat w))\<rparr>)"

definition AccessMemory_DXE ::
  "'p attribute_services option \<Rightarrow> (u64 \<Rightarrow> ('p, 'z) machine_scheme \<Rightarrow> bool) \<Rightarrow>
   (u64 \<Rightarrow> ('p, 'z) machine_scheme \<Rightarrow> bool) \<Rightarrow> u64 \<Rightarrow> u8 list \<Rightarrow> nat \<Rightarrow> bool \<Rightarrow>
   ('p, 'z) machine_scheme \<Rightarrow> bool \<times> u8 list \<times> ('p, 'z) machine_scheme" where
  "AccessMemory_DXE ma IsPageReadable IsPageWritable =
     AccessMemory (AccessMemory_DXE_open ma IsPageReadable IsPageWritable) (AccessMemory_DXE_close ma)"

definition DbgReadMemory_DXE ::
  "'p attribute_services option \<Rightarrow> (u64 \<Rightarrow> ('p, 'z) machine_scheme \<Rightarrow> bool) \<Rightarrow>
   (u64 \<Rightarrow> ('p, 'z) machine_scheme \<Rightarrow> bool) \<Rightarrow> u64 \<Rightarrow> nat \<Rightarrow>
   ('p, 'z) machine_scheme \<Rightarrow> bool \<times> u8 list \<times> ('p, 'z) machine_scheme" where
  "DbgReadMemory_DXE ma rdable wrable Address Length w =
     AccessMemory_DXE ma rdable wrable Address [] Length False w"

definition DbgWriteMemory_DXE ::
  "'p attribute_services option \<Rightarrow> (u64 \<Rightarrow> ('p, 'z) machine_scheme \<Rightarrow> bool) \<Rightarrow>
   (u64 \<Rightarrow> ('p, 'z) machine_scheme \<Rightarrow> bool) \<Rightarrow> u64 \<Rightarrow> u8 list \<Rightarrow>
   ('p, 'z) machine_scheme \<Rightarrow> bool \<times> ('p, 'z) machine_scheme" where
  "DbgWriteMemory_DXE ma rdable wrable Address Data w =
     (let (ok, _, w1) = AccessMemory_DXE ma rdable wrable Address Data (length Data) True w in (ok, w1))"

section \<open>MM\<close>

definition AccessMemory_MM_open ::
  "'p attribute_services \<Rightarrow> u64 \<Rightarrow> bool \<Rightarrow> ('p, 'z) machine_scheme \<Rightarrow>
   u64 option option \<times> ('p, 'z) machine_scheme" where
  "AccessMemory_MM_open smm Address Write w =
     (case GetMemoryAttributes smm (Address AND NOT EFI_PAGE_MASK) EFI_PAGE_SIZE (plat w) of
        (None, p1) \<Rightarrow> (None, w\<lparr>plat := p1\<rparr>)
      | (Some Attributes, p1) \<Rightarrow>
          if Write \<and> Attributes AND EFI_MEMORY_RO \<noteq> 0 then
            (case ClearMemoryAttributes smm (Address AND NOT EFI_PAGE_MASK) EFI_PAGE_SIZE
                    (EFI_MEMORY_RO OR EFI_MEMORY_RP) p1 of
               (False, p2) \<Rightarrow> (None, w\<lparr>plat := p2\<rparr>)
             | (True, p2) \<Rightarrow> (Some (Some Attributes), w\<lparr>plat := p2\<rparr>))
          else if Attributes AND EFI_MEMORY_RP \<noteq> 0 then
            (case ClearMemoryAttributes smm (Address AND NOT EFI_PAGE_MASK) EFI_PAGE_SIZE EFI_MEMORY_RP p1 of
               (False, p2) \<Rightarrow> (None, w\<lparr>plat := p2\<rparr>)
             | (True, p2) \<Rightarrow> (Some (Some Attributes), w\<lparr>plat := p2\<rparr>))
          else (Some None, w\<lparr>plat := p1\<rparr>))"

definition AccessMemory_MM_close ::
  "'p attribute_services \<Rightarrow> u64 \<Rightarrow> u64 \<Rightarrow> ('p, 'z) machine_scheme \<Rightarrow> ('p, 'z) machine_scheme" where
  "AccessMemory_MM_close smm Address Attributes w =
     w\<lparr>plat := snd (SetMemoryAttributes smm (Address AND NOT EFI_PAGE_MASK) EFI_PAGE_SIZE Attributes (plat w))\<rparr>"

definition AccessMemory_MM ::
  "'p attribute_services \<Rightarrow> u64 \<Rightarrow> u8 list \<Rightarrow> nat \<Rightarrow> bool \<Rightarrow>
   ('p, 'z) machine_scheme \<Rightarrow> bool \<times> u8 list \<times> ('p, 'z) machine_scheme" where
  "AccessMemory_MM smm = AccessMemory (AccessMemory_MM_open smm) (AccessMemory_MM_close smm)"

definition DbgReadMemory_MM ::
  "'p attribute_services \<Rightarrow> u64 \<Rightarrow> nat \<Rightarrow>
   ('p, 'z) machine_scheme \<Rightarrow> bool \<times> u8 list \<times> ('p, 'z) machine_scheme" where
  "DbgReadMemory_MM smm Address Length w = AccessMemory_MM smm Address [] Length False w"

definition DbgWriteMemory_MM ::
  "'p attribute_services \<Rightarrow> u64 \<Rightarrow> u8 list \<Rightarrow>
   ('p, 'z) machine_scheme \<Rightarrow> bool \<times> ('p, 'z) machine_scheme" where
  "DbgWriteMemory_MM smm Address Data w =
     (let (ok, _, w1) = AccessMemory_MM smm Address Data (length Data) True w in (ok, w1))"

section \<open>PEI\<close>

definition DbgReadMemory_PEI ::
  "(u64 \<Rightarrow> ('p, 'z) machine_scheme \<Rightarrow> bool) \<Rightarrow> u64 \<Rightarrow> nat \<Rightarrow>
   ('p, 'z) machine_scheme \<Rightarrow> bool \<times> u8 list \<times> ('p, 'z) machine_scheme" where
  "DbgReadMemory_PEI IsPageReadable Address Length w =
     (if \<not> IsPageReadable Address w then (False, [], w)
      else (True, read_bytes (memory w) Address Length, w))"

definition DbgWriteMemory_PEI ::
  "(u64 \<Rightarrow> ('p, 'z) machine_scheme \<Rightarrow> bool) \<Rightarrow> u64 \<Rightarrow> u8 list \<Rightarrow>
   ('p, 'z) machine_scheme \<Rightarrow> bool \<times> ('p, 'z) machine_scheme" where
  "DbgWriteMemory_PEI IsPageWritable Address Data w =
     (if \<not> IsPageWritable Address w then (False, w)
      else (True, w\<lparr>memory := write_bytes (memory w) Address Data\<rparr>))"

section \<open>Module names and reboot\<close>

text \<open>
  \<open>Len + 1\<close> bytes, the name and its terminator, are copied into the 64 of
  \<open>mDbgBreakOnModuleLoadString\<close>, over what is there.
\<close>

definition DbgSetBreakOnModuleLoad_DXE ::
  "u8 list \<Rightarrow> ('p, 'z) machine_scheme \<Rightarrow> bool \<times> ('p, 'z) machine_scheme" where
  "DbgSetBreakOnModuleLoad_DXE Module w =
     (let Len = AsciiStrLen Module in
      if length (mDbgBreakOnModuleLoadString w) \<le> Len then (False, w)
      else (True, w\<lparr>mDbgBreakOnModuleLoadString :=
              take Len Module @ [0] @ drop (Len + 1) (mDbgBreakOnModuleLoadString w)\<rparr>))"

definition DbgSetBreakOnModuleLoad_MM ::
  "u8 list \<Rightarrow> ('p, 'z) machine_scheme \<Rightarrow> bool \<times> ('p, 'z) machine_scheme" where
  "DbgSetBreakOnModuleLoad_MM Module w = (False, w)"

definition DbgSetBreakOnModuleLoad_PEI ::
  "u8 list \<Rightarrow> ('p, 'z) machine_scheme \<Rightarrow> bool \<times> ('p, 'z) machine_scheme" where
  "DbgSetBreakOnModuleLoad_PEI Module w = (False, w)"

definition DebugReboot_DXE :: "('p, 'z) machine_scheme \<Rightarrow> stop + ('p, 'z) machine_scheme" where
  "DebugReboot_DXE w = Inl SystemReset"

definition DebugReboot_MM :: "('p, 'z) machine_scheme \<Rightarrow> stop + ('p, 'z) machine_scheme" where
  "DebugReboot_MM w = Inr w"

definition DebugReboot_PEI :: "('p, 'z) machine_scheme \<Rightarrow> stop + ('p, 'z) machine_scheme" where
  "DebugReboot_PEI w = Inr w"

section \<open>One step of the loop\<close>

lemma AccessMemory_cases [consumes 1, case_names finished refused opened]:
  assumes "AccessMemory opn cls a d n Write w = (ok, bs, w')"
  obtains "n = 0" "ok" "bs = []" "w' = w"
  | w1 where "0 < n" "opn a Write w = (None, w1)" "\<not> ok" "bs = []" "w' = w1"
  | k c w1 w3 bs' where "0 < k" "k \<le> n" "k \<le> EFI_PAGE_SIZE - unat (EFI_PAGE_MASK AND a)"
      "opn a Write w = (Some c, w1)"
      "w3 = (let w2 = (if Write then w1\<lparr>memory := write_bytes (memory w1) a (take k d)\<rparr> else w1)
             in case c of None \<Rightarrow> w2 | Some at \<Rightarrow> cls a at w2)"
      "AccessMemory opn cls (a + of_nat k) (drop k d) (n - k) Write w3 = (ok, bs', w')"
      "bs = (if Write then [] else read_bytes (memory w1) a k) @ bs'"
proof (cases "n = 0")
  case True
  with assms that(1) show ?thesis by (simp add: AccessMemory.simps)
next
  case False
  define k where "k = min n (EFI_PAGE_SIZE - unat (EFI_PAGE_MASK AND a))"
  have k: "0 < k" "k \<le> n" "k \<le> EFI_PAGE_SIZE - unat (EFI_PAGE_MASK AND a)"
    using False page_mask_less [of a] by (auto simp: k_def)
  obtain r w1 where o: "opn a Write w = (r, w1)" by fastforce
  show ?thesis
  proof (cases r)
    case None
    with assms that(2) False o show ?thesis by (simp add: AccessMemory.simps)
  next
    case (Some c)
    define w3 where "w3 = (let w2 = (if Write then w1\<lparr>memory := write_bytes (memory w1) a (take k d)\<rparr> else w1)
             in case c of None \<Rightarrow> w2 | Some at \<Rightarrow> cls a at w2)"
    obtain ok' bs' w4 where
      rec: "AccessMemory opn cls (a + of_nat k) (drop k d) (n - k) Write w3 = (ok', bs', w4)"
      by (cases "AccessMemory opn cls (a + of_nat k) (drop k d) (n - k) Write w3") auto
    have "ok = ok'" "bs = (if Write then [] else read_bytes (memory w1) a k) @ bs'" "w' = w4"
      using assms rec [unfolded w3_def] False o Some
      by (simp_all add: AccessMemory.simps [of opn cls a d n] k_def [symmetric] Let_def split: if_splits)
    with that(3) [OF k] o Some rec w3_def show ?thesis by blast
  qed
qed

section \<open>What the loop promises\<close>

text \<open>
  Anything that opens and closes pages without touching memory gives accessors with the
  contract of \<open>debug_memory\<close>.
\<close>

locale page_access =
  fixes opn :: "u64 \<Rightarrow> bool \<Rightarrow> ('p, 'z) machine_scheme \<Rightarrow> u64 option option \<times> ('p, 'z) machine_scheme"
    and cls :: "u64 \<Rightarrow> u64 \<Rightarrow> ('p, 'z) machine_scheme \<Rightarrow> ('p, 'z) machine_scheme"
  assumes opn_memory: "opn a wr w = (r, w') \<Longrightarrow> memory w' = memory w"
    and cls_memory: "memory (cls a attr w) = memory w"
begin

lemma read_loop:
  assumes "AccessMemory opn cls a d n False w = (ok, bs, w')"
  shows "length bs \<le> n \<and> (ok \<longrightarrow> length bs = n) \<and> bs = read_bytes (memory w) a (length bs) \<and>
         memory w' = memory w"
  using assms
proof (induction n arbitrary: a d w ok bs w' rule: less_induct)
  case (less n)
  show ?case
    using less.prems
  proof (cases rule: AccessMemory_cases)
    case (opened k c w1 w3 bs')
    have m1: "memory w1 = memory w" by (rule opn_memory [OF opened(4)])
    have m3: "memory w3 = memory w" using opened(5) by (simp add: m1 cls_memory split: option.splits)
    have "length bs' \<le> n - k \<and> (ok \<longrightarrow> length bs' = n - k) \<and>
        bs' = read_bytes (memory w3) (a + of_nat k) (length bs') \<and> memory w' = memory w3"
      by (rule less.IH [OF _ opened(6)]) (use opened(1,2) in simp)
    then show ?thesis
      using opened(1,2,7) read_bytes_append [of "memory w" a k "length bs'"] m1 m3 by auto
  qed (use opn_memory in auto)
qed

lemma write_loop:
  assumes "AccessMemory opn cls a d n True w = (ok, bs, w')" and "length d = n" and "n \<le> 2 ^ 64"
  shows "\<exists>k \<le> n. (ok \<longrightarrow> k = n) \<and> memory w' = write_bytes (memory w) a (take k d)"
  using assms
proof (induction n arbitrary: a d w ok bs w' rule: less_induct)
  case (less n)
  show ?case
    using less.prems(1)
  proof (cases rule: AccessMemory_cases)
    case (refused w1)
    then show ?thesis using opn_memory by (intro exI [of _ 0]) auto
  next
    case (opened k c w1 w3 bs')
    have m1: "memory w1 = memory w" by (rule opn_memory [OF opened(4)])
    have m3: "memory w3 = write_bytes (memory w) a (take k d)"
      using opened(5) by (simp add: Let_def m1 cls_memory split: option.splits)
    have "\<exists>j \<le> n - k. (ok \<longrightarrow> j = n - k) \<and>
        memory w' = write_bytes (memory w3) (a + of_nat k) (take j (drop k d))"
      by (rule less.IH [OF _ opened(6)]) (use opened(1,2) less.prems in auto)
    then obtain j where j: "j \<le> n - k" "ok \<longrightarrow> j = n - k"
        "memory w' = write_bytes (memory w3) (a + of_nat k) (take j (drop k d))" by blast
    have len: "length (take k d) = k" using opened(2) less.prems(2) by simp
    have "memory w' = write_bytes (memory w) a (take k d @ take j (drop k d))"
      using write_bytes_append [of "take k d" "take j (drop k d)" "memory w" a] j(1,3) opened(2) less.prems(2,3)
      unfolding m3 len by simp
    also have "take k d @ take j (drop k d) = take (k + j) d" by (simp add: take_add)
    finally show ?thesis using j opened(2) by (intro exI [of _ "k + j"]) auto
  qed auto
qed

sublocale debug_memory
  "\<lambda>a n w. AccessMemory opn cls a [] n False w"
  "\<lambda>a d w. let (ok, _, w') = AccessMemory opn cls a d (length d) True w in (ok, w')"
  memory
proof (unfold_locales, goal_cases)
  case (4 a bs w ok w')
  then obtain x where "AccessMemory opn cls a bs (length bs) True w = (ok, x, w')"
    by (auto split: prod.splits)
  with write_loop 4(2) show ?case by blast
qed (use read_loop in blast)+

end


section \<open>The phases keep the contract\<close>

interpretation dxe_access: page_access "AccessMemory_DXE_open ma rdable wrable" "AccessMemory_DXE_close ma"
  for ma rdable wrable
proof (unfold_locales, goal_cases)
  case (1 a wr w r w')
  then show ?case
    by (auto simp: AccessMemory_DXE_open_def split: option.splits prod.splits if_splits bool.splits)
next
  case (2 a attr w)
  show ?case by (simp add: AccessMemory_DXE_close_def split: option.split)
qed

interpretation mm_access: page_access "AccessMemory_MM_open smm" "AccessMemory_MM_close smm" for smm
proof (unfold_locales, goal_cases)
  case (1 a wr w r w')
  then show ?case
    by (auto simp: AccessMemory_MM_open_def split: option.splits prod.splits if_splits bool.splits)
next
  case (2 a attr w)
  show ?case by (simp add: AccessMemory_MM_close_def)
qed

interpretation dxe_memory: debug_memory "DbgReadMemory_DXE ma rdable wrable" "DbgWriteMemory_DXE ma rdable wrable"
  memory for ma rdable wrable
  using dxe_access.debug_memory_axioms [of ma rdable wrable]
  unfolding DbgReadMemory_DXE_def [abs_def] DbgWriteMemory_DXE_def [abs_def] AccessMemory_DXE_def .

interpretation mm_memory: debug_memory "DbgReadMemory_MM smm" "DbgWriteMemory_MM smm" memory for smm
  using mm_access.debug_memory_axioms [of smm]
  unfolding DbgReadMemory_MM_def [abs_def] DbgWriteMemory_MM_def [abs_def] AccessMemory_MM_def .

interpretation pei_memory: debug_memory "DbgReadMemory_PEI rdable" "DbgWriteMemory_PEI wrable" memory
  for rdable wrable
proof (unfold_locales, goal_cases)
  case (4 a bs w ok w')
  show ?case
  proof (cases ok)
    case True
    with 4 show ?thesis
      by (intro exI [of _ "length bs"]) (auto simp: DbgWriteMemory_PEI_def split: if_splits)
  next
    case False
    with 4 show ?thesis
      by (intro exI [of _ 0]) (auto simp: DbgWriteMemory_PEI_def split: if_splits)
  qed
qed (auto simp: DbgReadMemory_PEI_def split: if_splits)

section \<open>Pages\<close>

abbreviation page_of :: "u64 \<Rightarrow> u64" where
  "page_of a \<equiv> a AND NOT EFI_PAGE_MASK"

lemma page_of_eq: "page_of a = push_bit 12 (drop_bit 12 a)"
  by (rule bit_word_eqI)
    (auto simp: EFI_PAGE_MASK_mask bit_simps)

text \<open>The bytes of one step of the loop are in one page.\<close>

lemma page_of_chunk:
  assumes "i < EFI_PAGE_SIZE - unat (EFI_PAGE_MASK AND a)"
  shows "page_of (a + of_nat i) = page_of a"
proof -
  have lt: "unat a mod 4096 + i < 4096" using assms by (simp add: page_offset EFI_PAGE_SIZE_def)
  have a: "unat a < 2 ^ 64" using unsigned_less [of a] by simp
  have split: "unat a = unat a div 4096 * 4096 + unat a mod 4096" by simp
  have "unat a div 4096 < 2 ^ 52" using a by simp
  then have "unat a div 4096 * 4096 + 4096 \<le> 2 ^ 64" by simp
  with lt split have "unat a + i < 2 ^ 64" by linarith
  moreover have "unat (of_nat i :: u64) = i" using lt by (simp add: unat_of_nat)
  ultimately have sum: "unat (a + of_nat i) = unat a + i"
    by (subst unat_add_lem [THEN iffD1]) auto
  have "(4096 * q + s) div 4096 = q" if "s < 4096" for q s :: nat using that by simp
  from this [OF lt, of "unat a div 4096"] have "(unat a + i) div 4096 = unat a div 4096"
    by (simp add: add.assoc [symmetric])
  then have "drop_bit 12 (a + of_nat i) = drop_bit 12 a"
    unfolding word_unat_eq_iff by (simp add: drop_bit_eq_div unat_div_distrib sum)
  then show ?thesis by (simp add: page_of_eq)
qed


section \<open>Which accesses succeed\<close>

text \<open>
  An invariant of the services' state that every page keeps is kept by the access, whatever
  its outcome; and when only good pages open (in a strict loop: all of them), an access
  succeeds only when (exactly when) all its pages are good.
\<close>

lemma AccessMemory_pages:
  assumes opn: "\<And>a w r w'. I w \<Longrightarrow> opn a Write w = (r, w') \<Longrightarrow>
      ((r = None \<or> r = Some None) \<longrightarrow> I w') \<and> (r \<noteq> None \<longrightarrow> good (page_of a)) \<and>
      (strict \<and> r = None \<longrightarrow> \<not> good (page_of a))"
    and cls: "\<And>a w attr w' d. I w \<Longrightarrow> opn a Write w = (Some (Some attr), w') \<Longrightarrow>
      I (cls a attr (if Write then w'\<lparr>memory := write_bytes (memory w') a d\<rparr> else w'))"
    and mem: "\<And>w m. I w \<Longrightarrow> Write \<Longrightarrow> I (w\<lparr>memory := m\<rparr>)"
    and w: "I w" and run: "AccessMemory opn cls a d n Write w = (ok, bs, w')"
  shows "I w' \<and> (ok \<longrightarrow> (\<forall>i < n. good (page_of (a + of_nat i)))) \<and>
         (strict \<and> \<not> ok \<longrightarrow> (\<exists>i < n. \<not> good (page_of (a + of_nat i))))"
  using w run
proof (induction n arbitrary: a d w ok bs w' rule: less_induct)
  case (less n)
  show ?case
    using less.prems(2)
  proof (cases rule: AccessMemory_cases)
    case finished
    with less.prems(1) show ?thesis by simp
  next
    case (refused w1)
    have "strict \<longrightarrow> \<not> good (page_of (a + of_nat 0))" using opn [OF less.prems(1) refused(2)] by simp
    with refused opn [OF less.prems(1) refused(2)] show ?thesis by blast
  next
    case (opened k c w1 w3 bs')
    have g: "good (page_of (a + of_nat i))" if "i < k" for i
      using opn [OF less.prems(1) opened(4)] page_of_chunk [of i a] that opened(3) by simp
    have w3: "I w3"
    proof (cases c)
      case None
      then have "I w1" using opn [OF less.prems(1) opened(4)] by simp
      then show ?thesis using mem None opened(5) by (simp add: Let_def)
    next
      case (Some at)
      then show ?thesis using cls [OF less.prems(1), of a at w1 "take k d"] opened(4,5) by (simp add: Let_def)
    qed
    have ih: "I w' \<and> (ok \<longrightarrow> (\<forall>i < n - k. good (page_of (a + of_nat k + of_nat i)))) \<and>
       (strict \<and> \<not> ok \<longrightarrow> (\<exists>i < n - k. \<not> good (page_of (a + of_nat k + of_nat i))))"
      by (rule less.IH [OF _ w3 opened(6)]) (use opened(1,2) in simp)
    have shift: "a + of_nat k + of_nat i = a + of_nat (k + i)" for i by simp
    have "good (page_of (a + of_nat i))" if "ok" "i < n" for i
    proof (cases "i < k")
      case False
      then have "i = k + (i - k)" "i - k < n - k" using that by auto
      with ih \<open>ok\<close> show ?thesis unfolding shift by metis
    qed (rule g)
    moreover have "\<exists>i < n. \<not> good (page_of (a + of_nat i))"
      if "\<exists>i < n - k. \<not> good (page_of (a + of_nat k + of_nat i))"
      using that unfolding shift by (metis add.commute less_diff_conv)
    ultimately show ?thesis using ih by blast
  qed
qed


section \<open>Protections are restored\<close>

text \<open>
  The documented behaviour of the attribute services over a view \<open>attrs\<close> of their state
  (page base to attributes): a query changes nothing and returns the page's attributes,
  clearing and setting change the page's attributes when they succeed and nothing when
  they fail.
\<close>

definition attribute_services_ok :: "'p attribute_services \<Rightarrow> ('p \<Rightarrow> u64 \<Rightarrow> u64) \<Rightarrow> bool" where
  "attribute_services_ok ma attrs \<longleftrightarrow>
     (\<forall>b p r p'. GetMemoryAttributes ma b EFI_PAGE_SIZE p = (r, p') \<longrightarrow>
        attrs p' = attrs p \<and> (\<forall>A. r = Some A \<longrightarrow> A = attrs p b)) \<and>
     (\<forall>b m p ok p'. ClearMemoryAttributes ma b EFI_PAGE_SIZE m p = (ok, p') \<longrightarrow>
        attrs p' = (if ok then (attrs p)(b := attrs p b AND NOT m) else attrs p)) \<and>
     (\<forall>b m p ok p'. SetMemoryAttributes ma b EFI_PAGE_SIZE m p = (ok, p') \<longrightarrow>
        attrs p' = (if ok then (attrs p)(b := attrs p b OR m) else attrs p))"

definition attributes_set :: "'p attribute_services \<Rightarrow> bool" where
  "attributes_set ma \<longleftrightarrow> (\<forall>b m p. fst (SetMemoryAttributes ma b EFI_PAGE_SIZE m p))"

definition attributes_known :: "'p attribute_services \<Rightarrow> bool" where
  "attributes_known ma \<longleftrightarrow> (\<forall>b p. fst (GetMemoryAttributes ma b EFI_PAGE_SIZE p) \<noteq> None) \<and>
     (\<forall>b m p. fst (ClearMemoryAttributes ma b EFI_PAGE_SIZE m p))"

text \<open>A concrete service: the attributes themselves are the state.\<close>

definition table_services :: "(u64 \<Rightarrow> u64) attribute_services" where
  "table_services = \<lparr>
     GetMemoryAttributes = (\<lambda>b n p. (Some (p b), p)),
     SetMemoryAttributes = (\<lambda>b n m p. (True, p(b := p b OR m))),
     ClearMemoryAttributes = (\<lambda>b n m p. (True, p(b := p b AND NOT m)))\<rparr>"

lemma table_services_ok: "attribute_services_ok table_services (\<lambda>p. p)"
  and table_services_set: "attributes_set table_services"
  and table_services_known: "attributes_known table_services"
  by (simp_all add: attribute_services_ok_def attributes_set_def attributes_known_def table_services_def)

lemma services_get:
  "attribute_services_ok ma attrs \<Longrightarrow> GetMemoryAttributes ma b EFI_PAGE_SIZE p = (r, p') \<Longrightarrow>
     attrs p' = attrs p \<and> (\<forall>A. r = Some A \<longrightarrow> A = attrs p b)"
  unfolding attribute_services_ok_def by blast

lemma services_clear:
  "attribute_services_ok ma attrs \<Longrightarrow> ClearMemoryAttributes ma b EFI_PAGE_SIZE m p = (ok, p') \<Longrightarrow>
     attrs p' = (if ok then (attrs p)(b := attrs p b AND NOT m) else attrs p)"
  unfolding attribute_services_ok_def by blast

lemma services_set:
  assumes "attribute_services_ok ma attrs" and "attributes_set ma"
  shows "attrs (snd (SetMemoryAttributes ma b EFI_PAGE_SIZE m p)) = (attrs p)(b := attrs p b OR m)"
proof -
  obtain ok p' where s: "SetMemoryAttributes ma b EFI_PAGE_SIZE m p = (ok, p')" by fastforce
  have "ok" using assms(2) s unfolding attributes_set_def by (metis fst_conv)
  then show ?thesis
    using assms(1) s unfolding attribute_services_ok_def by fastforce
qed

lemma clear_then_set: "((v AND NOT m) OR v) = (v :: u64)"
  by (rule bit_word_eqI) (auto simp: bit_simps)

lemma DXE_open_attrs:
  assumes ok: "attribute_services_ok ma attrs" and o: "AccessMemory_DXE_open (Some ma) rd wr a W w = (r, w')"
  shows "(r = None \<or> r = Some None \<longrightarrow> attrs (plat w') = attrs (plat w)) \<and>
    (r \<noteq> None \<longrightarrow> attrs (plat w) (page_of a) AND EFI_MEMORY_RP = 0) \<and>
    (attributes_known ma \<and> r = None \<longrightarrow> attrs (plat w) (page_of a) AND EFI_MEMORY_RP \<noteq> 0) \<and>
    (\<forall>A. r = Some (Some A) \<longrightarrow> A = attrs (plat w) (page_of a) \<and>
       attrs (plat w') = (attrs (plat w))(page_of a := A AND NOT EFI_MEMORY_RO))"
proof -
  obtain g p1 where get: "GetMemoryAttributes ma (page_of a) EFI_PAGE_SIZE (plat w) = (g, p1)" by fastforce
  obtain c p2 where clear: "ClearMemoryAttributes ma (page_of a) EFI_PAGE_SIZE EFI_MEMORY_RO p1 = (c, p2)"
    by fastforce
  have known: "g \<noteq> None \<and> c" if "attributes_known ma"
    using that get clear unfolding attributes_known_def by (metis fst_conv)
  show ?thesis
    using o services_get [OF ok get] services_clear [OF ok clear] known
    by (cases g; cases c)
      (auto simp: AccessMemory_DXE_open_def get clear simp del: not_None_eq split: if_splits)
qed

lemma DXE_pages:
  assumes ok: "attribute_services_ok ma attrs" "attributes_set ma"
    and run: "AccessMemory_DXE (Some ma) rd wr a d n W w = (res, bs, w')"
  shows "attrs (plat w') = attrs (plat w) \<and>
    (res \<longrightarrow> (\<forall>i < n. attrs (plat w) (page_of (a + of_nat i)) AND EFI_MEMORY_RP = 0)) \<and>
    (attributes_known ma \<and> \<not> res \<longrightarrow> (\<exists>i < n. attrs (plat w) (page_of (a + of_nat i)) AND EFI_MEMORY_RP \<noteq> 0))"
proof (rule AccessMemory_pages [where I = "\<lambda>v. attrs (plat v) = attrs (plat w)",
      OF _ _ _ refl run [unfolded AccessMemory_DXE_def]], goal_cases)
  case (1 b v r v')
  show ?case using DXE_open_attrs [OF ok(1) 1(2)] 1(1) by simp
next
  case (2 b v at v' e)
  show ?case
    using DXE_open_attrs [OF ok(1) 2(2)] 2(1)
    by (auto simp: AccessMemory_DXE_close_def services_set [OF ok] clear_then_set)
qed simp

lemma MM_open_attrs:
  assumes ok: "attribute_services_ok ma attrs" and o: "AccessMemory_MM_open ma a W w = (r, w')"
  shows "(r = None \<or> r = Some None \<longrightarrow> attrs (plat w') = attrs (plat w)) \<and>
    (attributes_known ma \<longrightarrow> r \<noteq> None) \<and>
    (\<forall>A. r = Some (Some A) \<longrightarrow> A = attrs (plat w) (page_of a) \<and>
       (\<exists>m. attrs (plat w') = (attrs (plat w))(page_of a := A AND NOT m)))"
proof -
  obtain g p1 where get: "GetMemoryAttributes ma (page_of a) EFI_PAGE_SIZE (plat w) = (g, p1)" by fastforce
  obtain c p2 where clear: "ClearMemoryAttributes ma (page_of a) EFI_PAGE_SIZE (EFI_MEMORY_RO OR EFI_MEMORY_RP) p1 = (c, p2)"
    by fastforce
  obtain c' p3 where clear': "ClearMemoryAttributes ma (page_of a) EFI_PAGE_SIZE EFI_MEMORY_RP p1 = (c', p3)"
    by fastforce
  have known: "g \<noteq> None \<and> c \<and> c'" if "attributes_known ma"
    using that get clear clear' unfolding attributes_known_def by (metis fst_conv)
  show ?thesis
    using o services_get [OF ok get] services_clear [OF ok clear] services_clear [OF ok clear'] known
    by (cases g; cases c; cases c')
      (auto simp: AccessMemory_MM_open_def get clear clear' simp del: not_None_eq bit.de_Morgan_disj
        split: if_splits)
qed

lemma MM_pages:
  assumes ok: "attribute_services_ok ma attrs" "attributes_set ma"
    and run: "AccessMemory_MM ma a d n W w = (res, bs, w')"
  shows "attrs (plat w') = attrs (plat w) \<and> (attributes_known ma \<longrightarrow> res)"
proof -
  have "attrs (plat w') = attrs (plat w) \<and> (res \<longrightarrow> (\<forall>i < n. True)) \<and>
    (attributes_known ma \<and> \<not> res \<longrightarrow> (\<exists>i < n. \<not> True))"
  proof (rule AccessMemory_pages [where I = "\<lambda>v. attrs (plat v) = attrs (plat w)" and good = "\<lambda>_. True",
        OF _ _ _ refl run [unfolded AccessMemory_MM_def]], goal_cases)
    case (1 b v r v')
    show ?case using MM_open_attrs [OF ok(1) 1(2)] 1(1) by simp
  next
    case (2 b v at v' e)
    show ?case
      using MM_open_attrs [OF ok(1) 2(2)] 2(1)
      by (auto simp: AccessMemory_MM_close_def services_set [OF ok] clear_then_set)
  qed simp
  then show ?thesis by blast
qed


section \<open>Registers and module names\<close>

text \<open>
  Accessors leave everything but memory and the services' state alone: any part \<open>f\<close> of a
  machine that depends on neither is kept.
\<close>

definition undisturbed :: "(('p, 'z) machine_scheme \<Rightarrow> 'a) \<Rightarrow> bool" where
  "undisturbed f \<longleftrightarrow> (\<forall>w m. f (w\<lparr>memory := m\<rparr>) = f w) \<and> (\<forall>w p. f (w\<lparr>plat := p\<rparr>) = f w)"

lemma undisturbed_more: "undisturbed machine.more"
  and undisturbed_name: "undisturbed mDbgBreakOnModuleLoadString"
  by (simp_all add: undisturbed_def)

lemma AccessMemory_keeps:
  assumes opn: "\<And>a w r w'. opn a Write w = (r, w') \<Longrightarrow> f w' = f w"
    and cls: "\<And>a attr w. f (cls a attr w) = f w"
    and f: "undisturbed f" and run: "AccessMemory opn cls a d n Write w = (ok, bs, w')"
  shows "f w' = f w"
proof -
  have "f w' = f w \<and> (ok \<longrightarrow> (\<forall>i < n. True)) \<and> (False \<and> \<not> ok \<longrightarrow> (\<exists>i < n. \<not> True))"
    by (rule AccessMemory_pages [where I = "\<lambda>v. f v = f w" and good = "\<lambda>_. True", OF _ _ _ refl run])
      (use f in \<open>auto simp: cls undisturbed_def dest: opn\<close>)
  then show ?thesis by blast
qed

lemma DXE_keeps:
  assumes f: "undisturbed f"
  shows "DbgReadMemory_DXE ma rd wr a n w = (ok, bs, w') \<Longrightarrow> f w' = f w"
    and "DbgWriteMemory_DXE ma rd wr a d w = (ok, w') \<Longrightarrow> f w' = f w"
proof -
  have o: "f w' = f w" if "AccessMemory_DXE_open ma rd wr a W w = (r, w')" for a W w r w'
    using that f by (auto simp: AccessMemory_DXE_open_def undisturbed_def split: option.splits prod.splits if_splits bool.splits)
  have c: "f (AccessMemory_DXE_close ma a at w) = f w" for a at w
    using f by (simp add: AccessMemory_DXE_close_def undisturbed_def split: option.split)
  show "DbgReadMemory_DXE ma rd wr a n w = (ok, bs, w') \<Longrightarrow> f w' = f w"
    unfolding DbgReadMemory_DXE_def AccessMemory_DXE_def by (rule AccessMemory_keeps [OF o c f])
  show "DbgWriteMemory_DXE ma rd wr a d w = (ok, w') \<Longrightarrow> f w' = f w"
    unfolding DbgWriteMemory_DXE_def AccessMemory_DXE_def
    using AccessMemory_keeps [OF o c f, where a = a and d = d and n = "length d" and Write = True and w = w]
    by (auto split: prod.splits)
qed

lemma MM_keeps:
  assumes f: "undisturbed f"
  shows "DbgReadMemory_MM ma a n w = (ok, bs, w') \<Longrightarrow> f w' = f w"
    and "DbgWriteMemory_MM ma a d w = (ok, w') \<Longrightarrow> f w' = f w"
proof -
  have o: "f w' = f w" if "AccessMemory_MM_open ma a W w = (r, w')" for a W w r w'
    using that f by (auto simp: AccessMemory_MM_open_def undisturbed_def split: option.splits prod.splits if_splits bool.splits)
  have c: "f (AccessMemory_MM_close ma a at w) = f w" for a at w
    using f by (simp add: AccessMemory_MM_close_def undisturbed_def)
  show "DbgReadMemory_MM ma a n w = (ok, bs, w') \<Longrightarrow> f w' = f w"
    unfolding DbgReadMemory_MM_def AccessMemory_MM_def by (rule AccessMemory_keeps [OF o c f])
  show "DbgWriteMemory_MM ma a d w = (ok, w') \<Longrightarrow> f w' = f w"
    unfolding DbgWriteMemory_MM_def AccessMemory_MM_def
    using AccessMemory_keeps [OF o c f, where a = a and d = d and n = "length d" and Write = True and w = w]
    by (auto split: prod.splits)
qed

lemma PEI_keeps:
  assumes f: "undisturbed f"
  shows "DbgReadMemory_PEI rd a n w = (ok, bs, w') \<Longrightarrow> f w' = f w"
    and "DbgWriteMemory_PEI wr a d w = (ok, w') \<Longrightarrow> f w' = f w"
  using f by (auto simp: DbgReadMemory_PEI_def DbgWriteMemory_PEI_def undisturbed_def split: if_splits)

lemmas DXE_more = DXE_keeps [OF undisturbed_more]
lemmas MM_more = MM_keeps [OF undisturbed_more]
lemmas PEI_more = PEI_keeps [OF undisturbed_more]

lemma module_reboot_more:
  "DbgSetBreakOnModuleLoad_DXE M w = (ok, w') \<Longrightarrow> machine.more w' = machine.more w"
  "DbgSetBreakOnModuleLoad_MM M w = (ok, w') \<Longrightarrow> machine.more w' = machine.more w"
  "DbgSetBreakOnModuleLoad_PEI M w = (ok, w') \<Longrightarrow> machine.more w' = machine.more w"
  "DebugReboot_DXE w = Inr w' \<Longrightarrow> machine.more w' = machine.more w"
  "DebugReboot_MM w = Inr w' \<Longrightarrow> machine.more w' = machine.more w"
  "DebugReboot_PEI w = Inr w' \<Longrightarrow> machine.more w' = machine.more w"
  by (auto simp: DbgSetBreakOnModuleLoad_DXE_def DbgSetBreakOnModuleLoad_MM_def DbgSetBreakOnModuleLoad_PEI_def
      DebugReboot_DXE_def DebugReboot_MM_def DebugReboot_PEI_def Let_def split: if_splits)

text \<open>The remembered name: a terminated copy, when it fits, in an array of the same size.\<close>

lemma DbgSetBreakOnModuleLoad_DXE_eq:
  "case DbgSetBreakOnModuleLoad_DXE Module w of (ok, w') \<Rightarrow>
    (ok \<longleftrightarrow> AsciiStrLen Module < length (mDbgBreakOnModuleLoadString w)) \<and>
    length (mDbgBreakOnModuleLoadString w') = length (mDbgBreakOnModuleLoadString w) \<and>
    (if ok then cstr (mDbgBreakOnModuleLoadString w') = cstr Module else w' = w)"
proof -
  have eq: "take (AsciiStrLen Module) Module = cstr Module"
    unfolding AsciiStrLen_def cstr_def by (rule takeWhile_eq_take [symmetric])
  have len: "length (cstr Module) = AsciiStrLen Module" by (simp add: AsciiStrLen_def)
  have "cstr (cstr M @ 0 # r) = cstr M" for M r
    by (induction M) (auto simp: cstr_def)
  then show ?thesis by (auto simp: DbgSetBreakOnModuleLoad_DXE_def Let_def eq len)
qed

section \<open>How much of a range is accessed\<close>

text \<open>The bytes of a range before the first one in a page that is not good.\<close>

definition accessible :: "(u64 \<Rightarrow> bool) \<Rightarrow> u64 \<Rightarrow> nat \<Rightarrow> nat" where
  "accessible good a n = length (takeWhile (\<lambda>i. good (page_of (a + of_nat i))) [0..<n])"

lemma accessible_0 [simp]: "accessible good a 0 = 0"
  by (simp add: accessible_def)

lemma accessible_le: "accessible good a n \<le> n"
  using length_takeWhile_le [of _ "[0..<n]"] by (simp add: accessible_def)

lemma accessible_refused: "\<not> good (page_of a) \<Longrightarrow> accessible good a n = 0"
  by (simp add: accessible_def upt_rec)

lemma accessible_eq: "accessible good a n = n \<longleftrightarrow> (\<forall>i < n. good (page_of (a + of_nat i)))"
proof -
  have "length (takeWhile P xs) = length xs \<longleftrightarrow> (\<forall>x \<in> set xs. P x)" for P and xs :: "nat list"
    by (metis order_refl takeWhile_eq_all_conv takeWhile_eq_take take_all)
  from this [of "\<lambda>i. good (page_of (a + of_nat i))" "[0..<n]"] show ?thesis by (auto simp: accessible_def)
qed

lemma accessible_all [simp]: "accessible (\<lambda>_. True) a n = n"
  by (simp add: accessible_eq)

lemma accessible_chunk:
  assumes "\<forall>i < k. good (page_of (a + of_nat i))" and "k \<le> n"
  shows "accessible good a n = k + accessible good (a + of_nat k) (n - k)"
proof -
  let ?P = "\<lambda>i. good (page_of (a + of_nat i))"
  have "[0..<n] = [0..<k] @ map (\<lambda>i. k + i) [0..<n - k]"
    using assms(2) by (intro nth_equalityI) (auto simp: nth_append)
  moreover have "takeWhile ?P ([0..<k] @ ys) = [0..<k] @ takeWhile ?P ys" for ys
    using assms(1) by (intro takeWhile_append2) auto
  moreover have "length (takeWhile ?P (map (\<lambda>i. k + i) ys)) =
      length (takeWhile (\<lambda>i. good (page_of (a + of_nat k + of_nat i))) ys)" for ys
    by (simp add: takeWhile_map o_def add.assoc)
  ultimately show ?thesis by (simp add: accessible_def)
qed

context page_access
begin

lemma exact:
  assumes opn: "\<And>a w r w'. I w \<Longrightarrow> opn a Write w = (r, w') \<Longrightarrow>
      ((r = None \<or> r = Some None) \<longrightarrow> I w') \<and> (r \<noteq> None \<longleftrightarrow> good (page_of a))"
    and cls: "\<And>a w attr w' d. I w \<Longrightarrow> opn a Write w = (Some (Some attr), w') \<Longrightarrow>
      I (cls a attr (if Write then w'\<lparr>memory := write_bytes (memory w') a d\<rparr> else w'))"
    and mem: "\<And>w m. I w \<Longrightarrow> Write \<Longrightarrow> I (w\<lparr>memory := m\<rparr>)"
    and w: "I w" and run: "AccessMemory opn cls a d n Write w = (ok, bs, w')"
    and len: "Write \<longrightarrow> length d = n" "n \<le> 2 ^ 64"
  shows "I w' \<and> (ok \<longleftrightarrow> accessible good a n = n) \<and>
    (if Write then memory w' = write_bytes (memory w) a (take (accessible good a n) d)
     else length bs = accessible good a n)"
  using w run len
proof (induction n arbitrary: a d w ok bs w' rule: less_induct)
  case (less n)
  show ?case
    using less.prems(2)
  proof (cases rule: AccessMemory_cases)
    case finished
    with less.prems(1) show ?thesis by simp
  next
    case (refused w1)
    then have "accessible good a n = 0" using opn [OF less.prems(1) refused(2)] by (intro accessible_refused) simp
    with refused opn [OF less.prems(1) refused(2)] opn_memory [OF refused(2)] show ?thesis by simp
  next
    case (opened k c w1 w3 bs')
    have "good (page_of a)" using opn [OF less.prems(1) opened(4)] by simp
    then have "\<forall>i < k. good (page_of (a + of_nat i))"
      using page_of_chunk [of _ a] opened(3) by auto
    note split = accessible_chunk [OF this opened(2)]
    have w3: "I w3"
    proof (cases c)
      case None
      then have "I w1" using opn [OF less.prems(1) opened(4)] by simp
      then show ?thesis using mem None opened(5) by (simp add: Let_def)
    next
      case (Some at)
      then show ?thesis using cls [OF less.prems(1), of a at w1 "take k d"] opened(4,5) by (simp add: Let_def)
    qed
    have m3: "memory w3 = (if Write then write_bytes (memory w) a (take k d) else memory w)"
      using opened(5) by (simp add: Let_def opn_memory [OF opened(4)] cls_memory split: option.splits)
    have ih: "I w' \<and> (ok \<longleftrightarrow> accessible good (a + of_nat k) (n - k) = n - k) \<and>
      (if Write then memory w' = write_bytes (memory w3) (a + of_nat k)
           (take (accessible good (a + of_nat k) (n - k)) (drop k d))
       else length bs' = accessible good (a + of_nat k) (n - k))"
      using opened(1,2) less.prems(3,4) by (intro less.IH [OF _ w3 opened(6)]) auto
    let ?j = "accessible good (a + of_nat k) (n - k)"
    have "memory w' = write_bytes (memory w) a (take (accessible good a n) d)" if "Write"
    proof -
      have kd: "length (take k d) = k" using that opened(2) less.prems(3) by simp
      have "?j \<le> n - k" by (rule accessible_le)
      then have "write_bytes (write_bytes (memory w) a (take k d)) (a + of_nat (length (take k d))) (take ?j (drop k d)) =
          write_bytes (memory w) a (take k d @ take ?j (drop k d))"
        using that opened(2) less.prems(3,4) by (intro write_bytes_append) auto
      then show ?thesis using ih that m3 unfolding split kd by (simp add: take_add)
    qed
    then show ?thesis using ih opened(2,7) split by auto
  qed
qed

end

text \<open>With the Memory Attribute Protocol: the pages that are not read protected. In MM: all.\<close>

lemma DXE_exact:
  assumes ok: "attribute_services_ok ma attrs" "attributes_set ma" "attributes_known ma"
    and run: "AccessMemory_DXE (Some ma) rd wr a d n W w = (res, bs, w')"
    and len: "W \<longrightarrow> length d = n" "n \<le> 2 ^ 64"
  shows "attrs (plat w') = attrs (plat w) \<and>
    (res \<longleftrightarrow> accessible (\<lambda>p. attrs (plat w) p AND EFI_MEMORY_RP = 0) a n = n) \<and>
    (if W then memory w' = write_bytes (memory w) a
        (take (accessible (\<lambda>p. attrs (plat w) p AND EFI_MEMORY_RP = 0) a n) d)
     else length bs = accessible (\<lambda>p. attrs (plat w) p AND EFI_MEMORY_RP = 0) a n)"
proof (rule dxe_access.exact [where I = "\<lambda>v. attrs (plat v) = attrs (plat w)",
      OF _ _ _ refl run [unfolded AccessMemory_DXE_def] len], goal_cases)
  case (1 b v r v')
  show ?case using DXE_open_attrs [OF ok(1) 1(2)] 1(1) ok(3) by auto
next
  case (2 b v at v' e)
  show ?case
    using DXE_open_attrs [OF ok(1) 2(2)] 2(1)
    by (auto simp: AccessMemory_DXE_close_def services_set [OF ok(1,2)] clear_then_set)
qed simp

lemma MM_exact:
  assumes ok: "attribute_services_ok ma attrs" "attributes_set ma" "attributes_known ma"
    and run: "AccessMemory_MM ma a d n W w = (res, bs, w')"
    and len: "W \<longrightarrow> length d = n" "n \<le> 2 ^ 64"
  shows "attrs (plat w') = attrs (plat w) \<and> res \<and>
    (if W then memory w' = write_bytes (memory w) a d else length bs = n)"
proof -
  have "attrs (plat w') = attrs (plat w) \<and> (res \<longleftrightarrow> accessible (\<lambda>_. True) a n = n) \<and>
    (if W then memory w' = write_bytes (memory w) a (take (accessible (\<lambda>_. True) a n) d)
     else length bs = accessible (\<lambda>_. True) a n)"
  proof (rule mm_access.exact [where I = "\<lambda>v. attrs (plat v) = attrs (plat w)",
        OF _ _ _ refl run [unfolded AccessMemory_MM_def] len], goal_cases)
    case (1 b v r v')
    show ?case using MM_open_attrs [OF ok(1) 1(2)] 1(1) ok(3) by auto
  next
    case (2 b v at v' e)
    show ?case
      using MM_open_attrs [OF ok(1) 2(2)] 2(1)
      by (auto simp: AccessMemory_MM_close_def services_set [OF ok(1,2)] clear_then_set)
  qed simp
  then show ?thesis using len by (simp split: if_splits)
qed

end
