(* ===== verification/Bytes.thy ===== *)
theory Bytes
  imports DebugAgent
begin

text \<open>
  Little-endian 64-bit values in memory and in the saved context: page table entries, and the
  instruction pointer and flags the exception handlers change.
\<close>

definition bytes_of_word :: "u64 \<Rightarrow> u8 list" where
  "bytes_of_word v = map (\<lambda>i. ucast (drop_bit (8 * i) v)) [0..<8]"

definition word_of_bytes :: "u8 list \<Rightarrow> u64" where
  "word_of_bytes bs = foldr (\<lambda>b acc. ucast b OR push_bit 8 acc) bs 0"

definition read_u64 :: "(u64 \<Rightarrow> u8) \<Rightarrow> u64 \<Rightarrow> u64" where
  "read_u64 m a = word_of_bytes (read_bytes m a 8)"

definition ctx_get64 :: "ctx \<Rightarrow> nat \<Rightarrow> u64" where
  "ctx_get64 c off = word_of_bytes (ctx_bytes c off 8)"

definition ctx_set64 :: "ctx \<Rightarrow> nat \<Rightarrow> u64 \<Rightarrow> ctx" where
  "ctx_set64 c off v = ctx_store c off (bytes_of_word v)"

lemma length_bytes_of_word [simp]: "length (bytes_of_word v) = 8"
  by (simp add: bytes_of_word_def)

lemma bit_word_of_bytes:
  "bit (word_of_bytes bs) i \<longleftrightarrow> i < 64 \<and> i div 8 < length bs \<and> bit (bs ! (i div 8)) (i mod 8)"
proof (induction bs arbitrary: i)
  case Nil
  then show ?case by (simp add: word_of_bytes_def)
next
  case (Cons b bs)
  have IH: "bit (word_of_bytes bs) (i - 8) \<longleftrightarrow>
      i - 8 < 64 \<and> (i - 8) div 8 < length bs \<and> bit (bs ! ((i - 8) div 8)) ((i - 8) mod 8)"
    by (rule Cons.IH)
  have step: "bit (word_of_bytes (b # bs)) i \<longleftrightarrow>
      (if i < 8 then bit b i else i < 64 \<and> bit (word_of_bytes bs) (i - 8))"
    by (auto simp: word_of_bytes_def bit_simps dest: bit_imp_le_length)
  show ?case
  proof (cases "i < 8")
    case True
    then show ?thesis unfolding step by simp
  next
    case False
    then have "i div 8 = Suc ((i - 8) div 8)" "(i - 8) mod 8 = i mod 8"
      by (simp_all add: le_div_geq le_mod_geq)
    with False show ?thesis unfolding step IH by auto
  qed
qed

lemma word_of_bytes_of_word [simp]: "word_of_bytes (bytes_of_word v) = v"
  by (rule bit_word_eqI) (auto simp: bit_word_of_bytes bytes_of_word_def bit_simps)

lemma bytes_of_word_of_bytes: "length bs = 8 \<Longrightarrow> bytes_of_word (word_of_bytes bs) = bs"
  by (rule nth_equalityI)
    (auto simp: bytes_of_word_def bit_word_of_bytes bit_simps div_mult_self1 intro!: bit_word_eqI)

lemma ctx_get_set64 [simp]: "ctx_get64 (ctx_set64 c off v) off = v"
  using ctx_bytes_store [of c off "bytes_of_word v"]
  by (simp add: ctx_get64_def ctx_set64_def)

lemma ctx_get_set64_other:
  "off' + 8 \<le> off \<or> off + 8 \<le> off' \<Longrightarrow> ctx_get64 (ctx_set64 c off v) off' = ctx_get64 c off'"
  by (simp add: ctx_get64_def ctx_set64_def ctx_bytes_store_other)

lemma ctx_set_get64 [simp]: "ctx_set64 c off (ctx_get64 c off) = c"
  by (simp add: ctx_get64_def ctx_set64_def bytes_of_word_of_bytes)

lemma ctx_set_set64 [simp]: "ctx_set64 (ctx_set64 c off v) off w = ctx_set64 c off w"
  by (rule ext) (auto simp: ctx_set64_def ctx_store_def)

end
