(* ===== verification/Watchpoints.thy ===== *)
theory Watchpoints
  imports DebugAgent
begin

text \<open>
  The abstract watchpoint file that both architectures refine: a row of slots, each empty
  or holding a key. A request is answered from an equal key, placed into the first empty
  slot, or refused; a removal empties the first slot with the key. The lemmas give the laws
  of the interface \<open>watchpoint_unit\<close> for it.
\<close>

section \<open>Slots\<close>

definition slots_add :: "'k option list \<Rightarrow> 'k \<Rightarrow> bool \<times> 'k option list" where
  "slots_add sl k =
     (if Some k \<in> set sl then (True, sl)
      else if None \<in> set sl then (True, sl[length (takeWhile (\<lambda>x. x \<noteq> None) sl) := Some k])
      else (False, sl))"

definition slots_remove :: "'k option list \<Rightarrow> 'k \<Rightarrow> bool \<times> 'k option list" where
  "slots_remove sl k =
     (if Some k \<in> set sl then (True, sl[length (takeWhile (\<lambda>x. x \<noteq> Some k) sl) := None])
      else (False, sl))"

definition slots_armed :: "'k option list \<Rightarrow> 'k set" where
  "slots_armed sl = {k. Some k \<in> set sl}"

text \<open>No key occupies two slots.\<close>

definition slots_unique :: "'k option list \<Rightarrow> bool" where
  "slots_unique sl \<longleftrightarrow> distinct (filter (\<lambda>x. x \<noteq> None) sl)"

section \<open>Facts\<close>

lemma takeWhile_first: "x \<notin> set ys \<Longrightarrow> takeWhile (\<lambda>y. y \<noteq> x) (ys @ x # zs) = ys"
  by (induction ys) auto

lemma first_split:
  assumes "x \<in> set sl"
  obtains ys zs where "sl = ys @ x # zs" "x \<notin> set ys"
    "\<And>y. sl[length (takeWhile (\<lambda>y. y \<noteq> x) sl) := y] = ys @ y # zs"
proof -
  obtain ys zs where "sl = ys @ x # zs" "x \<notin> set ys" using split_list_first [OF assms] by blast
  then show ?thesis using that [of ys zs] by (simp add: takeWhile_first)
qed

lemma slots_armed_Some: "slots_armed sl = the ` (set (filter (\<lambda>x. x \<noteq> None) sl))"
  by (force simp: slots_armed_def)

lemma inj_the: "inj_on the {x. x \<noteq> None}"
  by (auto simp: inj_on_def)

lemma card_slots_armed: "slots_unique sl \<Longrightarrow> card (slots_armed sl) = length (filter (\<lambda>x. x \<noteq> None) sl)"
  unfolding slots_armed_Some slots_unique_def
  by (subst card_image) (simp_all only: distinct_card, auto intro: inj_on_subset [OF inj_the])

lemma slots_armed_bound: "slots_unique sl \<Longrightarrow> finite (slots_armed sl) \<and> card (slots_armed sl) \<le> length sl"
  by (simp add: card_slots_armed) (simp add: slots_armed_Some)

lemma slots_add_length: "slots_add sl k = (ok, sl') \<Longrightarrow> length sl' = length sl"
  by (auto simp: slots_add_def split: if_splits)

lemma slots_remove_length: "slots_remove sl k = (ok, sl') \<Longrightarrow> length sl' = length sl"
  by (auto simp: slots_remove_def split: if_splits)

lemma slots_add_True:
  assumes "slots_add sl k = (True, sl')"
  shows "slots_armed sl' = insert k (slots_armed sl)"
proof (cases "Some k \<in> set sl")
  case True
  with assms show ?thesis by (auto simp: slots_add_def slots_armed_def)
next
  case False
  with assms have none: "None \<in> set sl" by (auto simp: slots_add_def split: if_splits)
  obtain ys zs where sl: "sl = ys @ None # zs"
    "\<And>y. sl[length (takeWhile (\<lambda>y. y \<noteq> None) sl) := y] = ys @ y # zs"
    using first_split [OF none] by metis
  have "sl' = ys @ Some k # zs" using assms False none by (simp add: slots_add_def sl(2) del: not_None_eq)
  with sl(1) show ?thesis by (auto simp: slots_armed_def)
qed

lemma slots_add_False:
  assumes "slots_add sl k = (False, sl')" and "slots_unique sl"
  shows "sl' = sl \<and> k \<notin> slots_armed sl \<and> card (slots_armed sl) = length sl"
proof -
  have "Some k \<notin> set sl" "None \<notin> set sl" "sl' = sl"
    using assms(1) by (auto simp: slots_add_def split: if_splits)
  moreover from \<open>None \<notin> set sl\<close> have "filter (\<lambda>x. x \<noteq> None) sl = sl"
    by (induction sl) (simp, case_tac a, auto)
  ultimately show ?thesis using card_slots_armed [OF assms(2)] by (simp add: slots_armed_def)
qed

lemma slots_add_unique:
  assumes "slots_add sl k = (ok, sl')" and "slots_unique sl"
  shows "slots_unique sl'"
proof (cases "Some k \<notin> set sl \<and> None \<in> set sl")
  case True
  then have none: "None \<in> set sl" by simp
  obtain ys zs where sl: "sl = ys @ None # zs"
    "\<And>y. sl[length (takeWhile (\<lambda>y. y \<noteq> None) sl) := y] = ys @ y # zs"
    using first_split [OF none] by metis
  have "sl' = ys @ Some k # zs" using assms True by (simp add: slots_add_def sl(2) del: not_None_eq)
  moreover have "Some k \<notin> set ys" "Some k \<notin> set zs" using True sl(1) by auto
  ultimately show ?thesis using assms(2) sl(1) by (auto simp: slots_unique_def)
next
  case False
  with assms show ?thesis by (auto simp: slots_add_def split: if_splits)
qed

lemma slots_remove_True:
  assumes "slots_remove sl k = (True, sl')" and "slots_unique sl"
  shows "k \<in> slots_armed sl \<and> slots_armed sl' = slots_armed sl - {k}"
proof -
  have k: "Some k \<in> set sl" using assms(1) by (auto simp: slots_remove_def split: if_splits)
  obtain ys zs where sl: "sl = ys @ Some k # zs" "Some k \<notin> set ys"
    "\<And>y. sl[length (takeWhile (\<lambda>y. y \<noteq> Some k) sl) := y] = ys @ y # zs"
    using first_split [OF k] by metis
  have "sl' = ys @ None # zs" using assms(1) k by (simp add: slots_remove_def sl(3))
  moreover have "Some k \<notin> set zs" using assms(2) sl(1) by (auto simp: slots_unique_def)
  ultimately show ?thesis using sl(1,2) by (auto simp: slots_armed_def)
qed

lemma slots_remove_False: "slots_remove sl k = (False, sl') \<Longrightarrow> sl' = sl \<and> k \<notin> slots_armed sl"
  by (auto simp: slots_remove_def slots_armed_def split: if_splits)

lemma slots_remove_unique:
  assumes "slots_remove sl k = (ok, sl')" and "slots_unique sl"
  shows "slots_unique sl'"
proof (cases "Some k \<in> set sl")
  case True
  obtain ys zs where sl: "sl = ys @ Some k # zs"
    "\<And>y. sl[length (takeWhile (\<lambda>y. y \<noteq> Some k) sl) := y] = ys @ y # zs"
    using first_split [OF True] by metis
  have "sl' = ys @ None # zs" using assms(1) True by (simp add: slots_remove_def sl(2))
  then show ?thesis using assms(2) sl(1) by (auto simp: slots_unique_def)
next
  case False
  with assms show ?thesis by (auto simp: slots_remove_def)
qed

text \<open>
  A unit whose registers read as slots, and whose operations act on the slots as above when
  the request has a key and change nothing otherwise, keeps the contract.
\<close>

lemma watchpoint_unit_slots:
  assumes add: "\<And>a l r s w. case key a l r s of
        None \<Rightarrow> add a l r s w = (False, w)
      | Some k \<Rightarrow> (\<exists>w'. add a l r s w = (fst (slots_add (sl w) k), w') \<and>
            sl w' = snd (slots_add (sl w) k) \<and> (\<not> fst (slots_add (sl w) k) \<longrightarrow> w' = w))"
    and remove: "\<And>a l r s w. case key a l r s of
        None \<Rightarrow> remove a l r s w = (False, w)
      | Some k \<Rightarrow> (\<exists>w'. remove a l r s w = (fst (slots_remove (sl w) k), w') \<and>
            sl w' = snd (slots_remove (sl w) k) \<and> (\<not> fst (slots_remove (sl w) k) \<longrightarrow> w' = w))"
  shows "watchpoint_unit add remove key (\<lambda>w. slots_armed (sl w)) n
    (\<lambda>w. slots_unique (sl w) \<and> length (sl w) = n)"
proof -
  have A: "key a l r s = None \<and> \<not> ok \<and> w' = w \<or>
      (\<exists>k. key a l r s = Some k \<and> slots_add (sl w) k = (ok, sl w') \<and> (\<not> ok \<longrightarrow> w' = w))"
    if "add a l r s w = (ok, w')" for a l r s w ok w'
    using add [where a = a and l = l and r = r and s = s and w = w] that
    by (auto split: option.splits simp: prod_eq_iff)
  have R: "key a l r s = None \<and> \<not> ok \<and> w' = w \<or>
      (\<exists>k. key a l r s = Some k \<and> slots_remove (sl w) k = (ok, sl w') \<and> (\<not> ok \<longrightarrow> w' = w))"
    if "remove a l r s w = (ok, w')" for a l r s w ok w'
    using remove [where a = a and l = l and r = r and s = s and w = w] that
    by (auto split: option.splits simp: prod_eq_iff)
  show ?thesis
  proof (unfold_locales, goal_cases)
    case (1 w)
    then show ?case using slots_armed_bound [of "sl w"] by simp
  next
    case (2 w a l r s w')
    with A [OF 2(2)] show ?case by (auto dest: slots_add_True)
  next
    case (3 w a l r s w')
    with A [OF 3(2)] show ?case by (auto dest: slots_add_False)
  next
    case (4 w a l r s ok w')
    with A [OF 4(2)] show ?case by (auto dest: slots_add_unique slots_add_length)
  next
    case (5 w a l r s w')
    with R [OF 5(2)] show ?case by (auto dest: slots_remove_True)
  next
    case (6 w a l r s w')
    with R [OF 6(2)] show ?case by (auto dest: slots_remove_False)
  next
    case (7 w a l r s ok w')
    with R [OF 7(2)] show ?case by (auto dest: slots_remove_unique slots_remove_length)
  qed
qed

text \<open>Four slots, as both architectures have.\<close>

lemma slots_add_4:
  "slots_add [a, b, c, d] k =
    (if a = Some k \<or> b = Some k \<or> c = Some k \<or> d = Some k then (True, [a, b, c, d])
     else if a = None then (True, [Some k, b, c, d])
     else if b = None then (True, [a, Some k, c, d])
     else if c = None then (True, [a, b, Some k, d])
     else if d = None then (True, [a, b, c, Some k])
     else (False, [a, b, c, d]))"
  by (auto simp: slots_add_def)

lemma slots_remove_4:
  "slots_remove [a, b, c, d] k =
    (if a = Some k then (True, [None, b, c, d])
     else if b = Some k then (True, [a, None, c, d])
     else if c = Some k then (True, [a, b, None, d])
     else if d = Some k then (True, [a, b, c, None])
     else (False, [a, b, c, d]))"
  by (auto simp: slots_remove_def)

end
