(* ===== verification/HexCodec.thy ===== *)
theory HexCodec
  imports BaseLib
begin

text \<open>
  The hexadecimal codec of GdbStub.c: the digit table \<open>HexChars\<close>, the decoder
  \<open>HexToByte\<close>, the loop that decodes consecutive bytes of a string, and the bounded
  encoder \<open>ConvertResponseToHex\<close>. Every register and memory transfer goes through it. The
  lemmas show that decoding inverts encoding, that two digits of either case are read as
  their value, when the decoder stops, and how much the encoder writes.
\<close>

section \<open>Definitions\<close>

definition HexChars :: "u8 list" where
  "HexChars = str ''0123456789abcdef''"

text \<open>The two digits written for one byte, high nibble first.\<close>

definition hex_byte :: "u8 \<Rightarrow> u8 list" where
  "hex_byte b = [HexChars ! unat (drop_bit 4 b), HexChars ! unat (b AND 15)]"

definition hex_bytes :: "u8 list \<Rightarrow> u8 list" where
  "hex_bytes bs = concat (map hex_byte bs)"

text \<open>One round of the loop of \<open>HexToByte\<close>.\<close>

definition HexToByte_digit :: "bool \<Rightarrow> u8 \<Rightarrow> u8 \<Rightarrow> stop + u8" where
  "HexToByte_digit asserts Result Chr =
     (let Result = push_bit 4 Result in
      if 48 \<le> Chr \<and> Chr \<le> 57 then Inr (Result OR (Chr - 48))
      else (let Chr = AsciiCharToUpper Chr in
        ASSERT asserts (65 \<le> Chr \<and> Chr \<le> 70) (Inr (Result OR (10 + Chr - 65)))))"

definition HexToByte :: "bool \<Rightarrow> u8 list \<Rightarrow> stop + u8" where
  "HexToByte asserts Chars =
     (if length Chars < 2 then Inl OutOfBounds
      else ebind (HexToByte_digit asserts 0 (Chars ! 0))
             (\<lambda>Result. HexToByte_digit asserts Result (Chars ! 1)))"

text \<open>
  The loop \<open>Value[Index] = HexToByte (Input); Input += 2\<close> of the register and memory
  writers: the decoded bytes and the advanced pointer.
\<close>

fun HexToBytes :: "bool \<Rightarrow> nat \<Rightarrow> u8 list \<Rightarrow> stop + (u8 list \<times> u8 list)" where
  "HexToBytes asserts 0 Input = Inr ([], Input)"
| "HexToBytes asserts (Suc n) Input =
     ebind (HexToByte asserts Input) (\<lambda>b.
       ebind (HexToBytes asserts n (drop 2 Input)) (\<lambda>(bs, Rest). Inr (b # bs, Rest)))"

text \<open>
  \<open>ConvertResponseToHex\<close> with its \<open>UINTN\<close> bound: \<open>Response\<close> is the text from the current
  index on, the result the characters stored into \<open>Output\<close> before the terminating zero.
\<close>

fun ConvertResponseToHex_loop :: "u8 list \<Rightarrow> nat \<Rightarrow> u64 \<Rightarrow> u8 list" where
  "ConvertResponseToHex_loop [] Index BufferLength = []"
| "ConvertResponseToHex_loop (Byte # Response) Index BufferLength =
     (if Byte \<noteq> 0 \<and> Index * 2 + 1 < unat (BufferLength - 1)
      then hex_byte Byte @ ConvertResponseToHex_loop Response (Suc Index) BufferLength
      else [])"

definition ConvertResponseToHex :: "u8 list \<Rightarrow> u64 \<Rightarrow> u8 list" where
  "ConvertResponseToHex Response BufferLength = ConvertResponseToHex_loop Response 0 BufferLength"

section \<open>Digits\<close>

lemma HexChars_eq: "HexChars = [48, 49, 50, 51, 52, 53, 54, 55, 56, 57, 97, 98, 99, 100, 101, 102]"
  by (simp add: HexChars_def str_def)

lemma length_hex_byte [simp]: "length (hex_byte b) = 2"
  by (simp add: hex_byte_def)

lemma length_hex_bytes [simp]: "length (hex_bytes bs) = 2 * length bs"
  by (induction bs) (simp_all add: hex_bytes_def)

lemma hex_bytes_Nil [simp]: "hex_bytes [] = []"
  and hex_bytes_Cons [simp]: "hex_bytes (b # bs) = hex_byte b @ hex_bytes bs"
  and hex_bytes_append [simp]: "hex_bytes (bs @ cs) = hex_bytes bs @ hex_bytes cs"
  by (simp_all add: hex_bytes_def)

lemma nibble_cases:
  fixes n :: nat
  assumes "n < 16"
  shows "n \<in> {0, 1, 2, 3, 4, 5, 6, 7, 8, 9, 10, 11, 12, 13, 14, 15}"
proof -
  have "n \<in> set [0..<16]" using assms by simp
  also have "set [0..<16] = {0, 1, 2, 3, 4, 5, 6, 7, 8, 9, 10, 11, 12, 13, 14, 15}"
    by code_simp
  finally show ?thesis .
qed

lemma HexChars_hex: "n < 16 \<Longrightarrow> is_hex (HexChars ! n)"
  by (drule nibble_cases) (auto simp: HexChars_eq is_hex_def)

lemma HexChars_digit: "n < 16 \<Longrightarrow> hex_digit (HexChars ! n) = n"
  by (drule nibble_cases) (auto simp: HexChars_eq hex_digit_def AsciiCharToUpper_def)

lemma AsciiCharToUpper_hex:
  "is_hex c \<Longrightarrow> \<not> c \<le> 57 \<Longrightarrow> 65 \<le> AsciiCharToUpper c \<and> AsciiCharToUpper c \<le> 70"
  unfolding is_hex_def AsciiCharToUpper_def by (auto simp: word_le_nat_alt unat_sub_if')

text \<open>On any hexadecimal digit, in either case, one round shifts in the value of the digit.\<close>

lemma HexToByte_digit_hex:
  assumes "is_hex c"
  shows "HexToByte_digit asserts r c = Inr (push_bit 4 r OR of_nat (hex_digit c))"
proof (cases "c \<le> 57")
  case True
  with assms have "48 \<le> c" by (auto simp: is_hex_def word_le_nat_alt)
  then show ?thesis using True
    by (simp add: HexToByte_digit_def hex_digit_def Let_def word_le_nat_alt)
next
  case False
  with AsciiCharToUpper_hex [OF assms] show ?thesis
    by (simp add: HexToByte_digit_def hex_digit_def Let_def word_le_nat_alt)
qed

lemma HexToByte_digit_HexChars:
  "n < 16 \<Longrightarrow> HexToByte_digit asserts r (HexChars ! n) = Inr (push_bit 4 r OR of_nat n)"
  by (simp add: HexToByte_digit_hex HexChars_hex HexChars_digit)

lemma low_nibble: "b AND 15 = take_bit 4 (b :: u8)"
  by (simp add: take_bit_eq_mask mask_eq_exp_minus_1)

lemma unat_high_nibble: "unat (drop_bit 4 (b :: u8)) = unat b div 16"
  by (simp add: drop_bit_eq_div unat_div)

lemma unat_low_nibble: "unat ((b :: u8) AND 15) = unat b mod 16"
  by (simp add: low_nibble take_bit_eq_mod unat_mod)

lemma high_nibble_less [simp]: "unat (drop_bit 4 (b :: u8)) < 16"
proof -
  have "unat b < 2 ^ LENGTH(8)" by (rule unsigned_less)
  then show ?thesis by (simp add: unat_high_nibble)
qed

lemma low_nibble_less [simp]: "unat ((b :: u8) AND 15) < 16"
  by (simp add: unat_low_nibble)

lemma nibbles_join: "push_bit 4 (drop_bit 4 b) OR (b AND 15) = (b :: u8)"
  unfolding low_nibble by (rule bit_word_eqI) (auto simp: bit_simps)

lemma hex_byte_hex: "\<forall>c \<in> set (hex_byte b). is_hex c"
  by (simp add: hex_byte_def HexChars_hex)

lemma hex_bytes_hex: "\<forall>c \<in> set (hex_bytes bs). is_hex c"
  by (induction bs) (auto simp: hex_byte_hex)

lemma zero_notin_hex_bytes [simp]: "0 \<notin> set (hex_bytes bs)"
  by (rule all_hex_nonzero [OF hex_bytes_hex])

lemma hash_notin_hex_bytes [simp]: "35 \<notin> set (hex_bytes bs)"
  using hex_bytes_hex [of bs] not_is_hex by blast

lemma hex_val_hex_byte: "hex_val (hex_byte b) = unat b"
  by (simp add: hex_byte_def hex_val_def HexChars_digit) (simp add: unat_high_nibble unat_low_nibble)

section \<open>Decoding what was encoded\<close>

lemma HexToByte_hex_byte [simp]: "HexToByte asserts (hex_byte b @ Rest) = Inr b"
  by (simp add: HexToByte_def hex_byte_def HexToByte_digit_HexChars nibbles_join)

lemma HexToBytes_hex_bytes [simp]:
  "HexToBytes asserts (length bs) (hex_bytes bs @ Rest) = Inr (bs, Rest)"
  by (induction bs) simp_all

lemma HexToBytes_length:
  "HexToBytes asserts n Input = Inr (bs, Rest) \<Longrightarrow> length bs = n \<and> Rest = drop (2 * n) Input"
proof (induction n arbitrary: Input bs)
  case 0
  then show ?case by simp
next
  case (Suc n)
  then obtain b bs' where "HexToBytes asserts n (drop 2 Input) = Inr (bs', Rest)" "bs = b # bs'"
    by auto
  then show ?case using Suc.IH [of "drop 2 Input" bs'] by (simp add: add.commute)
qed

text \<open>Two digits are read as the number they denote, as the library parser reads them.\<close>

lemma HexToByte_hex:
  assumes "is_hex a" and "is_hex b"
  shows "HexToByte asserts (a # b # Rest) = Inr (of_nat (hex_val [a, b]))"
proof -
  have digit: "hex_digit c < 16" if "is_hex c" for c
    using that by (auto simp: is_hex_def hex_digit_def AsciiCharToUpper_def word_le_nat_alt unat_sub_if')
  have bits: "of_nat n = (take_bit 4 (of_nat n) :: u8)" if "n < 16" for n
    using that by (simp add: take_bit_of_nat take_bit_nat_eq_self)
  have "push_bit 4 (of_nat (hex_digit a)) OR of_nat (hex_digit b)
      = (push_bit 4 (of_nat (hex_digit a)) + of_nat (hex_digit b) :: u8)"
    by (rule disjunctive_add [symmetric], subst bits [OF digit [OF assms(2)]]) (auto simp: bit_simps)
  then show ?thesis
    using assms by (simp add: HexToByte_def HexToByte_digit_hex hex_val_def push_bit_eq_mult)
qed

text \<open>Without assertions the decoder always returns when two characters are there.\<close>

lemma HexToByte_release: "2 \<le> length Chars \<Longrightarrow> \<exists>b. HexToByte False Chars = Inr b"
  by (simp add: HexToByte_def HexToByte_digit_def Let_def)

section \<open>The bounded encoder\<close>

lemma ConvertResponseToHex_loop_eq:
  assumes "BufferLength \<noteq> 0"
  shows "ConvertResponseToHex_loop Response Index BufferLength =
           hex_bytes (take ((unat BufferLength - 1) div 2 - Index) (cstr Response))"
proof (induction Response arbitrary: Index)
  case Nil
  then show ?case by (simp add: cstr_def)
next
  case (Cons b Response)
  have "unat (BufferLength - 1) = unat BufferLength - 1"
    using assms by (simp add: unat_minus_one)
  moreover have "Index * 2 + 1 < unat BufferLength - 1 \<longleftrightarrow> Index < (unat BufferLength - 1) div 2"
    by arith
  ultimately show ?case
    using Cons [of "Suc Index"] by (auto simp: cstr_def take_Cons' simp del: take_take)
qed

lemma ConvertResponseToHex_eq:
  "BufferLength \<noteq> 0 \<Longrightarrow> ConvertResponseToHex Response BufferLength =
     hex_bytes (take ((unat BufferLength - 1) div 2) (cstr Response))"
  by (simp add: ConvertResponseToHex_def ConvertResponseToHex_loop_eq)

end
