(* ===== verification/Breakpoint.thy ===== *)
theory Breakpoint
  imports DebugAgent
begin

text \<open>
  Breakpoint.c: the table of software breakpoints, its add and remove operations and
  \<open>DebuggerBreak\<close>. The table refines a map from addresses to saved bytes, and the memory
  with the saved bytes put back (\<open>unpatched\<close>) does not change when breakpoints come and go.
\<close>

section \<open>The table and its operations\<close>

record BREAKPOINT_INFO =
  bp_Active :: bool
  bp_Address :: u64
  bp_OriginalValue :: "u8 list"

definition MAX_BREAKPOINT_SIZE :: nat where "MAX_BREAKPOINT_SIZE = 4"
definition MAX_BREAKPOINTS :: nat where "MAX_BREAKPOINTS = 64"

text \<open>The zero initialised \<open>mBreakpoints\<close>.\<close>

definition mBreakpoints_init :: "BREAKPOINT_INFO list" where
  "mBreakpoints_init = replicate MAX_BREAKPOINTS
     \<lparr>bp_Active = False, bp_Address = 0, bp_OriginalValue = replicate MAX_BREAKPOINT_SIZE 0\<rparr>"

text \<open>
  The search loop of \<open>AddSoftwareBreakpoint\<close> from index \<open>i\<close> on: \<open>None\<close> when it returns at a
  duplicate, otherwise the final value of \<open>Entry\<close>.
\<close>

fun AddSoftwareBreakpoint_scan ::
  "BREAKPOINT_INFO list \<Rightarrow> u64 \<Rightarrow> nat \<Rightarrow> nat option \<Rightarrow> nat option option" where
  "AddSoftwareBreakpoint_scan [] Address i Entry = Some Entry"
| "AddSoftwareBreakpoint_scan (b # bs) Address i Entry =
     (if bp_Active b \<and> bp_Address b = Address then None
      else AddSoftwareBreakpoint_scan bs Address (Suc i)
             (if \<not> bp_Active b \<and> Entry = None then Some i else Entry))"

definition AddSoftwareBreakpoint ::
  "'w agent \<Rightarrow> u64 \<Rightarrow> BREAKPOINT_INFO list \<times> 'w \<Rightarrow> stop + (bool \<times> BREAKPOINT_INFO list \<times> 'w)" where
  "AddSoftwareBreakpoint ag Address = (\<lambda>(mBreakpoints, w).
     let Instr = ag_mArchBreakpointInstruction ag; Size = length Instr in
     ASSERT (ag_asserts ag) (Size \<le> MAX_BREAKPOINT_SIZE)
       (case AddSoftwareBreakpoint_scan mBreakpoints Address 0 None of
          None \<Rightarrow> Inr (True, mBreakpoints, w)
        | Some None \<Rightarrow> ASSERT (ag_asserts ag) False (Inr (False, mBreakpoints, w))
        | Some (Some i) \<Rightarrow>
            if MAX_BREAKPOINT_SIZE < Size then Inl OutOfBounds else
            (let (_, bs, w1) = ag_DbgReadMemory ag Address Size w;
                 Entry = mBreakpoints ! i;
                 Entry' = \<lparr>bp_Active = True, bp_Address = Address,
                           bp_OriginalValue = bs @ drop (length bs) (bp_OriginalValue Entry)\<rparr>;
                 (_, w2) = ag_DbgWriteMemory ag Address Instr w1;
                 w3 = ag_InvalidateInstructionCacheRange ag Address Size w2
             in Inr (True, mBreakpoints[i := Entry'], w3))))"

text \<open>The search loop of \<open>RemoveSoftwareBreakpoint\<close>: the first active entry with the address.\<close>

fun RemoveSoftwareBreakpoint_scan :: "BREAKPOINT_INFO list \<Rightarrow> u64 \<Rightarrow> nat option" where
  "RemoveSoftwareBreakpoint_scan [] Address = None"
| "RemoveSoftwareBreakpoint_scan (b # bs) Address =
     (if bp_Active b \<and> bp_Address b = Address then Some 0
      else map_option Suc (RemoveSoftwareBreakpoint_scan bs Address))"

definition RemoveSoftwareBreakpoint ::
  "'w agent \<Rightarrow> u64 \<Rightarrow> BREAKPOINT_INFO list \<times> 'w \<Rightarrow> bool \<times> BREAKPOINT_INFO list \<times> 'w" where
  "RemoveSoftwareBreakpoint ag Address = (\<lambda>(mBreakpoints, w).
     let Size = length (ag_mArchBreakpointInstruction ag) in
     case RemoveSoftwareBreakpoint_scan mBreakpoints Address of
       None \<Rightarrow> (False, mBreakpoints, w)
     | Some i \<Rightarrow>
         (let Entry = mBreakpoints ! i;
              (_, w1) = ag_DbgWriteMemory ag Address (take Size (bp_OriginalValue Entry)) w;
              w2 = ag_InvalidateInstructionCacheRange ag Address Size w1
          in (True, mBreakpoints[i := Entry\<lparr>bp_Active := False\<rparr>], w2)))"

section \<open>What the table means\<close>

text \<open>
  Well-formed tables: the array has its size, saved values their size, and no two active
  entries have the same address.
\<close>

definition bp_unique :: "BREAKPOINT_INFO list \<Rightarrow> bool" where
  "bp_unique t \<longleftrightarrow> (\<forall>i < length t. \<forall>j < length t.
     bp_Active (t ! i) \<and> bp_Active (t ! j) \<and> bp_Address (t ! i) = bp_Address (t ! j) \<longrightarrow> i = j)"

definition bp_table_ok :: "BREAKPOINT_INFO list \<Rightarrow> bool" where
  "bp_table_ok t \<longleftrightarrow> length t = MAX_BREAKPOINTS \<and>
     (\<forall>e \<in> set t. length (bp_OriginalValue e) = MAX_BREAKPOINT_SIZE) \<and>
     bp_unique t"

text \<open>The abstract view: which addresses carry a breakpoint, and what was there.\<close>

definition bp_map :: "BREAKPOINT_INFO list \<Rightarrow> u64 \<Rightarrow> u8 list option" where
  "bp_map t a = map_option bp_OriginalValue (find (\<lambda>e. bp_Active e \<and> bp_Address e = a) t)"

text \<open>What a client is promised of that map when it adds or removes an address.\<close>

definition inserted :: "(u64 \<Rightarrow> u8 list option) \<Rightarrow> u64 \<Rightarrow> bool \<Rightarrow> (u64 \<Rightarrow> u8 list option) \<Rightarrow> bool" where
  "inserted m a r m' \<longleftrightarrow> (r \<longleftrightarrow> a \<in> dom m \<or> card (dom m) < 64) \<and>
     (if r \<and> a \<notin> dom m then \<exists>v. m' = m(a \<mapsto> v) else m' = m)"

definition deleted :: "(u64 \<Rightarrow> u8 list option) \<Rightarrow> u64 \<Rightarrow> bool \<Rightarrow> (u64 \<Rightarrow> u8 list option) \<Rightarrow> bool" where
  "deleted m a r m' \<longleftrightarrow> (r \<longleftrightarrow> a \<in> dom m) \<and> m' = m(a := None)"

text \<open>The memory the program had without breakpoints of \<open>n\<close> bytes.\<close>

definition unpatched :: "nat \<Rightarrow> BREAKPOINT_INFO list \<Rightarrow> (u64 \<Rightarrow> u8) \<Rightarrow> (u64 \<Rightarrow> u8)" where
  "unpatched n t m x =
     (case find (\<lambda>e. bp_Active e \<and> in_range x (bp_Address e) n) t of
        None \<Rightarrow> m x | Some e \<Rightarrow> bp_OriginalValue e ! unat (x - bp_Address e))"

text \<open>No active breakpoint overlaps a range of \<open>n\<close> bytes at \<open>a\<close>.\<close>

definition bp_apart :: "nat \<Rightarrow> u64 \<Rightarrow> BREAKPOINT_INFO list \<Rightarrow> bool" where
  "bp_apart n a t \<longleftrightarrow> (\<forall>e \<in> set t. bp_Active e \<longrightarrow> disjoint_ranges a (bp_Address e) n)"

section \<open>The search loops\<close>

lemma AddSoftwareBreakpoint_scan_dup:
  "AddSoftwareBreakpoint_scan t a i E = None \<longleftrightarrow> bp_map t a \<noteq> None"
  by (induction t a i E rule: AddSoftwareBreakpoint_scan.induct) (auto simp: bp_map_def)

lemma AddSoftwareBreakpoint_scan_free:
  "AddSoftwareBreakpoint_scan t a i None = Some (Some j) \<Longrightarrow>
     \<exists>k. j = i + k \<and> k < length t \<and> \<not> bp_Active (t ! k) \<and> (\<forall>l < k. bp_Active (t ! l))"
proof (induction t arbitrary: i)
  case Nil
  then show ?case by simp
next
  case (Cons b t)
  have keep: "AddSoftwareBreakpoint_scan t a i' (Some k) = Some E \<Longrightarrow> E = Some k" for i' k E
    by (induction t arbitrary: i') (auto split: if_splits)
  show ?case
  proof (cases "bp_Active b")
    case True
    with Cons.prems have "AddSoftwareBreakpoint_scan t a (Suc i) None = Some (Some j)"
      by (auto split: if_splits)
    from Cons.IH [OF this] obtain k where
      "j = Suc i + k" "k < length t" "\<not> bp_Active (t ! k)" "\<forall>l < k. bp_Active (t ! l)" by blast
    with True show ?thesis
      by (intro exI [of _ "Suc k"]) (auto simp: less_Suc_eq_0_disj)
  next
    case False
    with Cons.prems keep have "j = i" by auto
    with False show ?thesis by (intro exI [of _ 0]) simp
  qed
qed

lemma AddSoftwareBreakpoint_scan_full:
  "AddSoftwareBreakpoint_scan t a i E = Some None \<Longrightarrow> \<forall>e \<in> set t. bp_Active e"
proof (induction t arbitrary: i E)
  case (Cons b t)
  have "AddSoftwareBreakpoint_scan t a i' (Some k) \<noteq> Some None" for i' k
    by (induction t arbitrary: i') auto
  with Cons show ?case by (auto split: if_splits)
qed simp

lemma RemoveSoftwareBreakpoint_scan_None:
  "RemoveSoftwareBreakpoint_scan t a = None \<longleftrightarrow> bp_map t a = None"
  by (induction t) (auto simp: bp_map_def)

lemma RemoveSoftwareBreakpoint_scan_Some:
  "RemoveSoftwareBreakpoint_scan t a = Some i \<Longrightarrow>
     i < length t \<and> bp_Active (t ! i) \<and> bp_Address (t ! i) = a \<and> bp_map t a = Some (bp_OriginalValue (t ! i))"
  by (induction t arbitrary: i) (auto simp: bp_map_def split: if_splits)

section \<open>Updates of one entry\<close>

lemma bp_uniqueD:
  "bp_unique t \<Longrightarrow> i < length t \<Longrightarrow> j < length t \<Longrightarrow> bp_Active (t ! i) \<Longrightarrow> bp_Active (t ! j) \<Longrightarrow>
     bp_Address (t ! i) = bp_Address (t ! j) \<Longrightarrow> i = j"
  by (simp add: bp_unique_def)

lemma bp_unique_update_active:
  assumes "bp_unique t" and "i < length t" and "bp_Address y \<notin> bp_Address ` {e \<in> set t. bp_Active e}"
  shows "bp_unique (t[i := y])"
  unfolding bp_unique_def
proof (intro allI impI)
  fix p q
  assume pq: "p < length (t[i := y])" "q < length (t[i := y])"
    "bp_Active (t[i := y] ! p) \<and> bp_Active (t[i := y] ! q) \<and>
     bp_Address (t[i := y] ! p) = bp_Address (t[i := y] ! q)"
  have other: "bp_Address (t ! k) \<noteq> bp_Address y" if "k < length t" "bp_Active (t ! k)" for k
    using that assms(3) by (metis (mono_tags, lifting) image_eqI mem_Collect_eq nth_mem)
  show "p = q"
    using pq other [of p] other [of q] bp_uniqueD [OF assms(1), of p q]
    by (cases "p = i"; cases "q = i") simp_all
qed

lemma bp_unique_update_inactive:
  "bp_unique t \<Longrightarrow> i < length t \<Longrightarrow> \<not> bp_Active y \<Longrightarrow> bp_unique (t[i := y])"
  unfolding bp_unique_def by (auto simp: nth_list_update)

lemma bp_map_None: "bp_map t a = None \<longleftrightarrow> a \<notin> bp_Address ` {e \<in> set t. bp_Active e}"
  by (auto simp: bp_map_def find_None_iff)

lemma bp_map_add:
  assumes "i < length t" and "\<not> bp_Active (t ! i)" and "bp_map t a = None"
    and "bp_Active y" and "bp_Address y = a"
  shows "bp_map (t[i := y]) = (bp_map t)(a \<mapsto> bp_OriginalValue y)"
proof
  fix b
  show "bp_map (t[i := y]) b = ((bp_map t)(a \<mapsto> bp_OriginalValue y)) b"
  proof (cases "b = a")
    case True
    with assms show ?thesis
      by (simp add: bp_map_def find_list_update_new find_None_iff)
  next
    case False
    with assms show ?thesis by (simp add: bp_map_def find_list_update_same)
  qed
qed

lemma find_list_update_only:
  "i < length xs \<Longrightarrow> \<forall>j < length xs. P (xs ! j) \<longrightarrow> j = i \<Longrightarrow> \<not> P y \<Longrightarrow> find P (xs[i := y]) = None"
  by (auto simp: find_None_iff in_set_conv_nth nth_list_update split: if_splits)

lemma bp_map_remove:
  assumes "bp_unique t"
    and "i < length t" "bp_Active (t ! i)" "bp_Address (t ! i) = a" and "\<not> bp_Active y"
  shows "bp_map (t[i := y]) = (bp_map t)(a := None)"
proof
  fix b
  show "bp_map (t[i := y]) b = ((bp_map t)(a := None)) b"
  proof (cases "b = a")
    case True
    have "find (\<lambda>e. bp_Active e \<and> bp_Address e = a) (t[i := y]) = None"
      using assms by (intro find_list_update_only) (auto simp: bp_unique_def)
    with True show ?thesis by (simp add: bp_map_def)
  next
    case False
    with assms show ?thesis by (simp add: bp_map_def find_list_update_same)
  qed
qed

text \<open>As many addresses carry a breakpoint as entries are active.\<close>

lemma card_dom_bp_map:
  assumes "bp_unique t"
  shows "card (dom (bp_map t)) = length (filter bp_Active t)"
proof -
  let ?I = "{i. i < length t \<and> bp_Active (t ! i)}"
  have "dom (bp_map t) = (\<lambda>i. bp_Address (t ! i)) ` ?I"
    using bp_map_None [of t] by (auto simp: dom_def in_set_conv_nth image_iff; blast)
  moreover have "inj_on (\<lambda>i. bp_Address (t ! i)) ?I"
    using assms by (auto intro!: inj_onI dest: bp_uniqueD)
  ultimately show ?thesis by (simp add: card_image length_filter_conv_card)
qed

lemma bp_map_full:
  "bp_table_ok t \<Longrightarrow> card (dom (bp_map t)) < MAX_BREAKPOINTS \<longleftrightarrow> (\<exists>e \<in> set t. \<not> bp_Active e)"
  using length_filter_less [of _ t bp_Active]
  by (auto simp: bp_table_ok_def card_dom_bp_map) (metis filter_True less_irrefl)

lemma bp_table_ok_init: "bp_table_ok mBreakpoints_init"
  by (simp add: bp_table_ok_def mBreakpoints_init_def bp_unique_def MAX_BREAKPOINT_SIZE_def)

lemma bp_map_init: "bp_map mBreakpoints_init = Map.empty"
  by (auto simp: mBreakpoints_init_def bp_map_None intro!: ext)

section \<open>The memory under the breakpoints\<close>

lemma unpatched_outside:
  "\<forall>e \<in> set t. bp_Active e \<longrightarrow> \<not> in_range x (bp_Address e) n \<Longrightarrow> unpatched n t m x = m x"
proof -
  assume "\<forall>e \<in> set t. bp_Active e \<longrightarrow> \<not> in_range x (bp_Address e) n"
  then have "find (\<lambda>e. bp_Active e \<and> in_range x (bp_Address e) n) t = None"
    by (simp add: find_None_iff)
  then show ?thesis by (simp add: unpatched_def)
qed

lemma unpatched_no_active: "\<forall>e \<in> set t. \<not> bp_Active e \<Longrightarrow> unpatched n t m = m"
  by (rule ext) (simp add: unpatched_outside)

text \<open>Filling a free entry with what memory holds, while patching memory there, changes nothing.\<close>

lemma unpatched_add:
  assumes i: "i < length t" "\<not> bp_Active (t ! i)" and apart: "bp_apart n a t"
    and y: "bp_Active y" "bp_Address y = a" "take n (bp_OriginalValue y) = read_bytes m a n"
    and "length (bp_OriginalValue y) \<ge> n" and "length Instr = n"
  shows "unpatched n (t[i := y]) (write_bytes m a Instr) = unpatched n t m"
proof
  fix x
  let ?P = "\<lambda>e. bp_Active e \<and> in_range x (bp_Address e) n"
  show "unpatched n (t[i := y]) (write_bytes m a Instr) x = unpatched n t m x"
  proof (cases "in_range x a n")
    case True
    have none: "\<forall>e \<in> set t. \<not> ?P e"
      using apart True by (auto simp: bp_apart_def dest: disjoint_rangesD)
    then have "find ?P (t[i := y]) = Some y"
      using i y True by (intro find_list_update_new) auto
    moreover have "bp_OriginalValue y ! unat (x - a) = m x"
      using y(3) True by (metis in_range_def nth_take read_bytes_in_range)
    ultimately show ?thesis using none y(2)
      by (simp add: unpatched_def find_None_iff [THEN iffD2])
  next
    case False
    then have "find ?P (t[i := y]) = find ?P t"
      using i y by (intro find_list_update_same) auto
    moreover have "write_bytes m a Instr x = m x"
      using False assms by (simp add: write_bytes_outside)
    ultimately show ?thesis by (simp add: unpatched_def split: option.split)
  qed
qed

text \<open>Deactivating an entry and writing its saved bytes back changes nothing either.\<close>

lemma unpatched_remove:
  assumes i: "i < length t" "bp_Active (t ! i)" "bp_Address (t ! i) = a" and y: "\<not> bp_Active y"
    and apart: "\<forall>j < length t. j \<noteq> i \<and> bp_Active (t ! j) \<longrightarrow> disjoint_ranges a (bp_Address (t ! j)) n"
    and len: "n \<le> length (bp_OriginalValue (t ! i))"
  shows "unpatched n (t[i := y]) (write_bytes m a (take n (bp_OriginalValue (t ! i)))) = unpatched n t m"
proof
  fix x
  let ?P = "\<lambda>e. bp_Active e \<and> in_range x (bp_Address e) n"
  let ?m = "write_bytes m a (take n (bp_OriginalValue (t ! i)))"
  show "unpatched n (t[i := y]) ?m x = unpatched n t m x"
  proof (cases "in_range x a n")
    case True
    have only: "\<forall>j < length t. ?P (t ! j) \<longrightarrow> j = i"
    proof (intro allI impI)
      fix j assume j: "j < length t" "?P (t ! j)"
      show "j = i"
      proof (rule ccontr)
        assume "j \<noteq> i"
        with apart j have "disjoint_ranges a (bp_Address (t ! j)) n" by blast
        from disjoint_rangesD [OF this True] j(2) show False by blast
      qed
    qed
    then have "find ?P (t[i := y]) = None"
      using i(1) y by (intro find_list_update_only) blast+
    moreover have "find ?P t = Some (t ! i)"
      unfolding find_Some_iff
    proof (intro exI [of _ i] conjI allI impI)
      show "\<not> ?P (t ! j)" if "j < i" for j
      proof -
        from that i(1) have "j < length t" by simp
        with only that show ?thesis by blast
      qed
    qed (use i True in simp_all)
    moreover have "?m x = bp_OriginalValue (t ! i) ! unat (x - a)"
      using True len by (simp add: write_bytes_inside) (simp add: in_range_def)
    ultimately show ?thesis using i by (simp add: unpatched_def)
  next
    case False
    then have "find ?P (t[i := y]) = find ?P t"
      using i y by (intro find_list_update_same) auto
    moreover have "?m x = m x"
      using False len by (intro write_bytes_outside) simp
    ultimately show ?thesis by (simp add: unpatched_def split: option.split)
  qed
qed

section \<open>The operations\<close>

text \<open>
  The contract of a build's routines that breakpoints rely on: memory accessors as in
  \<open>debug_memory\<close>, cache maintenance without an effect on memory, and an instruction that
  fits the saved value (the assertion of \<open>AddSoftwareBreakpoint\<close>).
\<close>

locale breakpoint_memory =
  debug_memory "ag_DbgReadMemory ag" "ag_DbgWriteMemory ag" mem
  for ag :: "'w agent" and mem :: "'w \<Rightarrow> u64 \<Rightarrow> u8" +
  assumes flush_mem: "mem (ag_InvalidateInstructionCacheRange ag a n w) = mem w"
    and instr_size: "length (ag_mArchBreakpointInstruction ag) \<le> MAX_BREAKPOINT_SIZE"
begin

lemma small_size: "length (ag_mArchBreakpointInstruction ag) \<le> 2 ^ 64"
  using instr_size by (simp add: MAX_BREAKPOINT_SIZE_def)

lemma no_overflow: "\<not> MAX_BREAKPOINT_SIZE < length (ag_mArchBreakpointInstruction ag)"
  using instr_size by simp

text \<open>The three outcomes of adding: already there, added in a free entry, no free entry.\<close>

lemma add_duplicate:
  "bp_map t a \<noteq> None \<Longrightarrow> AddSoftwareBreakpoint ag a (t, w) = Inr (True, t, w)"
  using AddSoftwareBreakpoint_scan_dup [of t a 0 None]
  by (simp add: AddSoftwareBreakpoint_def Let_def ASSERT_def instr_size)

lemma add_full:
  assumes "bp_map t a = None" and "\<forall>e \<in> set t. bp_Active e"
  shows "AddSoftwareBreakpoint ag a (t, w) =
           (if ag_asserts ag then Inl AssertFailed else Inr (False, t, w))"
proof -
  have "AddSoftwareBreakpoint_scan t a 0 None \<noteq> None"
    using assms(1) AddSoftwareBreakpoint_scan_dup [of t a 0 None] by simp
  moreover have "AddSoftwareBreakpoint_scan t a 0 None \<noteq> Some (Some j)" for j
    using AddSoftwareBreakpoint_scan_free [of t a 0 j] assms(2) by auto
  ultimately have "AddSoftwareBreakpoint_scan t a 0 None = Some None"
    by (metis option.exhaust)
  then show ?thesis
    by (simp add: AddSoftwareBreakpoint_def Let_def ASSERT_def instr_size)
qed

lemma add_new:
  assumes ok: "bp_table_ok t" and new: "bp_map t a = None" and free: "\<exists>e \<in> set t. \<not> bp_Active e"
    and rd: "ag_DbgReadMemory ag a (length (ag_mArchBreakpointInstruction ag)) w = (okr, bs, w1)"
    and wr: "ag_DbgWriteMemory ag a (ag_mArchBreakpointInstruction ag) w1 = (okw, w2)"
  obtains i y where "i < length t" "\<not> bp_Active (t ! i)"
    and "y = \<lparr>bp_Active = True, bp_Address = a,
              bp_OriginalValue = bs @ drop (length bs) (bp_OriginalValue (t ! i))\<rparr>"
    and "length (bp_OriginalValue y) = MAX_BREAKPOINT_SIZE"
    and "AddSoftwareBreakpoint ag a (t, w) = Inr (True, t[i := y],
           ag_InvalidateInstructionCacheRange ag a (length (ag_mArchBreakpointInstruction ag)) w2)"
proof -
  have "AddSoftwareBreakpoint_scan t a 0 None \<noteq> None"
    using new AddSoftwareBreakpoint_scan_dup [of t a 0 None] by simp
  moreover have "AddSoftwareBreakpoint_scan t a 0 None \<noteq> Some None"
    using free AddSoftwareBreakpoint_scan_full [of t a 0 None] by blast
  ultimately obtain i where scan: "AddSoftwareBreakpoint_scan t a 0 None = Some (Some i)" by auto
  from AddSoftwareBreakpoint_scan_free [OF this] have i: "i < length t" "\<not> bp_Active (t ! i)" by auto
  let ?y = "\<lparr>bp_Active = True, bp_Address = a,
              bp_OriginalValue = bs @ drop (length bs) (bp_OriginalValue (t ! i))\<rparr>"
  have "length (bp_OriginalValue (t ! i)) = MAX_BREAKPOINT_SIZE"
    using ok i by (simp add: bp_table_ok_def)
  then have "length (bp_OriginalValue ?y) = MAX_BREAKPOINT_SIZE"
    using rd_length [OF rd] instr_size by simp
  moreover have "AddSoftwareBreakpoint ag a (t, w) = Inr (True, t[i := ?y],
      ag_InvalidateInstructionCacheRange ag a (length (ag_mArchBreakpointInstruction ag)) w2)"
    using scan rd wr by (simp add: AddSoftwareBreakpoint_def Let_def ASSERT_def instr_size no_overflow)
  ultimately show ?thesis using i that [of i ?y] by simp
qed

text \<open>Refinement of adding to the update of a map, for every outcome of the memory accesses.\<close>

lemma add_refines:
  assumes ok: "bp_table_ok t" and add: "AddSoftwareBreakpoint ag a (t, w) = Inr (r, t', w')"
  shows "bp_table_ok t'"
    and "r \<longleftrightarrow> bp_map t a \<noteq> None \<or> card (dom (bp_map t)) < MAX_BREAKPOINTS"
    and "bp_map t a \<noteq> None \<or> \<not> r \<Longrightarrow> t' = t \<and> w' = w"
    and "bp_map t a = None \<Longrightarrow> r \<Longrightarrow> \<exists>v. bp_map t' = (bp_map t)(a \<mapsto> v)"
proof -
  let ?n = "length (ag_mArchBreakpointInstruction ag)"
  obtain okr bs w1 where rd: "ag_DbgReadMemory ag a ?n w = (okr, bs, w1)" by (metis prod_cases3)
  obtain okw w2 where wr: "ag_DbgWriteMemory ag a (ag_mArchBreakpointInstruction ag) w1 = (okw, w2)"
    by fastforce
  consider (dup) "bp_map t a \<noteq> None"
    | (full) "bp_map t a = None" "\<forall>e \<in> set t. bp_Active e"
    | (new) "bp_map t a = None" "\<exists>e \<in> set t. \<not> bp_Active e" by blast
  then have "bp_table_ok t' \<and> (r \<longleftrightarrow> bp_map t a \<noteq> None \<or> card (dom (bp_map t)) < MAX_BREAKPOINTS) \<and>
      (bp_map t a \<noteq> None \<or> \<not> r \<longrightarrow> t' = t \<and> w' = w) \<and>
      (bp_map t a = None \<and> r \<longrightarrow> (\<exists>v. bp_map t' = (bp_map t)(a \<mapsto> v)))"
  proof cases
    case dup
    with add_duplicate [OF dup, of w] ok add show ?thesis by auto
  next
    case full
    with add_full [OF full, of w] ok add show ?thesis
      by (auto simp: bp_map_full split: if_splits)
  next
    case new
    from add_new [OF ok new rd wr] obtain i y where iy: "i < length t" "\<not> bp_Active (t ! i)"
      "bp_Active y" "bp_Address y = a" "length (bp_OriginalValue y) = MAX_BREAKPOINT_SIZE"
      and res: "r" "t' = t[i := y]"
      using add by (metis (no_types, lifting) BREAKPOINT_INFO.select_convs(1,2) Inr_inject prod.inject)
    have "bp_table_ok t'"
      using ok iy new bp_map_None [of t a]
      by (auto simp: res bp_table_ok_def intro!: bp_unique_update_active dest!: set_update_subset_insert [THEN subsetD])
    with ok new iy res show ?thesis by (auto simp: bp_map_add bp_map_full)
  qed
  then show "bp_table_ok t'"
    and "r \<longleftrightarrow> bp_map t a \<noteq> None \<or> card (dom (bp_map t)) < MAX_BREAKPOINTS"
    and "bp_map t a \<noteq> None \<or> \<not> r \<Longrightarrow> t' = t \<and> w' = w"
    and "bp_map t a = None \<Longrightarrow> r \<Longrightarrow> \<exists>v. bp_map t' = (bp_map t)(a \<mapsto> v)" by blast+
qed

lemma remove_cases:
  assumes ok: "bp_table_ok t" and some: "bp_map t a \<noteq> None"
  obtains i w1 okw where "i < length t" "bp_Active (t ! i)" "bp_Address (t ! i) = a"
    and "ag_DbgWriteMemory ag a
           (take (length (ag_mArchBreakpointInstruction ag)) (bp_OriginalValue (t ! i))) w = (okw, w1)"
    and "RemoveSoftwareBreakpoint ag a (t, w) = (True, t[i := (t ! i)\<lparr>bp_Active := False\<rparr>],
           ag_InvalidateInstructionCacheRange ag a (length (ag_mArchBreakpointInstruction ag)) w1)"
proof -
  obtain i where scan: "RemoveSoftwareBreakpoint_scan t a = Some i"
    using some RemoveSoftwareBreakpoint_scan_None [of t a] by auto
  obtain okw w1 where wr: "ag_DbgWriteMemory ag a
      (take (length (ag_mArchBreakpointInstruction ag)) (bp_OriginalValue (t ! i))) w = (okw, w1)"
    by fastforce
  from RemoveSoftwareBreakpoint_scan_Some [OF scan] wr scan show ?thesis
    by (intro that [of i okw w1]) (auto simp: RemoveSoftwareBreakpoint_def Let_def)
qed

lemma remove_refines:
  assumes ok: "bp_table_ok t" and rm: "RemoveSoftwareBreakpoint ag a (t, w) = (r, t', w')"
  shows "bp_table_ok t'" and "r \<longleftrightarrow> bp_map t a \<noteq> None"
    and "bp_map t' = (bp_map t)(a := None)" and "\<not> r \<Longrightarrow> t' = t \<and> w' = w"
proof -
  have "bp_table_ok t' \<and> (r \<longleftrightarrow> bp_map t a \<noteq> None) \<and> bp_map t' = (bp_map t)(a := None) \<and>
      (\<not> r \<longrightarrow> t' = t \<and> w' = w)"
  proof (cases "bp_map t a = None")
    case True
    then have "RemoveSoftwareBreakpoint_scan t a = None"
      by (simp add: RemoveSoftwareBreakpoint_scan_None)
    with rm True ok show ?thesis by (auto simp: RemoveSoftwareBreakpoint_def)
  next
    case False
    from remove_cases [OF ok False, of w] rm obtain i where
      i: "i < length t" "bp_Active (t ! i)" "bp_Address (t ! i) = a"
      and res: "r" "t' = t[i := (t ! i)\<lparr>bp_Active := False\<rparr>]" by (metis prod.inject)
    have "bp_table_ok t'"
      using ok i by (auto simp: res bp_table_ok_def intro!: bp_unique_update_inactive
          dest!: set_update_subset_insert [THEN subsetD])
    with ok i res False show ?thesis by (simp add: bp_map_remove bp_table_ok_def)
  qed
  then show "bp_table_ok t'" and "r \<longleftrightarrow> bp_map t a \<noteq> None"
    and "bp_map t' = (bp_map t)(a := None)" and "\<not> r \<Longrightarrow> t' = t \<and> w' = w" by blast+
qed

lemma add_inserts:
  assumes "bp_table_ok t" and "AddSoftwareBreakpoint ag a (t, w) = Inr (r, t', w')"
  shows "inserted (bp_map t) a r (bp_map t') \<and> (r \<and> a \<notin> dom (bp_map t) \<or> t' = t \<and> w' = w)"
  using add_refines [OF assms] by (auto simp: inserted_def domIff MAX_BREAKPOINTS_def)

lemma remove_deletes:
  assumes "bp_table_ok t" and "RemoveSoftwareBreakpoint ag a (t, w) = (r, t', w')"
  shows "deleted (bp_map t) a r (bp_map t') \<and> (r \<or> t' = t \<and> w' = w)"
  using remove_refines [OF assms] by (auto simp: deleted_def domIff)

end

section \<open>Runs of breakpoint operations\<close>

text \<open>
  Accesses that succeed: \<open>AddSoftwareBreakpoint\<close> ignores the results of its read and write,
  and \<open>RemoveSoftwareBreakpoint\<close> that of its write, so the facts about memory need them.
\<close>

definition bp_accessible :: "'w agent \<Rightarrow> u64 \<Rightarrow> 'w \<Rightarrow> bool" where
  "bp_accessible ag a w =
     (let Instr = ag_mArchBreakpointInstruction ag;
          (okr, bs, w1) = ag_DbgReadMemory ag a (length Instr) w;
          (okw, w2) = ag_DbgWriteMemory ag a Instr w1
      in okr \<and> okw)"

definition bp_restorable :: "'w agent \<Rightarrow> u64 \<Rightarrow> BREAKPOINT_INFO list \<Rightarrow> 'w \<Rightarrow> bool" where
  "bp_restorable ag a t w =
     (case bp_map t a of None \<Rightarrow> True
      | Some v \<Rightarrow> fst (ag_DbgWriteMemory ag a (take (length (ag_mArchBreakpointInstruction ag)) v) w))"

text \<open>Active breakpoints do not overlap each other.\<close>

definition bp_separate :: "nat \<Rightarrow> BREAKPOINT_INFO list \<Rightarrow> bool" where
  "bp_separate n t \<longleftrightarrow> (\<forall>i < length t. \<forall>j < length t. i \<noteq> j \<and> bp_Active (t ! i) \<and> bp_Active (t ! j) \<longrightarrow>
     disjoint_ranges (bp_Address (t ! i)) (bp_Address (t ! j)) n)"

text \<open>One debugger request on the table, the addresses not overlapping and the accesses succeeding.\<close>

inductive bp_step ::
  "'w agent \<Rightarrow> BREAKPOINT_INFO list \<times> 'w \<Rightarrow> BREAKPOINT_INFO list \<times> 'w \<Rightarrow> bool" for ag where
  bp_add: "AddSoftwareBreakpoint ag a (t, w) = Inr (r, t', w') \<Longrightarrow>
     bp_map t a = None \<Longrightarrow> bp_apart (length (ag_mArchBreakpointInstruction ag)) a t \<Longrightarrow>
     bp_accessible ag a w \<Longrightarrow> bp_step ag (t, w) (t', w')"
| bp_again: "AddSoftwareBreakpoint ag a (t, w) = Inr (r, t', w') \<Longrightarrow>
     bp_map t a \<noteq> None \<Longrightarrow> bp_step ag (t, w) (t', w')"
| bp_remove: "RemoveSoftwareBreakpoint ag a (t, w) = (r, t', w') \<Longrightarrow>
     bp_restorable ag a t w \<Longrightarrow> bp_step ag (t, w) (t', w')"

inductive_cases bp_stepE: "bp_step ag s s'"

lemma bp_separate_update_active:
  assumes "bp_separate n t" and "bp_apart n (bp_Address y) t" and "i < length t"
  shows "bp_separate n (t[i := y])"
proof -
  have "disjoint_ranges (bp_Address y) (bp_Address (t ! k)) n"
    if "k < length t" "bp_Active (t ! k)" for k
    using assms(2) that by (simp add: bp_apart_def)
  with assms(1,3) show ?thesis
    by (auto simp: bp_separate_def nth_list_update disjoint_ranges_sym)
qed

lemma bp_separate_update_inactive:
  "bp_separate n t \<Longrightarrow> i < length t \<Longrightarrow> \<not> bp_Active y \<Longrightarrow> bp_separate n (t[i := y])"
  by (auto simp: bp_separate_def nth_list_update)

context breakpoint_memory
begin

lemma add_unpatched:
  assumes ok: "bp_table_ok t" and add: "AddSoftwareBreakpoint ag a (t, w) = Inr (r, t', w')"
    and new: "bp_map t a = None" and apart: "bp_apart (length (ag_mArchBreakpointInstruction ag)) a t"
    and acc: "bp_accessible ag a w" and sep: "bp_separate (length (ag_mArchBreakpointInstruction ag)) t"
  shows "unpatched (length (ag_mArchBreakpointInstruction ag)) t' (mem w') =
           unpatched (length (ag_mArchBreakpointInstruction ag)) t (mem w)"
    and "bp_separate (length (ag_mArchBreakpointInstruction ag)) t'"
proof -
  let ?I = "ag_mArchBreakpointInstruction ag"
  let ?n = "length ?I"
  obtain bs w1 where rd: "ag_DbgReadMemory ag a ?n w = (True, bs, w1)"
    using acc by (cases "ag_DbgReadMemory ag a ?n w") (auto simp: bp_accessible_def Let_def)
  obtain w2 where wr: "ag_DbgWriteMemory ag a ?I w1 = (True, w2)"
    using acc rd by (cases "ag_DbgWriteMemory ag a ?I w1") (auto simp: bp_accessible_def Let_def)
  have bs: "bs = read_bytes (mem w) a ?n" using rd_success [OF rd] .
  have m2: "mem w2 = write_bytes (mem w) a ?I"
    using wr_success [OF wr small_size] rd_frame [OF rd] by simp
  have "unpatched ?n t' (mem w') = unpatched ?n t (mem w) \<and> bp_separate ?n t'"
  proof (cases "\<exists>e \<in> set t. \<not> bp_Active e")
    case False
    with add_refines(3) [OF ok add] add_refines(2) [OF ok add] bp_map_full [OF ok] new sep
    show ?thesis by auto
  next
    case True
    obtain i y where i: "i < length t" "\<not> bp_Active (t ! i)"
      and y: "y = \<lparr>bp_Active = True, bp_Address = a,
              bp_OriginalValue = bs @ drop (length bs) (bp_OriginalValue (t ! i))\<rparr>"
      and len: "length (bp_OriginalValue y) = MAX_BREAKPOINT_SIZE"
      and res: "AddSoftwareBreakpoint ag a (t, w) = Inr (True, t[i := y],
           ag_InvalidateInstructionCacheRange ag a ?n w2)"
      using add_new [OF ok new True rd wr] by metis
    have "t' = t[i := y]" and w': "mem w' = write_bytes (mem w) a ?I"
      using add res m2 flush_mem by auto
    moreover have "unpatched ?n (t[i := y]) (write_bytes (mem w) a ?I) = unpatched ?n t (mem w)"
      using i apart instr_size len by (intro unpatched_add) (simp_all add: y bs)
    moreover have "bp_separate ?n (t[i := y])"
      using i apart sep by (intro bp_separate_update_active) (simp_all add: y)
    ultimately show ?thesis by simp
  qed
  then show "unpatched ?n t' (mem w') = unpatched ?n t (mem w)" and "bp_separate ?n t'" by blast+
qed

lemma remove_unpatched:
  assumes ok: "bp_table_ok t" and rm: "RemoveSoftwareBreakpoint ag a (t, w) = (r, t', w')"
    and res: "bp_restorable ag a t w" and sep: "bp_separate (length (ag_mArchBreakpointInstruction ag)) t"
  shows "unpatched (length (ag_mArchBreakpointInstruction ag)) t' (mem w') =
           unpatched (length (ag_mArchBreakpointInstruction ag)) t (mem w)"
    and "bp_separate (length (ag_mArchBreakpointInstruction ag)) t'"
proof -
  let ?n = "length (ag_mArchBreakpointInstruction ag)"
  have "unpatched ?n t' (mem w') = unpatched ?n t (mem w) \<and> bp_separate ?n t'"
  proof (cases "bp_map t a = None")
    case True
    with remove_refines [OF ok rm] sep show ?thesis by simp
  next
    case False
    obtain i w1 okw where i: "i < length t" "bp_Active (t ! i)" "bp_Address (t ! i) = a"
      and wr: "ag_DbgWriteMemory ag a (take ?n (bp_OriginalValue (t ! i))) w = (okw, w1)"
      and eq: "RemoveSoftwareBreakpoint ag a (t, w) = (True, t[i := (t ! i)\<lparr>bp_Active := False\<rparr>],
           ag_InvalidateInstructionCacheRange ag a ?n w1)"
      using remove_cases [OF ok False] by metis
    have len: "?n \<le> length (bp_OriginalValue (t ! i))"
      using ok i instr_size by (simp add: bp_table_ok_def)
    have "find (\<lambda>e. bp_Active e \<and> bp_Address e = a) t = Some (t ! i)"
      unfolding find_Some_iff
    proof (intro exI [of _ i] conjI allI impI)
      show "\<not> (bp_Active (t ! j) \<and> bp_Address (t ! j) = a)" if "j < i" for j
        using bp_uniqueD [of t i j] ok i that by (auto simp: bp_table_ok_def)
    qed (use i in simp_all)
    then have "okw" using res wr by (simp add: bp_restorable_def bp_map_def)
    with wr have "mem w1 = write_bytes (mem w) a (take ?n (bp_OriginalValue (t ! i)))"
      using small_size by (intro wr_success) simp_all
    moreover have "unpatched ?n (t[i := (t ! i)\<lparr>bp_Active := False\<rparr>])
        (write_bytes (mem w) a (take ?n (bp_OriginalValue (t ! i)))) = unpatched ?n t (mem w)"
      using i sep len by (intro unpatched_remove) (auto simp: bp_separate_def)
    moreover have "bp_separate ?n (t[i := (t ! i)\<lparr>bp_Active := False\<rparr>])"
      using sep i by (intro bp_separate_update_inactive) simp_all
    ultimately show ?thesis using rm eq flush_mem by auto
  qed
  then show "unpatched ?n t' (mem w') = unpatched ?n t (mem w)" and "bp_separate ?n t'" by blast+
qed

lemma step_unpatched:
  assumes "bp_step ag (t, w) (t', w')" and "bp_table_ok t"
    and "bp_separate (length (ag_mArchBreakpointInstruction ag)) t"
  shows "bp_table_ok t' \<and> bp_separate (length (ag_mArchBreakpointInstruction ag)) t' \<and>
    unpatched (length (ag_mArchBreakpointInstruction ag)) t' (mem w') =
      unpatched (length (ag_mArchBreakpointInstruction ag)) t (mem w)"
  using assms
  by (elim bp_stepE) (auto simp: add_duplicate
      dest: add_unpatched remove_unpatched add_refines(1) remove_refines(1))

lemma steps_unpatched:
  assumes "(bp_step ag)\<^sup>*\<^sup>* (t, w) (t', w')" and "bp_table_ok t"
    and "bp_separate (length (ag_mArchBreakpointInstruction ag)) t"
  shows "bp_table_ok t' \<and> bp_separate (length (ag_mArchBreakpointInstruction ag)) t' \<and>
    unpatched (length (ag_mArchBreakpointInstruction ag)) t' (mem w') =
      unpatched (length (ag_mArchBreakpointInstruction ag)) t (mem w)"
  using assms(1)
proof (induction rule: rtranclp_induct2)
  case refl
  show ?case using assms by simp
next
  case (step t1 w1 t2 w2)
  with step_unpatched [of t1 w1 t2 w2] show ?case by simp
qed

end

end
