(* ===== verification/GdbPacket.thy ===== *)
theory GdbPacket
  imports HexCodec Breakpoint
begin

text \<open>
  The state of GdbStub.c and its packet layer: the statics and globals of the stub, the
  transport, reading a byte with a timeout, acknowledgements, framed responses with their
  checksum, and errors. The transport is an explicit script: \<open>rx\<close> lists what successive
  polls find, \<open>tx\<close> is everything written, \<open>clock\<close> the values the hardware counter shows at
  successive readings. So every interleaving of arriving bytes, silence and time is an
  initial state.
\<close>

section \<open>Constants and state\<close>

definition MAX_REQUEST_SIZE :: nat where "MAX_REQUEST_SIZE = 2048"
definition MAX_RESPONSE_SIZE :: nat where "MAX_RESPONSE_SIZE = 0x1000"
definition SCRATCH_SIZE :: nat where "SCRATCH_SIZE = 1024"

text \<open>The bytes of the array \<open>mResponseFull\<close>.\<close>

definition RESPONSE_FULL_SIZE :: nat where "RESPONSE_FULL_SIZE = 1 + MAX_RESPONSE_SIZE + 3 + 2"

definition GDB_ERROR_UNSUPPORTED :: u8 where "GDB_ERROR_UNSUPPORTED = 0x01"
definition GDB_ERROR_INTERNAL :: u8 where "GDB_ERROR_INTERNAL = 0x02"
definition GDB_ERROR_UNKOWN_CMD :: u8 where "GDB_ERROR_UNKOWN_CMD = 0x03"
definition GDB_ERROR_BAD_REQUEST :: u8 where "GDB_ERROR_BAD_REQUEST = 0x04"
definition GDB_ERROR_BAD_REG_INDEX :: u8 where "GDB_ERROR_BAD_REG_INDEX = 0x05"
definition GDB_ERROR_BAD_MEM_ADDRESS :: u8 where "GDB_ERROR_BAD_MEM_ADDRESS = 0x06"
definition GDB_ERROR_RESPONSE_TOO_LONG :: u8 where "GDB_ERROR_RESPONSE_TOO_LONG = 0x07"

lemmas size_defs = MAX_REQUEST_SIZE_def MAX_RESPONSE_SIZE_def SCRATCH_SIZE_def RESPONSE_FULL_SIZE_def

text \<open>
  \<open>mResponseFull\<close> holds the last framed response; the static \<open>ResponseLength\<close> is its length.
  In \<open>rx\<close>, \<open>None\<close> is a poll that finds nothing and \<open>Some b\<close> a pending byte, which stays
  pending until it is read; after the script nothing arrives. \<open>world\<close> is the state behind
  the routines of the \<open>agent\<close>.
\<close>

record 'w gdb =
  gSystemContext :: ctx
  gExceptionInfo :: EXCEPTION_INFO
  gRunning :: bool
  mRebootOnContinue :: bool
  mResponseFull :: "u8 list"
  mResponseAcknowledged :: bool
  mNextBreakpointTimeout :: u64
  mConnectionOccurred :: bool
  mBreakpoints :: "BREAKPOINT_INFO list"
  DebuggerBreakpointReason :: BREAKPOINT_REASON
  log_suspended :: bool
  rx :: "u8 option list"
  tx :: "u8 list"
  clock :: "nat \<Rightarrow> u64"
  clock_reads :: nat
  world :: 'w

section \<open>The transport and the clock\<close>

fun DebugTransportPoll :: "'w gdb \<Rightarrow> bool \<times> 'w gdb" where
  "DebugTransportPoll s =
     (case rx s of
        [] \<Rightarrow> (False, s)
      | None # r \<Rightarrow> (False, s\<lparr>rx := r\<rparr>)
      | Some b # r \<Rightarrow> (True, s))"

text \<open>Reading one byte; a read with nothing pending leaves the caller's byte as it was.\<close>

fun DebugTransportRead :: "u8 \<Rightarrow> 'w gdb \<Rightarrow> u8 \<times> 'w gdb" where
  "DebugTransportRead old s =
     (case rx s of Some b # r \<Rightarrow> (b, s\<lparr>rx := r\<rparr>) | _ \<Rightarrow> (old, s))"

definition DebugTransportWrite :: "u8 list \<Rightarrow> 'w gdb \<Rightarrow> 'w gdb" where
  "DebugTransportWrite bs s = s\<lparr>tx := tx s @ bs\<rparr>"

definition GetTimeMs :: "'w agent \<Rightarrow> 'w gdb \<Rightarrow> stop + (u64 \<times> 'w gdb)" where
  "GetTimeMs ag s =
     ebind (ag_DebugGetTimeMs ag (clock s (clock_reads s)) (world s))
       (\<lambda>t. Inr (t, s\<lparr>clock_reads := Suc (clock_reads s)\<rparr>))"

text \<open>
  The polling loop of \<open>DebugReadByte\<close>: \<open>None\<close> means that it never returns (a clock that
  never passes \<open>EndTime\<close>), \<open>Inr (None, s)\<close> is the result FALSE.
\<close>

partial_function (option) DebugReadByte_loop ::
  "'w agent \<Rightarrow> u64 \<Rightarrow> 'w gdb \<Rightarrow> (stop + (u8 option \<times> 'w gdb)) option" where
  "DebugReadByte_loop ag EndTime s =
     (case DebugTransportPoll s of (pending, s1) \<Rightarrow>
        if pending then (case DebugTransportRead 0 s1 of (b, s2) \<Rightarrow> Some (Inr (Some b, s2)))
        else (case GetTimeMs ag s1 of
                Inl e \<Rightarrow> Some (Inl e)
              | Inr (t, s2) \<Rightarrow>
                  if t < EndTime then DebugReadByte_loop ag EndTime s2 else Some (Inr (None, s2))))"

definition DebugReadByte ::
  "'w agent \<Rightarrow> u32 \<Rightarrow> 'w gdb \<Rightarrow> (stop + (u8 option \<times> 'w gdb)) option" where
  "DebugReadByte ag Timeout s =
     (case GetTimeMs ag s of
        Inl e \<Rightarrow> Some (Inl e)
      | Inr (t, s1) \<Rightarrow> DebugReadByte_loop ag (t + ucast Timeout) s1)"

section \<open>Responses\<close>

definition SendGdbAck :: "bool \<Rightarrow> 'w gdb \<Rightarrow> 'w gdb" where
  "SendGdbAck Positive s =
     (if Positive then DebugTransportWrite (str ''+'') s else DebugTransportWrite (str ''-'') s)"

text \<open>The bytes of a packet around a body.\<close>

definition frame :: "u8 list \<Rightarrow> u8 list" where
  "frame body = 36 # body @ 35 # hex_byte (CalculateSum8 body (length body))"

text \<open>\<open>None\<close> is the NULL response, a resend of the last packet.\<close>

definition SendGdbResponse :: "'w agent \<Rightarrow> u8 list option \<Rightarrow> 'w gdb \<Rightarrow> stop + 'w gdb" where
  "SendGdbResponse ag Resp s =
     (case Resp of
        None \<Rightarrow>
          ASSERT (ag_asserts ag) (\<not> mResponseAcknowledged s)
            (ASSERT (ag_asserts ag) (4 \<le> length (mResponseFull s))
              (Inr (DebugTransportWrite (mResponseFull s) (s\<lparr>mResponseAcknowledged := False\<rparr>))))
      | Some Response \<Rightarrow>
          (let ResponseLength = AsciiStrLen Response in
           ASSERT (ag_asserts ag) (ResponseLength \<le> MAX_RESPONSE_SIZE)
             (if RESPONSE_FULL_SIZE \<le> ResponseLength + 4 then Inl OutOfBounds
              else
                (let full = frame (take ResponseLength Response) in
                 Inr (DebugTransportWrite full
                   (s\<lparr>mResponseFull := full, mResponseAcknowledged := False\<rparr>))))))"

definition SendGdbError :: "'w agent \<Rightarrow> u8 \<Rightarrow> 'w gdb \<Rightarrow> stop + 'w gdb" where
  "SendGdbError ag ErrorCode s =
     SendGdbResponse ag
       (Some [69, HexChars ! unat (drop_bit 4 ErrorCode), HexChars ! unat (ErrorCode AND 15), 0]) s"

text \<open>The switch of \<open>SendStopReply\<close> has only its default.\<close>

definition SendStopReply :: "'w agent \<Rightarrow> 'w gdb \<Rightarrow> stop + 'w gdb" where
  "SendStopReply ag s =
     (case ExceptionType (gExceptionInfo s) of _ \<Rightarrow> SendGdbResponse ag (Some (str ''T05thread:01;'')) s)"

section \<open>Facts\<close>

text \<open>The state after a response with the given text was sent.\<close>

definition responded :: "u8 list \<Rightarrow> 'w gdb \<Rightarrow> 'w gdb" where
  "responded body s =
     s\<lparr>mResponseFull := frame body, mResponseAcknowledged := False, tx := tx s @ frame body\<rparr>"

lemma SendGdbResponse_eq:
  assumes "AsciiStrLen Response \<le> MAX_RESPONSE_SIZE"
  shows "SendGdbResponse ag (Some Response) s = Inr (responded (cstr Response) s)"
  using assms
  by (simp add: SendGdbResponse_def Let_def ASSERT_def size_defs responded_def DebugTransportWrite_def)

text \<open>With assertions a longer response stops; without them one more byte still fits the array.\<close>

lemma SendGdbResponse_too_long:
  assumes "MAX_RESPONSE_SIZE < AsciiStrLen Response"
  shows "SendGdbResponse ag (Some Response) s =
    (if ag_asserts ag then Inl AssertFailed
     else if AsciiStrLen Response = MAX_RESPONSE_SIZE + 1 then Inr (responded (cstr Response) s)
     else Inl OutOfBounds)"
proof -
  have "take 4097 Response = cstr Response" if "AsciiStrLen Response = 4097"
    by (metis take_AsciiStrLen that)
  then show ?thesis using assms
    by (auto simp: SendGdbResponse_def Let_def ASSERT_def size_defs responded_def DebugTransportWrite_def)
qed

definition error_text :: "u8 \<Rightarrow> u8 list" where
  "error_text e = 69 # hex_byte e"

lemma SendGdbError_eq: "SendGdbError ag e s = Inr (responded (error_text e) s)"
proof -
  let ?R = "[69, HexChars ! unat (drop_bit 4 e), HexChars ! unat (e AND 15), 0]"
  have "0 \<notin> set (69 # hex_byte e)"
    using all_hex_nonzero [OF hex_byte_hex [of e]] by simp
  moreover have "?R = (69 # hex_byte e) @ 0 # []" by (simp add: hex_byte_def)
  ultimately have "cstr ?R = error_text e" "AsciiStrLen ?R = 3"
    unfolding error_text_def by (metis cstr_append_zero, metis AsciiStrLen_append_zero length_Cons length_hex_byte numeral_2_eq_2 numeral_3_eq_3)
  then show ?thesis
    by (simp add: SendGdbError_def SendGdbResponse_eq size_defs)
qed

lemma SendStopReply_eq: "SendStopReply ag s = Inr (responded (str ''T05thread:01;'') s)"
proof -
  have "0 \<notin> set (str ''T05thread:01;'')" by (simp add: str_def)
  moreover have "length (str ''T05thread:01;'') = 13" by (simp add: str_def)
  ultimately show ?thesis
    by (simp add: SendStopReply_def SendGdbResponse_eq size_defs split: EXCEPTION_TYPE.split)
qed

lemma length_frame [simp]: "length (frame body) = length body + 4"
  by (simp add: frame_def)

lemma responded_simps [simp]:
  "gSystemContext (responded b s) = gSystemContext s" "gRunning (responded b s) = gRunning s"
  "mRebootOnContinue (responded b s) = mRebootOnContinue s"
  "mBreakpoints (responded b s) = mBreakpoints s" "world (responded b s) = world s"
  "rx (responded b s) = rx s" "tx (responded b s) = tx s @ frame b"
  "mResponseFull (responded b s) = frame b" "\<not> mResponseAcknowledged (responded b s)"
  "clock (responded b s) = clock s" "clock_reads (responded b s) = clock_reads s"
  "mConnectionOccurred (responded b s) = mConnectionOccurred s"
  "gExceptionInfo (responded b s) = gExceptionInfo s"
  "mNextBreakpointTimeout (responded b s) = mNextBreakpointTimeout s"
  "log_suspended (responded b s) = log_suspended s"
  "DebuggerBreakpointReason (responded b s) = DebuggerBreakpointReason s"
  by (simp_all add: responded_def)

text \<open>A resend repeats the last packet.\<close>

lemma SendGdbResponse_resend:
  assumes "\<not> mResponseAcknowledged s" and "4 \<le> length (mResponseFull s)"
  shows "SendGdbResponse ag None s = Inr (s\<lparr>tx := tx s @ mResponseFull s\<rparr>)"
  using assms by (simp add: SendGdbResponse_def ASSERT_def DebugTransportWrite_def)

end
