(* ===== verification/Registers.thy ===== *)
theory Registers
  imports HexCodec DebugAgent
begin

text \<open>
  Register transfer: the register tables of GdbStubX64.c and GdbStubAarch64.c and the
  routines of GdbStub.c that print and parse the bytes of the saved context. The field
  offsets of the context structures are defined outside the repository and are the argument
  \<open>off\<close> of the tables. The lemmas show what a transfer reads and writes, and that a full
  dump written back restores the context.
\<close>

section \<open>The register tables\<close>

definition present :: "('f \<Rightarrow> nat) \<Rightarrow> 'f \<Rightarrow> nat \<Rightarrow> string \<Rightarrow> string \<Rightarrow> GDB_REGISTER_OFFSET_DATA" where
  "present off f n name ty =
     \<lparr>reg_Offset = off f, reg_Size = n, reg_Name = Some (str name), reg_Type = str ty\<rparr>"

definition absent :: "nat \<Rightarrow> string \<Rightarrow> string \<Rightarrow> GDB_REGISTER_OFFSET_DATA" where
  "absent n name ty =
     \<lparr>reg_Offset = REG_NOT_PRESENT, reg_Size = n, reg_Name = Some (str name), reg_Type = str ty\<rparr>"

datatype X64_FIELD =
    X_Rax | X_Rbx | X_Rcx | X_Rdx | X_Rsi | X_Rdi | X_Rbp | X_Rsp | X_R8 | X_R9 | X_R10 | X_R11 | X_R12 | X_R13 | X_R14 | X_R15 | X_Rip | X_Rflags | X_Cs | X_Ss | X_Ds | X_Es | X_Fs | X_Gs | X_Cr0 | X_Cr2 | X_Cr3 | X_Cr4 | X_Cr8

definition gRegisterOffsets_X64 :: "(X64_FIELD \<Rightarrow> nat) \<Rightarrow> GDB_REGISTER_OFFSET_DATA list" where
  "gRegisterOffsets_X64 off =
    [present off X_Rax 8 ''rax'' ''int64'',
     present off X_Rbx 8 ''rbx'' ''int64'',
     present off X_Rcx 8 ''rcx'' ''int64'',
     present off X_Rdx 8 ''rdx'' ''int64'',
     present off X_Rsi 8 ''rsi'' ''int64'',
     present off X_Rdi 8 ''rdi'' ''int64'',
     present off X_Rbp 8 ''rbp'' ''int64'',
     present off X_Rsp 8 ''rsp'' ''int64'',
     present off X_R8 8 ''r8'' ''int64'',
     present off X_R9 8 ''r9'' ''int64'',
     present off X_R10 8 ''r10'' ''int64'',
     present off X_R11 8 ''r11'' ''int64'',
     present off X_R12 8 ''r12'' ''int64'',
     present off X_R13 8 ''r13'' ''int64'',
     present off X_R14 8 ''r14'' ''int64'',
     present off X_R15 8 ''r15'' ''int64'',
     present off X_Rip 8 ''rip'' ''int64'',
     present off X_Rflags 8 ''eflags'' ''int64'',
     present off X_Cs 4 ''cs'' ''int32'',
     present off X_Ss 4 ''ss'' ''int32'',
     present off X_Ds 4 ''ds'' ''int32'',
     present off X_Es 4 ''es'' ''int32'',
     present off X_Fs 4 ''fs'' ''int32'',
     present off X_Gs 4 ''gs'' ''int32'',
     present off X_Cr0 8 ''cr0'' ''int64'',
     present off X_Cr2 8 ''cr2'' ''int64'',
     present off X_Cr3 8 ''cr3'' ''int64'',
     present off X_Cr4 8 ''cr4'' ''int64'',
     present off X_Cr8 8 ''cr8'' ''int64'',
     absent 4 ''fctrl'' ''int'',
     absent 4 ''fstat'' ''int'',
     absent 4 ''ftag'' ''int'',
     absent 4 ''fiseg'' ''int'',
     absent 4 ''fioff'' ''int'',
     absent 4 ''foseg'' ''int'',
     absent 4 ''fooff'' ''int'',
     absent 10 ''fop'' ''i387_ext'',
     absent 10 ''st0'' ''i387_ext'',
     absent 10 ''st1'' ''i387_ext'',
     absent 10 ''st2'' ''i387_ext'',
     absent 10 ''st3'' ''i387_ext'',
     absent 10 ''st4'' ''i387_ext'',
     absent 10 ''st5'' ''i387_ext'',
     absent 10 ''st6'' ''i387_ext'',
     absent 10 ''st7'' ''i387_ext'']"

definition GdbTargetInfo_X64 :: GDB_TARGET_INFO where
  "GdbTargetInfo_X64 = \<lparr>TargetArch = str ''i386:x86-64'', RegistersFeature = str ''org.gnu.gdb.i386.core''\<rparr>"

datatype AARCH64_FIELD = A_X nat | A_FP | A_LR | A_SP | A_ELR | A_FPSR | A_SPSR | A_ESR

definition gRegisterOffsets_AARCH64 :: "(AARCH64_FIELD \<Rightarrow> nat) \<Rightarrow> GDB_REGISTER_OFFSET_DATA list" where
  "gRegisterOffsets_AARCH64 off =
    [present off (A_X 0) 8 ''x0'' ''int64'',
     present off (A_X 1) 8 ''x1'' ''int64'',
     present off (A_X 2) 8 ''x2'' ''int64'',
     present off (A_X 3) 8 ''x3'' ''int64'',
     present off (A_X 4) 8 ''x4'' ''int64'',
     present off (A_X 5) 8 ''x5'' ''int64'',
     present off (A_X 6) 8 ''x6'' ''int64'',
     present off (A_X 7) 8 ''x7'' ''int64'',
     present off (A_X 8) 8 ''x8'' ''int64'',
     present off (A_X 9) 8 ''x9'' ''int64'',
     present off (A_X 10) 8 ''x10'' ''int64'',
     present off (A_X 11) 8 ''x11'' ''int64'',
     present off (A_X 12) 8 ''x12'' ''int64'',
     present off (A_X 13) 8 ''x13'' ''int64'',
     present off (A_X 14) 8 ''x14'' ''int64'',
     present off (A_X 15) 8 ''x15'' ''int64'',
     present off (A_X 16) 8 ''x16'' ''int64'',
     present off (A_X 17) 8 ''x17'' ''int64'',
     present off (A_X 18) 8 ''x18'' ''int64'',
     present off (A_X 19) 8 ''x19'' ''int64'',
     present off (A_X 20) 8 ''x20'' ''int64'',
     present off (A_X 21) 8 ''x21'' ''int64'',
     present off (A_X 22) 8 ''x22'' ''int64'',
     present off (A_X 23) 8 ''x23'' ''int64'',
     present off (A_X 24) 8 ''x24'' ''int64'',
     present off (A_X 25) 8 ''x25'' ''int64'',
     present off (A_X 26) 8 ''x26'' ''int64'',
     present off (A_X 27) 8 ''x27'' ''int64'',
     present off (A_X 28) 8 ''x28'' ''int64'',
     present off A_FP 8 ''x29'' ''int64'',
     present off A_LR 8 ''x30'' ''int64'',
     present off A_SP 8 ''sp'' ''data_ptr'',
     present off A_ELR 8 ''pc'' ''code_ptr'',
     present off A_FPSR 8 ''fpcr'' ''int64'',
     present off A_SPSR 4 ''cpsr'' ''int32'']"

definition GdbTargetInfo_AARCH64 :: GDB_TARGET_INFO where
  "GdbTargetInfo_AARCH64 = \<lparr>TargetArch = str ''aarch64'', RegistersFeature = str ''org.gnu.gdb.aarch64.core''\<rparr>"

section \<open>Reading and writing one register\<close>

text \<open>The characters stored at \<open>Output\<close>; the returned pointer is past them.\<close>

definition ReadRegisterFromContext ::
  "GDB_REGISTER_OFFSET_DATA list \<Rightarrow> ctx \<Rightarrow> nat \<Rightarrow> u8 list" where
  "ReadRegisterFromContext gRegisterOffsets Registers RegNumber =
     (let r = gRegisterOffsets ! RegNumber in
      if reg_Offset r \<noteq> REG_NOT_PRESENT
      then hex_bytes (ctx_bytes Registers (reg_Offset r) (reg_Size r))
      else replicate (reg_Size r * 2) 48)"

text \<open>\<open>None\<close> is the NULL result; otherwise the advanced input pointer.\<close>

definition WriteRegisterToContext ::
  "bool \<Rightarrow> GDB_REGISTER_OFFSET_DATA list \<Rightarrow> ctx \<Rightarrow> nat \<Rightarrow> u8 list \<Rightarrow> stop + (u8 list option \<times> ctx)" where
  "WriteRegisterToContext asserts gRegisterOffsets Registers RegNumber Input =
     (let r = gRegisterOffsets ! RegNumber in
      ASSERT asserts (reg_Size r \<le> 10)
        (if AsciiStrLen Input < reg_Size r * 2 then Inr (None, Registers)
         else if reg_Offset r \<noteq> REG_NOT_PRESENT then
           (if 10 < reg_Size r then Inl OutOfBounds
            else ebind (HexToBytes asserts (reg_Size r) Input) (\<lambda>(Value, Input).
              Inr (Some Input, ctx_store Registers (reg_Offset r) Value)))
         else Inr (Some Input, Registers)))"

section \<open>All registers\<close>

definition ReadGeneralRegisters_chars :: "GDB_REGISTER_OFFSET_DATA list \<Rightarrow> ctx \<Rightarrow> u8 list" where
  "ReadGeneralRegisters_chars gRegisterOffsets Registers =
     concat (map (ReadRegisterFromContext gRegisterOffsets Registers) [0..<length gRegisterOffsets])"

text \<open>The loop of \<open>WriteGeneralRegisters\<close> over the register numbers; \<open>False\<close> is the early error.\<close>

fun WriteGeneralRegisters_loop ::
  "bool \<Rightarrow> GDB_REGISTER_OFFSET_DATA list \<Rightarrow> nat list \<Rightarrow> u8 list \<Rightarrow> ctx \<Rightarrow> stop + (bool \<times> ctx)" where
  "WriteGeneralRegisters_loop asserts gRegisterOffsets [] Ptr c = Inr (True, c)"
| "WriteGeneralRegisters_loop asserts gRegisterOffsets (i # is) Ptr c =
     ebind (WriteRegisterToContext asserts gRegisterOffsets c i Ptr) (\<lambda>(P, c').
       case P of None \<Rightarrow> Inr (False, c')
       | Some Ptr' \<Rightarrow> WriteGeneralRegisters_loop asserts gRegisterOffsets is Ptr' c')"

section \<open>One register\<close>

lemma length_ReadRegisterFromContext [simp]:
  "length (ReadRegisterFromContext t c i) = 2 * reg_Size (t ! i)"
  by (simp add: ReadRegisterFromContext_def Let_def)

lemma replicate_0_hex: "replicate (n * 2) 48 = hex_bytes (replicate n 0)"
  by (induction n) (simp_all add: hex_byte_def HexChars_eq)

lemma ReadRegisterFromContext_hex:
  "ReadRegisterFromContext t c i =
     hex_bytes (if reg_Offset (t ! i) \<noteq> REG_NOT_PRESENT
                then ctx_bytes c (reg_Offset (t ! i)) (reg_Size (t ! i))
                else replicate (reg_Size (t ! i)) 0)"
  by (simp add: ReadRegisterFromContext_def Let_def replicate_0_hex)

text \<open>Writing the digits of \<open>v\<close> to a present register stores \<open>v\<close> and consumes them.\<close>

lemma WriteRegisterToContext_present:
  assumes "reg_Offset (t ! i) \<noteq> REG_NOT_PRESENT" and "reg_Size (t ! i) \<le> 10"
    and "length v = reg_Size (t ! i)" and "Input = hex_bytes v @ Rest"
  shows "WriteRegisterToContext asserts t c i Input =
           Inr (Some Rest, ctx_store c (reg_Offset (t ! i)) v)"
proof -
  have "length (hex_bytes v) \<le> AsciiStrLen (hex_bytes v @ Rest)"
    by (simp add: AsciiStrLen_append)
  with assms show ?thesis
    using HexToBytes_hex_bytes [of asserts v Rest]
    by (simp add: WriteRegisterToContext_def Let_def ASSERT_def)
qed

lemma WriteRegisterToContext_short:
  "AsciiStrLen Input < reg_Size (t ! i) * 2 \<Longrightarrow> reg_Size (t ! i) \<le> 10 \<Longrightarrow>
     WriteRegisterToContext asserts t c i Input = Inr (None, c)"
  by (simp add: WriteRegisterToContext_def Let_def ASSERT_def)

lemma WriteRegisterToContext_absent:
  "reg_Offset (t ! i) = REG_NOT_PRESENT \<Longrightarrow> reg_Size (t ! i) \<le> 10 \<Longrightarrow>
     reg_Size (t ! i) * 2 \<le> AsciiStrLen Input \<Longrightarrow>
     WriteRegisterToContext asserts t c i Input = Inr (Some Input, c)"
  by (simp add: WriteRegisterToContext_def Let_def ASSERT_def)

text \<open>Whatever the input, only the bytes of the addressed register can change.\<close>

lemma WriteRegisterToContext_frame:
  assumes "WriteRegisterToContext asserts t c i Input = Inr (P, c')"
    and "j < reg_Offset (t ! i) \<or> reg_Offset (t ! i) + reg_Size (t ! i) \<le> j"
  shows "c' j = c j"
  using assms
  by (auto simp: WriteRegisterToContext_def Let_def ASSERT_def ctx_store_def
      dest!: HexToBytes_length split: if_splits)

section \<open>The whole context\<close>

text \<open>
  A table whose first \<open>k\<close> registers are in the context and whose others are not: since
  \<open>WriteRegisterToContext\<close> does not consume the digits of an absent register, a full write
  is aligned with a full read only for such tables.
\<close>

definition regs_layout :: "GDB_REGISTER_OFFSET_DATA list \<Rightarrow> nat \<Rightarrow> bool" where
  "regs_layout t k \<longleftrightarrow> k \<le> length t \<and> (\<forall>i < length t. reg_Size (t ! i) \<le> 10) \<and>
     (\<forall>i < length t. reg_Offset (t ! i) \<noteq> REG_NOT_PRESENT \<longleftrightarrow> i < k)"

definition regs_disjoint :: "GDB_REGISTER_OFFSET_DATA list \<Rightarrow> nat \<Rightarrow> bool" where
  "regs_disjoint t k \<longleftrightarrow> (\<forall>i < k. \<forall>j < k. i \<noteq> j \<longrightarrow>
     reg_Offset (t ! i) + reg_Size (t ! i) \<le> reg_Offset (t ! j) \<or>
     reg_Offset (t ! j) + reg_Size (t ! j) \<le> reg_Offset (t ! i))"

text \<open>The context after storing a value into each of the listed registers.\<close>

definition store_regs ::
  "GDB_REGISTER_OFFSET_DATA list \<Rightarrow> (nat \<Rightarrow> u8 list) \<Rightarrow> nat list \<Rightarrow> ctx \<Rightarrow> ctx" where
  "store_regs t vals is c = foldl (\<lambda>c i. ctx_store c (reg_Offset (t ! i)) (vals i)) c is"

lemma WriteGeneralRegisters_loop_present:
  assumes "\<forall>i \<in> set is. reg_Offset (t ! i) \<noteq> REG_NOT_PRESENT \<and> reg_Size (t ! i) \<le> 10 \<and>
             length (vals i) = reg_Size (t ! i)"
  shows "WriteGeneralRegisters_loop asserts t (is @ js) (hex_bytes (concat (map vals is)) @ Rest) c =
           WriteGeneralRegisters_loop asserts t js Rest (store_regs t vals is c)"
  using assms
proof (induction "is" arbitrary: c)
  case Nil
  then show ?case by (simp add: store_regs_def)
next
  case (Cons i "is")
  then have "WriteRegisterToContext asserts t c i (hex_bytes (concat (map vals (i # is))) @ Rest) =
      Inr (Some (hex_bytes (concat (map vals is)) @ Rest), ctx_store c (reg_Offset (t ! i)) (vals i))"
    by (intro WriteRegisterToContext_present) simp_all
  with Cons show ?case by (simp add: store_regs_def)
qed

lemma WriteGeneralRegisters_loop_absent:
  assumes "\<forall>j \<in> set js. reg_Offset (t ! j) = REG_NOT_PRESENT \<and> reg_Size (t ! j) \<le> 10 \<and>
             reg_Size (t ! j) * 2 \<le> AsciiStrLen Ptr"
  shows "WriteGeneralRegisters_loop asserts t js Ptr c = Inr (True, c)"
  using assms by (induction js) (simp_all add: WriteRegisterToContext_absent)

text \<open>The digits of a full dump: those of the present registers, then zeros.\<close>

lemma ReadGeneralRegisters_chars_split:
  assumes "regs_layout t k"
  shows "ReadGeneralRegisters_chars t c =
    hex_bytes (concat (map (\<lambda>i. ctx_bytes c (reg_Offset (t ! i)) (reg_Size (t ! i))) [0..<k])) @
    hex_bytes (concat (map (\<lambda>i. replicate (reg_Size (t ! i)) 0) [k..<length t]))"
proof -
  have cm: "concat (map (\<lambda>i. hex_bytes (f i)) is) = hex_bytes (concat (map f is))" for f "is"
    by (induction "is") simp_all
  have "[0..<length t] = [0..<k] @ [k..<length t]"
    using assms by (metis regs_layout_def le0 le_add_diff_inverse upt_add_eq_append)
  moreover have "map (ReadRegisterFromContext t c) [0..<k] =
      map (\<lambda>i. hex_bytes (ctx_bytes c (reg_Offset (t ! i)) (reg_Size (t ! i)))) [0..<k]"
    using assms by (intro map_cong) (auto simp: regs_layout_def ReadRegisterFromContext_hex)
  moreover have "map (ReadRegisterFromContext t c) [k..<length t] =
      map (\<lambda>i. hex_bytes (replicate (reg_Size (t ! i)) 0)) [k..<length t]"
    using assms by (intro map_cong) (auto simp: regs_layout_def ReadRegisterFromContext_hex)
  ultimately show ?thesis
    unfolding ReadGeneralRegisters_chars_def by (simp add: cm [symmetric] del: map_eq_conv)
qed

lemma WriteGeneralRegisters_loop_dump:
  assumes lay: "regs_layout t k"
  shows "WriteGeneralRegisters_loop asserts t [0..<length t] (ReadGeneralRegisters_chars t c0 @ 0 # Rest) c =
    Inr (True, store_regs t (\<lambda>i. ctx_bytes c0 (reg_Offset (t ! i)) (reg_Size (t ! i))) [0..<k] c)"
proof -
  let ?zeros = "hex_bytes (concat (map (\<lambda>i. replicate (reg_Size (t ! i)) 0) [k..<length t]))"
  have up: "[0..<length t] = [0..<k] @ [k..<length t]"
    using lay by (metis regs_layout_def le0 le_add_diff_inverse upt_add_eq_append)
  have "reg_Size (t ! j) * 2 \<le> AsciiStrLen (?zeros @ 0 # Rest)" if "j \<in> set [k..<length t]" for j
  proof -
    have "reg_Size (t ! j) \<le> (\<Sum>i \<leftarrow> [k..<length t]. reg_Size (t ! i))"
      using that by (intro member_le_sum_list) auto
    then show ?thesis by (simp add: length_concat o_def)
  qed
  moreover have "\<forall>j \<in> set [k..<length t]. reg_Offset (t ! j) = REG_NOT_PRESENT \<and> reg_Size (t ! j) \<le> 10"
    using lay by (auto simp: regs_layout_def)
  ultimately have "WriteGeneralRegisters_loop asserts t [k..<length t] (?zeros @ 0 # Rest) c' = Inr (True, c')" for c'
    by (intro WriteGeneralRegisters_loop_absent) blast
  then show ?thesis
    unfolding ReadGeneralRegisters_chars_split [OF lay] append_assoc up
    using lay by (subst WriteGeneralRegisters_loop_present) (auto simp: regs_layout_def)
qed

lemma store_regs_same: "store_regs t (\<lambda>i. ctx_bytes c (reg_Offset (t ! i)) (reg_Size (t ! i))) is c = c"
  by (induction "is") (simp_all add: store_regs_def)

lemma store_regs_outside:
  "\<forall>i \<in> set is. j < reg_Offset (t ! i) \<or> reg_Offset (t ! i) + length (vals i) \<le> j \<Longrightarrow>
     store_regs t vals is c j = c j"
  by (induction "is" arbitrary: c) (auto simp: store_regs_def ctx_store_def)

text \<open>Stores to disjoint registers do not disturb each other.\<close>

lemma store_regs_read:
  assumes "regs_disjoint t k" and "\<forall>i < k. length (vals i) = reg_Size (t ! i)" and "n \<le> k" and "j < n"
  shows "ctx_bytes (store_regs t vals [0..<n] c) (reg_Offset (t ! j)) (reg_Size (t ! j)) = vals j"
  using assms(3,4)
proof (induction n)
  case (Suc n)
  let ?c = "store_regs t vals [0..<n] c"
  have eq: "store_regs t vals [0..<Suc n] c = ctx_store ?c (reg_Offset (t ! n)) (vals n)"
    by (simp add: store_regs_def)
  show ?case
  proof (cases "j = n")
    case True
    with assms(2) Suc.prems have "reg_Size (t ! j) = length (vals j)" by simp
    with True show ?thesis unfolding eq by simp
  next
    case False
    with assms(1,2) Suc.prems have "reg_Offset (t ! j) + reg_Size (t ! j) \<le> reg_Offset (t ! n) \<or>
        reg_Offset (t ! n) + length (vals n) \<le> reg_Offset (t ! j)"
      by (auto simp: regs_disjoint_def)
    then show ?thesis using Suc False unfolding eq by (simp add: ctx_bytes_store_other)
  qed
qed simp

lemma ReadGeneralRegisters_chars_store_regs:
  assumes "regs_layout t k" and "regs_disjoint t k"
  shows "ReadGeneralRegisters_chars t
      (store_regs t (\<lambda>i. ctx_bytes c0 (reg_Offset (t ! i)) (reg_Size (t ! i))) [0..<k] c) =
    ReadGeneralRegisters_chars t c0"
proof -
  let ?vals = "\<lambda>i. ctx_bytes c0 (reg_Offset (t ! i)) (reg_Size (t ! i))"
  have "map (\<lambda>i. ctx_bytes (store_regs t ?vals [0..<k] c) (reg_Offset (t ! i)) (reg_Size (t ! i))) [0..<k] =
      map ?vals [0..<k]"
    by (intro map_cong refl store_regs_read [OF assms(2)]) simp_all
  then show ?thesis
    unfolding ReadGeneralRegisters_chars_split [OF assms(1)] by (simp del: map_eq_conv)
qed

section \<open>The two tables\<close>

text \<open>
  What the context structures guarantee about their field offsets: no field lies at the
  marker value, and fields are eight bytes apart.
\<close>

definition ctx_offsets_ok :: "('f \<Rightarrow> nat) \<Rightarrow> bool" where
  "ctx_offsets_ok off \<longleftrightarrow> (\<forall>f. off f \<noteq> REG_NOT_PRESENT) \<and>
     (\<forall>f g. f \<noteq> g \<longrightarrow> off f + 8 \<le> off g \<or> off g + 8 \<le> off f)"

text \<open>A table that lists distinct fields of at most eight bytes, then absent registers.\<close>

lemma regs_of_fields:
  assumes off: "ctx_offsets_ok off"
    and pre: "map (\<lambda>r. (reg_Offset r, reg_Size r)) (take k t) = map (\<lambda>(f, n). (off f, n)) fs"
    and suf: "\<forall>r \<in> set (drop k t). reg_Offset r = REG_NOT_PRESENT \<and> reg_Size r \<le> 10"
    and fs: "distinct (map fst fs)" "\<forall>n \<in> snd ` set fs. n \<le> 8" "k \<le> length t"
  shows "regs_layout t k" and "regs_disjoint t k"
proof -
  have len: "length fs = k" using fs(3) arg_cong [OF pre, of length] by simp
  have nth: "reg_Offset (t ! i) = off (fst (fs ! i))" "reg_Size (t ! i) = snd (fs ! i)" if "i < k" for i
    using arg_cong [OF pre, of "\<lambda>l. l ! i"] that len fs(3) by (auto simp: case_prod_unfold)
  have sz: "reg_Size (t ! i) \<le> 8" if "i < k" for i
    using fs(2) nth [OF that] that len by simp
  have sf: "reg_Offset (t ! i) = REG_NOT_PRESENT \<and> reg_Size (t ! i) \<le> 10" if "k \<le> i" "i < length t" for i
  proof -
    have "t ! i = drop k t ! (i - k)" "i - k < length (drop k t)" using that by simp_all
    then show ?thesis using suf nth_mem by metis
  qed
  show "regs_layout t k"
    unfolding regs_layout_def
  proof (intro conjI allI impI)
    fix i assume i: "i < length t"
    show "reg_Size (t ! i) \<le> 10" using sz [of i] sf [of i] i by (cases "i < k") auto
    show "reg_Offset (t ! i) \<noteq> REG_NOT_PRESENT \<longleftrightarrow> i < k"
      using sf [of i] nth(1) [of i] off i by (cases "i < k") (auto simp: ctx_offsets_ok_def)
  qed (rule fs(3))
  show "regs_disjoint t k"
    unfolding regs_disjoint_def
  proof (intro allI impI)
    fix i j assume ij: "i < k" "j < k" "i \<noteq> j"
    then have "fst (fs ! i) \<noteq> fst (fs ! j)"
      using fs(1) len nth_eq_iff_index_eq [of "map fst fs" i j] by simp
    then have "off (fst (fs ! i)) + 8 \<le> off (fst (fs ! j)) \<or> off (fst (fs ! j)) + 8 \<le> off (fst (fs ! i))"
      using off by (simp add: ctx_offsets_ok_def)
    then show "reg_Offset (t ! i) + reg_Size (t ! i) \<le> reg_Offset (t ! j) \<or>
        reg_Offset (t ! j) + reg_Size (t ! j) \<le> reg_Offset (t ! i)"
      using ij sz [of i] sz [of j] nth(1) by auto
  qed
qed

definition x64_fields :: "(X64_FIELD \<times> nat) list" where
  "x64_fields = map (\<lambda>f. (f, 8))
      [X_Rax, X_Rbx, X_Rcx, X_Rdx, X_Rsi, X_Rdi, X_Rbp, X_Rsp, X_R8, X_R9, X_R10, X_R11, X_R12,
       X_R13, X_R14, X_R15, X_Rip, X_Rflags] @
     map (\<lambda>f. (f, 4)) [X_Cs, X_Ss, X_Ds, X_Es, X_Fs, X_Gs] @
     map (\<lambda>f. (f, 8)) [X_Cr0, X_Cr2, X_Cr3, X_Cr4, X_Cr8]"

lemma regs_X64:
  assumes "ctx_offsets_ok off"
  shows "regs_layout (gRegisterOffsets_X64 off) 29" and "regs_disjoint (gRegisterOffsets_X64 off) 29"
  by (rule regs_of_fields [OF assms, where fs = x64_fields];
      simp add: gRegisterOffsets_X64_def x64_fields_def present_def absent_def)+

definition aarch64_fields :: "(AARCH64_FIELD \<times> nat) list" where
  "aarch64_fields = map (\<lambda>f. (f, 8))
      [A_X 0, A_X 1, A_X 2, A_X 3, A_X 4, A_X 5, A_X 6, A_X 7, A_X 8, A_X 9,
       A_X 10, A_X 11, A_X 12, A_X 13, A_X 14, A_X 15, A_X 16, A_X 17, A_X 18, A_X 19,
       A_X 20, A_X 21, A_X 22, A_X 23, A_X 24, A_X 25, A_X 26, A_X 27, A_X 28] @
     [(A_FP, 8), (A_LR, 8), (A_SP, 8), (A_ELR, 8), (A_FPSR, 8), (A_SPSR, 4)]"

lemma regs_AARCH64:
  assumes "ctx_offsets_ok off"
  shows "regs_layout (gRegisterOffsets_AARCH64 off) 35"
    and "regs_disjoint (gRegisterOffsets_AARCH64 off) 35"
  by (rule regs_of_fields [OF assms, where fs = aarch64_fields];
      simp add: gRegisterOffsets_AARCH64_def aarch64_fields_def present_def)+

end
