(* ===== verification/GdbCommands.thy ===== *)
theory GdbCommands
  imports GdbPacket Registers
begin

text \<open>
  The command handlers of GdbStub.c and the dispatcher \<open>ExecuteGdbCommand\<close>. A command is
  the suffix of the request buffer a handler receives: the characters of the command, the
  zero that replaced the checksum marker, and what follows. Handlers write terminators into
  it as the code does; reads outside the received bytes are \<open>OutOfBounds\<close>.
\<close>

section \<open>The v packets\<close>

fun ProcessVCommand_delimiter :: "u8 list \<Rightarrow> nat \<Rightarrow> nat" where
  "ProcessVCommand_delimiter Command 0 = 0"
| "ProcessVCommand_delimiter [] (Suc n) = 0"
| "ProcessVCommand_delimiter (c # Command) (Suc n) =
     (if c = 59 \<or> c = 63 then 0 else Suc (ProcessVCommand_delimiter Command n))"

definition ProcessVCommand :: "'w agent \<Rightarrow> u8 list \<Rightarrow> nat \<Rightarrow> 'w gdb \<Rightarrow> stop + 'w gdb" where
  "ProcessVCommand ag Command CommandLength s =
     (let DelimiterIndex = ProcessVCommand_delimiter Command CommandLength in
      if length Command \<le> DelimiterIndex then Inl OutOfBounds
      else
        (let OriginalDelimiter = Command ! DelimiterIndex in
         ASSERT (ag_asserts ag)
           (OriginalDelimiter = 59 \<or> OriginalDelimiter = 63 \<or> OriginalDelimiter = 0)
           (let Command = Command[DelimiterIndex := 0] in
            if AsciiStrnCmp Command (str ''Cont'') DelimiterIndex = 0 then
              (if OriginalDelimiter = 59 then
                 (if length Command \<le> DelimiterIndex + 1 then Inl OutOfBounds
                  else if Command ! (DelimiterIndex + 1) = 99 then Inr (s\<lparr>gRunning := True\<rparr>)
                  else if Command ! (DelimiterIndex + 1) = 115 then
                    (let (ctx', w') = ag_AddSingleStep ag (gSystemContext s) (world s)
                     in Inr (s\<lparr>gSystemContext := ctx', world := w', gRunning := True\<rparr>))
                  else SendGdbResponse ag (Some (str '''')) s)
               else if OriginalDelimiter = 63 then
                 SendGdbResponse ag (Some (str ''vCont;c;C;s;S'')) s
               else SendGdbResponse ag (Some (str '''')) s)
            else SendGdbResponse ag (Some (str '''')) s)))"

section \<open>Memory\<close>

text \<open>Windbg probes page 0 and the shared data page; both read as zero.\<close>

definition windbg_page :: "'w agent \<Rightarrow> u64 \<Rightarrow> u64 \<Rightarrow> bool" where
  "windbg_page ag Address RangeLength \<longleftrightarrow> ag_WindbgWorkarounds ag \<and>
     (Address < 0x1000 \<or> Address AND NOT 0xFFF = 0xFFFFF78000000000) \<and> RangeLength < 0x1000"

text \<open>
  The loop of \<open>ProcessMemoryCommand\<close>. The result is \<open>None\<close> when an access failed, otherwise
  the response characters stored so far. In a read, the inner loop runs to \<open>Length\<close>: past
  the end of \<open>mScratch\<close> or of the response array it is out of bounds.
\<close>

lemma min_chunk_decreases:
  "L \<noteq> 0 \<Longrightarrow> unat (L - min L (of_nat SCRATCH_SIZE)) < unat (L :: u64)"
  by (auto simp: SCRATCH_SIZE_def min_def unat_sub word_le_nat_alt unat_gt_0)

function ProcessMemoryCommand_loop ::
  "'w agent \<Rightarrow> bool \<Rightarrow> u64 \<Rightarrow> u64 \<Rightarrow> u8 list \<Rightarrow> u8 list \<Rightarrow> 'w \<Rightarrow> stop + (u8 list option \<times> 'w)" where
  "ProcessMemoryCommand_loop ag Write Address Length ValueString Resp w =
     (if Length = 0 then Inr (Some Resp, w)
      else
        (let RangeLength = min Length (of_nat SCRATCH_SIZE) in
         if Write then
           ebind (HexToBytes (ag_asserts ag) (unat RangeLength) ValueString)
             (\<lambda>(mScratch, ValueString').
                case ag_DbgWriteMemory ag Address mScratch w of (ok, w') \<Rightarrow>
                  if \<not> ok then Inr (None, w')
                  else ProcessMemoryCommand_loop ag Write (Address + RangeLength)
                         (Length - RangeLength) ValueString' Resp w')
         else
           (case (if windbg_page ag Address RangeLength
                  then (True, replicate (unat RangeLength) 0, w)
                  else ag_DbgReadMemory ag Address (unat RangeLength) w) of (ok, mScratch, w') \<Rightarrow>
              if \<not> ok then Inr (None, w')
              else if SCRATCH_SIZE < unat Length \<or>
                      RESPONSE_FULL_SIZE - 1 < length Resp + 2 * unat Length then Inl OutOfBounds
              else ProcessMemoryCommand_loop ag Write (Address + RangeLength)
                     (Length - RangeLength) ValueString (Resp @ hex_bytes mScratch) w')))"
  by pat_completeness auto
termination
  by (relation "measure (\<lambda>(ag, Write, Address, Length, ValueString, Resp, w). unat Length)")
    (simp_all add: min_chunk_decreases)

declare ProcessMemoryCommand_loop.simps [simp del]

lemma loop_zero [simp]: "ProcessMemoryCommand_loop ag W A 0 V R w = Inr (Some R, w)"
  by (subst ProcessMemoryCommand_loop.simps) simp

definition ProcessMemoryCommand ::
  "'w agent \<Rightarrow> bool \<Rightarrow> u8 list \<Rightarrow> nat \<Rightarrow> 'w gdb \<Rightarrow> stop + 'w gdb" where
  "ProcessMemoryCommand ag Write Command CommandLength s =
     (case ScanMem8 Command CommandLength 44 of
        None \<Rightarrow> SendGdbError ag GDB_ERROR_BAD_REQUEST s
      | Some i \<Rightarrow>
          (let Command = Command[i := 0] in
           case (if Write then ScanMem8 Command CommandLength 58 else Some 0) of
             None \<Rightarrow> SendGdbError ag GDB_ERROR_BAD_REQUEST s
           | Some v \<Rightarrow>
               (let Command = (if Write then Command[v := 0] else Command);
                    LengthString = drop (i + 1) Command;
                    ValueString = drop (v + 1) Command in
                case AsciiStrHexToUint64S (ag_lib ag) Command of
                  None \<Rightarrow> SendGdbError ag GDB_ERROR_BAD_REQUEST s
                | Some Address \<Rightarrow>
                    (case AsciiStrHexToUint64S (ag_lib ag) LengthString of
                       None \<Rightarrow> SendGdbError ag GDB_ERROR_BAD_REQUEST s
                     | Some Length \<Rightarrow>
                         if Write \<and> of_nat (AsciiStrLen ValueString) \<noteq> Length * 2
                         then ASSERT (ag_asserts ag) False (SendGdbError ag GDB_ERROR_BAD_REQUEST s)
                         else ebind (ProcessMemoryCommand_loop ag Write Address Length ValueString [] (world s))
                           (\<lambda>(Resp, w').
                              case Resp of
                                None \<Rightarrow> SendGdbError ag GDB_ERROR_BAD_MEM_ADDRESS (s\<lparr>world := w'\<rparr>)
                              | Some mResponse \<Rightarrow>
                                  if Write then SendGdbResponse ag (Some (str ''OK'')) (s\<lparr>world := w'\<rparr>)
                                  else SendGdbResponse ag (Some (mResponse @ [0])) (s\<lparr>world := w'\<rparr>))))))"

section \<open>Monitor commands\<close>

text \<open>The value of an enumeration constant, and the string tables it indexes.\<close>

fun EXCEPTION_TYPE_index :: "EXCEPTION_TYPE \<Rightarrow> nat" where
  "EXCEPTION_TYPE_index ExceptionDebugStep = 0"
| "EXCEPTION_TYPE_index ExceptionBreakpoint = 1"
| "EXCEPTION_TYPE_index ExceptionGenericFault = 2"
| "EXCEPTION_TYPE_index ExceptionInvalidOp = 3"
| "EXCEPTION_TYPE_index ExceptionAlignment = 4"
| "EXCEPTION_TYPE_index ExceptionAccessViolation = 5"

fun BREAKPOINT_REASON_index :: "BREAKPOINT_REASON \<Rightarrow> nat" where
  "BREAKPOINT_REASON_index BreakpointReasonNone = 0"
| "BREAKPOINT_REASON_index BreakpointReasonInitial = 1"
| "BREAKPOINT_REASON_index BreakpointReasonModuleLoad = 2"
| "BREAKPOINT_REASON_index BreakpointReasonDebuggerBreak = 3"

definition EXCEPTION_TYPE_STRINGS :: "u8 list list" where
  "EXCEPTION_TYPE_STRINGS =
     [str ''ExceptionDebugStep'', str ''ExceptionBreakpoint'', str ''ExceptionGenericFault'',
      str ''ExceptionInvalidOp'', str ''ExceptionAlignment'', str ''ExceptionAccessViolation'']"

definition BREAK_REASON_STRINGS :: "u8 list list" where
  "BREAK_REASON_STRINGS =
     [str ''N/A'', str ''Initial Breakpoint'', str ''Module Load'', str ''Debugger Break'']"

text \<open>A line of a message ends in a line feed and a carriage return.\<close>

definition newline :: "u8 list" where
  "newline = [10, 13]"

text \<open>
  The switch of \<open>ProcessMonitorCmd\<close> on the decoded command: the text put into \<open>mScratch\<close>
  and the new state. \<open>Command\<close> holds the bytes up to and including the terminating zero.
\<close>

definition ProcessMonitorCmd_switch :: "'w agent \<Rightarrow> u8 list \<Rightarrow> 'w gdb \<Rightarrow> u8 list \<times> 'w gdb" where
  "ProcessMonitorCmd_switch ag Command s =
     (let print = AsciiSPrint (ag_lib ag) SCRATCH_SIZE; c = Command ! 0; arg = drop 1 Command in
      if c = 63 then
        (print
           (str ''%a'' @ newline @ str ''Exception Type: %a (%d)'' @ newline @
            str ''Exception Address: %llx'' @ newline @
            str ''Architecture Exception Code: 0x%llx'' @ newline @
            str ''Break Reason: %a'' @ newline)
           [PStr (ag_gDebuggerInfo ag),
            PStr (EXCEPTION_TYPE_STRINGS ! EXCEPTION_TYPE_index (ExceptionType (gExceptionInfo s))),
            PNum (of_nat (EXCEPTION_TYPE_index (ExceptionType (gExceptionInfo s)))),
            PNum (ExceptionAddress (gExceptionInfo s)),
            PNum (ArchExceptionCode (gExceptionInfo s)),
            PStr (BREAK_REASON_STRINGS ! BREAKPOINT_REASON_index (DebuggerBreakpointReason s))], s)
      else if c = 105 then (ag_GdbDumpSystemRegisters ag arg SCRATCH_SIZE (world s), s)
      else if c = 118 then (print (str ''TODO'' @ newline) [], s)
      else if c = 86 then (print (str ''TODO'' @ newline) [], s)
      else if c = 109 then (ag_GdbReadMsr ag arg SCRATCH_SIZE (world s), s)
      else if c = 77 then (print (str ''TODO'' @ newline) [], s)
      else if c = 82 then
        (print (str ''Will reboot on continue.'' @ newline) [], s\<lparr>mRebootOnContinue := True\<rparr>)
      else if c = 98 then
        (case ag_DbgSetBreakOnModuleLoad ag arg (world s) of (ok, w') \<Rightarrow>
           (print (if ok then str ''Will break on load for %a'' @ newline
                   else str ''FAILED to set break on load for %a'' @ newline) [PStr arg],
            s\<lparr>world := w'\<rparr>))
      else (print (str ''Unknown command '' @ 39 # str ''%a'' @ 39 # newline) [PStr Command], s))"

definition ProcessMonitorCmd :: "'w agent \<Rightarrow> u8 list \<Rightarrow> 'w gdb \<Rightarrow> stop + 'w gdb" where
  "ProcessMonitorCmd ag CommandHex s =
     (let CommandLen = AsciiStrLen CommandHex in
      if CommandLen mod 2 \<noteq> 0 \<or> 128 \<le> CommandLen div 2 then SendGdbError ag GDB_ERROR_BAD_REQUEST s
      else ebind (HexToBytes (ag_asserts ag) (CommandLen div 2) CommandHex) (\<lambda>(Command, _).
        case ProcessMonitorCmd_switch ag (Command @ [0]) s of (mScratch, s1) \<Rightarrow>
          ebind (SendGdbResponse ag
                  (Some (79 # ConvertResponseToHex mScratch (of_nat MAX_RESPONSE_SIZE - 1) @ [0])) s1)
            (\<lambda>s2. SendGdbResponse ag (Some (str ''OK'')) s2)))"

section \<open>Queries\<close>

definition ReadTargetDescription :: "'w agent \<Rightarrow> 'w gdb \<Rightarrow> stop + 'w gdb" where
  "ReadTargetDescription ag s =
     SendGdbResponse ag (Some (AsciiSPrint (ag_lib ag) MAX_RESPONSE_SIZE
       (str ''l<?xml version=\"1.0\"?><!DOCTYPE target SYSTEM \"gdb-target.dtd\"><target><architecture>%a</architecture><xi:include href=\"registers.xml\"/></target>'')
       [PStr (TargetArch (ag_GdbTargetInfo ag))])) s"

text \<open>The loop of \<open>ReadTargetRegisters\<close>: the text before \<open>End\<close> and \<open>Remaining\<close>.\<close>

fun ReadTargetRegisters_loop ::
  "lib \<Rightarrow> GDB_REGISTER_OFFSET_DATA list \<Rightarrow> nat \<Rightarrow> u8 list \<Rightarrow> u64 \<Rightarrow> u8 list \<times> u64" where
  "ReadTargetRegisters_loop L [] RegNumber xml Remaining = (xml, Remaining)"
| "ReadTargetRegisters_loop L (r # rs) RegNumber xml Remaining =
     (case reg_Name r of
        None \<Rightarrow> ReadTargetRegisters_loop L rs (Suc RegNumber) xml Remaining
      | Some Name \<Rightarrow>
          (let Written = AsciiSPrint L (unat Remaining)
                 (str ''<reg name=\"%a\" bitsize=\"%d\" type=\"%a\" regnum=\"%d\"/>'')
                 [PStr Name, PNum (of_nat (reg_Size r * 8)), PStr (reg_Type r), PNum (of_nat RegNumber)]
           in ReadTargetRegisters_loop L rs (Suc RegNumber) (xml @ Written)
                (Remaining - of_nat (length Written))))"

definition ReadTargetRegisters :: "'w agent \<Rightarrow> 'w gdb \<Rightarrow> stop + 'w gdb" where
  "ReadTargetRegisters ag s =
     (let L = ag_lib ag;
          start = AsciiSPrint L MAX_RESPONSE_SIZE
            (str ''l<?xml version=\"1.0\"?><!DOCTYPE target SYSTEM \"gdb-target.dtd\"><feature name=\"%a\">'')
            [PStr (RegistersFeature (ag_GdbTargetInfo ag))];
          (xml, Remaining) = ReadTargetRegisters_loop L (ag_gRegisterOffsets ag) 0 start
            (of_nat MAX_RESPONSE_SIZE - of_nat (length start));
          Written = AsciiSPrint L (unat Remaining) (str ''</feature>'') [];
          Remaining = Remaining - of_nat (length Written)
      in if Remaining = 0 then SendGdbError ag GDB_ERROR_RESPONSE_TOO_LONG s
         else SendGdbResponse ag (Some (xml @ Written)) s)"

definition ProcessQuery :: "'w agent \<Rightarrow> u8 list \<Rightarrow> 'w gdb \<Rightarrow> stop + 'w gdb" where
  "ProcessQuery ag Command s =
     (if AsciiStrnCmp Command (str ''Supported'') 9 = 0 then
        SendGdbResponse ag (Some (str ''PacketSize=1000;qXfer:features:read+;vContSupported+'')) s
      else if AsciiStrnCmp Command (str ''fThreadInfo'') 11 = 0 then SendGdbResponse ag (Some (str ''m01'')) s
      else if AsciiStrnCmp Command (str ''sThreadInfo'') 11 = 0 then SendGdbResponse ag (Some (str ''l'')) s
      else if AsciiStrnCmp Command (str ''Xfer:features:read:target.xml'') 29 = 0 then
        ReadTargetDescription ag s
      else if AsciiStrnCmp Command (str ''Xfer:features:read:registers.xml'') 29 = 0 then
        ReadTargetRegisters ag s
      else if AsciiStrnCmp Command (str ''Rcmd,'') 5 = 0 then ProcessMonitorCmd ag (drop 5 Command) s
      else if AsciiStrnCmp Command (str ''Attached'') 8 = 0 then SendGdbResponse ag (Some (str ''1'')) s
      else SendGdbResponse ag (Some (str '''')) s)"

section \<open>Registers\<close>

definition WriteGeneralRegisters :: "'w agent \<Rightarrow> u8 list \<Rightarrow> 'w gdb \<Rightarrow> stop + 'w gdb" where
  "WriteGeneralRegisters ag Data s =
     ebind (WriteGeneralRegisters_loop (ag_asserts ag) (ag_gRegisterOffsets ag)
              [0..<length (ag_gRegisterOffsets ag)] Data (gSystemContext s))
       (\<lambda>(ok, c'). if ok then SendGdbResponse ag (Some (str ''OK'')) (s\<lparr>gSystemContext := c'\<rparr>)
                   else SendGdbError ag GDB_ERROR_INTERNAL (s\<lparr>gSystemContext := c'\<rparr>))"

definition ReadGeneralRegisters :: "'w agent \<Rightarrow> 'w gdb \<Rightarrow> stop + 'w gdb" where
  "ReadGeneralRegisters ag s =
     (let mResponse = ReadGeneralRegisters_chars (ag_gRegisterOffsets ag) (gSystemContext s) in
      if RESPONSE_FULL_SIZE - 1 \<le> length mResponse then Inl OutOfBounds
      else SendGdbResponse ag (Some (mResponse @ [0])) s)"

definition ReadRegister :: "'w agent \<Rightarrow> u8 list \<Rightarrow> 'w gdb \<Rightarrow> stop + 'w gdb" where
  "ReadRegister ag Command s =
     (let RegisterIndex = unat (AsciiStrHexToUintn (ag_lib ag) Command) in
      if length (ag_gRegisterOffsets ag) \<le> RegisterIndex
      then SendGdbError ag GDB_ERROR_BAD_REG_INDEX s
      else SendGdbResponse ag (Some (ReadRegisterFromContext (ag_gRegisterOffsets ag) (gSystemContext s)
             RegisterIndex @ [0])) s)"

definition WriteRegister :: "'w agent \<Rightarrow> u8 list \<Rightarrow> 'w gdb \<Rightarrow> stop + 'w gdb" where
  "WriteRegister ag Command s =
     (case ScanMem8 Command (AsciiStrLen Command) 61 of
        None \<Rightarrow> SendGdbError ag GDB_ERROR_BAD_REQUEST s
      | Some i \<Rightarrow>
          (let Command = Command[i := 0];
               ValueStr = drop (i + 1) Command;
               RegisterIndex = unat (AsciiStrHexToUintn (ag_lib ag) Command) in
           if length (ag_gRegisterOffsets ag) \<le> RegisterIndex
           then SendGdbError ag GDB_ERROR_BAD_REG_INDEX s
           else ebind (WriteRegisterToContext (ag_asserts ag) (ag_gRegisterOffsets ag) (gSystemContext s)
                         RegisterIndex ValueStr)
             (\<lambda>(Ptr, c').
                case Ptr of
                  None \<Rightarrow> SendGdbError ag GDB_ERROR_INTERNAL (s\<lparr>gSystemContext := c'\<rparr>)
                | Some _ \<Rightarrow> SendGdbResponse ag (Some (str ''OK'')) (s\<lparr>gSystemContext := c'\<rparr>))))"

section \<open>Breakpoints\<close>

definition ProcessBreakpoint :: "'w agent \<Rightarrow> bool \<Rightarrow> u8 list \<Rightarrow> 'w gdb \<Rightarrow> stop + 'w gdb" where
  "ProcessBreakpoint ag Remove Command s =
     (case ScanMem8 Command (AsciiStrLen Command) 44 of
        None \<Rightarrow> SendGdbError ag GDB_ERROR_BAD_REQUEST s
      | Some i \<Rightarrow>
          (let Command = Command[i := 0]; AddressStr = drop (i + 1) Command in
           case ScanMem8 AddressStr (AsciiStrLen AddressStr) 44 of
             None \<Rightarrow> SendGdbError ag GDB_ERROR_BAD_REQUEST s
           | Some j \<Rightarrow>
               (let AddressStr = AddressStr[j := 0]; LengthStr = drop (j + 1) AddressStr;
                    Type = AsciiStrHexToUintn (ag_lib ag) Command;
                    Address = AsciiStrHexToUintn (ag_lib ag) AddressStr;
                    Length = AsciiStrHexToUintn (ag_lib ag) LengthStr;
                    reply = (\<lambda>Result s. if Result then SendGdbResponse ag (Some (str ''OK'')) s
                                       else SendGdbError ag GDB_ERROR_INTERNAL s) in
                if Type = 0 then
                  (if Remove then
                     (case RemoveSoftwareBreakpoint ag Address (mBreakpoints s, world s) of
                        (Result, t, w) \<Rightarrow> reply Result (s\<lparr>mBreakpoints := t, world := w\<rparr>))
                   else ebind (AddSoftwareBreakpoint ag Address (mBreakpoints s, world s))
                     (\<lambda>(Result, t, w). reply Result (s\<lparr>mBreakpoints := t, world := w\<rparr>)))
                else if 2 \<le> Type \<and> Type \<le> 4 then
                  (let Read = (Type = 3 \<or> Type = 4); Write = (Type = 2 \<or> Type = 4) in
                   if Remove then
                     (case ag_RemoveWatchpoint ag Address Length Read Write (world s) of
                        (Result, w) \<Rightarrow> reply Result (s\<lparr>world := w\<rparr>))
                   else
                     (case ag_AddWatchpoint ag Address Length Read Write (world s) of
                        (Result, w) \<Rightarrow> reply Result (s\<lparr>world := w\<rparr>)))
                else SendGdbError ag GDB_ERROR_UNSUPPORTED s)))"

section \<open>The dispatcher\<close>

definition ExecuteGdbCommand :: "'w agent \<Rightarrow> u8 list \<Rightarrow> nat \<Rightarrow> 'w gdb \<Rightarrow> stop + 'w gdb" where
  "ExecuteGdbCommand ag GdbCommand GdbCommandLength s =
     (case GdbCommand of
        [] \<Rightarrow> Inl OutOfBounds
      | c # Command \<Rightarrow>
          if c = 103 then ReadGeneralRegisters ag s
          else if c = 71 then WriteGeneralRegisters ag Command s
          else if c = 112 then ReadRegister ag Command s
          else if c = 80 then WriteRegister ag Command s
          else if c = 109 then ProcessMemoryCommand ag False Command (GdbCommandLength - 1) s
          else if c = 77 then ProcessMemoryCommand ag True Command (GdbCommandLength - 1) s
          else if c = 118 then ProcessVCommand ag Command (GdbCommandLength - 1) s
          else if c = 113 then ProcessQuery ag Command s
          else if c = 72 then SendGdbResponse ag (Some (str ''OK'')) s
          else if c = 63 then SendStopReply ag s
          else if c = 33 then SendGdbResponse ag (Some (str ''OK'')) s
          else if c = 90 then ProcessBreakpoint ag False Command s
          else if c = 122 then ProcessBreakpoint ag True Command s
          else if c = 114 \<or> c = 82 then
            ebind (ag_DebugReboot ag (world s)) (\<lambda>w'. SendGdbError ag GDB_ERROR_UNSUPPORTED (s\<lparr>world := w'\<rparr>))
          else SendGdbError ag GDB_ERROR_UNKOWN_CMD s)"

end
