(* ===== verification/GdbStub.thy ===== *)
theory GdbStub
  imports GdbCommands
begin

text \<open>
  The session layer of GdbStub.c: packet validation, the request loop, the poll for a break
  character, and the entry from the exception handlers. Code that may wait forever has an
  option result, \<open>None\<close> meaning that it does not return. The request buffer \<open>mRequest\<close> is
  passed along as a list of its \<open>MAX_REQUEST_SIZE\<close> bytes; after a command it holds the
  characters as received and the terminator of \<open>ProcessGdbPacket\<close>.
\<close>

section \<open>Sequencing calls that may not return\<close>

definition obind :: "(stop + 'a) option \<Rightarrow> ('a \<Rightarrow> (stop + 'b) option) \<Rightarrow> (stop + 'b) option" where
  "obind m f = Option.bind m (\<lambda>r. case r of Inl e \<Rightarrow> Some (Inl e) | Inr x \<Rightarrow> f x)"

lemma obind_simps [simp]:
  "obind None f = None" "obind (Some (Inl e)) f = Some (Inl e)" "obind (Some (Inr x)) f = f x"
  by (simp_all add: obind_def)

lemma obind_eq_Inr:
  "obind m f = Some (Inr y) \<longleftrightarrow> (\<exists>x. m = Some (Inr x) \<and> f x = Some (Inr y))"
  by (cases m) (auto simp: obind_def split: sum.split)

lemma obind_mono [partial_function_mono]:
  assumes "mono_option m" and "\<And>y. mono_option (\<lambda>f. C y f)"
  shows "mono_option (\<lambda>f. obind (m f) (\<lambda>y. C y f))"
proof -
  have "mono_option (\<lambda>f. case r of Inl e \<Rightarrow> Some (Inl e) | Inr x \<Rightarrow> C x f)" for r
    using assms(2) by (cases r) (simp_all add: monotone_def flat_ord_def fun_ord_def option.leq_refl)
  then show ?thesis
    unfolding obind_def by (intro bind_mono assms(1))
qed

section \<open>Packets\<close>

text \<open>The search for the checksum marker: its distance, at most \<open>n\<close>.\<close>

fun ProcessGdbPacket_scan :: "u8 list \<Rightarrow> nat \<Rightarrow> nat" where
  "ProcessGdbPacket_scan Packet 0 = 0"
| "ProcessGdbPacket_scan [] (Suc n) = 0"
| "ProcessGdbPacket_scan (c # Packet) (Suc n) =
     (if c = 35 then 0 else Suc (ProcessGdbPacket_scan Packet n))"

text \<open>The result is the buffer after the call and the new state.\<close>

definition ProcessGdbPacket ::
  "'w agent \<Rightarrow> u8 list \<Rightarrow> nat \<Rightarrow> 'w gdb \<Rightarrow> stop + (u8 list \<times> 'w gdb)" where
  "ProcessGdbPacket ag Packet PacketLength s =
     (if Packet = [] then Inl OutOfBounds
      else ASSERT (ag_asserts ag) (Packet ! 0 = 36)
        (let ChecksumIndex = 1 + ProcessGdbPacket_scan (drop 1 Packet) (PacketLength - 1) in
         if PacketLength \<le> ChecksumIndex + 2 then Inr (Packet, SendGdbAck False s)
         else if length Packet \<le> ChecksumIndex + 2 then Inl OutOfBounds
         else
           (let ChecksumString = [Packet ! (ChecksumIndex + 1), Packet ! (ChecksumIndex + 2), 0] in
            case AsciiStrHexToBytes (ag_lib ag) ChecksumString 2 of
              None \<Rightarrow> Inr (Packet, SendGdbAck False s)
            | Some Checksum \<Rightarrow>
                if c_hd Checksum \<noteq> CalculateSum8 (drop 1 Packet) (ChecksumIndex - 1)
                then Inr (Packet, SendGdbAck False s)
                else
                  (let Packet = Packet[ChecksumIndex := 0];
                       s1 = (SendGdbAck True s)\<lparr>mConnectionOccurred := True\<rparr> in
                   ebind (ExecuteGdbCommand ag (drop 1 Packet) (ChecksumIndex - 1) s1)
                     (\<lambda>s2. Inr (Packet, s2))))))"

section \<open>The request loop\<close>

text \<open>
  The inner loop of \<open>ProcessInputData\<close>, which collects one packet: \<open>None\<close> in the result is
  the jump to \<open>ErrorExit\<close>, otherwise the buffer and \<open>PacketLength\<close>.
\<close>

function ProcessInputData_packet ::
  "'w agent \<Rightarrow> u8 list \<Rightarrow> nat \<Rightarrow> 'w gdb \<Rightarrow> (stop + ((u8 list \<times> nat) option \<times> 'w gdb)) option" where
  "ProcessInputData_packet ag mRequest PacketLength s =
     (if length mRequest \<le> PacketLength then Some (Inr (None, SendGdbAck False s))
      else
        (case DebugReadByte ag 1000 s of
           None \<Rightarrow> None
         | Some (Inl e) \<Rightarrow> Some (Inl e)
         | Some (Inr (None, s1)) \<Rightarrow> Some (Inr (None, SendGdbAck False s1))
         | Some (Inr (Some b, s1)) \<Rightarrow>
             (let mRequest' = mRequest[PacketLength := b]; PacketLength' = Suc PacketLength in
              if PacketLength' < 4 \<or> mRequest' ! (PacketLength' - 3) \<noteq> 35
              then ProcessInputData_packet ag mRequest' PacketLength' s1
              else Some (Inr (Some (mRequest', PacketLength'), s1)))))"
  by pat_completeness auto
termination
  by (relation "measure (\<lambda>(ag, mRequest, PacketLength, s). length mRequest - PacketLength)") auto

declare ProcessInputData_packet.simps [simp del]

partial_function (option) ProcessInputData_loop ::
  "'w agent \<Rightarrow> u8 list \<Rightarrow> 'w gdb \<Rightarrow> (stop + 'w gdb) option" where
  "ProcessInputData_loop ag mRequest s =
     obind (DebugReadByte ag 10 s) (\<lambda>(Byte, s1).
       case Byte of
         None \<Rightarrow> Some (Inr s1)
       | Some b \<Rightarrow>
           (let mRequest = mRequest[0 := b] in
            if b = 45 \<and> \<not> mResponseAcknowledged s1 then
              obind (Some (SendGdbResponse ag None s1)) (\<lambda>s2. ProcessInputData_loop ag mRequest s2)
            else if b = 43 then
              ProcessInputData_loop ag mRequest (s1\<lparr>mResponseAcknowledged := True\<rparr>)
            else if b \<noteq> 36 then ProcessInputData_loop ag mRequest s1
            else
              obind (ProcessInputData_packet ag mRequest 1 s1) (\<lambda>(P, s2).
                case P of
                  None \<Rightarrow> Some (Inr s2)
                | Some (mRequest, PacketLength) \<Rightarrow>
                    obind (Some (ProcessGdbPacket ag mRequest PacketLength s2)) (\<lambda>(mRequest, s3).
                      ProcessInputData_loop ag mRequest s3))))"

definition ProcessInputData :: "'w agent \<Rightarrow> 'w gdb \<Rightarrow> (stop + 'w gdb) option" where
  "ProcessInputData ag s = ProcessInputData_loop ag (replicate MAX_REQUEST_SIZE 0) s"

section \<open>Breaking in\<close>

text \<open>
  \<open>DebuggerBreak\<close> of Breakpoint.c. \<open>CpuBreakpoint\<close> is the effect of the breakpoint
  instruction: the exception it raises, its handler and the return from it.
\<close>

definition DebuggerBreak ::
  "('w gdb \<Rightarrow> (stop + 'w gdb) option) \<Rightarrow> BREAKPOINT_REASON \<Rightarrow> 'w gdb \<Rightarrow> (stop + 'w gdb) option" where
  "DebuggerBreak CpuBreakpoint Reason s =
     obind (CpuBreakpoint (s\<lparr>DebuggerBreakpointReason := Reason\<rparr>))
       (\<lambda>s1. Some (Inr (s1\<lparr>DebuggerBreakpointReason := BreakpointReasonNone\<rparr>)))"

partial_function (option) DebuggerPollInput ::
  "('w gdb \<Rightarrow> (stop + 'w gdb) option) \<Rightarrow> 'w agent \<Rightarrow> 'w gdb \<Rightarrow> (stop + 'w gdb) option" where
  "DebuggerPollInput CpuBreakpoint ag s =
     (case DebugTransportPoll s of (pending, s1) \<Rightarrow>
        if \<not> pending then Some (Inr s1)
        else obind (DebugReadByte ag 10 s1) (\<lambda>(Character, s2).
          case Character of
            None \<Rightarrow> Some (Inr s2)
          | Some c \<Rightarrow>
              if c = 3 then
                obind (DebuggerBreak CpuBreakpoint BreakpointReasonDebuggerBreak s2)
                  (\<lambda>s3. DebuggerPollInput CpuBreakpoint ag s3)
              else DebuggerPollInput CpuBreakpoint ag s2))"

definition DebuggerInitialBreakpoint ::
  "('w gdb \<Rightarrow> (stop + 'w gdb) option) \<Rightarrow> u64 \<Rightarrow> 'w gdb \<Rightarrow> (stop + 'w gdb) option" where
  "DebuggerInitialBreakpoint CpuBreakpoint Timeout s =
     DebuggerBreak CpuBreakpoint BreakpointReasonInitial (s\<lparr>mNextBreakpointTimeout := Timeout\<rparr>)"

section \<open>Entry from an exception\<close>

text \<open>The loop \<open>while (DebugTransportPoll ())\<close> of \<open>ReportEntryToDebugger\<close>.\<close>

partial_function (option) ReportEntryToDebugger_input ::
  "'w agent \<Rightarrow> 'w gdb \<Rightarrow> (stop + 'w gdb) option" where
  "ReportEntryToDebugger_input ag s =
     (case DebugTransportPoll s of (pending, s1) \<Rightarrow>
        if pending then obind (ProcessInputData ag s1) (\<lambda>s2. ReportEntryToDebugger_input ag s2)
        else Some (Inr s1))"

text \<open>The loop \<open>while (!gRunning)\<close>.\<close>

partial_function (option) ReportEntryToDebugger_loop ::
  "'w agent \<Rightarrow> u64 \<Rightarrow> 'w gdb \<Rightarrow> (stop + 'w gdb) option" where
  "ReportEntryToDebugger_loop ag EndTime s =
     (if gRunning s then Some (Inr s)
      else obind (ReportEntryToDebugger_input ag s) (\<lambda>s1.
        if \<not> mConnectionOccurred s1 \<and> EndTime \<noteq> 0 then
          obind (Some (GetTimeMs ag s1)) (\<lambda>(t, s2).
            ReportEntryToDebugger_loop ag EndTime (if EndTime \<le> t then s2\<lparr>gRunning := True\<rparr> else s2))
        else ReportEntryToDebugger_loop ag EndTime s1))"

definition ReportEntryToDebugger ::
  "'w agent \<Rightarrow> EXCEPTION_INFO \<Rightarrow> ctx \<Rightarrow> 'w gdb \<Rightarrow> (stop + 'w gdb) option" where
  "ReportEntryToDebugger ag ExceptionInfo SystemContext s =
     (let s1 = s\<lparr>gSystemContext := SystemContext, gExceptionInfo := ExceptionInfo,
                 gRunning := False, log_suspended := True\<rparr> in
      obind
        (if ExceptionType ExceptionInfo = ExceptionBreakpoint \<and> mNextBreakpointTimeout s1 \<noteq> 0 then
           obind (Some (GetTimeMs ag s1)) (\<lambda>(t, s2).
             Some (Inr (t + mNextBreakpointTimeout s2, s2\<lparr>mNextBreakpointTimeout := 0\<rparr>)))
         else Some (Inr (0, s1)))
        (\<lambda>(EndTime, s2).
          obind (Some (SendStopReply ag s2)) (\<lambda>s3.
            obind (ReportEntryToDebugger_loop ag EndTime s3) (\<lambda>s4.
              obind (if mRebootOnContinue s4
                     then Some (ebind (ag_DebugReboot ag (world s4)) (\<lambda>w. Inr (s4\<lparr>world := w\<rparr>)))
                     else Some (Inr s4))
                (\<lambda>s5. Some (Inr (s5\<lparr>log_suspended := False\<rparr>)))))))"

end
