(* ===== verification/DebugX64.thy ===== *)
theory DebugX64
  imports Bytes Watchpoints GdbStub
begin

text \<open>
  X64/DebugX64.c and the X64 half of the stub's register printing: the debug registers and
  hardware watchpoints, the time stamp counter, single stepping, and the exception handler.
  The processor's registers extend the machine state; the watchdog library is a parameter.
\<close>

section \<open>State\<close>

record 'p x64 = "'p machine" +
  DR0 :: u64
  DR1 :: u64
  DR2 :: u64
  DR3 :: u64
  DR6 :: u64
  DR7 :: u64
  CR3 :: u64
  CR4 :: u64
  TR :: u16
  IDTR :: "u64 \<times> u16"
  GDTR :: "u64 \<times> u16"
  MSR :: "u32 \<Rightarrow> u64"
  mPerformanceCounterFreq :: u64

text \<open>The bit fields of \<open>X64_DR7\<close> for breakpoint \<open>i\<close>.\<close>

definition DR7_L :: "u64 \<Rightarrow> nat \<Rightarrow> u64" where "DR7_L Dr7 i = get_field Dr7 (2 * i) 1"
definition DR7_RW :: "u64 \<Rightarrow> nat \<Rightarrow> u64" where "DR7_RW Dr7 i = get_field Dr7 (16 + 4 * i) 2"
definition DR7_LEN :: "u64 \<Rightarrow> nat \<Rightarrow> u64" where "DR7_LEN Dr7 i = get_field Dr7 (18 + 4 * i) 2"

definition DR7_arm :: "nat \<Rightarrow> u64 \<Rightarrow> u64 \<Rightarrow> u64 \<Rightarrow> u64" where
  "DR7_arm i Rw Len Dr7 =
     set_field (set_field (set_field Dr7 (2 * i) 1 1) (16 + 4 * i) 2 Rw) (18 + 4 * i) 2 Len"

definition DR7_disarm :: "nat \<Rightarrow> u64 \<Rightarrow> u64" where
  "DR7_disarm i Dr7 = set_field Dr7 (2 * i) 1 0"

definition mArchBreakpointInstruction_X64 :: "u8 list" where
  "mArchBreakpointInstruction_X64 = [0xCC]"

section \<open>Initialisation, time and stepping\<close>

definition DR7_ENABLE_MASK :: u64 where "DR7_ENABLE_MASK = 0xFF"
definition TF_BIT :: u64 where "TF_BIT = 0x100"

definition DebugArchInit_X64 :: "u64 \<Rightarrow> 'p x64 \<Rightarrow> 'p x64" where
  "DebugArchInit_X64 PerformanceCounterFreq m =
     m\<lparr>DR7 := DR7 m AND NOT DR7_ENABLE_MASK, mPerformanceCounterFreq := PerformanceCounterFreq\<rparr>"

text \<open>\<open>DebugGetTimeMs\<close> of a time stamp counter value.\<close>

definition DebugGetTimeMs_X64 :: "u64 \<Rightarrow> 'p x64 \<Rightarrow> stop + u64" where
  "DebugGetTimeMs_X64 Tsc m =
     (if mPerformanceCounterFreq m = 0 then Inl DivideError else Inr (Tsc div mPerformanceCounterFreq m))"

definition AddSingleStep_X64 :: "(X64_FIELD \<Rightarrow> nat) \<Rightarrow> ctx \<Rightarrow> 'p x64 \<Rightarrow> ctx \<times> 'p x64" where
  "AddSingleStep_X64 off c m =
     (ctx_set64 c (off X_Rflags) (ctx_get64 c (off X_Rflags) OR TF_BIT), m)"

section \<open>Watchpoints\<close>

definition LengthToDebugRegLen :: "u64 \<Rightarrow> u64" where
  "LengthToDebugRegLen Length =
     (if Length = 8 then 2 else if Length = 4 then 3 else if Length = 2 then 1 else 0)"

definition AddWatchpoint_X64 ::
  "u64 \<Rightarrow> u64 \<Rightarrow> bool \<Rightarrow> bool \<Rightarrow> 'p x64 \<Rightarrow> bool \<times> 'p x64" where
  "AddWatchpoint_X64 Address Length Read Write m =
     (let Rw = (if Read then 3 else 1); Len = LengthToDebugRegLen Length; Dr7 = DR7 m in
      if DR7_L Dr7 0 \<noteq> 0 \<and> DR7_RW Dr7 0 = Rw \<and> DR7_LEN Dr7 0 = Len \<and> DR0 m = Address then (True, m)
      else if DR7_L Dr7 1 \<noteq> 0 \<and> DR7_RW Dr7 1 = Rw \<and> DR7_LEN Dr7 1 = Len \<and> DR1 m = Address then (True, m)
      else if DR7_L Dr7 2 \<noteq> 0 \<and> DR7_RW Dr7 2 = Rw \<and> DR7_LEN Dr7 2 = Len \<and> DR2 m = Address then (True, m)
      else if DR7_L Dr7 3 \<noteq> 0 \<and> DR7_RW Dr7 3 = Rw \<and> DR7_LEN Dr7 3 = Len \<and> DR3 m = Address then (True, m)
      else if DR7_L Dr7 0 = 0 then (True, m\<lparr>DR0 := Address, DR7 := DR7_arm 0 Rw Len Dr7\<rparr>)
      else if DR7_L Dr7 1 = 0 then (True, m\<lparr>DR1 := Address, DR7 := DR7_arm 1 Rw Len Dr7\<rparr>)
      else if DR7_L Dr7 2 = 0 then (True, m\<lparr>DR2 := Address, DR7 := DR7_arm 2 Rw Len Dr7\<rparr>)
      else if DR7_L Dr7 3 = 0 then (True, m\<lparr>DR3 := Address, DR7 := DR7_arm 3 Rw Len Dr7\<rparr>)
      else (False, m))"

definition RemoveWatchpoint_X64 ::
  "u64 \<Rightarrow> u64 \<Rightarrow> bool \<Rightarrow> bool \<Rightarrow> 'p x64 \<Rightarrow> bool \<times> 'p x64" where
  "RemoveWatchpoint_X64 Address Length Read Write m =
     (let Rw = (if Read then 3 else 1); Len = LengthToDebugRegLen Length; Dr7 = DR7 m in
      if DR7_L Dr7 0 \<noteq> 0 \<and> DR7_RW Dr7 0 = Rw \<and> DR7_LEN Dr7 0 = Len \<and> DR0 m = Address
      then (True, m\<lparr>DR7 := DR7_disarm 0 Dr7\<rparr>)
      else if DR7_L Dr7 1 \<noteq> 0 \<and> DR7_RW Dr7 1 = Rw \<and> DR7_LEN Dr7 1 = Len \<and> DR1 m = Address
      then (True, m\<lparr>DR7 := DR7_disarm 1 Dr7\<rparr>)
      else if DR7_L Dr7 2 \<noteq> 0 \<and> DR7_RW Dr7 2 = Rw \<and> DR7_LEN Dr7 2 = Len \<and> DR2 m = Address
      then (True, m\<lparr>DR7 := DR7_disarm 2 Dr7\<rparr>)
      else if DR7_L Dr7 3 \<noteq> 0 \<and> DR7_RW Dr7 3 = Rw \<and> DR7_LEN Dr7 3 = Len \<and> DR3 m = Address
      then (True, m\<lparr>DR7 := DR7_disarm 3 Dr7\<rparr>)
      else (False, m))"

text \<open>The key a request denotes, and the registers as slots.\<close>

definition x64_key :: "u64 \<Rightarrow> u64 \<Rightarrow> bool \<Rightarrow> bool \<Rightarrow> (u64 \<times> u64 \<times> u64) option" where
  "x64_key Address Length Read Write =
     Some (Address, if Read then 3 else 1, LengthToDebugRegLen Length)"

definition x64_slot :: "u64 \<Rightarrow> u64 \<Rightarrow> nat \<Rightarrow> (u64 \<times> u64 \<times> u64) option" where
  "x64_slot Dr7 Dr i = (if DR7_L Dr7 i = 0 then None else Some (Dr, DR7_RW Dr7 i, DR7_LEN Dr7 i))"

definition x64_slots :: "'p x64 \<Rightarrow> (u64 \<times> u64 \<times> u64) option list" where
  "x64_slots m = [x64_slot (DR7 m) (DR0 m) 0, x64_slot (DR7 m) (DR1 m) 1,
                  x64_slot (DR7 m) (DR2 m) 2, x64_slot (DR7 m) (DR3 m) 3]"

lemma LengthToDebugRegLen_field: "take_bit 2 (LengthToDebugRegLen l) = LengthToDebugRegLen l"
  by (simp add: LengthToDebugRegLen_def)

lemma x64_slot_arm_same:
  "i < 4 \<Longrightarrow> take_bit 2 Rw = Rw \<Longrightarrow> take_bit 2 Len = Len \<Longrightarrow>
     x64_slot (DR7_arm i Rw Len v) a i = Some (a, Rw, Len)"
  by (simp add: x64_slot_def DR7_L_def DR7_RW_def DR7_LEN_def DR7_arm_def)

lemma x64_slot_arm_other:
  assumes "i < 4" "j < 4" "i \<noteq> j"
  shows "x64_slot (DR7_arm i Rw Len v) a j = x64_slot v a j"
proof -
  have "i \<in> {0, 1, 2, 3}" "j \<in> {0, 1, 2, 3}" using assms(1,2) by auto
  with assms(3) show ?thesis
    by (auto simp: x64_slot_def DR7_L_def DR7_RW_def DR7_LEN_def DR7_arm_def)
qed

lemma x64_slot_disarm_same: "i < 4 \<Longrightarrow> x64_slot (DR7_disarm i v) a i = None"
  by (simp add: x64_slot_def DR7_L_def DR7_disarm_def)

lemma x64_slot_disarm_other:
  assumes "i < 4" "j < 4" "i \<noteq> j"
  shows "x64_slot (DR7_disarm i v) a j = x64_slot v a j"
proof -
  have "i \<in> {0, 1, 2, 3}" "j \<in> {0, 1, 2, 3}" using assms(1,2) by auto
  with assms(3) show ?thesis
    by (auto simp: x64_slot_def DR7_L_def DR7_RW_def DR7_LEN_def DR7_disarm_def)
qed

lemma x64_slot_Some:
  "x64_slot Dr7 Dr i = Some (a, rw, len) \<longleftrightarrow>
     DR7_L Dr7 i \<noteq> 0 \<and> DR7_RW Dr7 i = rw \<and> DR7_LEN Dr7 i = len \<and> Dr = a"
  by (auto simp: x64_slot_def)

lemma x64_slot_None: "x64_slot Dr7 Dr i = None \<longleftrightarrow> DR7_L Dr7 i = 0"
  by (simp add: x64_slot_def)

text \<open>The code's tests on the fields are tests on the slots.\<close>

lemma x64_tests:
  "DR7_L Dr7 i \<noteq> 0 \<and> DR7_RW Dr7 i = rw \<and> DR7_LEN Dr7 i = len \<and> Dr = a \<longleftrightarrow>
     x64_slot Dr7 Dr i = Some (a, rw, len)"
  by (auto simp: x64_slot_def)

lemma AddWatchpoint_X64_slots:
  assumes "k = (a, if r then 3 else 1, LengthToDebugRegLen l)"
  shows "\<exists>w'. AddWatchpoint_X64 a l r s w = (fst (slots_add (x64_slots w) k), w') \<and>
    x64_slots w' = snd (slots_add (x64_slots w) k) \<and> (\<not> fst (slots_add (x64_slots w) k) \<longrightarrow> w' = w)"
proof -
  define rw where "rw = (if r then 3 else (1 :: u64))"
  define len where "len = LengthToDebugRegLen l"
  have fields: "take_bit 2 rw = rw" "take_bit 2 len = len"
    using LengthToDebugRegLen_field by (simp_all add: rw_def len_def)
  let ?s0 = "x64_slot (DR7 w) (DR0 w) 0" and ?s1 = "x64_slot (DR7 w) (DR1 w) 1"
  let ?s2 = "x64_slot (DR7 w) (DR2 w) 2" and ?s3 = "x64_slot (DR7 w) (DR3 w) 3"
  note k = assms [folded rw_def len_def]
  note unf = x64_slots_def slots_add_4 AddWatchpoint_X64_def Let_def x64_tests
    rw_def [symmetric] len_def [symmetric] k [symmetric]
  consider (dup) "?s0 = Some k \<or> ?s1 = Some k \<or> ?s2 = Some k \<or> ?s3 = Some k"
    | (new) "?s0 \<noteq> Some k" "?s1 \<noteq> Some k" "?s2 \<noteq> Some k" "?s3 \<noteq> Some k" by blast
  then show ?thesis
  proof cases
    case dup
    then show ?thesis unfolding unf by (elim disjE) simp_all
  next
    case new
    then have new': "?s1 \<noteq> Some k \<longleftrightarrow> True" "x64_slot (DR7 w) (DR1 w) (Suc 0) = Some k \<longleftrightarrow> False" by simp_all
    consider (n0) "DR7_L (DR7 w) 0 = 0" | (n1) "DR7_L (DR7 w) 0 \<noteq> 0" "DR7_L (DR7 w) 1 = 0"
      | (n2) "DR7_L (DR7 w) 0 \<noteq> 0" "DR7_L (DR7 w) 1 \<noteq> 0" "DR7_L (DR7 w) 2 = 0"
      | (n3) "DR7_L (DR7 w) 0 \<noteq> 0" "DR7_L (DR7 w) 1 \<noteq> 0" "DR7_L (DR7 w) 2 \<noteq> 0" "DR7_L (DR7 w) 3 = 0"
      | (full) "DR7_L (DR7 w) 0 \<noteq> 0" "DR7_L (DR7 w) 1 \<noteq> 0" "DR7_L (DR7 w) 2 \<noteq> 0" "DR7_L (DR7 w) 3 \<noteq> 0"
      by blast
    then show ?thesis
      unfolding unf using new fields
      by cases (simp_all add: x64_slot_None x64_slot_arm_same x64_slot_arm_other k)
  qed
qed

lemma RemoveWatchpoint_X64_slots:
  assumes "k = (a, if r then 3 else 1, LengthToDebugRegLen l)"
  shows "\<exists>w'. RemoveWatchpoint_X64 a l r s w = (fst (slots_remove (x64_slots w) k), w') \<and>
    x64_slots w' = snd (slots_remove (x64_slots w) k) \<and> (\<not> fst (slots_remove (x64_slots w) k) \<longrightarrow> w' = w)"
  unfolding assms x64_slots_def slots_remove_4 RemoveWatchpoint_X64_def Let_def x64_tests
  by (simp add: x64_slot_disarm_same x64_slot_disarm_other)

interpretation x64_wp: watchpoint_unit AddWatchpoint_X64 RemoveWatchpoint_X64 x64_key
  "\<lambda>w. slots_armed (x64_slots w)" 4 "\<lambda>w. slots_unique (x64_slots w) \<and> length (x64_slots w) = 4"
  by (rule watchpoint_unit_slots)
    (simp_all only: x64_key_def option.case AddWatchpoint_X64_slots RemoveWatchpoint_X64_slots)

text \<open>Initialisation leaves no watchpoint armed.\<close>

lemma DebugArchInit_X64_slots: "x64_slots (DebugArchInit_X64 f w) = [None, None, None, None]"
proof -
  have "get_field (DR7 w AND NOT DR7_ENABLE_MASK) (2 * i) 1 = 0" if "i < 4" for i
  proof -
    have eq: "DR7_ENABLE_MASK = mask 8" by (simp add: mask_eq_exp_minus_1 DR7_ENABLE_MASK_def)
    have low: "bit DR7_ENABLE_MASK n" if "n < 8" for n
      unfolding eq bit_mask_iff using that by simp
    have "\<not> bit (get_field (DR7 w AND NOT DR7_ENABLE_MASK) (2 * i) 1) n" for n
    proof
      assume "bit (get_field (DR7 w AND NOT DR7_ENABLE_MASK) (2 * i) 1) n"
      then have "n < 1" "\<not> bit DR7_ENABLE_MASK (2 * i + n)"
        unfolding bit_get_field bit_and_iff bit_not_iff by blast+
      with low [of "2 * i + n"] \<open>i < 4\<close> show False by simp
    qed
    moreover have "\<not> bit (0 :: u64) n" for n by simp
    ultimately show ?thesis by (intro bit_word_eqI) blast
  qed
  then have "x64_slot (DR7 (DebugArchInit_X64 f w)) a i = None" if "i < 4" for a i
  proof -
    have "DR7 (DebugArchInit_X64 f w) = DR7 w AND NOT DR7_ENABLE_MASK" by (simp add: DebugArchInit_X64_def)
    then show ?thesis using \<open>\<And>i. i < 4 \<Longrightarrow> _\<close> [OF that] by (simp only: x64_slot_None DR7_L_def)
  qed
  then show ?thesis by (simp add: x64_slots_def)
qed

section \<open>The exception handler\<close>

text \<open>The watchdog library: both calls only touch state outside the repository.\<close>

record 'p watchdog =
  WatchdogSuspend :: "'p \<Rightarrow> bool \<times> 'p"
  WatchdogResume :: "bool \<Rightarrow> 'p \<Rightarrow> 'p"

definition EXCEPT_X64_DIVIDE_ERROR :: u64 where "EXCEPT_X64_DIVIDE_ERROR = 0"
definition EXCEPT_X64_DEBUG :: u64 where "EXCEPT_X64_DEBUG = 1"
definition EXCEPT_X64_NMI :: u64 where "EXCEPT_X64_NMI = 2"
definition EXCEPT_X64_BREAKPOINT :: u64 where "EXCEPT_X64_BREAKPOINT = 3"
definition EXCEPT_X64_DOUBLE_FAULT :: u64 where "EXCEPT_X64_DOUBLE_FAULT = 8"
definition EXCEPT_X64_SEG_NOT_PRESENT :: u64 where "EXCEPT_X64_SEG_NOT_PRESENT = 11"
definition EXCEPT_X64_GP_FAULT :: u64 where "EXCEPT_X64_GP_FAULT = 13"
definition EXCEPT_X64_PAGE_FAULT :: u64 where "EXCEPT_X64_PAGE_FAULT = 14"

lemmas EXCEPT_X64_defs = EXCEPT_X64_DEBUG_def EXCEPT_X64_BREAKPOINT_def EXCEPT_X64_PAGE_FAULT_def
  EXCEPT_X64_DOUBLE_FAULT_def EXCEPT_X64_SEG_NOT_PRESENT_def EXCEPT_X64_GP_FAULT_def

text \<open>The vectors the debugger takes over, without the end marker.\<close>

definition mArchExceptionTypes_X64 :: "u64 list" where
  "mArchExceptionTypes_X64 =
     [EXCEPT_X64_DIVIDE_ERROR, EXCEPT_X64_DEBUG, EXCEPT_X64_BREAKPOINT, EXCEPT_X64_DOUBLE_FAULT,
      EXCEPT_X64_GP_FAULT, EXCEPT_X64_PAGE_FAULT, EXCEPT_X64_SEG_NOT_PRESENT, EXCEPT_X64_NMI]"

text \<open>The first switch: the changed context and the exception information.\<close>

definition DebuggerExceptionHandler_X64_entry ::
  "(X64_FIELD \<Rightarrow> nat) \<Rightarrow> u64 \<Rightarrow> ctx \<Rightarrow> ctx \<times> EXCEPTION_INFO" where
  "DebuggerExceptionHandler_X64_entry off InterruptType c =
     (if InterruptType = EXCEPT_X64_DEBUG then
        (let c' = ctx_set64 c (off X_Rflags) (ctx_get64 c (off X_Rflags) AND NOT TF_BIT) in
         (c', \<lparr>ExceptionType = ExceptionDebugStep, ExceptionAddress = ctx_get64 c' (off X_Rip),
               ArchExceptionCode = InterruptType\<rparr>))
      else if InterruptType = EXCEPT_X64_BREAKPOINT then
        (let c' = ctx_set64 c (off X_Rip) (ctx_get64 c (off X_Rip) - 1) in
         (c', \<lparr>ExceptionType = ExceptionBreakpoint, ExceptionAddress = ctx_get64 c' (off X_Rip),
               ArchExceptionCode = InterruptType\<rparr>))
      else if InterruptType = EXCEPT_X64_PAGE_FAULT then
        (c, \<lparr>ExceptionType = ExceptionAccessViolation, ExceptionAddress = ctx_get64 c (off X_Rip),
             ArchExceptionCode = InterruptType\<rparr>)
      else
        (c, \<lparr>ExceptionType = ExceptionGenericFault, ExceptionAddress = ctx_get64 c (off X_Rip),
             ArchExceptionCode = InterruptType\<rparr>))"

text \<open>
  The handler. The context the processor resumes with is \<open>gSystemContext\<close> of the result: the
  pointer refers to the saved context until the handler returns.
\<close>

definition DebuggerExceptionHandler_X64 ::
  "'p watchdog \<Rightarrow> (X64_FIELD \<Rightarrow> nat) \<Rightarrow> 'p x64 agent \<Rightarrow> u64 \<Rightarrow> ctx \<Rightarrow> 'p x64 gdb \<Rightarrow>
   (stop + 'p x64 gdb) option" where
  "DebuggerExceptionHandler_X64 wd off ag InterruptType c s =
     (let (WatchdogState, p) = WatchdogSuspend wd (plat (world s));
          s0 = s\<lparr>world := (world s)\<lparr>plat := p\<rparr>\<rparr>;
          (c1, ExceptionInfo) = DebuggerExceptionHandler_X64_entry off InterruptType c in
      obind (ReportEntryToDebugger ag ExceptionInfo c1 s0) (\<lambda>s1.
        let c2 = gSystemContext s1;
            c3 = (if InterruptType = EXCEPT_X64_BREAKPOINT \<and>
                     memory (world s1) (ctx_get64 c2 (off X_Rip)) = 0xCC
                  then ctx_set64 c2 (off X_Rip) (ctx_get64 c2 (off X_Rip) + 1) else c2)
        in Some (Inr (s1\<lparr>gSystemContext := c3,
             world := (world s1)\<lparr>plat := WatchdogResume wd WatchdogState (plat (world s1))\<rparr>\<rparr>))))"

text \<open>Arming a step and taking the debug exception clears exactly what was set.\<close>

lemma single_step_taken:
  assumes "off X_Rip + 8 \<le> off X_Rflags \<or> off X_Rflags + 8 \<le> off X_Rip"
  shows "fst (DebuggerExceptionHandler_X64_entry off EXCEPT_X64_DEBUG (fst (AddSingleStep_X64 off c m))) =
      ctx_set64 c (off X_Rflags) (ctx_get64 c (off X_Rflags) AND NOT TF_BIT)"
proof -
  have "(v OR TF_BIT) AND NOT TF_BIT = v AND NOT TF_BIT" for v
    by (rule bit_word_eqI) (auto simp: bit_simps)
  then show ?thesis by (simp add: DebuggerExceptionHandler_X64_entry_def AddSingleStep_X64_def Let_def)
qed

text \<open>
  Resuming from a breakpoint whose context the debugger left alone: past the instruction
  when it is still there, at it when the original byte has been put back.
\<close>

lemma breakpoint_resume:
  assumes rep: "ReportEntryToDebugger ag (snd (DebuggerExceptionHandler_X64_entry off EXCEPT_X64_BREAKPOINT c))
      (fst (DebuggerExceptionHandler_X64_entry off EXCEPT_X64_BREAKPOINT c))
      (s\<lparr>world := (world s)\<lparr>plat := snd (WatchdogSuspend wd (plat (world s)))\<rparr>\<rparr>) = Some (Inr s1)"
    and same: "gSystemContext s1 = fst (DebuggerExceptionHandler_X64_entry off EXCEPT_X64_BREAKPOINT c)"
  shows "\<exists>s2. DebuggerExceptionHandler_X64 wd off ag EXCEPT_X64_BREAKPOINT c s = Some (Inr s2) \<and>
    memory (world s2) = memory (world s1) \<and>
    gSystemContext s2 =
      (if memory (world s1) (ctx_get64 c (off X_Rip) - 1) = 0xCC then c
       else ctx_set64 c (off X_Rip) (ctx_get64 c (off X_Rip) - 1))"
proof -
  have c1: "fst (DebuggerExceptionHandler_X64_entry off EXCEPT_X64_BREAKPOINT c) =
      ctx_set64 c (off X_Rip) (ctx_get64 c (off X_Rip) - 1)"
    by (simp add: DebuggerExceptionHandler_X64_entry_def EXCEPT_X64_DEBUG_def EXCEPT_X64_BREAKPOINT_def Let_def)
  show ?thesis
    using rep same [unfolded c1]
    by (auto simp: DebuggerExceptionHandler_X64_def Let_def split: prod.split)
qed

section \<open>Printing registers\<close>

definition GdbReadMsr_X64 :: "lib \<Rightarrow> u8 list \<Rightarrow> nat \<Rightarrow> 'p x64 \<Rightarrow> u8 list" where
  "GdbReadMsr_X64 L Cmd BufferLength m =
     (let MsrNumber = AsciiStrHexToUintn L Cmd; MsrValue = MSR m (ucast MsrNumber) in
      AsciiSPrint L BufferLength (str ''MSR %08x = %016x'' @ newline) [PNum MsrNumber, PNum MsrValue])"

definition GdbDumpSystemRegisters_X64 :: "lib \<Rightarrow> u8 list \<Rightarrow> nat \<Rightarrow> 'p x64 \<Rightarrow> u8 list" where
  "GdbDumpSystemRegisters_X64 L Cmd BufferLength m =
     AsciiSPrint L BufferLength
       ([13, 10] @ str ''IDT: %llx : %x'' @ newline @ str ''GDT: %llx : %x'' @ newline @
        str ''TR:  %x'' @ newline @ str ''DR0: %llx'' @ newline @ str ''DR1: %llx'' @ newline @
        str ''DR2: %llx'' @ newline @ str ''DR3: %llx'' @ newline @ str ''DR6: %llx'' @ newline @
        str ''DR7: %llx'' @ newline @ [13, 10])
       [PNum (fst (IDTR m)), PNum (ucast (snd (IDTR m))), PNum (fst (GDTR m)), PNum (ucast (snd (GDTR m))),
        PNum (ucast (TR m)), PNum (DR0 m), PNum (DR1 m), PNum (DR2 m), PNum (DR3 m), PNum (DR6 m), PNum (DR7 m)]"

end
