(* ===== verification/AddressCheckX64.thy ===== *)
theory AddressCheckX64
  imports DebugX64
begin

text \<open>
  X64/AddressCheck.c: the page table walk that decides whether an address may be accessed.
  Page tables are read from the memory of the machine (they are identity mapped). The
  lemmas compare the walk with the architecture's for the first 512 GiB, where the upper
  level indices the code does not scale are zero.
\<close>

section \<open>The walk of the code\<close>

datatype PAGE_IS = PAGE_IS_NOT_VALID | PAGE_IS_READ_ONLY | PAGE_IS_READ_WRITE

definition ADDRESS_BITS :: u64 where "ADDRESS_BITS = 0x0000000FFFFFF000"

definition Pml5Index :: "u64 \<Rightarrow> u64" where "Pml5Index a = drop_bit 47 (a AND 0x01FF000000000000)"
definition Pml4Index :: "u64 \<Rightarrow> u64" where "Pml4Index a = drop_bit 39 (a AND 0x0000FF8000000000)"
definition PdpteIndex :: "u64 \<Rightarrow> u64" where "PdpteIndex a = drop_bit 30 (a AND 0x0000007FC0000000)"
definition PdeIndex :: "u64 \<Rightarrow> u64" where "PdeIndex a = drop_bit 21 (a AND 0x000000003FE00000)"
definition PteIndex :: "u64 \<Rightarrow> u64" where "PteIndex a = drop_bit 12 (a AND 0x00000000001FF000)"

text \<open>The bit fields of the page table entries, and \<open>LA57\<close> of CR4.\<close>

definition Present :: "u64 \<Rightarrow> bool" where "Present e = bit e 0"
definition ReadWrite :: "u64 \<Rightarrow> bool" where "ReadWrite e = bit e 1"
definition MustBe1 :: "u64 \<Rightarrow> bool" where "MustBe1 e = bit e 7"
definition LA57 :: "u64 \<Rightarrow> bool" where "LA57 v = bit v 12"

definition leaf_access :: "u64 \<Rightarrow> PAGE_IS" where
  "leaf_access e = (if ReadWrite e then PAGE_IS_READ_WRITE else PAGE_IS_READ_ONLY)"

text \<open>The part of \<open>GetPageIs\<close> from the PML4 pointer on. The PML4 index was added to a byte
  address, the indices below to pointers to eight byte entries.\<close>

definition GetPageIs_from_Pml4 :: "(u64 \<Rightarrow> u8) \<Rightarrow> u64 \<Rightarrow> u64 \<Rightarrow> PAGE_IS" where
  "GetPageIs_from_Pml4 m Pml4 Address =
     (if Pml4 = 0 then PAGE_IS_NOT_VALID
      else
        (let e4 = read_u64 m Pml4 in
         if \<not> Present e4 then PAGE_IS_NOT_VALID
         else
           (let Pte1G = (e4 AND ADDRESS_BITS) + 8 * PdpteIndex Address in
            if Pte1G = 0 then PAGE_IS_NOT_VALID
            else
              (let e3 = read_u64 m Pte1G in
               if \<not> Present e3 then PAGE_IS_NOT_VALID
               else if MustBe1 e3 then leaf_access e3
               else
                 (let Pte2M = (e3 AND ADDRESS_BITS) + 8 * PdeIndex Address in
                  if Pte2M = 0 then PAGE_IS_NOT_VALID
                  else
                    (let e2 = read_u64 m Pte2M in
                     if \<not> Present e2 then PAGE_IS_NOT_VALID
                     else if MustBe1 e2 then leaf_access e2
                     else
                       (let Pte4K = (e2 AND ADDRESS_BITS) + 8 * PteIndex Address in
                        if Pte4K = 0 then PAGE_IS_NOT_VALID
                        else
                          (let e1 = read_u64 m Pte4K in
                           if \<not> Present e1 then PAGE_IS_NOT_VALID else leaf_access e1))))))))"

definition GetPageIs :: "'p x64 \<Rightarrow> u64 \<Rightarrow> PAGE_IS" where
  "GetPageIs w Address =
     (if Address = 0 then PAGE_IS_NOT_VALID
      else if 0x83000000 \<le> Address \<and> Address \<le> 0x87c00000 then PAGE_IS_NOT_VALID
      else
        (let Cr4 = CR4 w; Cr3 = CR3 w AND ADDRESS_BITS in
         if Cr3 = 0 then PAGE_IS_NOT_VALID
         else if LA57 Cr4 then
           (let e5 = read_u64 (memory w) (Cr3 + Pml5Index Address) in
            if \<not> Present e5 then PAGE_IS_NOT_VALID
            else GetPageIs_from_Pml4 (memory w) ((e5 AND ADDRESS_BITS) + Pml4Index Address) Address)
         else GetPageIs_from_Pml4 (memory w) (Cr3 + Pml4Index Address) Address))"

definition IsPageReadable_X64 :: "'p x64 \<Rightarrow> u64 \<Rightarrow> bool" where
  "IsPageReadable_X64 w Address =
     (GetPageIs w Address = PAGE_IS_READ_ONLY \<or> GetPageIs w Address = PAGE_IS_READ_WRITE)"

definition IsPageWritable_X64 :: "'p x64 \<Rightarrow> u64 \<Rightarrow> bool" where
  "IsPageWritable_X64 w Address = (GetPageIs w Address = PAGE_IS_READ_WRITE)"

section \<open>The walk of the architecture\<close>

text \<open>
  Four level paging as the processor does it: the frame is bits 51 to 12 of an entry, the
  index of level \<open>n\<close> nine bits of the address, scaled by the size of an entry. The result is
  the entry that maps the address.
\<close>

definition frame_bits :: "u64 \<Rightarrow> u64" where "frame_bits e = e AND 0x000FFFFFFFFFF000"

definition walk_entry :: "(u64 \<Rightarrow> u8) \<Rightarrow> u64 \<Rightarrow> nat \<Rightarrow> u64 \<Rightarrow> u64" where
  "walk_entry m e lvl a = read_u64 m (frame_bits e + 8 * get_field a (12 + 9 * (lvl - 1)) 9)"

definition x64_leaf :: "(u64 \<Rightarrow> u8) \<Rightarrow> u64 \<Rightarrow> u64 \<Rightarrow> u64 option" where
  "x64_leaf m cr3 a =
     (let e4 = walk_entry m cr3 4 a; e3 = walk_entry m e4 3 a;
          e2 = walk_entry m e3 2 a; e1 = walk_entry m e2 1 a in
      if \<not> Present e4 \<or> \<not> Present e3 then None
      else if MustBe1 e3 then Some e3
      else if \<not> Present e2 then None
      else if MustBe1 e2 then Some e2
      else if \<not> Present e1 then None
      else Some e1)"

text \<open>A table the code can follow: below 64 GiB and not at address 0.\<close>

definition table_ok :: "u64 \<Rightarrow> bool" where
  "table_ok e \<longleftrightarrow> frame_bits e = e AND ADDRESS_BITS \<and> e AND ADDRESS_BITS \<noteq> 0"

definition tables_ok :: "(u64 \<Rightarrow> u8) \<Rightarrow> u64 \<Rightarrow> u64 \<Rightarrow> bool" where
  "tables_ok m cr3 a \<longleftrightarrow>
     (let e4 = walk_entry m cr3 4 a; e3 = walk_entry m e4 3 a; e2 = walk_entry m e3 2 a in
      table_ok cr3 \<and> (Present e4 \<longrightarrow> table_ok e4 \<and>
        (Present e3 \<and> \<not> MustBe1 e3 \<longrightarrow> table_ok e3 \<and>
          (Present e2 \<and> \<not> MustBe1 e2 \<longrightarrow> table_ok e2))))"

lemma index_fields:
  "PdpteIndex a = get_field a 30 9" "PdeIndex a = get_field a 21 9" "PteIndex a = get_field a 12 9"
  "Pml4Index a = get_field a 39 9"
proof -
  have mk: "drop_bit n (a AND push_bit n (mask 9)) = get_field a n 9" if "n \<le> 55" for n
    using that by (intro bit_word_eqI) (auto simp: bit_get_field bit_simps add.commute)
  have "push_bit 30 (mask 9) = (0x0000007FC0000000 :: u64)" "push_bit 21 (mask 9) = (0x000000003FE00000 :: u64)"
    "push_bit 12 (mask 9) = (0x00000000001FF000 :: u64)" "push_bit 39 (mask 9) = (0x0000FF8000000000 :: u64)"
    by (simp_all add: mask_eq_exp_minus_1 push_bit_eq_mult)
  with mk [of 30] mk [of 21] mk [of 12] mk [of 39]
  show "PdpteIndex a = get_field a 30 9" "PdeIndex a = get_field a 21 9" "PteIndex a = get_field a 12 9"
    "Pml4Index a = get_field a 39 9"
    by (simp_all add: PdpteIndex_def PdeIndex_def PteIndex_def Pml4Index_def)
qed

lemma field_small: "unat (8 * get_field a off 9) < 4096"
proof -
  have "unat (get_field a off 9) < 2 ^ 9"
    unfolding get_field_def unsigned_take_bit_eq by (rule take_bit_nat_less_exp)
  then show ?thesis by (simp add: unat_word_ariths)
qed

lemma table_pointer_nonzero:
  assumes "table_ok e"
  shows "(e AND ADDRESS_BITS) + 8 * get_field a off 9 \<noteq> 0"
proof -
  let ?f = "e AND ADDRESS_BITS" and ?i = "8 * get_field a off 9"
  have "?f \<le> ADDRESS_BITS" by (rule word_and_le1)
  then have "unat ?f \<le> 0xFFFFFF000" by (simp add: word_le_nat_alt ADDRESS_BITS_def)
  with field_small [of a off] have "unat (?f + ?i) = unat ?f + unat ?i"
    by (intro unat_add_lem [THEN iffD1]) simp
  moreover have "unat ?f \<noteq> 0" using assms by (simp add: table_ok_def unat_eq_0)
  ultimately show ?thesis by (metis add_is_0 unat_0)
qed

lemma low_address:
  assumes "a < 2 ^ 39"
  shows "get_field a 39 9 = 0"
proof -
  have "drop_bit 39 a = 0" using assms by (simp add: drop_bit_eq_div div_word_less)
  then show ?thesis by (simp add: get_field_def)
qed

text \<open>In the first 512 GiB the code finds the entry the processor uses.\<close>

lemma GetPageIs_eq_walk:
  assumes la: "\<not> LA57 (CR4 w)" and a: "a \<noteq> 0" "a < 2 ^ 39" "\<not> (0x83000000 \<le> a \<and> a \<le> 0x87c00000)"
    and ok: "tables_ok (memory w) (CR3 w) a"
  shows "GetPageIs w a =
    (case x64_leaf (memory w) (CR3 w) a of None \<Rightarrow> PAGE_IS_NOT_VALID | Some e \<Rightarrow> leaf_access e)"
proof -
  let ?m = "memory w"
  define e4 where "e4 = walk_entry ?m (CR3 w) 4 a"
  define e3 where "e3 = walk_entry ?m e4 3 a"
  define e2 where "e2 = walk_entry ?m e3 2 a"
  define e1 where "e1 = walk_entry ?m e2 1 a"
  note es = e4_def [symmetric] e3_def [symmetric] e2_def [symmetric] e1_def [symmetric]
  have ok': "table_ok (CR3 w)" "Present e4 \<Longrightarrow> table_ok e4"
    "Present e4 \<Longrightarrow> Present e3 \<Longrightarrow> \<not> MustBe1 e3 \<Longrightarrow> table_ok e3"
    "Present e4 \<Longrightarrow> Present e3 \<Longrightarrow> \<not> MustBe1 e3 \<Longrightarrow> Present e2 \<Longrightarrow> \<not> MustBe1 e2 \<Longrightarrow> table_ok e2"
    using ok by (auto simp: tables_ok_def Let_def es)
  have ptr: "read_u64 ?m ((e AND ADDRESS_BITS) + 8 * get_field a (12 + 9 * (lvl - 1)) 9) = walk_entry ?m e lvl a"
    if "table_ok e" for e lvl
    using that by (simp add: walk_entry_def table_ok_def)
  have r4: "read_u64 ?m (CR3 w AND ADDRESS_BITS) = e4"
    using ptr [OF ok'(1), of 4] low_address [OF a(2)] by (simp add: e4_def)
  have r3: "read_u64 ?m ((e4 AND ADDRESS_BITS) + 8 * get_field a 30 9) = e3" if "Present e4"
    using ptr [OF ok'(2) [OF that], of 3] by (simp add: e3_def)
  have r2: "read_u64 ?m ((e3 AND ADDRESS_BITS) + 8 * get_field a 21 9) = e2"
    if "Present e4" "Present e3" "\<not> MustBe1 e3"
    using ptr [OF ok'(3) [OF that], of 2] by (simp add: e2_def)
  have r1: "read_u64 ?m ((e2 AND ADDRESS_BITS) + 8 * get_field a 12 9) = e1"
    if "Present e4" "Present e3" "\<not> MustBe1 e3" "Present e2" "\<not> MustBe1 e2"
    using ptr [OF ok'(4) [OF that], of 1] by (simp add: e1_def)
  have "CR3 w AND ADDRESS_BITS \<noteq> 0" using ok'(1) by (simp add: table_ok_def)
  then have "GetPageIs w a = GetPageIs_from_Pml4 ?m (CR3 w AND ADDRESS_BITS) a"
    using la a low_address [OF a(2)] by (auto simp: GetPageIs_def Let_def index_fields)
  also have "\<dots> = (case x64_leaf ?m (CR3 w) a of None \<Rightarrow> PAGE_IS_NOT_VALID | Some e \<Rightarrow> leaf_access e)"
    unfolding GetPageIs_from_Pml4_def x64_leaf_def Let_def es r4 index_fields
    using \<open>CR3 w AND ADDRESS_BITS \<noteq> 0\<close> r3 r2 r1 ok'(2-) table_pointer_nonzero by simp
  finally show ?thesis .
qed

text \<open>Above that, the table index is added to the table address without the size of an entry.\<close>

lemma GetPageIs_unscaled:
  assumes "\<not> LA57 (CR4 w)" "a \<noteq> 0" "\<not> (0x83000000 \<le> a \<and> a \<le> 0x87c00000)" "CR3 w AND ADDRESS_BITS \<noteq> 0"
  shows "GetPageIs w a = GetPageIs_from_Pml4 (memory w) ((CR3 w AND ADDRESS_BITS) + get_field a 39 9) a"
  using assms by (auto simp: GetPageIs_def Let_def index_fields)

end
