(* ===== verification/DebugAarch64.thy ===== *)
theory DebugAarch64
  imports Bytes Watchpoints GdbStub DebugX64
begin

text \<open>
  AARCH64/DebugAarch64.c and the AARCH64 half of the stub's register printing: the debug and
  watchpoint registers, initialisation, single stepping, the page table walk and the
  exception handler. System registers extend the machine state; the watchpoint registers are
  a list of value and control pairs in the order of \<open>DebugWatchpointRegisters\<close>.
\<close>

section \<open>State\<close>

record 'p aarch64 = "'p machine" +
  MDSCR_EL1 :: u64
  DAIF :: u64
  OSLSR_EL1 :: u64
  TCR :: u64
  TTBR0 :: u64
  DBGW :: "(u64 \<times> u64) list"
  CounterFreq :: u64

definition MDSCR_MDE :: u64 where "MDSCR_MDE = 0x8000"
definition MDSCR_KDE :: u64 where "MDSCR_KDE = 0x2000"
definition MDSCR_SS :: u64 where "MDSCR_SS = 1"
definition OSLSR_LOCKED :: u64 where "OSLSR_LOCKED = 2"
definition DAIF_DEBUG :: u64 where "DAIF_DEBUG = 0x200"

text \<open>The bit fields of \<open>DBG_WCR\<close> the code uses.\<close>

definition WCR_Enabled :: "u64 \<Rightarrow> u64" where "WCR_Enabled v = get_field v 0 1"
definition WCR_Lsc :: "u64 \<Rightarrow> u64" where "WCR_Lsc v = get_field v 3 2"
definition WCR_Bas :: "u64 \<Rightarrow> u64" where "WCR_Bas v = get_field v 5 8"

definition mArchBreakpointInstruction_AARCH64 :: "u8 list" where
  "mArchBreakpointInstruction_AARCH64 = [0x00, 0x00, 0x3E, 0xD4]"

definition MAX_WATCHPOINTS :: nat where "MAX_WATCHPOINTS = 4"

section \<open>Initialisation, time and stepping\<close>

text \<open>Writing 0 to the OS lock access register unlocks.\<close>

definition DebugWriteOslarEl1_0 :: "'p aarch64 \<Rightarrow> 'p aarch64" where
  "DebugWriteOslarEl1_0 m = m\<lparr>OSLSR_EL1 := OSLSR_EL1 m AND NOT OSLSR_LOCKED\<rparr>"

definition DebugArchInit_AARCH64 :: "'p aarch64 \<Rightarrow> 'p aarch64" where
  "DebugArchInit_AARCH64 m0 =
     (let m1 = m0\<lparr>DAIF := DAIF m0 OR DAIF_DEBUG\<rparr>;
          m2 = (if OSLSR_EL1 m1 AND OSLSR_LOCKED \<noteq> 0 then DebugWriteOslarEl1_0 m1 else m1);
          m3 = m2\<lparr>MDSCR_EL1 := MDSCR_EL1 m2 OR (MDSCR_MDE OR MDSCR_KDE)\<rparr>;
          m4 = m3\<lparr>DBGW := map (\<lambda>(Value, Control). (Value, 0)) (DBGW m3)\<rparr>
      in m4\<lparr>DAIF := DAIF m4 AND NOT DAIF_DEBUG\<rparr>)"

text \<open>\<open>DebugGetTimeMs\<close> of a counter value; the frequency is the timer library's.\<close>

definition DebugGetTimeMs_AARCH64 :: "bool \<Rightarrow> u64 \<Rightarrow> 'p aarch64 \<Rightarrow> stop + u64" where
  "DebugGetTimeMs_AARCH64 asserts Counter m =
     (let Freq = CounterFreq m in
      ASSERT asserts (1000 \<le> Freq)
        (let Freq = Freq div 1000 in if Freq = 0 then Inl DivideError else Inr (Counter div Freq)))"

definition AddSingleStep_AARCH64 :: "(AARCH64_FIELD \<Rightarrow> nat) \<Rightarrow> ctx \<Rightarrow> 'p aarch64 \<Rightarrow> ctx \<times> 'p aarch64" where
  "AddSingleStep_AARCH64 off c m =
     (let c1 = ctx_set64 c (off A_SPSR) (ctx_get64 c (off A_SPSR) AND NOT 0x200);
          c2 = ctx_set64 c1 (off A_SPSR) (ctx_get64 c1 (off A_SPSR) OR 0x200000)
      in (c2, m\<lparr>MDSCR_EL1 := MDSCR_EL1 m OR (MDSCR_SS OR MDSCR_MDE OR MDSCR_KDE)\<rparr>))"

section \<open>Watchpoints\<close>

definition wp_Bas :: "u64 \<Rightarrow> u64" where
  "wp_Bas Length = drop_bit (8 - unat (min Length 8)) 0xFF"

definition wp_Lsc :: "bool \<Rightarrow> bool \<Rightarrow> u64" where
  "wp_Lsc Read Write = (if Read then 1 else 0) OR (if Write then 2 else 0)"

text \<open>The test of a register pair against a request.\<close>

definition wp_match :: "u64 \<Rightarrow> u64 \<Rightarrow> u64 \<Rightarrow> u64 \<times> u64 \<Rightarrow> bool" where
  "wp_match Address Bas Lsc = (\<lambda>(Value, DbgWcr).
     WCR_Enabled DbgWcr \<noteq> 0 \<and> WCR_Bas DbgWcr = Bas \<and> WCR_Lsc DbgWcr = Lsc \<and> Value = Address)"

text \<open>The control value of a new watchpoint: enabled, the request, and all levels of the normal world.\<close>

definition wp_control :: "u64 \<Rightarrow> u64 \<Rightarrow> u64" where
  "wp_control Bas Lsc =
     (let v1 = set_field 0 0 1 1; v2 = set_field v1 3 2 Lsc; v3 = set_field v2 5 8 Bas;
          v4 = set_field v3 13 1 1; v5 = set_field v4 14 2 1
      in set_field v5 1 2 3)"

text \<open>The two loops of \<open>AddWatchpoint\<close>: is there an equal one, and the first free register.\<close>

fun AddWatchpoint_dup :: "u64 \<Rightarrow> u64 \<Rightarrow> u64 \<Rightarrow> (u64 \<times> u64) list \<Rightarrow> bool" where
  "AddWatchpoint_dup Address Bas Lsc [] = False"
| "AddWatchpoint_dup Address Bas Lsc (p # ps) =
     (if wp_match Address Bas Lsc p then True else AddWatchpoint_dup Address Bas Lsc ps)"

fun AddWatchpoint_fill :: "u64 \<Rightarrow> u64 \<Rightarrow> u64 \<Rightarrow> (u64 \<times> u64) list \<Rightarrow> (u64 \<times> u64) list option" where
  "AddWatchpoint_fill Address Bas Lsc [] = None"
| "AddWatchpoint_fill Address Bas Lsc ((Value, DbgWcr) # ps) =
     (if WCR_Enabled DbgWcr = 0 then Some ((Address, wp_control Bas Lsc) # ps)
      else map_option (\<lambda>ps'. (Value, DbgWcr) # ps') (AddWatchpoint_fill Address Bas Lsc ps))"

definition AddWatchpoint_AARCH64 ::
  "u64 \<Rightarrow> u64 \<Rightarrow> bool \<Rightarrow> bool \<Rightarrow> 'p aarch64 \<Rightarrow> bool \<times> 'p aarch64" where
  "AddWatchpoint_AARCH64 Address Length Read Write m =
     (if Length = 0 then (False, m)
      else
        (let Bas = wp_Bas Length; Lsc = wp_Lsc Read Write in
         if AddWatchpoint_dup Address Bas Lsc (DBGW m) then (True, m)
         else (case AddWatchpoint_fill Address Bas Lsc (DBGW m) of
                 None \<Rightarrow> (False, m) | Some ps \<Rightarrow> (True, m\<lparr>DBGW := ps\<rparr>))))"

fun RemoveWatchpoint_clear :: "u64 \<Rightarrow> u64 \<Rightarrow> u64 \<Rightarrow> (u64 \<times> u64) list \<Rightarrow> (u64 \<times> u64) list option" where
  "RemoveWatchpoint_clear Address Bas Lsc [] = None"
| "RemoveWatchpoint_clear Address Bas Lsc ((Value, DbgWcr) # ps) =
     (if wp_match Address Bas Lsc (Value, DbgWcr) then Some ((Value, 0) # ps)
      else map_option (\<lambda>ps'. (Value, DbgWcr) # ps') (RemoveWatchpoint_clear Address Bas Lsc ps))"

definition RemoveWatchpoint_AARCH64 ::
  "u64 \<Rightarrow> u64 \<Rightarrow> bool \<Rightarrow> bool \<Rightarrow> 'p aarch64 \<Rightarrow> bool \<times> 'p aarch64" where
  "RemoveWatchpoint_AARCH64 Address Length Read Write m =
     (if Length = 0 then (False, m)
      else
        (case RemoveWatchpoint_clear Address (wp_Bas Length) (wp_Lsc Read Write) (DBGW m) of
           None \<Rightarrow> (False, m) | Some ps \<Rightarrow> (True, m\<lparr>DBGW := ps\<rparr>)))"

text \<open>The registers as slots, and the key of a request.\<close>

definition aarch64_slot :: "u64 \<times> u64 \<Rightarrow> (u64 \<times> u64 \<times> u64) option" where
  "aarch64_slot = (\<lambda>(Value, DbgWcr).
     if WCR_Enabled DbgWcr = 0 then None else Some (Value, WCR_Bas DbgWcr, WCR_Lsc DbgWcr))"

definition aarch64_slots :: "'p aarch64 \<Rightarrow> (u64 \<times> u64 \<times> u64) option list" where
  "aarch64_slots m = map aarch64_slot (DBGW m)"

definition aarch64_key :: "u64 \<Rightarrow> u64 \<Rightarrow> bool \<Rightarrow> bool \<Rightarrow> (u64 \<times> u64 \<times> u64) option" where
  "aarch64_key Address Length Read Write =
     (if Length = 0 then None else Some (Address, wp_Bas Length, wp_Lsc Read Write))"

lemma wp_match_slot: "wp_match a bas lsc p \<longleftrightarrow> aarch64_slot p = Some (a, bas, lsc)"
  by (cases p) (auto simp: wp_match_def aarch64_slot_def)

lemma wp_fields: "take_bit 8 (wp_Bas l) = wp_Bas l" "take_bit 2 (wp_Lsc r w) = wp_Lsc r w"
proof -
  have "take_bit 8 (drop_bit n (0xFF :: u64)) = drop_bit n 0xFF" for n
  proof -
    have eq: "(0xFF :: u64) = mask 8" by (simp add: mask_eq_exp_minus_1)
    show ?thesis unfolding eq by (rule bit_word_eqI) (auto simp: bit_take_bit_iff bit_drop_bit_eq bit_mask_iff)
  qed
  then show "take_bit 8 (wp_Bas l) = wp_Bas l" by (simp add: wp_Bas_def)
  show "take_bit 2 (wp_Lsc r w) = wp_Lsc r w" by (cases r; cases w) (simp_all add: wp_Lsc_def)
qed

lemma aarch64_slot_control:
  assumes "take_bit 8 bas = bas" "take_bit 2 lsc = lsc"
  shows "aarch64_slot (a, wp_control bas lsc) = Some (a, bas, lsc)"
  using assms
  by (simp add: aarch64_slot_def wp_control_def Let_def WCR_Enabled_def WCR_Bas_def WCR_Lsc_def)

lemma aarch64_slot_cleared: "aarch64_slot (a, 0) = None"
  by (simp add: aarch64_slot_def WCR_Enabled_def get_field_def)

lemma AddWatchpoint_dup_slots:
  "AddWatchpoint_dup a bas lsc ps \<longleftrightarrow> Some (a, bas, lsc) \<in> set (map aarch64_slot ps)"
  by (induction ps) (auto simp: wp_match_slot)

lemma slot_None: "aarch64_slot (v, c) = None \<longleftrightarrow> WCR_Enabled c = 0"
  by (simp add: aarch64_slot_def)

lemma AddWatchpoint_fill_slots:
  assumes "take_bit 8 bas = bas" "take_bit 2 lsc = lsc" "Some (a, bas, lsc) \<notin> set (map aarch64_slot ps)"
  shows "case AddWatchpoint_fill a bas lsc ps of
      None \<Rightarrow> slots_add (map aarch64_slot ps) (a, bas, lsc) = (False, map aarch64_slot ps)
    | Some ps' \<Rightarrow> slots_add (map aarch64_slot ps) (a, bas, lsc) = (True, map aarch64_slot ps')"
  using assms(3)
proof (induction ps)
  case Nil
  then show ?case by (simp add: slots_add_def)
next
  case (Cons p ps)
  obtain v c where p: "p = (v, c)" by fastforce
  show ?case
  proof (cases "WCR_Enabled c = 0")
    case True
    then have "aarch64_slot p = None" using p by (simp add: slot_None)
    with True p Cons.prems show ?thesis
      by (simp add: slots_add_def aarch64_slot_control [OF assms(1,2)])
  next
    case False
    then have "aarch64_slot p \<noteq> None" using p by (simp add: slot_None)
    with False p Cons show ?thesis
      by (auto simp: slots_add_def split: option.splits if_splits)
  qed
qed

lemma RemoveWatchpoint_clear_slots:
  "case RemoveWatchpoint_clear a bas lsc ps of
      None \<Rightarrow> slots_remove (map aarch64_slot ps) (a, bas, lsc) = (False, map aarch64_slot ps)
    | Some ps' \<Rightarrow> slots_remove (map aarch64_slot ps) (a, bas, lsc) = (True, map aarch64_slot ps')"
proof (induction ps)
  case Nil
  then show ?case by (simp add: slots_remove_def)
next
  case (Cons p ps)
  obtain v c where p: "p = (v, c)" by fastforce
  show ?case
  proof (cases "wp_match a bas lsc p")
    case True
    then have "aarch64_slot p = Some (a, bas, lsc)" by (simp add: wp_match_slot)
    with True p show ?thesis by (simp add: slots_remove_def aarch64_slot_cleared)
  next
    case False
    then have "aarch64_slot p \<noteq> Some (a, bas, lsc)" by (simp add: wp_match_slot)
    with False p Cons show ?thesis
      by (auto simp: slots_remove_def split: option.splits if_splits)
  qed
qed

interpretation aarch64_wp: watchpoint_unit AddWatchpoint_AARCH64 RemoveWatchpoint_AARCH64 aarch64_key
  "\<lambda>w. slots_armed (aarch64_slots w)" MAX_WATCHPOINTS
  "\<lambda>w. slots_unique (aarch64_slots w) \<and> length (aarch64_slots w) = MAX_WATCHPOINTS"
proof (rule watchpoint_unit_slots, goal_cases)
  case (1 a l r s w)
  let ?k = "(a, wp_Bas l, wp_Lsc r s)"
  have fill: "case AddWatchpoint_fill a (wp_Bas l) (wp_Lsc r s) (DBGW w) of
      None \<Rightarrow> slots_add (aarch64_slots w) ?k = (False, aarch64_slots w)
    | Some ps' \<Rightarrow> slots_add (aarch64_slots w) ?k = (True, map aarch64_slot ps')"
    if "\<not> AddWatchpoint_dup a (wp_Bas l) (wp_Lsc r s) (DBGW w)"
    using AddWatchpoint_fill_slots [OF wp_fields] that
    unfolding aarch64_slots_def AddWatchpoint_dup_slots by blast
  have dup: "slots_add (aarch64_slots w) ?k = (True, aarch64_slots w)"
    if "AddWatchpoint_dup a (wp_Bas l) (wp_Lsc r s) (DBGW w)"
    using that by (simp add: AddWatchpoint_dup_slots aarch64_slots_def slots_add_def)
  show ?case
    using fill dup
    by (cases "AddWatchpoint_dup a (wp_Bas l) (wp_Lsc r s) (DBGW w)")
      (auto simp: aarch64_key_def AddWatchpoint_AARCH64_def Let_def aarch64_slots_def split: option.splits)
next
  case (2 a l r s w)
  show ?case
    using RemoveWatchpoint_clear_slots [where a = a and bas = "wp_Bas l" and lsc = "wp_Lsc r s" and ps = "DBGW w"]
    by (auto simp: aarch64_key_def RemoveWatchpoint_AARCH64_def aarch64_slots_def split: option.splits)
qed

lemma DebugArchInit_AARCH64_slots:
  "aarch64_slots (DebugArchInit_AARCH64 w) = replicate (length (DBGW w)) None"
proof -
  have "map aarch64_slot (map (\<lambda>(Value, Control). (Value, 0)) ps) = replicate (length ps) None"
    for ps :: "(u64 \<times> u64) list"
    by (induction ps) (simp_all add: aarch64_slot_cleared split: prod.split)
  then show ?thesis
    by (simp add: aarch64_slots_def DebugArchInit_AARCH64_def DebugWriteOslarEl1_0_def Let_def)
qed

text \<open>After initialisation debug exceptions are unmasked, the OS lock is open and both enables are set.\<close>

lemma DebugArchInit_AARCH64_enabled:
  "DAIF (DebugArchInit_AARCH64 w) AND DAIF_DEBUG = 0"
  "OSLSR_EL1 (DebugArchInit_AARCH64 w) AND OSLSR_LOCKED = 0"
  "MDSCR_EL1 (DebugArchInit_AARCH64 w) AND (MDSCR_MDE OR MDSCR_KDE) = MDSCR_MDE OR MDSCR_KDE"
proof -
  have clear: "(v AND NOT x) AND x = (0 :: u64)" for v x by (simp add: ac_simps)
  have set: "(v OR x) AND x = (x :: u64)" for v x by (rule bit_word_eqI) (auto simp: bit_simps)
  show "DAIF (DebugArchInit_AARCH64 w) AND DAIF_DEBUG = 0"
    by (simp add: DebugArchInit_AARCH64_def Let_def clear)
  show "OSLSR_EL1 (DebugArchInit_AARCH64 w) AND OSLSR_LOCKED = 0"
    by (simp add: DebugArchInit_AARCH64_def Let_def clear DebugWriteOslarEl1_0_def)
  show "MDSCR_EL1 (DebugArchInit_AARCH64 w) AND (MDSCR_MDE OR MDSCR_KDE) = MDSCR_MDE OR MDSCR_KDE"
    by (simp add: DebugArchInit_AARCH64_def Let_def set DebugWriteOslarEl1_0_def)
qed

section \<open>Page access\<close>

definition TT_TYPE_MASK :: u64 where "TT_TYPE_MASK = 3"
definition TT_ADDRESS_MASK_DESCRIPTION_TABLE :: u64 where
  "TT_ADDRESS_MASK_DESCRIPTION_TABLE = push_bit 12 0xFFFFFFFFF"
definition TT_ATTRIBUTES_MASK :: u64 where "TT_ATTRIBUTES_MASK = push_bit 52 0xFFF OR push_bit 2 0x3FF"
definition TT_ATTR_INDX_MASK :: u64 where "TT_ATTR_INDX_MASK = push_bit 2 7"
definition TT_AP_MASK :: u64 where "TT_AP_MASK = push_bit 6 3"
definition TT_AP_RW_RW :: u64 where "TT_AP_RW_RW = push_bit 6 1"
definition TT_AF :: u64 where "TT_AF = push_bit 10 1"

definition TT_ADDRESS_OFFSET_AT_LEVEL :: "int \<Rightarrow> nat" where
  "TT_ADDRESS_OFFSET_AT_LEVEL TableLevel = nat (12 + (3 - TableLevel) * 9)"

definition TT_GET_ENTRY_FOR_ADDRESS :: "u64 \<Rightarrow> int \<Rightarrow> u64 \<Rightarrow> u64" where
  "TT_GET_ENTRY_FOR_ADDRESS TranslationTable Level Address =
     TranslationTable + (drop_bit (TT_ADDRESS_OFFSET_AT_LEVEL Level) Address AND 0x1FF) * 8"

text \<open>The attributes of the entry that maps the address, or \<open>None\<close> for FALSE.\<close>

function ParsePageTableLevel :: "(u64 \<Rightarrow> u8) \<Rightarrow> u64 \<Rightarrow> int \<Rightarrow> u64 \<Rightarrow> u64 option" where
  "ParsePageTableLevel m TranslationTable TableLevel Address =
     (let BlockEntryType = (if TableLevel \<noteq> 3 then 1 else 3);
          BlockEntry = read_u64 m (TT_GET_ENTRY_FOR_ADDRESS TranslationTable TableLevel Address);
          EntryType = BlockEntry AND TT_TYPE_MASK
      in if TableLevel < 3 \<and> EntryType = 3
         then ParsePageTableLevel m (BlockEntry AND TT_ADDRESS_MASK_DESCRIPTION_TABLE) (TableLevel + 1) Address
         else if EntryType = BlockEntryType then Some (BlockEntry AND TT_ATTRIBUTES_MASK)
         else None)"
  by pat_completeness auto
termination
  by (relation "measure (\<lambda>(m, t, l, a). nat (3 - l))") auto

declare ParsePageTableLevel.simps [simp del]

definition CheckPageAccess :: "'p aarch64 \<Rightarrow> u64 \<Rightarrow> bool \<Rightarrow> bool" where
  "CheckPageAccess w Address Write =
     (if 0xfffff00000000000 \<le> Address then False
      else
        (let TranslationTable = TTBR0 w; T0SZ = TCR w AND 0x3F;
             TableLevel = (if T0SZ < 16 then -1 else (uint T0SZ - 16) div 9) in
         case ParsePageTableLevel (memory w) TranslationTable TableLevel Address of
           None \<Rightarrow> False
         | Some Attributes \<Rightarrow>
             if Attributes AND TT_ATTR_INDX_MASK = 0 then False
             else if Write then Attributes AND TT_AP_RW_RW \<noteq> 0 \<or> Attributes AND TT_AP_MASK = 0
             else Attributes AND TT_AF \<noteq> 0))"

definition IsPageReadable_AARCH64 :: "'p aarch64 \<Rightarrow> u64 \<Rightarrow> bool" where
  "IsPageReadable_AARCH64 w Address = CheckPageAccess w Address False"

definition IsPageWritable_AARCH64 :: "'p aarch64 \<Rightarrow> u64 \<Rightarrow> bool" where
  "IsPageWritable_AARCH64 w Address = CheckPageAccess w Address True"

section \<open>The exception handler\<close>

definition DebuggerExceptionHandler_AARCH64_entry ::
  "(AARCH64_FIELD \<Rightarrow> nat) \<Rightarrow> ctx \<Rightarrow> 'p aarch64 \<Rightarrow> u64 \<times> EXCEPTION_INFO \<times> 'p aarch64" where
  "DebuggerExceptionHandler_AARCH64_entry off c m =
     (let ExcType = 0x3F AND drop_bit 26 (ctx_get64 c (off A_ESR));
          info = (\<lambda>t. \<lparr>ExceptionType = t, ExceptionAddress = ctx_get64 c (off A_ELR),
                       ArchExceptionCode = ExcType\<rparr>) in
      if ExcType = 0x00 then (ExcType, info ExceptionInvalidOp, m)
      else if ExcType \<in> {0x20, 0x21, 0x24, 0x25} then (ExcType, info ExceptionAccessViolation, m)
      else if ExcType \<in> {0x22, 0x26} then (ExcType, info ExceptionAlignment, m)
      else if ExcType \<in> {0x30, 0x31, 0x34, 0x35, 0x3c} then (ExcType, info ExceptionBreakpoint, m)
      else if ExcType \<in> {0x32, 0x33} then
        (ExcType, info ExceptionDebugStep, m\<lparr>MDSCR_EL1 := MDSCR_EL1 m AND NOT MDSCR_SS\<rparr>)
      else (ExcType, info ExceptionGenericFault, m))"

definition DebuggerExceptionHandler_AARCH64 ::
  "'p watchdog \<Rightarrow> (AARCH64_FIELD \<Rightarrow> nat) \<Rightarrow> 'p aarch64 agent \<Rightarrow> ctx \<Rightarrow> 'p aarch64 gdb \<Rightarrow>
   (stop + 'p aarch64 gdb) option" where
  "DebuggerExceptionHandler_AARCH64 wd off ag c s =
     (let (WatchdogState, p) = WatchdogSuspend wd (plat (world s));
          (ExcType, ExceptionInfo, w1) = DebuggerExceptionHandler_AARCH64_entry off c ((world s)\<lparr>plat := p\<rparr>) in
      obind (ReportEntryToDebugger ag ExceptionInfo c (s\<lparr>world := w1\<rparr>)) (\<lambda>s1.
        let c2 = gSystemContext s1; Elr = ctx_get64 c2 (off A_ELR);
            c3 = (if ExcType = 0x3c \<and>
                     read_bytes (memory (world s1)) Elr 4 = mArchBreakpointInstruction_AARCH64
                  then ctx_set64 c2 (off A_ELR) (Elr + 4) else c2)
        in Some (Inr (s1\<lparr>gSystemContext := c3,
             world := (world s1)\<lparr>plat := WatchdogResume wd WatchdogState (plat (world s1))\<rparr>\<rparr>))))"

definition GdbReadMsr_AARCH64 :: "lib \<Rightarrow> u8 list \<Rightarrow> nat \<Rightarrow> 'p aarch64 \<Rightarrow> u8 list" where
  "GdbReadMsr_AARCH64 L Cmd BufferLength m =
     AsciiSPrint L BufferLength (str ''Not supported for AARCH64.'' @ newline) []"

definition GdbDumpSystemRegisters_AARCH64 :: "lib \<Rightarrow> u8 list \<Rightarrow> nat \<Rightarrow> 'p aarch64 \<Rightarrow> u8 list" where
  "GdbDumpSystemRegisters_AARCH64 L Cmd BufferLength m =
     AsciiSPrint L BufferLength (str ''TODO.'' @ newline) []"

end
