(* ===== verification/CommandFacts.thy ===== *)
theory CommandFacts
  imports GdbStub
begin

text \<open>
  What the commands do, for requests as a client sends them: packet validation, memory and
  register transfer, breakpoints and watchpoints, stepping and continuing. The lemmas hold
  for every build (\<open>agent\<close>); they are stated on the command as the dispatcher receives it,
  the characters, a zero, and the rest of the buffer.
\<close>

section \<open>Requests\<close>

text \<open>A numeral a client can send: one to sixteen digits.\<close>

definition numeral_of :: "u8 list \<Rightarrow> nat \<Rightarrow> bool" where
  "numeral_of ds n \<longleftrightarrow> ds \<noteq> [] \<and> (\<forall>d \<in> set ds. is_hex d) \<and> length ds \<le> 16 \<and> hex_val ds = n"

lemma numeral_of_notin: "numeral_of ds n \<Longrightarrow> \<not> is_hex v \<Longrightarrow> v \<notin> set ds"
  by (auto simp: numeral_of_def)

lemma numeral_of_Uint64S:
  "numeral_of ds n \<Longrightarrow> lib_ok L \<Longrightarrow> AsciiStrHexToUint64S L (ds @ 0 # t) = Some (of_nat n)"
  by (auto simp: numeral_of_def lib_ok_Uint64S)

lemma numeral_of_Uintn:
  "numeral_of ds n \<Longrightarrow> lib_ok L \<Longrightarrow> AsciiStrHexToUintn L (ds @ 0 # t) = of_nat n"
  by (auto simp: numeral_of_def lib_ok_Uintn)

lemma hex_digit_less: "is_hex c \<Longrightarrow> hex_digit c < 16"
  by (auto simp: is_hex_def hex_digit_def AsciiCharToUpper_def word_le_nat_alt unat_sub_if')

lemma hex_val_snoc: "hex_val (ds @ [d]) = 16 * hex_val ds + hex_digit d"
  by (simp add: hex_val_def)

lemma hex_val_less: "\<forall>d \<in> set ds. is_hex d \<Longrightarrow> hex_val ds < 16 ^ length ds"
proof (induction ds rule: rev_induct)
  case Nil
  then show ?case by (simp add: hex_val_def)
next
  case (snoc d ds)
  then have "hex_val ds < 16 ^ length ds" and "hex_digit d < 16" by (simp_all add: hex_digit_less)
  then show ?case by (simp add: hex_val_snoc)
qed

lemma numeral_of_less: "numeral_of ds n \<Longrightarrow> n < 2 ^ 64"
proof -
  assume n: "numeral_of ds n"
  then have "n < 16 ^ length ds" using hex_val_less by (auto simp: numeral_of_def)
  also have "\<dots> \<le> 16 ^ 16" using n by (intro power_increasing) (auto simp: numeral_of_def)
  finally show ?thesis by simp
qed

section \<open>Packet validation\<close>

lemma ProcessGdbPacket_scan_hash:
  "35 \<notin> set body \<Longrightarrow> length body \<le> n \<Longrightarrow>
     ProcessGdbPacket_scan (body @ 35 # r) n = length body"
  by (induction body arbitrary: n; case_tac n) auto

lemma hex_val_2: "is_hex a \<Longrightarrow> is_hex b \<Longrightarrow> hex_val [a, b] < 256"
  using hex_val_less [of "[a, b]"] by simp

text \<open>
  Every packet the request loop collects has this shape. It is executed exactly when the two
  characters after the marker are digits whose value is the sum of the body.
\<close>

lemma ProcessGdbPacket_eq:
  assumes lib: "lib_ok (ag_lib ag)" and body: "35 \<notin> set body"
  shows "ProcessGdbPacket ag (36 # body @ 35 # a # b # r) (length body + 4) s =
    (if is_hex a \<and> is_hex b \<and> of_nat (hex_val [a, b]) = sum_list body
     then ebind (ExecuteGdbCommand ag (body @ 0 # a # b # r) (length body)
                   (s\<lparr>tx := tx s @ str ''+'', mConnectionOccurred := True\<rparr>))
            (\<lambda>s2. Inr (36 # body @ 0 # a # b # r, s2))
     else Inr (36 # body @ 35 # a # b # r, s\<lparr>tx := tx s @ str ''-''\<rparr>))"
proof -
  have scan: "ProcessGdbPacket_scan (body @ 35 # a # b # r) (length body + 3) = length body"
    using body by (intro ProcessGdbPacket_scan_hash) auto
  have nth: "(body @ 35 # a # b # r) ! Suc (length body) = a"
    "(body @ 35 # a # b # r) ! Suc (Suc (length body)) = b"
    by (simp_all add: nth_append)
  show ?thesis
    by (simp add: ProcessGdbPacket_def Let_def scan nth lib_ok_Bytes [OF lib] SendGdbAck_def
        DebugTransportWrite_def CalculateSum8_def list_update_append add.commute)
qed

text \<open>The frames the stub itself sends are valid packets.\<close>

lemma ProcessGdbPacket_frame:
  assumes lib: "lib_ok (ag_lib ag)" and body: "35 \<notin> set body"
  shows "ProcessGdbPacket ag (frame body @ r) (length (frame body)) s =
    ebind (ExecuteGdbCommand ag (body @ 0 # hex_byte (sum_list body) @ r) (length body)
             (s\<lparr>tx := tx s @ str ''+'', mConnectionOccurred := True\<rparr>))
      (\<lambda>s2. Inr (36 # body @ 0 # hex_byte (sum_list body) @ r, s2))"
proof -
  obtain a b where h: "hex_byte (sum_list body) = [a, b]" by (auto simp: hex_byte_def)
  then have "is_hex a" "is_hex b" using hex_byte_hex [of "sum_list body"] by simp_all
  moreover have "of_nat (hex_val [a, b]) = sum_list body"
    using hex_val_hex_byte [of "sum_list body"] h by simp
  ultimately show ?thesis
    using ProcessGdbPacket_eq [OF lib body, of a b r s]
    by (simp add: frame_def CalculateSum8_def h eval_nat_numeral)
qed

section \<open>Memory\<close>

text \<open>One chunk suffices for every request up to the size of \<open>mScratch\<close>.\<close>


lemma unat_chunk:
  assumes "L \<le> SCRATCH_SIZE"
  shows "unat (of_nat L :: u64) = L" and "min (of_nat L :: u64) (of_nat SCRATCH_SIZE) = of_nat L"
proof -
  show "unat (of_nat L :: u64) = L" using assms by (simp add: unat_of_nat SCRATCH_SIZE_def)
  then show "min (of_nat L :: u64) (of_nat SCRATCH_SIZE) = of_nat L"
    using assms by (simp add: min_def word_le_nat_alt SCRATCH_SIZE_def)
qed

lemma loop_read:
  assumes "L \<le> SCRATCH_SIZE" and "0 < L" and "\<not> windbg_page ag A (of_nat L)"
    and "ag_DbgReadMemory ag A L w = (ok, bs, w')"
  shows "ProcessMemoryCommand_loop ag False A (of_nat L) V [] w =
    (if ok then Inr (Some (hex_bytes bs), w') else Inr (None, w'))"
proof -
  have "(of_nat L :: u64) \<noteq> 0" using unat_chunk(1) [OF assms(1)] assms(2) by auto
  with assms unat_chunk [OF assms(1)] show ?thesis
    by (subst ProcessMemoryCommand_loop.simps) (simp add: Let_def size_defs)
qed

lemma loop_write:
  assumes "length bs \<le> SCRATCH_SIZE" and "bs \<noteq> []"
    and "ag_DbgWriteMemory ag A bs w = (ok, w')"
  shows "ProcessMemoryCommand_loop ag True A (of_nat (length bs)) (hex_bytes bs @ V) R w =
    (if ok then Inr (Some R, w') else Inr (None, w'))"
proof -
  have "(of_nat (length bs) :: u64) \<noteq> 0" using unat_chunk(1) [OF assms(1)] assms(2) by auto
  with assms unat_chunk [OF assms(1)] show ?thesis
    by (subst ProcessMemoryCommand_loop.simps) (simp add: Let_def)
qed

lemma list_update_middle: "(xs @ v # ys)[length xs := z] = xs @ z # ys"
  by simp

text \<open>The dispatcher, one equation per command.\<close>

lemma ExecuteGdbCommand_simps:
  "ExecuteGdbCommand ag (103 # C) n s = ReadGeneralRegisters ag s"
  "ExecuteGdbCommand ag (71 # C) n s = WriteGeneralRegisters ag C s"
  "ExecuteGdbCommand ag (112 # C) n s = ReadRegister ag C s"
  "ExecuteGdbCommand ag (80 # C) n s = WriteRegister ag C s"
  "ExecuteGdbCommand ag (109 # C) n s = ProcessMemoryCommand ag False C (n - 1) s"
  "ExecuteGdbCommand ag (77 # C) n s = ProcessMemoryCommand ag True C (n - 1) s"
  "ExecuteGdbCommand ag (118 # C) n s = ProcessVCommand ag C (n - 1) s"
  "ExecuteGdbCommand ag (113 # C) n s = ProcessQuery ag C s"
  "ExecuteGdbCommand ag (63 # C) n s = SendStopReply ag s"
  "ExecuteGdbCommand ag (90 # C) n s = ProcessBreakpoint ag False C s"
  "ExecuteGdbCommand ag (122 # C) n s = ProcessBreakpoint ag True C s"
  by (simp_all add: ExecuteGdbCommand_def)

lemma OK_response [simp]: "SendGdbResponse ag (Some (str ''OK'')) s = Inr (responded (str ''OK'') s)"
proof -
  have "cstr (str ''OK'') = str ''OK''" "AsciiStrLen (str ''OK'') = 2" by (simp_all add: str_def)
  then show ?thesis by (simp add: SendGdbResponse_eq MAX_RESPONSE_SIZE_def)
qed

text \<open>A read answers with the digits of the bytes the accessor delivered, or with an error.\<close>

lemma ProcessMemoryCommand_read:
  assumes lib: "lib_ok (ag_lib ag)" and a: "numeral_of da A" and l: "numeral_of dl L"
    and L: "0 < L" "L \<le> SCRATCH_SIZE" and win: "\<not> windbg_page ag (of_nat A) (of_nat L)"
    and rd: "ag_DbgReadMemory ag (of_nat A) L (world s) = (ok, bs, w')" and len: "length bs \<le> L"
    and n: "length da < n"
  shows "ProcessMemoryCommand ag False (da @ 44 # dl @ 0 # r) n s =
    Inr (responded (if ok then hex_bytes bs else error_text GDB_ERROR_BAD_MEM_ADDRESS)
           (s\<lparr>world := w'\<rparr>))"
proof -
  have scan: "ScanMem8 (da @ 44 # dl @ 0 # r) n 44 = Some (length da)"
    using numeral_of_notin [OF a] n by (intro ScanMem8_first) auto
  have "AsciiStrLen (hex_bytes bs @ [0]) \<le> MAX_RESPONSE_SIZE"
    using len L by (simp add: size_defs)
  then have resp: "SendGdbResponse ag (Some (hex_bytes bs @ [0])) s' = Inr (responded (hex_bytes bs) s')" for s'
    by (simp add: SendGdbResponse_eq)
  show ?thesis
    using numeral_of_Uint64S [OF a lib] numeral_of_Uint64S [OF l lib] loop_read [OF L(2,1) win rd] resp
    by (simp add: ProcessMemoryCommand_def scan SendGdbError_eq)
qed

text \<open>A write hands the decoded bytes to the accessor; the length has to match the digits.\<close>

lemma ProcessMemoryCommand_write_parse:
  assumes a: "numeral_of da A" and l: "numeral_of dl L" and n: "length da + length dl + 1 < n"
  shows "ScanMem8 (da @ 44 # dl @ 58 # data) n 44 = Some (length da)"
    and "ScanMem8 (da @ 0 # dl @ 58 # data) n 58 = Some (length da + 1 + length dl)"
    and "(da @ 0 # dl @ 58 # data)[length da + 1 + length dl := 0] = da @ 0 # dl @ 0 # data"
    and "drop (length da + 1 + length dl + 1) (da @ 0 # dl @ 0 # data) = data"
proof -
  show "ScanMem8 (da @ 44 # dl @ 58 # data) n 44 = Some (length da)"
    using numeral_of_notin [OF a] n by (intro ScanMem8_first) auto
  have "58 \<notin> set (da @ 0 # dl)" using numeral_of_notin [OF a] numeral_of_notin [OF l] by auto
  then show "ScanMem8 (da @ 0 # dl @ 58 # data) n 58 = Some (length da + 1 + length dl)"
    using ScanMem8_first [of 58 "da @ 0 # dl" n data] n by simp
  show "(da @ 0 # dl @ 58 # data)[length da + 1 + length dl := 0] = da @ 0 # dl @ 0 # data"
    using list_update_middle [of "da @ 0 # dl" 58 data 0] by simp
  show "drop (length da + 1 + length dl + 1) (da @ 0 # dl @ 0 # data) = data"
    using append_eq_conv_conj [of "da @ 0 # dl @ [0]" data] by simp
qed

lemma ProcessMemoryCommand_write:
  assumes lib: "lib_ok (ag_lib ag)" and a: "numeral_of da A" and l: "numeral_of dl (length bs)"
    and bs: "bs \<noteq> []" "length bs \<le> SCRATCH_SIZE"
    and wr: "ag_DbgWriteMemory ag (of_nat A) bs (world s) = (ok, w')"
    and n: "length da + length dl + 1 < n"
  shows "ProcessMemoryCommand ag True (da @ 44 # dl @ 58 # hex_bytes bs @ 0 # r) n s =
    Inr (responded (if ok then str ''OK'' else error_text GDB_ERROR_BAD_MEM_ADDRESS) (s\<lparr>world := w'\<rparr>))"
proof -
  note parse = ProcessMemoryCommand_write_parse [OF a l n]
  show ?thesis
    using numeral_of_Uint64S [OF a lib] numeral_of_Uint64S [OF l lib] loop_write [OF bs(2,1) wr]
    by (simp add: ProcessMemoryCommand_def parse(1)) (simp add: Let_def parse [simplified] SendGdbError_eq)
qed

text \<open>A write whose length does not match its data is refused (or stops at an assertion).\<close>

lemma ProcessMemoryCommand_write_mismatch:
  assumes lib: "lib_ok (ag_lib ag)" and a: "numeral_of da A" and l: "numeral_of dl L"
    and data: "0 \<notin> set data" and mis: "of_nat (length data) \<noteq> (of_nat (2 * L) :: u64)"
    and n: "length da + length dl + 1 < n"
  shows "ProcessMemoryCommand ag True (da @ 44 # dl @ 58 # data @ 0 # r) n s =
    (if ag_asserts ag then Inl AssertFailed
     else Inr (responded (error_text GDB_ERROR_BAD_REQUEST) s))"
proof -
  note parse = ProcessMemoryCommand_write_parse [OF a l n]
  have "of_nat (length data) \<noteq> (of_nat L * 2 :: u64)" using mis by (simp add: mult.commute)
  then show ?thesis
    using numeral_of_Uint64S [OF a lib] numeral_of_Uint64S [OF l lib] data
    by (simp add: ProcessMemoryCommand_def parse(1))
      (simp add: Let_def parse [simplified] SendGdbError_eq ASSERT_def)
qed

section \<open>Registers\<close>

lemma length_ReadGeneralRegisters_chars:
  "length (ReadGeneralRegisters_chars t c) = 2 * sum_list (map reg_Size t)"
proof -
  have "length (ReadGeneralRegisters_chars t c) = sum_list (map (\<lambda>i. 2 * reg_Size (t ! i)) [0..<length t])"
    by (simp add: ReadGeneralRegisters_chars_def length_concat o_def)
  also have "\<dots> = sum_list (map (\<lambda>r. 2 * reg_Size r) (map ((!) t) [0..<length t]))"
    by (simp add: o_def)
  also have "\<dots> = 2 * sum_list (map reg_Size t)"
    by (simp only: map_nth sum_list_const_mult)
  finally show ?thesis .
qed

lemma zero_notin_ReadRegisterFromContext: "0 \<notin> set (ReadRegisterFromContext t c i)"
  by (simp add: ReadRegisterFromContext_hex)

lemma zero_notin_ReadGeneralRegisters_chars: "0 \<notin> set (ReadGeneralRegisters_chars t c)"
  using zero_notin_ReadRegisterFromContext [of t c]
  by (auto simp: ReadGeneralRegisters_chars_def)

text \<open>The digits of all registers fit a response.\<close>

definition regs_fit :: "GDB_REGISTER_OFFSET_DATA list \<Rightarrow> bool" where
  "regs_fit t \<longleftrightarrow> 2 * sum_list (map reg_Size t) \<le> MAX_RESPONSE_SIZE"

lemma regs_fit_X64: "regs_fit (gRegisterOffsets_X64 off)"
  and regs_fit_AARCH64: "regs_fit (gRegisterOffsets_AARCH64 off')"
  by (simp_all add: regs_fit_def gRegisterOffsets_X64_def gRegisterOffsets_AARCH64_def
      present_def absent_def MAX_RESPONSE_SIZE_def)

lemma ReadGeneralRegisters_eq:
  assumes "regs_fit (ag_gRegisterOffsets ag)"
  shows "ReadGeneralRegisters ag s =
    Inr (responded (ReadGeneralRegisters_chars (ag_gRegisterOffsets ag) (gSystemContext s)) s)"
proof -
  let ?R = "ReadGeneralRegisters_chars (ag_gRegisterOffsets ag) (gSystemContext s)"
  have "length ?R \<le> MAX_RESPONSE_SIZE"
    using assms by (simp add: regs_fit_def length_ReadGeneralRegisters_chars)
  with zero_notin_ReadGeneralRegisters_chars show ?thesis
    by (simp add: ReadGeneralRegisters_def Let_def SendGdbResponse_eq size_defs)
qed

text \<open>Writing back a full dump puts the present registers of the dump into the context.\<close>

lemma WriteGeneralRegisters_dump:
  assumes "regs_layout (ag_gRegisterOffsets ag) k"
  shows "WriteGeneralRegisters ag (ReadGeneralRegisters_chars (ag_gRegisterOffsets ag) c0 @ 0 # r) s =
    Inr (responded (str ''OK'') (s\<lparr>gSystemContext :=
      store_regs (ag_gRegisterOffsets ag)
        (\<lambda>i. ctx_bytes c0 (reg_Offset (ag_gRegisterOffsets ag ! i)) (reg_Size (ag_gRegisterOffsets ag ! i)))
        [0..<k] (gSystemContext s)\<rparr>))"
  by (simp add: WriteGeneralRegisters_def WriteGeneralRegisters_loop_dump [OF assms])

text \<open>A dump that is too short is refused; the registers before the gap have been stored.\<close>

lemma WriteGeneralRegisters_empty:
  assumes "ag_gRegisterOffsets ag \<noteq> []" and "0 < reg_Size (ag_gRegisterOffsets ag ! 0)"
    and "reg_Size (ag_gRegisterOffsets ag ! 0) \<le> 10"
  shows "WriteGeneralRegisters ag (0 # r) s = Inr (responded (error_text GDB_ERROR_INTERNAL) s)"
proof -
  obtain js where js: "[0..<length (ag_gRegisterOffsets ag)] = 0 # js"
    using assms(1) by (simp add: upt_rec)
  have "WriteRegisterToContext (ag_asserts ag) (ag_gRegisterOffsets ag) (gSystemContext s) 0 (0 # r) =
      Inr (None, gSystemContext s)"
    using assms by (intro WriteRegisterToContext_short) (simp_all add: AsciiStrLen_def cstr_def)
  then show ?thesis by (simp add: WriteGeneralRegisters_def js SendGdbError_eq)
qed

lemma unat_numeral: "numeral_of ds n \<Longrightarrow> unat (of_nat n :: u64) = n"
  using numeral_of_less [of ds n] by (simp add: unat_of_nat)

lemma ReadRegister_eq:
  assumes lib: "lib_ok (ag_lib ag)" and i: "numeral_of di i"
    and sz: "\<forall>r \<in> set (ag_gRegisterOffsets ag). reg_Size r \<le> 10"
  shows "ReadRegister ag (di @ 0 # r) s =
    Inr (responded (if i < length (ag_gRegisterOffsets ag)
                    then ReadRegisterFromContext (ag_gRegisterOffsets ag) (gSystemContext s) i
                    else error_text GDB_ERROR_BAD_REG_INDEX) s)"
proof -
  let ?R = "ReadRegisterFromContext (ag_gRegisterOffsets ag) (gSystemContext s) i"
  have "i < length (ag_gRegisterOffsets ag) \<Longrightarrow> reg_Size (ag_gRegisterOffsets ag ! i) \<le> 10"
    using sz by simp
  then show ?thesis
    using zero_notin_ReadRegisterFromContext [of "ag_gRegisterOffsets ag" "gSystemContext s" i]
    by (auto simp: ReadRegister_def Let_def numeral_of_Uintn [OF i lib] unat_numeral [OF i]
        SendGdbError_eq SendGdbResponse_eq MAX_RESPONSE_SIZE_def)
qed

lemma WriteRegister_eq:
  assumes lib: "lib_ok (ag_lib ag)" and i: "numeral_of di i"
    and here: "i < length (ag_gRegisterOffsets ag)" "reg_Offset (ag_gRegisterOffsets ag ! i) \<noteq> REG_NOT_PRESENT"
    and sz: "reg_Size (ag_gRegisterOffsets ag ! i) \<le> 10" "length v = reg_Size (ag_gRegisterOffsets ag ! i)"
  shows "WriteRegister ag (di @ 61 # hex_bytes v @ 0 # r) s =
    Inr (responded (str ''OK'')
      (s\<lparr>gSystemContext := ctx_store (gSystemContext s) (reg_Offset (ag_gRegisterOffsets ag ! i)) v\<rparr>))"
proof -
  have di: "0 \<notin> set di" "61 \<notin> set di" using numeral_of_notin [OF i] by auto
  then have "AsciiStrLen (di @ 61 # hex_bytes v @ 0 # r) = length di + 1 + 2 * length v"
    using AsciiStrLen_append_zero [of "di @ 61 # hex_bytes v" r] by simp
  then have scan: "ScanMem8 (di @ 61 # hex_bytes v @ 0 # r) (AsciiStrLen (di @ 61 # hex_bytes v @ 0 # r)) 61 =
      Some (length di)"
    using di by (intro ScanMem8_first) auto
  have wr: "WriteRegisterToContext (ag_asserts ag) (ag_gRegisterOffsets ag) (gSystemContext s) i
      (hex_bytes v @ 0 # r) =
      Inr (Some (0 # r), ctx_store (gSystemContext s) (reg_Offset (ag_gRegisterOffsets ag ! i)) v)"
    using here sz by (intro WriteRegisterToContext_present) simp_all
  show ?thesis
    using here by (simp add: WriteRegister_def scan)
      (simp add: Let_def numeral_of_Uintn [OF i lib] unat_numeral [OF i] wr)
qed

lemma WriteRegister_no_value:
  assumes "61 \<notin> set (cstr Command)"
  shows "WriteRegister ag Command s = Inr (responded (error_text GDB_ERROR_BAD_REQUEST) s)"
proof -
  have none: "ScanMem8 Command (AsciiStrLen Command) 61 = None" using assms by simp
  show ?thesis unfolding WriteRegister_def none by (simp add: SendGdbError_eq)
qed

section \<open>Breakpoints and watchpoints\<close>

definition bp_reply :: "bool \<Rightarrow> u8 list" where
  "bp_reply Result = (if Result then str ''OK'' else error_text GDB_ERROR_INTERNAL)"

text \<open>A well formed request is decoded into one call of the matching operation.\<close>

lemma ProcessBreakpoint_eq:
  assumes lib: "lib_ok (ag_lib ag)"
    and t: "numeral_of dt T" and a: "numeral_of da A" and l: "numeral_of dl L"
  shows "ProcessBreakpoint ag Remove (dt @ 44 # da @ 44 # dl @ 0 # r) s =
    (if T = 0 then
       (if Remove then
          (case RemoveSoftwareBreakpoint ag (of_nat A) (mBreakpoints s, world s) of
             (Result, t', w') \<Rightarrow> Inr (responded (bp_reply Result) (s\<lparr>mBreakpoints := t', world := w'\<rparr>)))
        else ebind (AddSoftwareBreakpoint ag (of_nat A) (mBreakpoints s, world s))
          (\<lambda>(Result, t', w'). Inr (responded (bp_reply Result) (s\<lparr>mBreakpoints := t', world := w'\<rparr>))))
     else if 2 \<le> T \<and> T \<le> 4 then
       (case (if Remove then ag_RemoveWatchpoint ag else ag_AddWatchpoint ag)
               (of_nat A) (of_nat L) (T = 3 \<or> T = 4) (T = 2 \<or> T = 4) (world s) of
          (Result, w') \<Rightarrow> Inr (responded (bp_reply Result) (s\<lparr>world := w'\<rparr>)))
     else Inr (responded (error_text GDB_ERROR_UNSUPPORTED) s))"
proof -
  have nz: "0 \<notin> set dt" "0 \<notin> set da" "0 \<notin> set dl" "44 \<notin> set dt" "44 \<notin> set da"
    using numeral_of_notin [OF t] numeral_of_notin [OF a] numeral_of_notin [OF l] by auto
  then have "AsciiStrLen (dt @ 44 # da @ 44 # dl @ 0 # r) = length dt + length da + length dl + 2"
    using AsciiStrLen_append_zero [of "dt @ 44 # da @ 44 # dl" r] by simp
  with nz have scan1: "ScanMem8 (dt @ 44 # da @ 44 # dl @ 0 # r)
      (AsciiStrLen (dt @ 44 # da @ 44 # dl @ 0 # r)) 44 = Some (length dt)"
    by (intro ScanMem8_first) auto
  have "AsciiStrLen (da @ 44 # dl @ 0 # r) = length da + length dl + 1"
    using nz AsciiStrLen_append_zero [of "da @ 44 # dl" r] by simp
  with nz have scan2: "ScanMem8 (da @ 44 # dl @ 0 # r) (AsciiStrLen (da @ 44 # dl @ 0 # r)) 44 =
      Some (length da)"
    by (intro ScanMem8_first) auto
  have Ts: "(of_nat T :: u64) = 0 \<longleftrightarrow> T = 0" "(of_nat T :: u64) = 2 \<longleftrightarrow> T = 2"
    "(of_nat T :: u64) = 3 \<longleftrightarrow> T = 3" "(of_nat T :: u64) = 4 \<longleftrightarrow> T = 4"
    using unat_numeral [OF t] by (auto simp: word_unat_eq_iff)
  have le: "2 \<le> (of_nat T :: u64) \<longleftrightarrow> 2 \<le> T" "(of_nat T :: u64) \<le> 4 \<longleftrightarrow> T \<le> 4"
    using unat_numeral [OF t] by (simp_all add: word_le_nat_alt)
  have reply: "(if R then SendGdbResponse ag (Some (str ''OK'')) s' else SendGdbError ag GDB_ERROR_INTERNAL s') =
      Inr (responded (bp_reply R) s')" for R s'
    by (simp add: bp_reply_def SendGdbError_eq)
  show ?thesis
    by (simp add: ProcessBreakpoint_def scan1)
      (simp add: Let_def scan2 [simplified] numeral_of_Uintn [OF t lib] numeral_of_Uintn [OF a lib]
        numeral_of_Uintn [OF l lib] Ts le reply SendGdbError_eq)
qed

lemma ProcessBreakpoint_malformed:
  assumes "44 \<notin> set (cstr Command)"
  shows "ProcessBreakpoint ag Remove Command s = Inr (responded (error_text GDB_ERROR_BAD_REQUEST) s)"
proof -
  have none: "ScanMem8 Command (AsciiStrLen Command) 44 = None" using assms by simp
  show ?thesis unfolding ProcessBreakpoint_def none by (simp add: SendGdbError_eq)
qed

section \<open>Resuming\<close>

lemma ProcessVCommand_delimiter_eq:
  "59 \<notin> set name \<Longrightarrow> 63 \<notin> set name \<Longrightarrow> d = 59 \<or> d = 63 \<Longrightarrow> length name < n \<Longrightarrow>
     ProcessVCommand_delimiter (name @ d # r) n = length name"
  by (induction name arbitrary: n; case_tac n) auto

lemma text_response:
  assumes "0 \<notin> set body" and "length body \<le> MAX_RESPONSE_SIZE"
  shows "SendGdbResponse ag (Some body) s = Inr (responded body s)"
  using assms by (simp add: SendGdbResponse_eq)

text \<open>
  A v packet is compared with \<open>Cont\<close> on as many characters as its own name has, so every
  prefix of \<open>Cont\<close> is taken for it. Apart from that: a continue request resumes, a step
  request arms the single step first, and anything else gets the empty response.
\<close>

lemma ProcessVCommand_eq:
  assumes name: "59 \<notin> set name" "63 \<notin> set name" "0 \<notin> set name"
    and d: "d = 59 \<or> d = 63" and n: "length name < n"
  shows "ProcessVCommand ag (name @ d # c # r) n s =
    (if name = take (length name) (str ''Cont'') \<and> d = 59 \<and> c = 99 then Inr (s\<lparr>gRunning := True\<rparr>)
     else if name = take (length name) (str ''Cont'') \<and> d = 59 \<and> c = 115 then
       (case ag_AddSingleStep ag (gSystemContext s) (world s) of (ctx', w') \<Rightarrow>
          Inr (s\<lparr>gSystemContext := ctx', world := w', gRunning := True\<rparr>))
     else if name = take (length name) (str ''Cont'') \<and> d = 63 then
       Inr (responded (str ''vCont;c;C;s;S'') s)
     else Inr (responded (str '''') s))"
proof -
  have del: "ProcessVCommand_delimiter (name @ 59 # c # r) n = length name"
    "ProcessVCommand_delimiter (name @ 63 # c # r) n = length name"
    using ProcessVCommand_delimiter_eq [OF name(1,2) _ n] by simp_all
  have nth: "(name @ x # c # r) ! Suc (length name) = c" for x by (simp add: nth_append)
  have "0 \<notin> set (str ''Cont'')" by (simp add: str_def)
  define P where "P \<longleftrightarrow> name = take (length name) (str ''Cont'')"
  have cmp: "AsciiStrnCmp (name @ 0 # x) (str ''Cont'') (length name) = 0 \<longleftrightarrow> P" for x
    using name(3) \<open>0 \<notin> set (str ''Cont'')\<close> unfolding P_def by (simp add: AsciiStrnCmp_eq_0)
  have resp: "SendGdbResponse ag (Some (str ''vCont;c;C;s;S'')) s = Inr (responded (str ''vCont;c;C;s;S'') s)"
    "SendGdbResponse ag (Some (str '''')) s = Inr (responded (str '''') s)"
    by (rule text_response; simp add: str_def MAX_RESPONSE_SIZE_def)+
  have "ProcessVCommand ag (name @ d # c # r) n s =
      (if P then
         (if d = 59 then
            (if c = 99 then Inr (s\<lparr>gRunning := True\<rparr>)
             else if c = 115 then
               (case ag_AddSingleStep ag (gSystemContext s) (world s) of (ctx', w') \<Rightarrow>
                  Inr (s\<lparr>gSystemContext := ctx', world := w', gRunning := True\<rparr>))
             else Inr (responded (str '''') s))
          else Inr (responded (str ''vCont;c;C;s;S'') s))
       else Inr (responded (str '''') s))"
    using d by (elim disjE) (simp_all add: ProcessVCommand_def Let_def del cmp nth resp)
  then show ?thesis using d unfolding P_def [symmetric] by (cases P) auto
qed

section \<open>Other commands\<close>

text \<open>The monitor request \<open>R\<close> only arms the reboot and prints.\<close>

lemma ProcessMonitorCmd_eq:
  assumes cmd: "length cmd < 128"
  shows "ProcessMonitorCmd ag (hex_bytes cmd @ 0 # r) s =
    (case ProcessMonitorCmd_switch ag (cmd @ [0]) s of (mScratch, s1) \<Rightarrow>
       Inr (responded (str ''OK'')
         (responded (79 # hex_bytes (take 2047 (cstr mScratch))) s1)))"
proof -
  have "AsciiStrLen (hex_bytes cmd @ 0 # r) = 2 * length cmd" by simp
  moreover have "ConvertResponseToHex m (of_nat MAX_RESPONSE_SIZE - 1) = hex_bytes (take 2047 (cstr m))" for m
    by (subst ConvertResponseToHex_eq) (simp_all add: MAX_RESPONSE_SIZE_def)
  moreover have "SendGdbResponse ag (Some (79 # hex_bytes (take 2047 (cstr m)) @ [0])) s' =
      Inr (responded (79 # hex_bytes (take 2047 (cstr m))) s')" for m s'
  proof -
    have "cstr (79 # hex_bytes (take 2047 (cstr m)) @ [0]) = 79 # hex_bytes (take 2047 (cstr m))"
      "AsciiStrLen (79 # hex_bytes (take 2047 (cstr m)) @ [0]) \<le> MAX_RESPONSE_SIZE"
      using cstr_append_zero [of "79 # hex_bytes (take 2047 (cstr m))" "[]"]
        AsciiStrLen_append_zero [of "79 # hex_bytes (take 2047 (cstr m))" "[]"]
      by (simp_all add: MAX_RESPONSE_SIZE_def)
    then show ?thesis by (simp add: SendGdbResponse_eq)
  qed
  ultimately show ?thesis
    using cmd HexToBytes_hex_bytes [of "ag_asserts ag" cmd "0 # r"]
    by (simp add: ProcessMonitorCmd_def Let_def split: prod.split)
qed

lemma ProcessQuery_monitor: "ProcessQuery ag (str ''Rcmd,'' @ C) s = ProcessMonitorCmd ag C s"
  by (simp add: ProcessQuery_def AsciiStrnCmp_eq_0 str_def cstr_def)

lemma ExecuteGdbCommand_unknown:
  "c \<notin> set (str ''gGpPmMvqH?!ZzrR'') \<Longrightarrow>
     ExecuteGdbCommand ag (c # C) n s = Inr (responded (error_text GDB_ERROR_UNKOWN_CMD) s)"
  by (simp add: ExecuteGdbCommand_def str_def SendGdbError_eq)

end
