(* ===== verification/Effects.thy ===== *)
theory Effects
  imports GdbStub
begin

text \<open>
  An abstract machine for the stub: the atomic effects a request can have. Every handler,
  packet and loop of GdbStub.c is a sequence of these steps, so invariants of the steps are
  invariants of every debugging session: the breakpoint table stays well formed, and what
  goes out on the wire is a sequence of acknowledgements and packets with a correct checksum.
\<close>

section \<open>The steps\<close>

text \<open>What a request can do to the world, through the routines of the build.\<close>

inductive world_op :: "'w agent \<Rightarrow> 'w \<Rightarrow> 'w \<Rightarrow> bool" for ag where
  wo_read: "ag_DbgReadMemory ag a n w = (ok, bs, w') \<Longrightarrow> world_op ag w w'"
| wo_write: "ag_DbgWriteMemory ag a bs w = (ok, w') \<Longrightarrow> world_op ag w w'"
| wo_step: "ag_AddSingleStep ag c w = (c', w') \<Longrightarrow> world_op ag w w'"
| wo_add: "ag_AddWatchpoint ag a l r x w = (ok, w') \<Longrightarrow> world_op ag w w'"
| wo_remove: "ag_RemoveWatchpoint ag a l r x w = (ok, w') \<Longrightarrow> world_op ag w w'"
| wo_module: "ag_DbgSetBreakOnModuleLoad ag m w = (ok, w') \<Longrightarrow> world_op ag w w'"
| wo_reboot: "ag_DebugReboot ag w = Inr w' \<Longrightarrow> world_op ag w w'"

text \<open>A response is a string that fits \<open>mResponseFull\<close> with its frame and a terminator.\<close>

definition response_ok :: "u8 list \<Rightarrow> bool" where
  "response_ok b \<longleftrightarrow> 0 \<notin> set b \<and> length b + 4 < RESPONSE_FULL_SIZE"

inductive stub_step :: "'w agent \<Rightarrow> 'w gdb \<Rightarrow> 'w gdb \<Rightarrow> bool" for ag where
  st_respond: "response_ok b \<Longrightarrow> stub_step ag s (responded b s)"
| st_ack: "stub_step ag s (SendGdbAck p s)"
| st_resend: "\<not> mResponseAcknowledged s \<Longrightarrow> stub_step ag s (s\<lparr>tx := tx s @ mResponseFull s\<rparr>)"
| st_acked: "stub_step ag s (s\<lparr>mResponseAcknowledged := True\<rparr>)"
| st_connected: "stub_step ag s (s\<lparr>mConnectionOccurred := True\<rparr>)"
| st_run: "stub_step ag s (s\<lparr>gRunning := True\<rparr>)"
| st_arm_reboot: "stub_step ag s (s\<lparr>mRebootOnContinue := True\<rparr>)"
| st_context: "stub_step ag s (s\<lparr>gSystemContext := c\<rparr>)"
| st_world: "world_op ag (world s) w' \<Longrightarrow> stub_step ag s (s\<lparr>world := w'\<rparr>)"
| st_add: "AddSoftwareBreakpoint ag a (mBreakpoints s, world s) = Inr (r, t', w') \<Longrightarrow>
    stub_step ag s (s\<lparr>mBreakpoints := t', world := w'\<rparr>)"
| st_remove: "RemoveSoftwareBreakpoint ag a (mBreakpoints s, world s) = (r, t', w') \<Longrightarrow>
    stub_step ag s (s\<lparr>mBreakpoints := t', world := w'\<rparr>)"
| st_receive: "stub_step ag s (s\<lparr>rx := tl (rx s)\<rparr>)"
| st_clock: "stub_step ag s (s\<lparr>clock_reads := Suc (clock_reads s)\<rparr>)"

abbreviation stub_steps :: "'w agent \<Rightarrow> 'w gdb \<Rightarrow> 'w gdb \<Rightarrow> bool" where
  "stub_steps ag \<equiv> (stub_step ag)\<^sup>*\<^sup>*"

inductive_cases stub_stepE: "stub_step ag s s'"

lemmas steps_trans = rtranclp_trans [of "stub_step ag" for ag]
lemmas steps_snoc = rtranclp.rtrancl_into_rtrancl [of "stub_step ag" for ag]

section \<open>Every handler is a sequence of steps\<close>

text \<open>The steps a request makes: they leave the input and the clock alone.\<close>

definition command_step :: "'w agent \<Rightarrow> 'w gdb \<Rightarrow> 'w gdb \<Rightarrow> bool" where
  "command_step ag s s' \<longleftrightarrow> stub_step ag s s' \<and> rx s' = rx s \<and> clock_reads s' = clock_reads s"

abbreviation command_steps :: "'w agent \<Rightarrow> 'w gdb \<Rightarrow> 'w gdb \<Rightarrow> bool" where
  "command_steps ag \<equiv> (command_step ag)\<^sup>*\<^sup>*"

lemmas command_steps_snoc = rtranclp.rtrancl_into_rtrancl [of "command_step ag" for ag]

lemma cs_respond: "response_ok b \<Longrightarrow> command_step ag s (responded b s)"
  and cs_ack: "command_step ag s (SendGdbAck p s)"
  and cs_connected: "command_step ag s (s\<lparr>mConnectionOccurred := True\<rparr>)"
  and cs_run: "command_step ag s (s\<lparr>gRunning := True\<rparr>)"
  and cs_arm_reboot: "command_step ag s (s\<lparr>mRebootOnContinue := True\<rparr>)"
  and cs_context: "command_step ag s (s\<lparr>gSystemContext := c\<rparr>)"
  and cs_world: "world_op ag (world s) w' \<Longrightarrow> command_step ag s (s\<lparr>world := w'\<rparr>)"
  and cs_add: "AddSoftwareBreakpoint ag a (mBreakpoints s, world s) = Inr (r, t', w') \<Longrightarrow>
    command_step ag s (s\<lparr>mBreakpoints := t', world := w'\<rparr>)"
  and cs_remove: "RemoveSoftwareBreakpoint ag a (mBreakpoints s, world s) = (r, t', w') \<Longrightarrow>
    command_step ag s (s\<lparr>mBreakpoints := t', world := w'\<rparr>)"
  by (simp_all add: command_step_def stub_step.intros) (simp_all add: SendGdbAck_def DebugTransportWrite_def)

lemma SendGdbResponse_responded:
  assumes "SendGdbResponse ag (Some R) s = Inr s'"
  shows "\<exists>b. response_ok b \<and> s' = responded b s"
proof -
  have "s' = responded (cstr R) s \<and> AsciiStrLen R + 4 < RESPONSE_FULL_SIZE"
    using assms by (auto simp: SendGdbResponse_def Let_def ASSERT_def responded_def
        DebugTransportWrite_def split: if_splits)
  then have "response_ok (cstr R) \<and> s' = responded (cstr R) s"
    by (simp add: response_ok_def AsciiStrLen_def)
  then show ?thesis by blast
qed

lemma SendGdbResponse_command:
  assumes "SendGdbResponse ag (Some R) s1 = Inr s'" and "command_steps ag s s1"
  shows "command_steps ag s s'"
  using assms SendGdbResponse_responded [OF assms(1)] by (auto intro: command_steps_snoc cs_respond)

lemma SendGdbError_steps:
  assumes "SendGdbError ag e s1 = Inr s'" and "command_steps ag s s1"
  shows "command_steps ag s s'"
  using assms unfolding SendGdbError_def by (rule SendGdbResponse_command)

lemma world_ops_steps:
  assumes "(world_op ag)\<^sup>*\<^sup>* w w'" and "w = world s"
  shows "command_steps ag s (s\<lparr>world := w'\<rparr>)"
  using assms
proof (induction rule: rtranclp_induct)
  case base
  then show ?case by simp
next
  case (step y z)
  then have "command_step ag (s\<lparr>world := y\<rparr>) (s\<lparr>world := y, world := z\<rparr>)"
    by (intro cs_world) simp
  with step show ?case by (auto intro: command_steps_snoc)
qed

lemma ProcessMemoryCommand_loop_ops:
  "ProcessMemoryCommand_loop ag W A L V R w = Inr (R', w') \<Longrightarrow> (world_op ag)\<^sup>*\<^sup>* w w'"
proof (induction ag W A L V R w arbitrary: R' rule: ProcessMemoryCommand_loop.induct)
  case (1 ag W A L V R w)
  note eq = 1(3) [unfolded ProcessMemoryCommand_loop.simps [of ag W A L V R w] Let_def]
  show ?case
  proof (cases "L = 0")
    case True
    with 1(3) show ?thesis by simp
  next
    case L: False
    show ?thesis
    proof (cases W)
      case True
      obtain bs V' where hb: "HexToBytes (ag_asserts ag) (unat (min L (of_nat SCRATCH_SIZE))) V = Inr (bs, V')"
        using eq L True by auto
      obtain ok w1 where wr: "ag_DbgWriteMemory ag A bs w = (ok, w1)" by fastforce
      have op: "world_op ag w w1" using wr by (rule wo_write)
      show ?thesis
      proof (cases ok)
        case False
        with eq L True hb wr op show ?thesis by auto
      next
        case ok: True
        have "(world_op ag)\<^sup>*\<^sup>* w1 w'"
          using eq L True hb wr ok
          by (intro 1(1) [OF L refl True hb refl wr [symmetric]]) auto
        with op show ?thesis by (rule converse_rtranclp_into_rtranclp)
      qed
    next
      case W: False
      let ?rd = "if windbg_page ag A (min L (of_nat SCRATCH_SIZE))
                  then (True, replicate (unat (min L (of_nat SCRATCH_SIZE))) 0, w)
                  else ag_DbgReadMemory ag A (unat (min L (of_nat SCRATCH_SIZE))) w"
      obtain ok bs w1 where rd: "?rd = (ok, bs, w1)" by (metis prod_cases3)
      then have ops: "(world_op ag)\<^sup>*\<^sup>* w w1" by (auto split: if_splits intro: wo_read)
      have "(world_op ag)\<^sup>*\<^sup>* w1 w'"
      proof (cases "ok \<and> \<not> (SCRATCH_SIZE < unat L \<or> RESPONSE_FULL_SIZE - 1 < length R + 2 * unat L)")
        case True
        then show ?thesis
          using eq L W rd
          by (intro 1(2) [OF L refl W rd [symmetric] refl]) (auto split: if_splits)
      next
        case False
        with eq L W rd show ?thesis by (auto split: if_splits)
      qed
      with ops show ?thesis by (rule rtranclp_trans)
    qed
  qed
qed

lemma ProcessMemoryCommand_steps:
  assumes "ProcessMemoryCommand ag W C n s = Inr s'"
  shows "command_steps ag s s'"
  using assms unfolding ProcessMemoryCommand_def Let_def ASSERT_def
  by (auto split: option.splits if_splits
      intro: SendGdbError_steps SendGdbResponse_command world_ops_steps dest!: ProcessMemoryCommand_loop_ops)

lemma ProcessVCommand_steps:
  assumes "ProcessVCommand ag C n s = Inr s'"
  shows "command_steps ag s s'"
proof -
  have single: "command_steps ag s (s\<lparr>gSystemContext := c', world := w', gRunning := True\<rparr>)"
    if "ag_AddSingleStep ag (gSystemContext s) (world s) = (c', w')" for c' w'
  proof -
    have "command_steps ag s (s\<lparr>gSystemContext := c'\<rparr>)" by (intro r_into_rtranclp cs_context)
    also have "command_step ag \<dots> (s\<lparr>gSystemContext := c', world := w'\<rparr>)"
      using that by (intro cs_world) (auto intro: wo_step)
    also (rtranclp.rtrancl_into_rtrancl) have "command_step ag \<dots> (s\<lparr>gSystemContext := c', world := w', gRunning := True\<rparr>)"
      by (rule cs_run)
    finally (rtranclp.rtrancl_into_rtrancl) show ?thesis .
  qed
  show ?thesis
    using assms unfolding ProcessVCommand_def Let_def ASSERT_def
    by (auto split: if_splits prod.splits intro: SendGdbResponse_command cs_run single)
qed

lemma ProcessMonitorCmd_switch_steps:
  assumes "ProcessMonitorCmd_switch ag C s = (m, s')"
  shows "command_steps ag s s'"
  using assms unfolding ProcessMonitorCmd_switch_def Let_def
  by (auto split: if_splits prod.splits intro: cs_arm_reboot intro!: r_into_rtranclp cs_world wo_module)

lemma ProcessMonitorCmd_steps:
  assumes "ProcessMonitorCmd ag C s = Inr s'"
  shows "command_steps ag s s'"
proof -
  consider (bad) "SendGdbError ag GDB_ERROR_BAD_REQUEST s = Inr s'"
    | (run) c where "(case ProcessMonitorCmd_switch ag c s of (m, s1) \<Rightarrow>
        ebind (SendGdbResponse ag (Some (79 # ConvertResponseToHex m (of_nat MAX_RESPONSE_SIZE - 1) @ [0])) s1)
          (\<lambda>s2. SendGdbResponse ag (Some (str ''OK'')) s2)) = Inr s'"
    using assms unfolding ProcessMonitorCmd_def Let_def by (auto split: if_splits)
  then show ?thesis
  proof cases
    case bad
    then show ?thesis by (rule SendGdbError_steps) simp
  next
    case run
    then show ?thesis using ProcessMonitorCmd_switch_steps [of ag c s]
      by (cases "ProcessMonitorCmd_switch ag c s") (auto intro: SendGdbResponse_command)
  qed
qed

lemma ProcessQuery_steps:
  assumes "ProcessQuery ag C s = Inr s'"
  shows "command_steps ag s s'"
  using assms unfolding ProcessQuery_def ReadTargetDescription_def ReadTargetRegisters_def Let_def
  by (auto split: if_splits prod.splits
      intro: SendGdbResponse_command SendGdbError_steps ProcessMonitorCmd_steps)

lemma register_steps:
  "WriteGeneralRegisters ag C s = Inr s' \<Longrightarrow> command_steps ag s s'"
  "ReadGeneralRegisters ag s = Inr s' \<Longrightarrow> command_steps ag s s'"
  "ReadRegister ag C s = Inr s' \<Longrightarrow> command_steps ag s s'"
  "WriteRegister ag C s = Inr s' \<Longrightarrow> command_steps ag s s'"
  unfolding WriteGeneralRegisters_def ReadGeneralRegisters_def ReadRegister_def WriteRegister_def Let_def
  by (auto split: if_splits option.splits intro: SendGdbResponse_command SendGdbError_steps cs_context)

lemma world_steps:
  "ag_RemoveWatchpoint ag a l r x (world s) = (ok, w') \<Longrightarrow> command_steps ag s (s\<lparr>world := w'\<rparr>)"
  "ag_AddWatchpoint ag a l r x (world s) = (ok, w') \<Longrightarrow> command_steps ag s (s\<lparr>world := w'\<rparr>)"
  "ag_DebugReboot ag (world s) = Inr w' \<Longrightarrow> command_steps ag s (s\<lparr>world := w'\<rparr>)"
  by (intro r_into_rtranclp cs_world; erule world_op.intros)+

lemma ProcessBreakpoint_steps:
  assumes "ProcessBreakpoint ag Remove C s = Inr s'"
  shows "command_steps ag s s'"
  using assms unfolding ProcessBreakpoint_def Let_def
  by (auto split: if_splits option.splits prod.splits
      intro: SendGdbResponse_command SendGdbError_steps cs_add cs_remove world_steps)

lemma ExecuteGdbCommand_command:
  assumes "ExecuteGdbCommand ag C n s = Inr s'"
  shows "command_steps ag s s'"
  using assms unfolding ExecuteGdbCommand_def SendStopReply_def
  by (auto split: if_splits list.splits EXCEPTION_TYPE.splits
      intro: register_steps ProcessMemoryCommand_steps ProcessVCommand_steps ProcessQuery_steps
        ProcessBreakpoint_steps SendGdbResponse_command SendGdbError_steps cs_respond world_steps)

lemma ProcessGdbPacket_command:
  assumes "ProcessGdbPacket ag P n s = Inr (P', s')"
  shows "command_steps ag s s'"
proof -
  have "command_steps ag s (SendGdbAck True s)" by (intro r_into_rtranclp cs_ack)
  then have "command_steps ag s ((SendGdbAck True s)\<lparr>mConnectionOccurred := True\<rparr>)"
    using cs_connected by (rule rtranclp.rtrancl_into_rtrancl)
  then show ?thesis
    using assms unfolding ProcessGdbPacket_def Let_def ASSERT_def
    by (auto split: if_splits option.splits intro: cs_ack dest!: ExecuteGdbCommand_command
        intro: rtranclp_trans)
qed

text \<open>So a request consumes no input and does not look at the clock.\<close>

lemma command_steps_io: "command_steps ag s s' \<Longrightarrow> rx s' = rx s \<and> clock_reads s' = clock_reads s"
  by (induction rule: rtranclp_induct) (auto simp: command_step_def)

lemma command_steps_stub: "command_steps ag s s' \<Longrightarrow> stub_steps ag s s'"
  by (induction rule: rtranclp_induct) (auto simp: command_step_def intro: steps_snoc)

lemmas ExecuteGdbCommand_io = command_steps_io [OF ExecuteGdbCommand_command]
lemmas ProcessGdbPacket_io = command_steps_io [OF ProcessGdbPacket_command]

lemma SendGdbResponse_steps:
  "SendGdbResponse ag (Some R) s1 = Inr s' \<Longrightarrow> stub_steps ag s s1 \<Longrightarrow> stub_steps ag s s'"
  using SendGdbResponse_command [of ag R s1 s' s1] command_steps_stub [of ag s1 s'] by (auto intro: rtranclp_trans)

lemma ExecuteGdbCommand_steps: "ExecuteGdbCommand ag C n s = Inr s' \<Longrightarrow> stub_steps ag s s'"
  by (rule command_steps_stub) (rule ExecuteGdbCommand_command)

lemma ProcessGdbPacket_steps: "ProcessGdbPacket ag P n s = Inr (P', s') \<Longrightarrow> stub_steps ag s s'"
  by (rule command_steps_stub) (rule ProcessGdbPacket_command)

section \<open>The loops\<close>

lemma DebugTransportPoll_steps: "DebugTransportPoll s = (p, s') \<Longrightarrow> stub_steps ag s s'"
proof -
  assume "DebugTransportPoll s = (p, s')"
  then have "s' = s \<or> s' = s\<lparr>rx := tl (rx s)\<rparr>" by (auto split: list.splits option.splits)
  then show ?thesis by (auto intro: st_receive)
qed

lemma DebugTransportRead_steps: "DebugTransportRead old s = (b, s') \<Longrightarrow> stub_steps ag s s'"
proof -
  assume "DebugTransportRead old s = (b, s')"
  then have "s' = s \<or> s' = s\<lparr>rx := tl (rx s)\<rparr>" by (auto split: list.splits option.splits)
  then show ?thesis by (auto intro: st_receive)
qed

lemma GetTimeMs_steps: "GetTimeMs ag s = Inr (t, s') \<Longrightarrow> stub_steps ag s s'"
  by (auto simp: GetTimeMs_def intro: st_clock)

lemma DebugReadByte_loop_steps:
  assumes "DebugReadByte_loop ag E s = Some res"
  shows "\<forall>b s'. res = Inr (b, s') \<longrightarrow> stub_steps ag s s'"
proof (rule DebugReadByte_loop.raw_induct [OF _ assms], intro allI impI, goal_cases)
  case (1 f ag E s res b s')
  obtain p s1 where poll: "DebugTransportPoll s = (p, s1)" by fastforce
  show ?case
  proof (cases p)
    case True
    obtain x s2 where rd: "DebugTransportRead 0 s1 = (x, s2)" by fastforce
    with 1(2-) poll True have "s' = s2"
      by (auto simp del: DebugTransportPoll.simps DebugTransportRead.simps)
    then show ?thesis
      using DebugTransportPoll_steps [OF poll] DebugTransportRead_steps [OF rd] by (meson rtranclp_trans)
  next
    case False
    with 1(2-) poll obtain t s2 where t: "GetTimeMs ag s1 = Inr (t, s2)"
      and r: "(if t < E then f ag E s2 else Some (Inr (None, s2))) = Some (Inr (b, s'))"
      by (auto simp del: DebugTransportPoll.simps split: sum.splits)
    have "stub_steps ag s2 s'"
      using r 1(1) [of ag E s2 "Inr (b, s')"] by (auto split: if_splits)
    then show ?thesis
      using DebugTransportPoll_steps [OF poll] GetTimeMs_steps [OF t] by (meson rtranclp_trans)
  qed
qed

lemma DebugReadByte_steps: "DebugReadByte ag T s = Some (Inr (b, s')) \<Longrightarrow> stub_steps ag s s'"
  by (auto simp: DebugReadByte_def split: sum.splits
      dest!: GetTimeMs_steps DebugReadByte_loop_steps intro: rtranclp_trans)

lemma ProcessInputData_packet_steps:
  "ProcessInputData_packet ag m n s = Some (Inr (P, s')) \<Longrightarrow> stub_steps ag s s'"
proof (induction ag m n s rule: ProcessInputData_packet.induct)
  case (1 ag m n s)
  note eq = 1(2) [unfolded ProcessInputData_packet.simps [of ag m n s]]
  show ?case
  proof (cases "length m \<le> n")
    case True
    with eq show ?thesis by (auto intro: st_ack)
  next
    case False
    with eq obtain b s1 where rd: "DebugReadByte ag 1000 s = Some (Inr (b, s1))"
      by (auto split: option.splits sum.splits)
    have s1: "stub_steps ag s s1" using rd by (rule DebugReadByte_steps)
    show ?thesis
    proof (cases b)
      case None
      have "stub_step ag s1 (SendGdbAck False s1)" by (rule st_ack)
      with s1 have "stub_steps ag s (SendGdbAck False s1)" by (rule rtranclp.rtrancl_into_rtrancl)
      with eq False rd None show ?thesis by simp
    next
      case (Some x)
      show ?thesis
      proof (cases "Suc n < 4 \<or> m[n := x] ! (Suc n - 3) \<noteq> 35")
        case True
        have "stub_steps ag s1 s'"
          using eq False rd Some True
          by (intro 1(1) [OF False rd refl refl Some refl refl]) (auto simp: Let_def)
        with s1 show ?thesis by (rule rtranclp_trans)
      next
        case stop: False
        with eq False rd Some s1 show ?thesis by (simp add: Let_def split: if_splits)
      qed
    qed
  qed
qed

text \<open>One round of the request loop, with \<open>f\<close> for the further rounds.\<close>

lemma ProcessInputData_round_steps:
  assumes round: "obind (DebugReadByte ag 10 s) (\<lambda>(Byte, s1).
       case Byte of
         None \<Rightarrow> Some (Inr s1)
       | Some b \<Rightarrow>
           (let mRequest = m[0 := b] in
            if b = 45 \<and> \<not> mResponseAcknowledged s1 then
              obind (Some (SendGdbResponse ag None s1)) (\<lambda>s2. f ag mRequest s2)
            else if b = 43 then f ag mRequest (s1\<lparr>mResponseAcknowledged := True\<rparr>)
            else if b \<noteq> 36 then f ag mRequest s1
            else
              obind (ProcessInputData_packet ag mRequest 1 s1) (\<lambda>(P, s2).
                case P of
                  None \<Rightarrow> Some (Inr s2)
                | Some (mRequest, PacketLength) \<Rightarrow>
                    obind (Some (ProcessGdbPacket ag mRequest PacketLength s2)) (\<lambda>(mRequest, s3).
                      f ag mRequest s3)))) = Some (Inr s')"
    and rec: "\<And>m s s'. f ag m s = Some (Inr s') \<Longrightarrow> stub_steps ag s s'"
    and rd: "DebugReadByte ag 10 s = Some (Inr (b, s1))"
  shows "stub_steps ag s1 s'"
proof (cases b)
  case None
  with round rd show ?thesis by auto
next
  case (Some x)
  have ackeds: "stub_steps ag s1 (s1\<lparr>mResponseAcknowledged := True\<rparr>)" by (intro r_into_rtranclp st_acked)
  have resends: "stub_steps ag s1 s2" if "SendGdbResponse ag None s1 = Inr s2" "\<not> mResponseAcknowledged s1" for s2
  proof -
    have "s1\<lparr>mResponseAcknowledged := False\<rparr> = s1" using that(2) by simp
    then have "s2 = s1\<lparr>tx := tx s1 @ mResponseFull s1\<rparr>"
      using that by (auto simp: SendGdbResponse_def ASSERT_def DebugTransportWrite_def split: if_splits)
    with st_resend [OF that(2)] show ?thesis by auto
  qed
  have packets: "stub_steps ag s1 s3"
    if "ProcessInputData_packet ag m1 1 s1 = Some (Inr (P, s2))"
      "ProcessGdbPacket ag m2 n s2 = Inr (m3, s3)" for m1 P s2 m2 n m3 s3
    using ProcessInputData_packet_steps [OF that(1)] ProcessGdbPacket_steps [OF that(2)]
    by (rule rtranclp_trans)
  consider (resend) s2 where "SendGdbResponse ag None s1 = Inr s2" "\<not> mResponseAcknowledged s1"
      "f ag (m[0 := x]) s2 = Some (Inr s')"
    | (acked) "f ag (m[0 := x]) (s1\<lparr>mResponseAcknowledged := True\<rparr>) = Some (Inr s')"
    | (skip) "f ag (m[0 := x]) s1 = Some (Inr s')"
    | (exit) P where "ProcessInputData_packet ag (m[0 := x]) 1 s1 = Some (Inr (P, s'))"
    | (packet) m2 n s2 m3 s3 where
      "ProcessInputData_packet ag (m[0 := x]) 1 s1 = Some (Inr (Some (m2, n), s2))"
      "ProcessGdbPacket ag m2 n s2 = Inr (m3, s3)" "f ag m3 s3 = Some (Inr s')"
    using round rd Some
    by (auto simp: Let_def obind_eq_Inr split: if_splits option.splits prod.splits)
  then show ?thesis
    by cases (use resends ackeds packets rec ProcessInputData_packet_steps in
        \<open>blast intro: rtranclp_trans\<close>)+
qed

lemma ProcessInputData_loop_steps:
  assumes "ProcessInputData_loop ag m s = Some res"
  shows "\<forall>s'. res = Inr s' \<longrightarrow> stub_steps ag s s'"
proof (rule ProcessInputData_loop.raw_induct [OF _ assms], intro allI impI, goal_cases)
  case (1 f ag m s res s')
  then obtain b s1 where rd: "DebugReadByte ag 10 s = Some (Inr (b, s1))"
    by (auto simp: obind_eq_Inr)
  have "stub_steps ag s1 s'"
    using 1 by (intro ProcessInputData_round_steps [OF _ _ rd, where f = f]) blast+
  with DebugReadByte_steps [OF rd] show ?case by (rule rtranclp_trans)
qed

lemma ProcessInputData_steps: "ProcessInputData ag s = Some (Inr s') \<Longrightarrow> stub_steps ag s s'"
  unfolding ProcessInputData_def using ProcessInputData_loop_steps by blast

lemma ReportEntryToDebugger_input_steps:
  assumes "ReportEntryToDebugger_input ag s = Some res"
  shows "\<forall>s'. res = Inr s' \<longrightarrow> stub_steps ag s s'"
proof (rule ReportEntryToDebugger_input.raw_induct [OF _ assms], intro allI impI, goal_cases)
  case (1 f ag s res s')
  obtain p s1 where poll: "DebugTransportPoll s = (p, s1)" by fastforce
  have s1: "stub_steps ag s s1" using DebugTransportPoll_steps [OF poll] .
  show ?case
  proof (cases p)
    case True
    with 1(2-) poll obtain s2 where "ProcessInputData ag s1 = Some (Inr s2)" "f ag s2 = Some (Inr s')"
      by (auto simp: obind_eq_Inr simp del: DebugTransportPoll.simps)
    with 1(1) [of ag s2 "Inr s'"] s1 show ?thesis by (blast dest: ProcessInputData_steps intro: rtranclp_trans)
  next
    case False
    with 1(2-) poll s1 show ?thesis by (auto simp del: DebugTransportPoll.simps)
  qed
qed

lemma ReportEntryToDebugger_loop_steps:
  assumes "ReportEntryToDebugger_loop ag E s = Some res"
  shows "\<forall>s'. res = Inr s' \<longrightarrow> stub_steps ag s s'"
proof (rule ReportEntryToDebugger_loop.raw_induct [OF _ assms], intro allI impI, goal_cases)
  case (1 f ag E s res s')
  show ?case
  proof (cases "gRunning s")
    case True
    with 1(2-) show ?thesis by auto
  next
    case False
    with 1(2-) obtain s1 where s1: "ReportEntryToDebugger_input ag s = Some (Inr s1)"
      and r: "(if \<not> mConnectionOccurred s1 \<and> E \<noteq> 0 then
          obind (Some (GetTimeMs ag s1)) (\<lambda>(t, s2).
            f ag E (if E \<le> t then s2\<lparr>gRunning := True\<rparr> else s2))
        else f ag E s1) = Some (Inr s')"
      by (auto simp: obind_eq_Inr)
    have st1: "stub_steps ag s s1" using ReportEntryToDebugger_input_steps [OF s1] by blast
    have rec: "stub_steps ag s s'" if "f ag E s2 = Some (Inr s')" "stub_steps ag s1 s2" for s2
    proof -
      have "stub_steps ag s2 s'" using 1(1) [OF that(1)] by blast
      with st1 that(2) show ?thesis by (meson rtranclp_trans)
    qed
    show ?thesis
    proof (cases "\<not> mConnectionOccurred s1 \<and> E \<noteq> 0")
      case True
      with r obtain t s2 where t: "GetTimeMs ag s1 = Inr (t, s2)"
        and f: "f ag E (if E \<le> t then s2\<lparr>gRunning := True\<rparr> else s2) = Some (Inr s')"
        by (auto simp: obind_eq_Inr)
      have "stub_steps ag s1 s2" using GetTimeMs_steps [OF t] .
      moreover have "stub_steps ag s2 (s2\<lparr>gRunning := True\<rparr>)" by (intro r_into_rtranclp st_run)
      ultimately have "stub_steps ag s1 (if E \<le> t then s2\<lparr>gRunning := True\<rparr> else s2)"
        by (auto intro: rtranclp_trans)
      with f show ?thesis by (rule rec)
    next
      case False
      with r rec [of s1] show ?thesis by auto
    qed
  qed
qed

lemma SendGdbAck_eq: "SendGdbAck p s = s\<lparr>tx := tx s @ (if p then str ''+'' else str ''-'')\<rparr>"
  by (simp add: SendGdbAck_def DebugTransportWrite_def)

section \<open>Invariants\<close>

text \<open>A property of states that every step keeps holds after every command, packet and loop.\<close>

lemma steps_invariant:
  assumes "stub_steps ag s s'" and "P s" and "\<And>x y. stub_step ag x y \<Longrightarrow> P x \<Longrightarrow> P y"
  shows "P s'"
  using assms by (induction rule: rtranclp_induct) blast+

context breakpoint_memory
begin

lemma step_table_ok:
  assumes "stub_step ag s s'" and "bp_table_ok (mBreakpoints s)"
  shows "bp_table_ok (mBreakpoints s')"
  using assms(1)
proof (cases rule: stub_step.cases)
  case (st_add a r t' w')
  with add_refines(1) [OF assms(2) st_add(2)] show ?thesis by simp
next
  case (st_remove a r t' w')
  with remove_refines(1) [OF assms(2) st_remove(2)] show ?thesis by simp
qed (use assms(2) in \<open>simp_all add: SendGdbAck_eq\<close>)

lemma steps_table_ok:
  "stub_steps ag s s' \<Longrightarrow> bp_table_ok (mBreakpoints s) \<Longrightarrow> bp_table_ok (mBreakpoints s')"
  using steps_invariant [where P = "\<lambda>s. bp_table_ok (mBreakpoints s)"] step_table_ok by metis

end

text \<open>What the stub transmits: acknowledgements and framed packets, nothing else.\<close>

datatype wire_item = Ack bool | Frame "u8 list"

fun wire_bytes :: "wire_item \<Rightarrow> u8 list" where
  "wire_bytes (Ack p) = (if p then str ''+'' else str ''-'')"
| "wire_bytes (Frame body) = frame body"

definition wire_ok :: "u8 list \<Rightarrow> bool" where
  "wire_ok out \<longleftrightarrow> (\<exists>items. out = concat (map wire_bytes items) \<and>
     (\<forall>body. Frame body \<in> set items \<longrightarrow> response_ok body))"

text \<open>The buffered packet is one the client can be sent again.\<close>

definition sent_ok :: "'w gdb \<Rightarrow> bool" where
  "sent_ok s \<longleftrightarrow> wire_ok (tx s) \<and>
     (mResponseFull s = [] \<or> (\<exists>body. response_ok body \<and> mResponseFull s = frame body))"

lemma wire_ok_append:
  assumes "wire_ok out" and "case i of Ack p \<Rightarrow> True | Frame body \<Rightarrow> response_ok body"
  shows "wire_ok (out @ wire_bytes i)"
proof -
  obtain items where items: "out = concat (map wire_bytes items)"
    "\<forall>body. Frame body \<in> set items \<longrightarrow> response_ok body" using assms(1) by (auto simp: wire_ok_def)
  have "out @ wire_bytes i = concat (map wire_bytes (items @ [i]))" using items(1) by simp
  moreover have "\<forall>body. Frame body \<in> set (items @ [i]) \<longrightarrow> response_ok body"
    using items(2) assms(2) by auto
  ultimately show ?thesis unfolding wire_ok_def by blast
qed

lemma step_sent_ok:
  assumes "stub_step ag s s'" and "sent_ok s"
  shows "sent_ok s'"
  using assms
proof (cases rule: stub_step.cases)
  case (st_respond b)
  with assms(2) wire_ok_append [of "tx s" "Frame b"] show ?thesis by (auto simp: sent_ok_def)
next
  case (st_ack p)
  with assms(2) wire_ok_append [of "tx s" "Ack p"] show ?thesis
    by (auto simp: sent_ok_def SendGdbAck_eq)
next
  case st_resend
  with assms(2) wire_ok_append [of "tx s" "Frame body" for body] show ?thesis
    by (auto simp: sent_ok_def)
qed (auto simp: sent_ok_def)

lemma steps_sent_ok: "stub_steps ag s s' \<Longrightarrow> sent_ok s \<Longrightarrow> sent_ok s'"
  using steps_invariant [where P = sent_ok] step_sent_ok by metis

text \<open>What no request changes: the clock, the exception, a pending timeout; input is only consumed.\<close>

definition same_env :: "'w gdb \<Rightarrow> 'w gdb \<Rightarrow> bool" where
  "same_env s s' \<longleftrightarrow> clock s' = clock s \<and> gExceptionInfo s' = gExceptionInfo s \<and>
     mNextBreakpointTimeout s' = mNextBreakpointTimeout s \<and> log_suspended s' = log_suspended s \<and>
     DebuggerBreakpointReason s' = DebuggerBreakpointReason s \<and> length (rx s') \<le> length (rx s)"

lemma step_same_env: "stub_step ag s s' \<Longrightarrow> same_env s s'"
  by (cases rule: stub_step.cases) (auto simp: same_env_def SendGdbAck_eq)

lemma steps_same_env:
  assumes "stub_steps ag s s'"
  shows "same_env s s'"
proof (rule steps_invariant [where P = "same_env s", OF assms])
  show "same_env s s" by (simp add: same_env_def)
  show "same_env s y" if "stub_step ag x y" "same_env s x" for x y
    using step_same_env [OF that(1)] that(2) by (auto simp: same_env_def)
qed


section \<open>A whole stop\<close>

text \<open>
  From the state that \<open>ReportEntryToDebugger\<close> sets up, everything it does until it returns is
  steps, apart from the restored logging.
\<close>

lemma ReportEntryToDebugger_steps:
  assumes "ReportEntryToDebugger ag info c s = Some (Inr s')"
  shows "\<exists>T n s4. stub_steps ag (s\<lparr>gSystemContext := c, gExceptionInfo := info, gRunning := False,
      log_suspended := True, mNextBreakpointTimeout := T, clock_reads := n\<rparr>) s4 \<and>
    s' = s4\<lparr>log_suspended := False\<rparr>"
proof -
  let ?i = "\<lambda>T n. s\<lparr>gSystemContext := c, gExceptionInfo := info, gRunning := False,
      log_suspended := True, mNextBreakpointTimeout := T, clock_reads := n\<rparr>"
  let ?s1 = "s\<lparr>gSystemContext := c, gExceptionInfo := info, gRunning := False, log_suspended := True\<rparr>"
  obtain E s2 s3 s4 s5 where
    2: "(if ExceptionType info = ExceptionBreakpoint \<and> mNextBreakpointTimeout ?s1 \<noteq> 0 then
           obind (Some (GetTimeMs ag ?s1)) (\<lambda>(t, s2).
             Some (Inr (t + mNextBreakpointTimeout s2, s2\<lparr>mNextBreakpointTimeout := 0\<rparr>)))
         else Some (Inr (0, ?s1))) = Some (Inr (E, s2))"
    and 3: "SendStopReply ag s2 = Inr s3"
    and 4: "ReportEntryToDebugger_loop ag E s3 = Some (Inr s4)"
    and 5: "(if mRebootOnContinue s4 then Some (ebind (ag_DebugReboot ag (world s4)) (\<lambda>w. Inr (s4\<lparr>world := w\<rparr>)))
           else Some (Inr s4)) = Some (Inr s5)"
    and s': "s' = s5\<lparr>log_suspended := False\<rparr>"
    using assms unfolding ReportEntryToDebugger_def Let_def obind_eq_Inr
    by (elim exE conjE) (auto simp: obind_eq_Inr split: prod.splits)
  have "\<exists>T n. s2 = ?i T n"
  proof (cases "ExceptionType info = ExceptionBreakpoint \<and> mNextBreakpointTimeout ?s1 \<noteq> 0")
    case True
    then have "s2 = ?i 0 (Suc (clock_reads s))"
      using 2 by (auto simp: GetTimeMs_def obind_eq_Inr)
    then show ?thesis by blast
  next
    case False
    then have "s2 = ?s1" using 2 by auto
    also have "?s1 = ?i (mNextBreakpointTimeout s) (clock_reads s)" by simp
    finally show ?thesis by blast
  qed
  then obtain T n where s2: "s2 = ?i T n" by blast
  have "stub_steps ag s2 s3"
    using 3 unfolding SendStopReply_def Let_def by (rule SendGdbResponse_steps) simp
  moreover have "stub_steps ag s3 s4" using ReportEntryToDebugger_loop_steps [OF 4] by simp
  moreover have "stub_steps ag s4 s5"
    using 5 by (auto split: if_splits intro!: r_into_rtranclp st_world wo_reboot)
  ultimately have "stub_steps ag s2 s5" by (meson rtranclp_trans)
  with s2 s' show ?thesis by blast
qed

text \<open>A client only ever sees well-formed traffic, and the table keeps its shape.\<close>

lemma ReportEntryToDebugger_sent_ok:
  assumes "ReportEntryToDebugger ag info c s = Some (Inr s')" and "sent_ok s"
  shows "sent_ok s'"
proof -
  obtain T n s4 where st: "stub_steps ag (s\<lparr>gSystemContext := c, gExceptionInfo := info, gRunning := False,
      log_suspended := True, mNextBreakpointTimeout := T, clock_reads := n\<rparr>) s4"
    and s': "s' = s4\<lparr>log_suspended := False\<rparr>"
    using ReportEntryToDebugger_steps [OF assms(1)] by blast
  show ?thesis using steps_sent_ok [OF st] assms(2) by (simp add: s' sent_ok_def)
qed

context breakpoint_memory
begin

lemma ReportEntryToDebugger_table_ok:
  assumes "ReportEntryToDebugger ag info c s = Some (Inr s')" and "bp_table_ok (mBreakpoints s)"
  shows "bp_table_ok (mBreakpoints s')"
proof -
  obtain T n s4 where st: "stub_steps ag (s\<lparr>gSystemContext := c, gExceptionInfo := info, gRunning := False,
      log_suspended := True, mNextBreakpointTimeout := T, clock_reads := n\<rparr>) s4"
    and s': "s' = s4\<lparr>log_suspended := False\<rparr>"
    using ReportEntryToDebugger_steps [OF assms(1)] by blast
  show ?thesis using steps_table_ok [OF st] assms(2) by (simp add: s')
qed

end

end
