(* ===== verification/Session.thy ===== *)
theory Session
  imports CommandFacts Effects
begin

text \<open>
  The request loop as a whole: bytes that arrive are collected into packets and delivered to
  the interpreter unchanged, the loops end when the clock runs, an unattended breakpoint
  times out, and a continue request resumes the machine.
\<close>

section \<open>Reading bytes\<close>

text \<open>The clock can always be read in the current world.\<close>

definition clock_total :: "'w agent \<Rightarrow> 'w \<Rightarrow> bool" where
  "clock_total ag w \<longleftrightarrow> (\<forall>t. \<exists>x. ag_DebugGetTimeMs ag t w = Inr x)"

lemma clock_totalE:
  assumes "clock_total ag (world s)"
  obtains t where "GetTimeMs ag s = Inr (t, s\<lparr>clock_reads := Suc (clock_reads s)\<rparr>)"
  using assms unfolding clock_total_def GetTimeMs_def by (metis ebind.simps(2))

lemma DebugReadByte_pending:
  assumes "clock_total ag (world s)" and "rx s = Some b # r"
  shows "DebugReadByte ag T s = Some (Inr (Some b, s\<lparr>rx := r, clock_reads := Suc (clock_reads s)\<rparr>))"
proof -
  obtain t where "GetTimeMs ag s = Inr (t, s\<lparr>clock_reads := Suc (clock_reads s)\<rparr>)"
    using clock_totalE [OF assms(1)] .
  with assms(2) show ?thesis
    by (simp add: DebugReadByte_def DebugReadByte_loop.simps)
qed

section \<open>Collecting a packet\<close>

text \<open>
  From the second byte on, the loop of \<open>ProcessInputData\<close> stores the bytes of the packet one
  after the other and stops at its last one.
\<close>

lemma packet_stop:
  fixes body :: "u8 list"
  assumes "35 \<notin> set body" and "p = 36 # body @ [35, a, b]" and "k < length p"
  shows "(Suc k < 4 \<or> p ! (Suc k - 3) \<noteq> 35) \<longleftrightarrow> Suc k < length p"
proof (cases "Suc k < 4")
  case True
  then show ?thesis using assms by auto
next
  case False
  then have "3 + (k - 3) = k" by simp
  then obtain j where j: "k = Suc (Suc (Suc j))" by (metis numeral_3_eq_3 add_Suc add_0)
  then have "p ! (Suc k - 3) = (body @ [35, a, b]) ! j" using assms(2) by simp
  moreover have "j < length body \<Longrightarrow> body ! j \<noteq> 35" using assms(1) by (metis nth_mem)
  ultimately show ?thesis using assms(2,3) j by (auto simp: nth_append)
qed

lemma ProcessInputData_packet_collect:
  assumes body: "35 \<notin> set body" and p: "p = 36 # body @ [35, a, b]"
    and "clock_total ag (world s)" and "1 \<le> k" and "k < length p" and "length p - k \<le> length buf"
    and "rx s = map Some (drop k p) @ r"
  shows "ProcessInputData_packet ag (take k p @ buf) k s =
    Some (Inr (Some (p @ drop (length p - k) buf, length p),
      s\<lparr>rx := r, clock_reads := clock_reads s + (length p - k)\<rparr>))"
  using assms(3-)
proof (induction "length p - k" arbitrary: k buf s)
  case 0
  then show ?case by simp
next
  case (Suc n)
  from Suc.hyps(2) Suc.prems obtain x buf' where buf: "buf = x # buf'" by (cases buf) auto
  have dk: "drop k p = p ! k # drop (Suc k) p" using Suc.prems by (simp add: Cons_nth_drop_Suc)
  let ?s = "s\<lparr>rx := map Some (drop (Suc k) p) @ r, clock_reads := Suc (clock_reads s)\<rparr>"
  have rb: "DebugReadByte ag 1000 s = Some (Inr (Some (p ! k), ?s))"
    using DebugReadByte_pending [OF Suc.prems(1), of "p ! k" "map Some (drop (Suc k) p) @ r"]
      Suc.prems(5) dk by simp
  have len: "length (take k p) = k" using Suc.prems by simp
  have up: "(take k p @ x # buf')[k := p ! k] = take (Suc k) p @ buf'"
    using list_update_middle [of "take k p" x buf' "p ! k"] len Suc.prems
    by (simp add: take_Suc_conv_app_nth)
  have nth: "(take (Suc k) p @ buf') ! (k - 2) = p ! (k - 2)"
    using Suc.prems by (auto simp: nth_append)
  have room: "k < length (take k p @ buf)" using buf len by simp
  note step = ProcessInputData_packet.simps [of ag "take k p @ buf" k s]
  have unf: "ProcessInputData_packet ag (take k p @ buf) k s =
      (if Suc k < 4 \<or> p ! (Suc k - 3) \<noteq> 35
       then ProcessInputData_packet ag (take (Suc k) p @ buf') (Suc k) ?s
       else Some (Inr (Some (take (Suc k) p @ buf', Suc k), ?s)))"
    unfolding step using room by (simp add: rb buf up nth Let_def)
  show ?case
  proof (cases "Suc k < length p")
    case True
    then have "Suc k < 4 \<or> p ! (Suc k - 3) \<noteq> 35" using packet_stop [OF body p Suc.prems(3)] by blast
    moreover have "ProcessInputData_packet ag (take (Suc k) p @ buf') (Suc k) ?s =
      Some (Inr (Some (p @ drop (length p - Suc k) buf', length p),
        ?s\<lparr>rx := r, clock_reads := clock_reads ?s + (length p - Suc k)\<rparr>))"
      using Suc.hyps(2) Suc.prems True buf by (intro Suc.hyps(1)) auto
    moreover have "length p - k = Suc (length p - Suc k)" using True by simp
    ultimately show ?thesis unfolding unf using buf by simp
  next
    case False
    then have k: "length p = Suc k" using Suc.prems by simp
    have "\<not> (Suc k < 4 \<or> p ! (Suc k - 3) \<noteq> 35)"
      using packet_stop [OF body p Suc.prems(3)] False by blast
    then show ?thesis unfolding unf using k buf by simp
  qed
qed

section \<open>Delivery\<close>

text \<open>
  A framed request that arrives is acknowledged and handed to the interpreter as it is,
  whatever the clock shows; the loop then goes on with what follows.
\<close>

lemma ProcessInputData_deliver:
  assumes lib: "lib_ok (ag_lib ag)" and clk: "clock_total ag (world s)"
    and body: "35 \<notin> set body" "length body + 4 \<le> length buf" and rx: "rx s = map Some (frame body) @ r"
  shows "ProcessInputData_loop ag buf s =
    obind (Some (ExecuteGdbCommand ag
        (body @ 0 # hex_byte (sum_list body) @ drop (length body + 4) buf) (length body)
        (s\<lparr>rx := r, clock_reads := clock_reads s + (length body + 4),
           tx := tx s @ str ''+'', mConnectionOccurred := True\<rparr>)))
      (\<lambda>s2. ProcessInputData_loop ag
         (36 # body @ 0 # hex_byte (sum_list body) @ drop (length body + 4) buf) s2)"
proof -
  obtain a b where h: "hex_byte (sum_list body) = [a, b]" by (auto simp: hex_byte_def)
  let ?p = "36 # body @ [35, a, b]"
  have fr: "frame body = ?p" by (simp add: frame_def CalculateSum8_def h)
  obtain x buf' where buf: "buf = x # buf'" using body(2) by (cases buf) auto
  let ?s1 = "s\<lparr>rx := map Some (body @ [35, a, b]) @ r, clock_reads := Suc (clock_reads s)\<rparr>"
  have rb: "DebugReadByte ag 10 s = Some (Inr (Some 36, ?s1))"
    using DebugReadByte_pending [OF clk, of 36 "map Some (body @ [35, a, b]) @ r"] rx fr by simp
  have "ProcessInputData_packet ag (take 1 ?p @ buf') 1 ?s1 =
    Some (Inr (Some (?p @ drop (length ?p - 1) buf', length ?p),
      ?s1\<lparr>rx := r, clock_reads := clock_reads ?s1 + (length ?p - 1)\<rparr>))"
    using clk body(2) buf by (intro ProcessInputData_packet_collect [OF body(1) refl]) auto
  moreover have "drop (length ?p - 1) buf' = drop (length body + 4) buf" using buf by (simp add: eval_nat_numeral)
  moreover have "take 1 ?p @ buf' = buf[0 := 36]" using buf by simp
  moreover have "?s1\<lparr>rx := r, clock_reads := clock_reads ?s1 + (length ?p - 1)\<rparr> =
      s\<lparr>rx := r, clock_reads := clock_reads s + (length body + 4)\<rparr>" by simp
  ultimately have packet: "ProcessInputData_packet ag (buf[0 := 36]) 1 ?s1 =
    Some (Inr (Some (frame body @ drop (length body + 4) buf, length (frame body)),
      s\<lparr>rx := r, clock_reads := clock_reads s + (length body + 4)\<rparr>))"
    by (simp only: fr append_assoc)
  define s1 where "s1 = ?s1"
  define s2 where "s2 = s\<lparr>rx := r, clock_reads := clock_reads s + (length body + 4)\<rparr>"
  define d where "d = drop (length body + 4) buf"
  define n where "n = length (frame body)"
  note rb' = rb [folded s1_def] and packet' = packet [folded s1_def s2_def d_def n_def]
  have "ProcessInputData_loop ag buf s =
      obind (Some (ProcessGdbPacket ag (frame body @ d) n s2)) (\<lambda>(mRequest, s3).
        ProcessInputData_loop ag mRequest s3)"
    by (subst ProcessInputData_loop.simps) (simp add: rb' packet' del: One_nat_def)
  also have "\<dots> = obind (Some (ExecuteGdbCommand ag (body @ 0 # hex_byte (sum_list body) @ d) (length body)
        (s2\<lparr>tx := tx s2 @ str ''+'', mConnectionOccurred := True\<rparr>)))
      (\<lambda>s3. ProcessInputData_loop ag (36 # body @ 0 # hex_byte (sum_list body) @ d) s3)"
    unfolding n_def ProcessGdbPacket_frame [OF lib body(1)] by (auto simp: obind_def split: sum.split)
  finally show ?thesis unfolding s2_def d_def by simp
qed

section \<open>Termination\<close>

text \<open>
  The clock runs in a world: after each of the first \<open>N\<close> readings, a later one shows that a
  wait of up to \<open>T0\<close> milliseconds is over. The bound lets the counter be one that wraps in
  the end, as a register of 64 bits does.
\<close>

definition clock_runs :: "'w agent \<Rightarrow> (nat \<Rightarrow> u64) \<Rightarrow> 'w \<Rightarrow> u64 \<Rightarrow> nat \<Rightarrow> bool" where
  "clock_runs ag clk w T0 N \<longleftrightarrow> (\<forall>n t T. n \<le> N \<and> T \<le> T0 \<and> ag_DebugGetTimeMs ag (clk n) w = Inr t \<longrightarrow>
     (\<exists>m > n. \<forall>t'. ag_DebugGetTimeMs ag (clk m) w = Inr t' \<longrightarrow> t + T \<le> t'))"

lemma clock_runs_mono: "clock_runs ag clk w T0 N \<Longrightarrow> M \<le> N \<Longrightarrow> clock_runs ag clk w T0 M"
  unfolding clock_runs_def by (meson le_trans)

text \<open>
  A read of a byte looks at the clock once more than it polls in vain. So while input is left,
  the readings so far and twice the input together do not grow, and no wait begins later.
\<close>

abbreviation spent :: "'w gdb \<Rightarrow> nat" where
  "spent s \<equiv> clock_reads s + 2 * length (rx s)"

text \<open>The longest wait of the request loop.\<close>

abbreviation waits_end :: "'w agent \<Rightarrow> 'w gdb \<Rightarrow> bool" where
  "waits_end ag s \<equiv> clock_runs ag (clock s) (world s) 1000 (spent s)"

text \<open>
  The contract of the time source: how it converts a counter value depends on a part of the
  world (the frequency) that nothing the stub calls changes.
\<close>

locale stub_clock =
  fixes ag :: "'w agent" and base :: "'w \<Rightarrow> 'b"
  assumes time_base: "base w' = base w \<Longrightarrow> ag_DebugGetTimeMs ag c w' = ag_DebugGetTimeMs ag c w"
    and op_base: "world_op ag w w' \<Longrightarrow> base w' = base w"
    and flush_base: "base (ag_InvalidateInstructionCacheRange ag a n w) = base w"
begin

lemma read_base: "ag_DbgReadMemory ag a n w = (ok, bs, w') \<Longrightarrow> base w' = base w"
  by (rule op_base) (rule wo_read)

lemma write_base: "ag_DbgWriteMemory ag a bs w = (ok, w') \<Longrightarrow> base w' = base w"
  by (rule op_base) (rule wo_write)

lemma add_base:
  assumes "AddSoftwareBreakpoint ag a (t, w) = Inr (r, t', w')"
  shows "base w' = base w"
  using assms
  by (auto simp: AddSoftwareBreakpoint_def Let_def ASSERT_def flush_base
      dest!: read_base write_base split: option.splits if_splits prod.splits)

lemma remove_base:
  assumes "RemoveSoftwareBreakpoint ag a (t, w) = (r, t', w')"
  shows "base w' = base w"
  using assms
  by (auto simp: RemoveSoftwareBreakpoint_def Let_def flush_base
      dest!: write_base split: option.splits prod.splits)

lemma steps_base: "stub_steps ag s s' \<Longrightarrow> base (world s') = base (world s)"
proof (induction rule: rtranclp_induct)
  case (step y z)
  from step(2) have "base (world z) = base (world y)"
    by (cases rule: stub_step.cases) (auto simp: SendGdbAck_eq dest: op_base add_base remove_base)
  with step(3) show ?case by simp
qed simp

lemma steps_clock:
  assumes "stub_steps ag s s'"
  shows "clock_runs ag c (world s') T N \<longleftrightarrow> clock_runs ag c (world s) T N"
    and "clock_total ag (world s') \<longleftrightarrow> clock_total ag (world s)"
  using time_base [OF steps_base [OF assms]] by (simp_all add: clock_runs_def clock_total_def)

lemma same_clock:
  assumes "base w' = base w"
  shows "clock_runs ag c w' T N \<longleftrightarrow> clock_runs ag c w T N" and "clock_total ag w' \<longleftrightarrow> clock_total ag w"
  using time_base [OF assms] by (simp_all add: clock_runs_def clock_total_def)

end

lemma GetTimeMs_cases:
  obtains (stop) e where "GetTimeMs ag s = Inl e"
  | (time) t where "GetTimeMs ag s = Inr (t, s\<lparr>clock_reads := Suc (clock_reads s)\<rparr>)"
      "ag_DebugGetTimeMs ag (clock s (clock_reads s)) (world s) = Inr t"
  by (cases "ag_DebugGetTimeMs ag (clock s (clock_reads s)) (world s)") (auto simp: GetTimeMs_def)

text \<open>
  What a completed read has done: it consumed one byte or none, and only looked at the clock;
  \<open>k\<close> bounds what it spent from below.
\<close>

definition read_result :: "nat \<Rightarrow> 'w gdb \<Rightarrow> (stop + (u8 option \<times> 'w gdb)) \<Rightarrow> bool" where
  "read_result k s res \<longleftrightarrow> (case res of Inl _ \<Rightarrow> True
     | Inr (b, s') \<Rightarrow> s' = s\<lparr>rx := rx s', clock_reads := clock_reads s'\<rparr> \<and>
         length (rx s') + (if b = None then 0 else 1) \<le> length (rx s) \<and>
         (b = None \<and> rx s' = [] \<or> spent s' + k \<le> spent s))"

lemma read_result_trans:
  assumes "read_result k (s\<lparr>rx := r, clock_reads := n\<rparr>) res" and "length r \<le> length (rx s)"
    and "r = [] \<or> n + 2 * length r + j \<le> spent s + k"
  shows "read_result j s res"
  using assms by (cases res) (auto simp: read_result_def split: if_splits)

lemma DebugReadByte_loop_ends:
  assumes "m \<ge> clock_reads s"
    and "\<forall>t'. ag_DebugGetTimeMs ag (clock s m) (world s) = Inr t' \<longrightarrow> E \<le> t'"
  shows "\<exists>res. DebugReadByte_loop ag E s = Some res \<and> read_result 1 s res"
  using assms
proof (induction "m - clock_reads s" arbitrary: s)
  case 0
  then have m: "m = clock_reads s" by simp
  show ?case
  proof (cases "rx s")
    case Nil
    then show ?thesis using 0 m
      by (cases rule: GetTimeMs_cases [of ag s])
        (auto simp: DebugReadByte_loop.simps read_result_def)
  next
    case (Cons x r)
    then show ?thesis using 0 m
      by (cases x; cases rule: GetTimeMs_cases [of ag "s\<lparr>rx := r\<rparr>"])
        (auto simp: DebugReadByte_loop.simps read_result_def)
  qed
next
  case (Suc d)
  have rec: "\<exists>res. DebugReadByte_loop ag E s' = Some res \<and> read_result 1 s res"
    if "s' = s\<lparr>rx := r, clock_reads := Suc (clock_reads s)\<rparr>" "length r \<le> length (rx s)"
      "r = [] \<or> length r < length (rx s)" for s' r
  proof -
    have "\<exists>res. DebugReadByte_loop ag E s' = Some res \<and> read_result 1 s' res"
      using that Suc.hyps(2) Suc.prems by (intro Suc.hyps(1)) auto
    then show ?thesis
      using that read_result_trans [where n = "Suc (clock_reads s)" and r = r and s = s and j = 1 and k = 1] by fastforce
  qed
  show ?case
  proof (cases "rx s")
    case Nil
    then show ?thesis
      using rec [of "s\<lparr>clock_reads := Suc (clock_reads s)\<rparr>" "rx s"]
      by (cases rule: GetTimeMs_cases [of ag s])
        (auto simp: DebugReadByte_loop.simps [of ag E s] read_result_def)
  next
    case (Cons x r)
    then show ?thesis
      using rec [of "s\<lparr>rx := r, clock_reads := Suc (clock_reads s)\<rparr>" r]
      by (cases x; cases rule: GetTimeMs_cases [of ag "s\<lparr>rx := r\<rparr>"])
        (auto simp: DebugReadByte_loop.simps [of ag E s] read_result_def)
  qed
qed

lemma DebugReadByte_ends:
  assumes "clock_runs ag (clock s) (world s) T0 N" and "ucast T \<le> T0" and "clock_reads s \<le> N"
  shows "\<exists>res. DebugReadByte ag T s = Some res \<and> read_result 0 s res"
proof (cases rule: GetTimeMs_cases [of ag s])
  case (stop e)
  then show ?thesis by (simp add: DebugReadByte_def read_result_def)
next
  case (time t)
  then obtain m where "m > clock_reads s"
    "\<forall>t'. ag_DebugGetTimeMs ag (clock s m) (world s) = Inr t' \<longrightarrow> t + ucast T \<le> t'"
    using assms unfolding clock_runs_def by meson
  then have "\<exists>res. DebugReadByte_loop ag (t + ucast T) (s\<lparr>clock_reads := Suc (clock_reads s)\<rparr>) = Some res \<and>
      read_result 1 (s\<lparr>clock_reads := Suc (clock_reads s)\<rparr>) res"
    by (intro DebugReadByte_loop_ends [of _ m]) simp_all
  then show ?thesis
    using time read_result_trans [where n = "Suc (clock_reads s)" and r = "rx s" and s = s and j = 0 and k = 1]
    by (auto simp: DebugReadByte_def)
qed

text \<open>So one run of the packet loop, of \<open>ProcessInputData\<close> and of the input loop ends.\<close>

lemma read_result_env:
  "read_result 0 s (Inr (b, s1)) \<Longrightarrow> clock s1 = clock s \<and> world s1 = world s \<and> length (rx s1) \<le> length (rx s) \<and>
     (b \<noteq> None \<longrightarrow> length (rx s1) < length (rx s)) \<and> (b = None \<and> rx s1 = [] \<or> spent s1 \<le> spent s)"
  by (cases s1; cases s) (auto simp: read_result_def split: if_splits)

lemma ProcessInputData_packet_ends:
  "waits_end ag s \<Longrightarrow> \<exists>res. ProcessInputData_packet ag m n s = Some res \<and>
     (\<forall>P s'. res = Inr (P, s') \<longrightarrow> (P = None \<and> rx s' = [] \<or> spent s' \<le> spent s))"
proof (induction ag m n s rule: ProcessInputData_packet.induct)
  case (1 ag m n s)
  obtain res where rd: "DebugReadByte ag 1000 s = Some res" and rr: "read_result 0 s res"
    using DebugReadByte_ends [OF 1(2), of 1000] by auto
  note unf = ProcessInputData_packet.simps [of ag m n s]
  show ?case
  proof (cases "length m \<le> n")
    case False
    show ?thesis
    proof (cases res)
      case (Inl e)
      with rd False show ?thesis by (simp add: unf)
    next
      case (Inr p)
      obtain b s1 where p: "p = (b, s1)" by fastforce
      have s1: "clock s1 = clock s" "world s1 = world s" "b = None \<and> rx s1 = [] \<or> spent s1 \<le> spent s"
        using read_result_env [of s b s1] rr Inr p by simp_all
      show ?thesis
      proof (cases b)
        case None
        with rd Inr p False s1 show ?thesis by (auto simp: unf SendGdbAck_eq)
      next
        case (Some x)
        have "spent s1 \<le> spent s" using s1(3) Some by simp
        then have "waits_end ag s1" using s1 1(2) clock_runs_mono by fastforce
        with 1(1) [OF False rd Inr p [symmetric] Some refl refl] rd Inr p False Some \<open>spent s1 \<le> spent s\<close>
        show ?thesis by (fastforce simp: unf Let_def)
      qed
    qed
  qed (simp add: unf SendGdbAck_eq)
qed

lemma steps_env:
  "stub_steps ag s s' \<Longrightarrow> clock s' = clock s \<and> length (rx s') \<le> length (rx s)"
  using steps_same_env by (auto simp: same_env_def)

text \<open>A run that ends, and leaves no input or has not spent more.\<close>

definition ends_within :: "'w gdb \<Rightarrow> (stop + 'w gdb) option \<Rightarrow> bool" where
  "ends_within s r \<longleftrightarrow> (\<exists>res. r = Some res \<and> (\<forall>s'. res = Inr s' \<longrightarrow> rx s' = [] \<or> spent s' \<le> spent s))"

lemma ends_within_simps [simp]:
  "ends_within s (Some (Inl e))" "ends_within s (Some (Inr s')) \<longleftrightarrow> rx s' = [] \<or> spent s' \<le> spent s"
  by (simp_all add: ends_within_def)

lemma ends_within_mono: "ends_within s1 r \<Longrightarrow> spent s1 \<le> spent s \<Longrightarrow> ends_within s r"
  unfolding ends_within_def by fastforce

text \<open>A packet and what is done with it end when the rest of the loop, \<open>f\<close>, does.\<close>

lemma packet_round_ends:
  assumes wait: "waits_end ag s1" and sp: "spent s1 \<le> spent s"
    and rec: "\<And>m2 s2. stub_steps ag s1 s2 \<Longrightarrow> spent s2 \<le> spent s \<Longrightarrow> ends_within s (f m2 s2)"
  shows "ends_within s (obind (ProcessInputData_packet ag m 1 s1) (\<lambda>(P, s2).
      case P of None \<Rightarrow> Some (Inr s2)
      | Some (mRequest, PacketLength) \<Rightarrow>
          obind (Some (ProcessGdbPacket ag mRequest PacketLength s2)) (\<lambda>(mRequest, s3). f mRequest s3)))"
proof -
  obtain pres where pk: "ProcessInputData_packet ag m 1 s1 = Some pres" and
    pe: "\<forall>P s'. pres = Inr (P, s') \<longrightarrow> P = None \<and> rx s' = [] \<or> spent s' \<le> spent s1"
    using ProcessInputData_packet_ends [OF wait] by blast
  show ?thesis
  proof (cases pres)
    case (Inl e)
    with pk show ?thesis by simp
  next
    case (Inr q)
    obtain P s2 where q: "q = (P, s2)" by fastforce
    have st2: "stub_steps ag s1 s2" using ProcessInputData_packet_steps pk Inr q by blast
    have s2: "P = None \<and> rx s2 = [] \<or> spent s2 \<le> spent s" using pe Inr q sp by fastforce
    have "ends_within s (obind (Some (ProcessGdbPacket ag m2 n s2)) (\<lambda>(m3, s3). f m3 s3))"
      if "spent s2 \<le> spent s" for m2 n
    proof (cases "ProcessGdbPacket ag m2 n s2")
      case (Inr r)
      obtain m3 s3 where r: "r = (m3, s3)" by fastforce
      with Inr st2 have "stub_steps ag s1 s3" by (blast dest: ProcessGdbPacket_steps intro: rtranclp_trans)
      moreover have "spent s3 \<le> spent s" using ProcessGdbPacket_io [of ag m2 n s2 m3 s3] Inr r that by simp
      ultimately show ?thesis using rec Inr r by simp
    qed simp
    with pk Inr q s2 show ?thesis by (cases P) (auto split: prod.split)
  qed
qed

lemma SendGdbResponse_again:
  "SendGdbResponse ag None s = Inr s' \<Longrightarrow> s' = s\<lparr>mResponseAcknowledged := False, tx := tx s @ mResponseFull s\<rparr>"
  by (auto simp: SendGdbResponse_def ASSERT_def DebugTransportWrite_def split: if_splits)

context stub_clock
begin

lemma ProcessInputData_loop_ends: "waits_end ag s \<Longrightarrow> ends_within s (ProcessInputData_loop ag m s)"
proof (induction "length (rx s)" arbitrary: m s rule: less_induct)
  case less
  obtain res where rd: "DebugReadByte ag 10 s = Some res" and rr: "read_result 0 s res"
    using DebugReadByte_ends [OF less.prems, of 10] by auto
  note unf = ProcessInputData_loop.simps [of ag m s]
  show ?case
  proof (cases res)
    case (Inl e)
    with rd show ?thesis by (simp add: unf)
  next
    case (Inr p)
    obtain b s1 where p: "p = (b, s1)" by fastforce
    have s1: "clock s1 = clock s" "world s1 = world s" "b = None \<and> rx s1 = [] \<or> spent s1 \<le> spent s"
      using read_result_env [of s b s1] rr Inr p by simp_all
    show ?thesis
    proof (cases b)
      case None
      with rd Inr p s1 show ?thesis by (auto simp: unf)
    next
      case (Some x)
      then have len: "length (rx s1) < length (rx s)" and sp: "spent s1 \<le> spent s"
        using read_result_env [of s b s1] rr Inr p by simp_all
      have wait: "waits_end ag s1" using s1 clock_runs_mono [OF less.prems sp] by simp
      have same: "ends_within s (ProcessInputData_loop ag m' s2)"
        if "rx s2 = rx s1" "clock_reads s2 = clock_reads s1" "clock s2 = clock s1" "world s2 = world s1" for m' s2
        using less.hyps [of s2 m'] that len wait sp by (auto intro: ends_within_mono)
      have rec: "ends_within s (ProcessInputData_loop ag m' s2)"
        if "stub_steps ag s1 s2" "spent s2 \<le> spent s" for m' s2
        using less.hyps [of s2 m'] steps_env [OF that(1)] steps_clock(1) [OF that(1)] len s1
          clock_runs_mono [OF less.prems that(2)] that(2) by (auto intro: ends_within_mono)
      have resend: "ends_within s (obind (Some (SendGdbResponse ag None s1)) (\<lambda>s2. ProcessInputData_loop ag m' s2))" for m'
      proof (cases "SendGdbResponse ag None s1")
        case (Inr s2)
        show ?thesis unfolding Inr by (subst SendGdbResponse_again [OF Inr]) (simp add: same)
      qed simp
      show ?thesis
        using rd Inr p Some same [of s1] same [of "s1\<lparr>mResponseAcknowledged := True\<rparr>"] resend
          packet_round_ends [OF wait sp rec] by (simp add: unf Let_def)
    qed
  qed
qed

lemma ProcessInputData_ends: "waits_end ag s \<Longrightarrow> ends_within s (ProcessInputData ag s)"
  unfolding ProcessInputData_def by (rule ProcessInputData_loop_ends)

end

text \<open>With a byte pending, a run of \<open>ProcessInputData\<close> consumes at least that byte.\<close>

lemma ProcessInputData_consumes:
  assumes "ProcessInputData ag s = Some (Inr s')" and "rx s = Some b # r"
  shows "length (rx s') < length (rx s)"
proof -
  obtain b' s1 where rd: "DebugReadByte ag 10 s = Some (Inr (b', s1))"
    using assms(1) by (subst (asm) ProcessInputData_def, subst (asm) ProcessInputData_loop.simps)
      (auto simp: obind_eq_Inr)
  have s1: "b' = Some b \<and> rx s1 = r"
    using rd assms(2) by (auto simp: DebugReadByte_def DebugReadByte_loop.simps GetTimeMs_def
        split: sum.splits)
  have "ProcessInputData_loop ag m s2 = Some (Inr s3) \<Longrightarrow> stub_steps ag s2 s3" for m s2 s3
    using ProcessInputData_loop_steps by blast
  then have "stub_steps ag s1 s'"
    using assms(1) unfolding ProcessInputData_def
    by (intro ProcessInputData_round_steps [OF _ _ rd, where f = ProcessInputData_loop])
      (subst (asm) (2) ProcessInputData_loop.simps)
  then show ?thesis using steps_env [of ag s1 s'] s1 assms(2) by simp
qed

context stub_clock
begin

lemma ReportEntryToDebugger_input_ends:
  "waits_end ag s \<Longrightarrow> \<exists>res. ReportEntryToDebugger_input ag s = Some res"
proof (induction "length (rx s)" arbitrary: s rule: less_induct)
  case less
  note unf = ReportEntryToDebugger_input.simps [of ag s]
  show ?case
  proof (cases "\<exists>b r. rx s = Some b # r")
    case False
    then show ?thesis by (auto simp: unf split: list.splits option.splits)
  next
    case True
    then obtain b r where rx: "rx s = Some b # r" by blast
    obtain res where res: "ProcessInputData ag s = Some res" and
      sp: "\<forall>s'. res = Inr s' \<longrightarrow> rx s' = [] \<or> spent s' \<le> spent s"
      using ProcessInputData_ends [OF less.prems] unfolding ends_within_def by blast
    show ?thesis
    proof (cases res)
      case (Inl e)
      with res rx show ?thesis by (simp add: unf)
    next
      case (Inr s2)
      with res have st: "stub_steps ag s s2" by (blast dest: ProcessInputData_steps)
      have "length (rx s2) < length (rx s)"
        using ProcessInputData_consumes [of ag s s2 b r] res Inr rx by simp
      moreover have "waits_end ag s2" if "rx s2 \<noteq> []"
        using sp Inr that steps_env [OF st] steps_clock(1) [OF st] clock_runs_mono [OF less.prems, of "spent s2"] by simp
      ultimately have "\<exists>res. ReportEntryToDebugger_input ag s2 = Some res"
        using less.hyps [of s2] by (cases "rx s2 = []") (auto simp: ReportEntryToDebugger_input.simps [of ag s2])
      then show ?thesis using res Inr rx by (simp add: unf)
    qed
  qed
qed

end

section \<open>An unattended breakpoint\<close>

text \<open>Nothing arrives: every poll of the script finds nothing.\<close>

definition silent :: "'w gdb \<Rightarrow> bool" where
  "silent s \<longleftrightarrow> (\<forall>x \<in> set (rx s). x = None)"

lemma silent_tl: "\<forall>x \<in> set xs. P x \<Longrightarrow> \<forall>x \<in> set (tl xs). P x"
  by (cases xs) auto

lemma silent_input:
  "silent s \<Longrightarrow> ReportEntryToDebugger_input ag s = Some (Inr (s\<lparr>rx := tl (rx s)\<rparr>))"
  by (cases "rx s") (auto simp: ReportEntryToDebugger_input.simps silent_def)

lemma ReportEntryToDebugger_loop_unattended:
  assumes "clock_total ag (world s)" and "silent s" and "\<not> gRunning s"
    and "\<not> mConnectionOccurred s" and E: "E \<noteq> 0" and "clock_reads s \<le> m"
    and "\<forall>t'. ag_DebugGetTimeMs ag (clock s m) (world s) = Inr t' \<longrightarrow> E \<le> t'"
  shows "\<exists>r n. ReportEntryToDebugger_loop ag E s = Some (Inr (s\<lparr>rx := r, clock_reads := n, gRunning := True\<rparr>))"
  using assms(1-4,6-)
proof (induction "m - clock_reads s" arbitrary: s)
  case 0
  let ?s1 = "s\<lparr>rx := tl (rx s)\<rparr>"
  obtain t where "GetTimeMs ag ?s1 = Inr (t, ?s1\<lparr>clock_reads := Suc (clock_reads ?s1)\<rparr>)"
    using clock_totalE [of ag ?s1] 0 by auto
  moreover from this 0 have "E \<le> t" by (auto simp: GetTimeMs_def)
  ultimately have "ReportEntryToDebugger_loop ag E s = Some (Inr
      (s\<lparr>rx := tl (rx s), clock_reads := Suc (clock_reads s), gRunning := True\<rparr>))"
    using 0 E silent_input [of s ag]
    by (simp add: ReportEntryToDebugger_loop.simps)
  then show ?case by blast
next
  case (Suc d)
  let ?s1 = "s\<lparr>rx := tl (rx s)\<rparr>"
  obtain t where t: "GetTimeMs ag ?s1 = Inr (t, ?s1\<lparr>clock_reads := Suc (clock_reads ?s1)\<rparr>)"
    using clock_totalE [of ag ?s1] Suc.prems by auto
  show ?case
  proof (cases "E \<le> t")
    case True
    then have "ReportEntryToDebugger_loop ag E s = Some (Inr
        (s\<lparr>rx := tl (rx s), clock_reads := Suc (clock_reads s), gRunning := True\<rparr>))"
      using t Suc.prems E silent_input [of s ag]
      by (simp add: ReportEntryToDebugger_loop.simps)
    then show ?thesis by blast
  next
    case False
    let ?s2 = "s\<lparr>rx := tl (rx s), clock_reads := Suc (clock_reads s)\<rparr>"
    have "ReportEntryToDebugger_loop ag E s = ReportEntryToDebugger_loop ag E ?s2"
      using t False Suc.prems E silent_input [of s ag]
      by (subst ReportEntryToDebugger_loop.simps) simp
    moreover have "\<exists>r n. ReportEntryToDebugger_loop ag E ?s2 = Some (Inr (?s2\<lparr>rx := r, clock_reads := n, gRunning := True\<rparr>))"
      using Suc.hyps(2) Suc.prems silent_tl [of "rx s" "\<lambda>x. x = None"]
      by (intro Suc.hyps(1)) (auto simp: silent_def)
    ultimately show ?thesis by auto
  qed
qed

text \<open>
  With a timeout armed and no debugger, a breakpoint sends one stop reply, waits, and
  resumes with the context and the rest of the machine as they were.
\<close>

lemma ReportEntryToDebugger_unattended:
  assumes bp: "ExceptionType info = ExceptionBreakpoint" "mNextBreakpointTimeout s = T" "T \<noteq> 0"
    and clk: "clock_total ag (world s)" "clock_runs ag (clock s) (world s) T (clock_reads s)"
    and t0: "ag_DebugGetTimeMs ag (clock s (clock_reads s)) (world s) = Inr t0" "t0 + T \<noteq> 0"
    and alone: "silent s" "\<not> mConnectionOccurred s" "\<not> mRebootOnContinue s"
  shows "\<exists>r n. ReportEntryToDebugger ag info c s = Some (Inr
    ((responded (str ''T05thread:01;'') s)\<lparr>gSystemContext := c, gExceptionInfo := info, gRunning := True,
       log_suspended := False, mNextBreakpointTimeout := 0, rx := r, clock_reads := n\<rparr>))"
proof -
  define s1 where "s1 = s\<lparr>gSystemContext := c, gExceptionInfo := info, gRunning := False, log_suspended := True,
      clock_reads := Suc (clock_reads s), mNextBreakpointTimeout := 0\<rparr>"
  obtain m where m: "m > clock_reads s"
    "\<forall>t'. ag_DebugGetTimeMs ag (clock s m) (world s) = Inr t' \<longrightarrow> t0 + T \<le> t'"
    using clk(2) t0(1) order_refl unfolding clock_runs_def by meson
  let ?s3 = "responded (str ''T05thread:01;'') s1"
  have "\<exists>r n. ReportEntryToDebugger_loop ag (t0 + T) ?s3 =
      Some (Inr (?s3\<lparr>rx := r, clock_reads := n, gRunning := True\<rparr>))"
    using clk alone m t0(2)
    by (intro ReportEntryToDebugger_loop_unattended [where m = m]) (auto simp: s1_def silent_def)
  then obtain r n where loop: "ReportEntryToDebugger_loop ag (t0 + T) ?s3 =
      Some (Inr (?s3\<lparr>rx := r, clock_reads := n, gRunning := True\<rparr>))" by blast
  have "ReportEntryToDebugger ag info c s = Some (Inr
      (?s3\<lparr>rx := r, clock_reads := n, gRunning := True, log_suspended := False\<rparr>))"
    using bp t0 alone loop
    by (simp add: ReportEntryToDebugger_def Let_def GetTimeMs_def SendStopReply_eq s1_def)
  then show ?thesis by (intro exI [of _ r] exI [of _ n]) (simp add: s1_def responded_def)
qed

text \<open>Without a timeout and without input the loop never ends.\<close>

lemma ReportEntryToDebugger_loop_waits:
  assumes "ReportEntryToDebugger_loop ag E s = Some res"
  shows "E = 0 \<longrightarrow> silent s \<longrightarrow> gRunning s"
proof (rule ReportEntryToDebugger_loop.raw_induct [OF _ assms], intro impI, goal_cases)
  case (1 f ag E s res)
  show ?case
  proof (rule ccontr)
    assume "\<not> gRunning s"
    then have "f ag 0 (s\<lparr>rx := tl (rx s)\<rparr>) = Some res"
      using 1(2-) silent_input [of s ag] by simp
    from 1(1) [OF this] have "gRunning s"
      using 1(4) silent_tl [of "rx s" "\<lambda>x. x = None"] by (simp add: silent_def)
    with \<open>\<not> gRunning s\<close> show False ..
  qed
qed

text \<open>So an entry without a timeout that finds no debugger does not return.\<close>

lemma ReportEntryToDebugger_waits:
  assumes "ExceptionType info \<noteq> ExceptionBreakpoint \<or> mNextBreakpointTimeout s = 0" and "silent s"
  shows "ReportEntryToDebugger ag info c s = None"
proof -
  let ?s3 = "responded (str ''T05thread:01;'')
    (s\<lparr>gSystemContext := c, gExceptionInfo := info, gRunning := False, log_suspended := True\<rparr>)"
  have "silent ?s3" using assms(2) by (simp add: silent_def)
  then have "ReportEntryToDebugger_loop ag 0 ?s3 = None"
    using ReportEntryToDebugger_loop_waits [of ag 0 ?s3] by (cases "ReportEntryToDebugger_loop ag 0 ?s3") auto
  then show ?thesis
    using assms(1) by (elim disjE) (simp_all add: ReportEntryToDebugger_def Let_def SendStopReply_eq)
qed

section \<open>A request and silence\<close>

lemma DebugReadByte_silent:
  assumes "clock_total ag (world s)" and "clock_runs ag (clock s) (world s) T0 N" and "ucast T \<le> T0"
    and "clock_reads s \<le> N" and "rx s = []"
  shows "\<exists>n. DebugReadByte ag T s = Some (Inr (None, s\<lparr>clock_reads := n\<rparr>))"
proof -

  have no_stop: "res \<noteq> Inl e" if "DebugReadByte_loop ag E s = Some res" "clock_total ag (world s)" for E s res e
  proof -
    have "clock_total ag (world s) \<longrightarrow> res \<noteq> Inl e"
    proof (rule DebugReadByte_loop.raw_induct [OF _ that(1)], goal_cases)
      case (1 f ag E s res)
      show ?case
      proof
        assume clk: "clock_total ag (world s)"
        obtain p s1 where poll: "DebugTransportPoll s = (p, s1)" by fastforce
        then have w: "world s1 = world s" by (auto split: list.splits option.splits)
        show "res \<noteq> Inl e"
        proof (cases p)
          case True
          with 1(2) poll show ?thesis by (auto simp del: DebugTransportPoll.simps split: prod.splits)
        next
          case False
          obtain t where t: "GetTimeMs ag s1 = Inr (t, s1\<lparr>clock_reads := Suc (clock_reads s1)\<rparr>)"
            using clock_totalE [of ag s1] clk w by auto
          with 1(1) [of ag E "s1\<lparr>clock_reads := Suc (clock_reads s1)\<rparr>" res] 1(2) poll False clk w
          show ?thesis by (auto simp del: DebugTransportPoll.simps split: if_splits)
        qed
      qed
    qed
    with that(2) show ?thesis by blast
  qed
  obtain res where res: "DebugReadByte ag T s = Some res" "read_result 0 s res"
    using DebugReadByte_ends [OF assms(2,3,4)] by blast
  obtain t where "GetTimeMs ag s = Inr (t, s\<lparr>clock_reads := Suc (clock_reads s)\<rparr>)"
    using clock_totalE [OF assms(1)] .
  then have "DebugReadByte_loop ag (t + ucast T) (s\<lparr>clock_reads := Suc (clock_reads s)\<rparr>) = Some res"
    using res(1) by (simp add: DebugReadByte_def)
  from no_stop [OF this] assms(1) have "res \<noteq> Inl e" for e by simp
  then obtain b s' where b: "res = Inr (b, s')" by (cases res) auto
  with res(2) assms(5) have "s' = s\<lparr>rx := rx s', clock_reads := clock_reads s'\<rparr>" "rx s' = []" "b = None"
    by (auto simp: read_result_def split: if_splits)
  then have "s' = s\<lparr>clock_reads := clock_reads s'\<rparr>" using assms(5) by (metis (no_types, lifting) gdb.surjective gdb.update_convs(12))
  with res(1) b \<open>b = None\<close> show ?thesis by auto
qed

text \<open>The buffer behind a request in a freshly cleared \<open>mRequest\<close>.\<close>

definition request_tail :: "u8 list \<Rightarrow> u8 list" where
  "request_tail body = hex_byte (sum_list body) @ replicate (MAX_REQUEST_SIZE - (length body + 4)) 0"

text \<open>The state in which the interpreter sees a request that just arrived.\<close>

definition request_state :: "u8 list \<Rightarrow> 'w gdb \<Rightarrow> 'w gdb" where
  "request_state body s = s\<lparr>rx := [], clock_reads := clock_reads s + (length body + 4),
     tx := tx s @ str ''+'', mConnectionOccurred := True\<rparr>"

text \<open>The state in which it sees the only request of a stop.\<close>

definition stop_request :: "u8 list \<Rightarrow> EXCEPTION_INFO \<Rightarrow> ctx \<Rightarrow> 'w gdb \<Rightarrow> 'w gdb" where
  "stop_request body info c s = request_state body (responded (str ''T05thread:01;'')
     (s\<lparr>gSystemContext := c, gExceptionInfo := info, gRunning := False, log_suspended := True\<rparr>))"

lemma stop_request_simps [simp]:
  "gSystemContext (stop_request body info c s) = c" "gExceptionInfo (stop_request body info c s) = info"
  "world (stop_request body info c s) = world s" "mBreakpoints (stop_request body info c s) = mBreakpoints s"
  "mRebootOnContinue (stop_request body info c s) = mRebootOnContinue s"
  "tx (stop_request body info c s) = tx s @ frame (str ''T05thread:01;'') @ str ''+''"
  "rx (stop_request body info c s) = []" "mConnectionOccurred (stop_request body info c s)"
  "mResponseFull (stop_request body info c s) = frame (str ''T05thread:01;'')"
  by (simp_all add: stop_request_def request_state_def responded_def)

lemma connected_stays: "stub_steps ag s s' \<Longrightarrow> mConnectionOccurred s \<Longrightarrow> mConnectionOccurred s'"
proof (induction rule: rtranclp_induct)
  case (step y z)
  from step(2) show ?case using step by (cases rule: stub_step.cases) (simp_all add: SendGdbAck_eq)
qed

context stub_clock
begin

lemma ProcessInputData_single:
  assumes lib: "lib_ok (ag_lib ag)" and clk: "clock_total ag (world s)" "waits_end ag s"
    and body: "35 \<notin> set body" "length body + 4 \<le> MAX_REQUEST_SIZE"
    and rx: "rx s = map Some (frame body)"
    and ex: "ExecuteGdbCommand ag (body @ 0 # request_tail body) (length body) (request_state body s) = Inr s2"
  shows "\<exists>n. ProcessInputData ag s = Some (Inr (s2\<lparr>clock_reads := n\<rparr>))"
proof -
  have len: "length body + 4 \<le> length (replicate MAX_REQUEST_SIZE (0 :: u8))" using body(2) by simp
  have rxr: "rx s = map Some (frame body) @ []" using rx by simp
  have st: "stub_steps ag (request_state body s) s2" using ExecuteGdbCommand_steps [OF ex] .
  have "rx s2 = []" "clock s2 = clock s"
    using steps_env [OF st] by (auto simp: request_state_def)
  then obtain n where "DebugReadByte ag 10 s2 = Some (Inr (None, s2\<lparr>clock_reads := n\<rparr>))"
    using DebugReadByte_silent [of ag s2 1000 "spent s" 10] clk steps_clock [OF st] ExecuteGdbCommand_io [OF ex] rx
    by (auto simp: request_state_def)
  then have "ProcessInputData_loop ag m s2 = Some (Inr (s2\<lparr>clock_reads := n\<rparr>))" for m
    by (simp add: ProcessInputData_loop.simps)
  then have "ProcessInputData ag s = Some (Inr (s2\<lparr>clock_reads := n\<rparr>))"
    using ProcessInputData_deliver [OF lib clk(1) body(1) len rxr] ex
    by (simp add: ProcessInputData_def request_tail_def request_state_def)
  then show ?thesis ..
qed

text \<open>A stop whose only request resumes: the entry returns the state that request left.\<close>

lemma ReportEntryToDebugger_loop_resume:
  assumes lib: "lib_ok (ag_lib ag)" and clk: "clock_total ag (world s)" "waits_end ag s"
    and body: "35 \<notin> set body" "length body + 4 \<le> MAX_REQUEST_SIZE"
    and rx: "rx s = map Some (frame body)"
    and ex: "ExecuteGdbCommand ag (body @ 0 # request_tail body) (length body) (request_state body s) = Inr s2"
    and s2: "gRunning s2" and stopped: "\<not> gRunning s"
  shows "\<exists>n. ReportEntryToDebugger_loop ag E s = Some (Inr (s2\<lparr>clock_reads := n\<rparr>))"
proof -
  obtain n where pid: "ProcessInputData ag s = Some (Inr (s2\<lparr>clock_reads := n\<rparr>))"
    using ProcessInputData_single [OF lib clk body rx ex] by blast
  have st: "stub_steps ag (request_state body s) s2" using ExecuteGdbCommand_steps [OF ex] .
  have "rx s2 = []" "mConnectionOccurred s2"
    using steps_env [OF st] connected_stays [OF st] by (auto simp: request_state_def)
  obtain x r where x: "rx s = Some x # r" using rx by (simp add: frame_def)
  have "ReportEntryToDebugger_input ag (s2\<lparr>clock_reads := n\<rparr>) = Some (Inr (s2\<lparr>clock_reads := n\<rparr>))"
    using \<open>rx s2 = []\<close> by (simp add: ReportEntryToDebugger_input.simps)
  then have "ReportEntryToDebugger_input ag s = Some (Inr (s2\<lparr>clock_reads := n\<rparr>))"
    using pid x by (subst ReportEntryToDebugger_input.simps) simp
  then have "ReportEntryToDebugger_loop ag E s = Some (Inr (s2\<lparr>clock_reads := n\<rparr>))"
    using stopped s2 \<open>mConnectionOccurred s2\<close>
    by (subst ReportEntryToDebugger_loop.simps) (simp add: ReportEntryToDebugger_loop.simps)
  then show ?thesis ..
qed

end

lemma ExecuteGdbCommand_continue:
  "ExecuteGdbCommand ag (str ''vCont;c'' @ 0 # r) 7 s = Inr (s\<lparr>gRunning := True\<rparr>)"
proof -
  have eq: "str ''vCont;c'' @ 0 # r = 118 # str ''Cont'' @ 59 # 99 # 0 # r" by (simp add: str_def)
  have C: "59 \<notin> set (str ''Cont'')" "63 \<notin> set (str ''Cont'')" "0 \<notin> set (str ''Cont'')"
    "length (str ''Cont'') = 4" by (simp_all add: str_def)
  show ?thesis
    unfolding eq ExecuteGdbCommand_simps using C by (subst ProcessVCommand_eq) simp_all
qed

lemma ExecuteGdbCommand_single_step:
  "ExecuteGdbCommand ag (str ''vCont;s'' @ 0 # r) 7 s =
    (case ag_AddSingleStep ag (gSystemContext s) (world s) of (ctx', w') \<Rightarrow>
       Inr (s\<lparr>gSystemContext := ctx', world := w', gRunning := True\<rparr>))"
proof -
  have eq: "str ''vCont;s'' @ 0 # r = 118 # str ''Cont'' @ 59 # 115 # 0 # r" by (simp add: str_def)
  have C: "59 \<notin> set (str ''Cont'')" "63 \<notin> set (str ''Cont'')" "0 \<notin> set (str ''Cont'')"
    "length (str ''Cont'') = 4" by (simp_all add: str_def)
  show ?thesis
    unfolding eq ExecuteGdbCommand_simps using C by (subst ProcessVCommand_eq) simp_all
qed

text \<open>An exception without a timeout whose only request resumes, then reboots when one is armed.\<close>

context stub_clock
begin

lemma ReportEntryToDebugger_resume:
  assumes lib: "lib_ok (ag_lib ag)" and clk: "clock_total ag (world s)" "waits_end ag s"
    and notime: "ExceptionType info \<noteq> ExceptionBreakpoint \<or> mNextBreakpointTimeout s = 0"
    and body: "35 \<notin> set body" "length body + 4 \<le> MAX_REQUEST_SIZE" "rx s = map Some (frame body)"
    and s1: "s1 = request_state body (responded (str ''T05thread:01;'')
      (s\<lparr>gSystemContext := c, gExceptionInfo := info, gRunning := False, log_suspended := True\<rparr>))"
    and ex: "ExecuteGdbCommand ag (body @ 0 # request_tail body) (length body) s1 = Inr s2"
    and run: "gRunning s2"
  shows "\<exists>n. ReportEntryToDebugger ag info c s = Some
    (ebind (if mRebootOnContinue s2 then ag_DebugReboot ag (world s2) else Inr (world s2))
       (\<lambda>w. Inr (s2\<lparr>world := w, clock_reads := n, log_suspended := False\<rparr>)))"
proof -
  let ?s0 = "responded (str ''T05thread:01;'')
      (s\<lparr>gSystemContext := c, gExceptionInfo := info, gRunning := False, log_suspended := True\<rparr>)"
  have clk0: "clock_total ag (world ?s0)" "waits_end ag ?s0" using clk by simp_all
  have rx0: "rx ?s0 = map Some (frame body)" and run0: "\<not> gRunning ?s0" using body(3) by simp_all
  obtain n where loop: "ReportEntryToDebugger_loop ag 0 ?s0 = Some (Inr (s2\<lparr>clock_reads := n\<rparr>))"
    using ReportEntryToDebugger_loop_resume [OF lib clk0 body(1,2) rx0 ex [unfolded s1] run run0] by blast
  have "ReportEntryToDebugger ag info c s = obind (ReportEntryToDebugger_loop ag 0 ?s0) (\<lambda>s4.
      obind (if mRebootOnContinue s4
             then Some (ebind (ag_DebugReboot ag (world s4)) (\<lambda>w. Inr (s4\<lparr>world := w\<rparr>)))
             else Some (Inr s4))
        (\<lambda>s5. Some (Inr (s5\<lparr>log_suspended := False\<rparr>))))"
    using notime by (elim disjE) (simp_all add: ReportEntryToDebugger_def Let_def SendStopReply_eq)
  also have "\<dots> = Some
    (ebind (if mRebootOnContinue s2 then ag_DebugReboot ag (world s2) else Inr (world s2))
       (\<lambda>w. Inr (s2\<lparr>world := w, clock_reads := n, log_suspended := False\<rparr>)))"
    unfolding loop by (cases "ag_DebugReboot ag (world s2)") simp_all
  finally show ?thesis by blast
qed

text \<open>What is left of a stop whose only request was \<open>body\<close>, before the request's own effects.\<close>

lemma resume_continue:
  assumes lib: "lib_ok (ag_lib ag)" and clk: "clock_total ag (world s)" "waits_end ag s"
    and notime: "ExceptionType info \<noteq> ExceptionBreakpoint \<or> mNextBreakpointTimeout s = 0"
    and rx: "rx s = map Some (frame (str ''vCont;c''))"
  shows "\<exists>n. ReportEntryToDebugger ag info c s = Some
    (ebind (if mRebootOnContinue s then ag_DebugReboot ag (world s) else Inr (world s))
       (\<lambda>w. Inr ((stop_request (str ''vCont;c'') info c s)\<lparr>gRunning := True, world := w, clock_reads := n,
          log_suspended := False\<rparr>)))"
proof -
  have len: "35 \<notin> set (str ''vCont;c'')" "length (str ''vCont;c'') + 4 \<le> MAX_REQUEST_SIZE"
      "length (str ''vCont;c'') = 7"
    by (simp_all add: str_def MAX_REQUEST_SIZE_def)
  show ?thesis
    using ReportEntryToDebugger_resume [OF lib clk notime len(1,2) rx stop_request_def
        ExecuteGdbCommand_continue [folded len(3)], of c]
    by (simp cong: if_cong)
qed

lemma resume_step:
  assumes lib: "lib_ok (ag_lib ag)" and clk: "clock_total ag (world s)" "waits_end ag s"
    and notime: "ExceptionType info \<noteq> ExceptionBreakpoint \<or> mNextBreakpointTimeout s = 0"
    and rx: "rx s = map Some (frame (str ''vCont;s''))"
    and step: "ag_AddSingleStep ag c (world s) = (c', w')" and boot: "\<not> mRebootOnContinue s"
  shows "\<exists>n. ReportEntryToDebugger ag info c s = Some (Inr
    ((stop_request (str ''vCont;s'') info c s)\<lparr>gSystemContext := c', gRunning := True, world := w',
       clock_reads := n, log_suspended := False\<rparr>))"
proof -
  have len: "35 \<notin> set (str ''vCont;s'')" "length (str ''vCont;s'') + 4 \<le> MAX_REQUEST_SIZE"
      "length (str ''vCont;s'') = 7"
    by (simp_all add: str_def MAX_REQUEST_SIZE_def)
  let ?s1 = "stop_request (str ''vCont;s'') info c s"
  have "ExecuteGdbCommand ag (str ''vCont;s'' @ 0 # request_tail (str ''vCont;s'')) (length (str ''vCont;s'')) ?s1 =
      Inr (?s1\<lparr>gSystemContext := c', world := w', gRunning := True\<rparr>)"
    unfolding len(3) ExecuteGdbCommand_single_step using step by simp
  from ReportEntryToDebugger_resume [OF lib clk notime len(1,2) rx stop_request_def this] boot
  show ?thesis by simp
qed

end



section \<open>Breaking in\<close>

text \<open>The poll discards bytes other than the break character.\<close>

lemma DebuggerPollInput_discards:
  assumes "clock_total ag (world s)" and "3 \<notin> set xs" and "rx s = map Some xs @ r"
  shows "DebuggerPollInput cpu ag s =
    DebuggerPollInput cpu ag (s\<lparr>rx := r, clock_reads := clock_reads s + length xs\<rparr>)"
  using assms
proof (induction xs arbitrary: s)
  case (Cons x xs)
  let ?s1 = "s\<lparr>rx := map Some xs @ r, clock_reads := Suc (clock_reads s)\<rparr>"
  have "DebuggerPollInput cpu ag s = DebuggerPollInput cpu ag ?s1"
    using Cons.prems DebugReadByte_pending [of ag s x "map Some xs @ r" 10]
    by (subst DebuggerPollInput.simps) simp
  also have "\<dots> = DebuggerPollInput cpu ag (?s1\<lparr>rx := r, clock_reads := clock_reads ?s1 + length xs\<rparr>)"
    using Cons.prems by (intro Cons.IH) auto
  finally show ?case by simp
next
  case Nil
  then have "s\<lparr>rx := r, clock_reads := clock_reads s + length []\<rparr> = s" by (cases s) auto
  then show ?case by simp
qed

lemma DebuggerPollInput_idle:
  "rx s = [] \<or> hd (rx s) = None \<Longrightarrow> DebuggerPollInput cpu ag s = Some (Inr (s\<lparr>rx := tl (rx s)\<rparr>))"
  by (cases "rx s") (auto simp: DebuggerPollInput.simps)

lemma DebuggerPollInput_break:
  assumes "clock_total ag (world s)" and "rx s = Some 3 # r"
  shows "DebuggerPollInput cpu ag s =
    obind (DebuggerBreak cpu BreakpointReasonDebuggerBreak (s\<lparr>rx := r, clock_reads := Suc (clock_reads s)\<rparr>))
      (DebuggerPollInput cpu ag)"
  using assms DebugReadByte_pending [of ag s 3 r 10] by (subst DebuggerPollInput.simps) simp

text \<open>Polling touches the machine only through the breakpoint it may take.\<close>

lemma DebugReadByte_loop_world:
  assumes "DebugReadByte_loop ag E s = Some res"
  shows "\<forall>b s'. res = Inr (b, s') \<longrightarrow> world s' = world s"
proof (rule DebugReadByte_loop.raw_induct [OF _ assms], intro allI impI, goal_cases)
  case (1 f ag E s res b s')
  then show ?case
    by (cases "rx s"; cases "hd (rx s)")
      (auto simp: GetTimeMs_def split: sum.splits if_splits option.splits)
qed

lemma DebugReadByte_world: "DebugReadByte ag T s = Some (Inr (b, s')) \<Longrightarrow> world s' = world s"
  by (auto simp: DebugReadByte_def GetTimeMs_def split: sum.splits dest!: DebugReadByte_loop_world)

lemma DebuggerPollInput_world:
  assumes "DebuggerPollInput cpu ag s = Some res"
    and cpu: "\<And>s s'. cpu s = Some (Inr s') \<Longrightarrow> P (world s) \<Longrightarrow> P (world s')"
  shows "\<forall>s'. res = Inr s' \<longrightarrow> P (world s) \<longrightarrow> P (world s')"
proof (rule DebuggerPollInput.raw_induct [OF _ assms(1), where P = "\<lambda>c a s res. c = cpu \<longrightarrow>
    (\<forall>s'. res = Inr s' \<longrightarrow> P (world s) \<longrightarrow> P (world s'))", THEN mp, OF _ refl],
    intro allI impI, goal_cases)
  case (1 f c ag s res s')
  obtain pending s1 where poll: "DebugTransportPoll s = (pending, s1)" by fastforce
  then have w1: "world s1 = world s" by (auto split: list.splits option.splits)
  show ?case
  proof (cases pending)
    case False
    then show ?thesis using 1(2-) poll w1 by auto
  next
    case True
    obtain b s2 where rd: "DebugReadByte ag 10 s1 = Some (Inr (b, s2))"
      using 1(2,4) poll True by (auto simp: obind_eq_Inr)
    have w2: "world s2 = world s" using DebugReadByte_world [OF rd] w1 by simp
    show ?thesis
    proof (cases b)
      case None
      then show ?thesis using 1(2-) poll True rd w2 by auto
    next
      case (Some x)
      show ?thesis
      proof (cases "x = 3")
        case False
        then have "f c ag s2 = Some res" using 1(2) poll True rd Some by simp
        then show ?thesis using 1(1,3-) w2 by simp
      next
        case True
        then obtain s3 where brk: "DebuggerBreak c BreakpointReasonDebuggerBreak s2 = Some (Inr s3)" and
          rest: "f c ag s3 = Some res"
          using 1(2,4) poll \<open>pending\<close> rd Some by (auto simp: obind_eq_Inr)
        have "P (world s3)"
          using brk cpu 1(3,5) w2 by (fastforce simp: DebuggerBreak_def obind_eq_Inr)
        then show ?thesis using 1(1) [OF rest] 1(3,4) by simp
      qed
    qed
  qed
qed

section \<open>Acknowledgements\<close>

lemma ProcessInputData_loop_read:
  assumes "clock_total ag (world s)" and "rx s = Some b # r" and "b \<noteq> 36"
  shows "ProcessInputData_loop ag m s =
    (let s1 = s\<lparr>rx := r, clock_reads := Suc (clock_reads s)\<rparr> in
     if b = 45 \<and> \<not> mResponseAcknowledged s1 then
       obind (Some (SendGdbResponse ag None s1)) (ProcessInputData_loop ag (m[0 := b]))
     else if b = 43 then ProcessInputData_loop ag (m[0 := b]) (s1\<lparr>mResponseAcknowledged := True\<rparr>)
     else ProcessInputData_loop ag (m[0 := b]) s1)"
proof -
  have rd: "DebugReadByte ag 10 s = Some (Inr (Some b, s\<lparr>rx := r, clock_reads := Suc (clock_reads s)\<rparr>))"
    using DebugReadByte_pending [OF assms(1,2)] .
  show ?thesis
    unfolding ProcessInputData_loop.simps [of ag m s] rd using assms(3) by (simp add: Let_def)
qed

end
