(* ===== verification/Builds.thy ===== *)
theory Builds
  imports AccessMemory AddressCheckX64 DebugAarch64 Session
begin

text \<open>
  The library instances: which routines DebugAgentDxe.inf, DebugAgentMm.inf and
  DebugAgentPeiLib.inf link for X64 and AARCH64. Each instance is an \<open>agent\<close> over the
  machine state of its architecture and meets the memory contract of the breakpoint table.
\<close>

section \<open>What a build is configured with\<close>

text \<open>
  Assertions, the library code, whether windbg workarounds are compiled in, and the
  instruction cache maintenance of the platform, which has no access to memory contents.
\<close>

record 'p environment =
  env_asserts :: bool
  env_lib :: lib
  env_InvalidateInstructionCacheRange :: "u64 \<Rightarrow> nat \<Rightarrow> 'p \<Rightarrow> 'p"
  env_WindbgWorkarounds :: bool

section \<open>X64\<close>

definition agent_X64 ::
  "'p environment \<Rightarrow> (X64_FIELD \<Rightarrow> nat) \<Rightarrow>
   (u64 \<Rightarrow> nat \<Rightarrow> 'p x64 \<Rightarrow> bool \<times> u8 list \<times> 'p x64) \<Rightarrow> (u64 \<Rightarrow> u8 list \<Rightarrow> 'p x64 \<Rightarrow> bool \<times> 'p x64) \<Rightarrow>
   ('p x64 \<Rightarrow> stop + 'p x64) \<Rightarrow> (u8 list \<Rightarrow> 'p x64 \<Rightarrow> bool \<times> 'p x64) \<Rightarrow> string \<Rightarrow> 'p x64 agent" where
  "agent_X64 env off rdmem wrmem reboot module info = \<lparr>
     ag_asserts = env_asserts env,
     ag_lib = env_lib env,
     ag_DbgReadMemory = rdmem,
     ag_DbgWriteMemory = wrmem,
     ag_InvalidateInstructionCacheRange =
       (\<lambda>a n w. w\<lparr>plat := env_InvalidateInstructionCacheRange env a n (plat w)\<rparr>),
     ag_mArchBreakpointInstruction = mArchBreakpointInstruction_X64,
     ag_AddSingleStep = AddSingleStep_X64 off,
     ag_AddWatchpoint = AddWatchpoint_X64,
     ag_RemoveWatchpoint = RemoveWatchpoint_X64,
     ag_DebugGetTimeMs = DebugGetTimeMs_X64,
     ag_DebugReboot = reboot,
     ag_DbgSetBreakOnModuleLoad = module,
     ag_gDebuggerInfo = str info,
     ag_gRegisterOffsets = gRegisterOffsets_X64 off,
     ag_GdbTargetInfo = GdbTargetInfo_X64,
     ag_GdbReadMsr = GdbReadMsr_X64 (env_lib env),
     ag_GdbDumpSystemRegisters = GdbDumpSystemRegisters_X64 (env_lib env),
     ag_WindbgWorkarounds = env_WindbgWorkarounds env\<rparr>"

text \<open>\<open>ma\<close> is the value of \<open>mMemoryAttributeProtocol\<close>, \<open>smm\<close> the services of the MM core.\<close>

definition agent_X64_DXE ::
  "'p environment \<Rightarrow> (X64_FIELD \<Rightarrow> nat) \<Rightarrow> 'p attribute_services option \<Rightarrow> 'p x64 agent" where
  "agent_X64_DXE env off ma = agent_X64 env off
     (DbgReadMemory_DXE ma (\<lambda>a w. IsPageReadable_X64 w a) (\<lambda>a w. IsPageWritable_X64 w a))
     (DbgWriteMemory_DXE ma (\<lambda>a w. IsPageReadable_X64 w a) (\<lambda>a w. IsPageWritable_X64 w a))
     DebugReboot_DXE DbgSetBreakOnModuleLoad_DXE ''DXE UEFI Debugger''"

definition agent_X64_MM ::
  "'p environment \<Rightarrow> (X64_FIELD \<Rightarrow> nat) \<Rightarrow> 'p attribute_services \<Rightarrow> 'p x64 agent" where
  "agent_X64_MM env off smm = agent_X64 env off (DbgReadMemory_MM smm) (DbgWriteMemory_MM smm)
     DebugReboot_MM DbgSetBreakOnModuleLoad_MM ''MM UEFI Debugger''"

definition agent_X64_PEI :: "'p environment \<Rightarrow> (X64_FIELD \<Rightarrow> nat) \<Rightarrow> 'p x64 agent" where
  "agent_X64_PEI env off = agent_X64 env off
     (DbgReadMemory_PEI (\<lambda>a w. IsPageReadable_X64 w a)) (DbgWriteMemory_PEI (\<lambda>a w. IsPageWritable_X64 w a))
     DebugReboot_PEI DbgSetBreakOnModuleLoad_PEI ''PEI UEFI Debugger''"

section \<open>AARCH64\<close>

definition agent_AARCH64 ::
  "'p environment \<Rightarrow> (AARCH64_FIELD \<Rightarrow> nat) \<Rightarrow>
   (u64 \<Rightarrow> nat \<Rightarrow> 'p aarch64 \<Rightarrow> bool \<times> u8 list \<times> 'p aarch64) \<Rightarrow>
   (u64 \<Rightarrow> u8 list \<Rightarrow> 'p aarch64 \<Rightarrow> bool \<times> 'p aarch64) \<Rightarrow>
   ('p aarch64 \<Rightarrow> stop + 'p aarch64) \<Rightarrow> (u8 list \<Rightarrow> 'p aarch64 \<Rightarrow> bool \<times> 'p aarch64) \<Rightarrow>
   string \<Rightarrow> 'p aarch64 agent" where
  "agent_AARCH64 env off rdmem wrmem reboot module info = \<lparr>
     ag_asserts = env_asserts env,
     ag_lib = env_lib env,
     ag_DbgReadMemory = rdmem,
     ag_DbgWriteMemory = wrmem,
     ag_InvalidateInstructionCacheRange =
       (\<lambda>a n w. w\<lparr>plat := env_InvalidateInstructionCacheRange env a n (plat w)\<rparr>),
     ag_mArchBreakpointInstruction = mArchBreakpointInstruction_AARCH64,
     ag_AddSingleStep = AddSingleStep_AARCH64 off,
     ag_AddWatchpoint = AddWatchpoint_AARCH64,
     ag_RemoveWatchpoint = RemoveWatchpoint_AARCH64,
     ag_DebugGetTimeMs = DebugGetTimeMs_AARCH64 (env_asserts env),
     ag_DebugReboot = reboot,
     ag_DbgSetBreakOnModuleLoad = module,
     ag_gDebuggerInfo = str info,
     ag_gRegisterOffsets = gRegisterOffsets_AARCH64 off,
     ag_GdbTargetInfo = GdbTargetInfo_AARCH64,
     ag_GdbReadMsr = GdbReadMsr_AARCH64 (env_lib env),
     ag_GdbDumpSystemRegisters = GdbDumpSystemRegisters_AARCH64 (env_lib env),
     ag_WindbgWorkarounds = env_WindbgWorkarounds env\<rparr>"

definition agent_AARCH64_DXE ::
  "'p environment \<Rightarrow> (AARCH64_FIELD \<Rightarrow> nat) \<Rightarrow> 'p attribute_services option \<Rightarrow> 'p aarch64 agent" where
  "agent_AARCH64_DXE env off ma = agent_AARCH64 env off
     (DbgReadMemory_DXE ma (\<lambda>a w. IsPageReadable_AARCH64 w a) (\<lambda>a w. IsPageWritable_AARCH64 w a))
     (DbgWriteMemory_DXE ma (\<lambda>a w. IsPageReadable_AARCH64 w a) (\<lambda>a w. IsPageWritable_AARCH64 w a))
     DebugReboot_DXE DbgSetBreakOnModuleLoad_DXE ''DXE UEFI Debugger''"

definition agent_AARCH64_MM ::
  "'p environment \<Rightarrow> (AARCH64_FIELD \<Rightarrow> nat) \<Rightarrow> 'p attribute_services \<Rightarrow> 'p aarch64 agent" where
  "agent_AARCH64_MM env off smm = agent_AARCH64 env off (DbgReadMemory_MM smm) (DbgWriteMemory_MM smm)
     DebugReboot_MM DbgSetBreakOnModuleLoad_MM ''MM UEFI Debugger''"

definition agent_AARCH64_PEI :: "'p environment \<Rightarrow> (AARCH64_FIELD \<Rightarrow> nat) \<Rightarrow> 'p aarch64 agent" where
  "agent_AARCH64_PEI env off = agent_AARCH64 env off
     (DbgReadMemory_PEI (\<lambda>a w. IsPageReadable_AARCH64 w a)) (DbgWriteMemory_PEI (\<lambda>a w. IsPageWritable_AARCH64 w a))
     DebugReboot_PEI DbgSetBreakOnModuleLoad_PEI ''PEI UEFI Debugger''"

section \<open>The contracts hold\<close>

lemmas agent_defs = agent_X64_def agent_X64_DXE_def agent_X64_MM_def agent_X64_PEI_def
  agent_AARCH64_def agent_AARCH64_DXE_def agent_AARCH64_MM_def agent_AARCH64_PEI_def

text \<open>Every instance flushes without touching memory and has a small breakpoint instruction.\<close>

lemma breakpoint_memory_X64:
  assumes "debug_memory rdmem wrmem memory"
  shows "breakpoint_memory (agent_X64 env off rdmem wrmem reboot module info) memory"
  using assms
  by (auto simp: breakpoint_memory_def breakpoint_memory_axioms_def agent_X64_def
      mArchBreakpointInstruction_X64_def MAX_BREAKPOINT_SIZE_def)

lemma breakpoint_memory_AARCH64:
  assumes "debug_memory rdmem wrmem memory"
  shows "breakpoint_memory (agent_AARCH64 env off rdmem wrmem reboot module info) memory"
  using assms
  by (auto simp: breakpoint_memory_def breakpoint_memory_axioms_def agent_AARCH64_def
      mArchBreakpointInstruction_AARCH64_def MAX_BREAKPOINT_SIZE_def)

interpretation x64_dxe: breakpoint_memory "agent_X64_DXE env off ma" memory for env off ma
  unfolding agent_X64_DXE_def
  by (rule breakpoint_memory_X64) (rule dxe_memory.debug_memory_axioms)

interpretation x64_mm: breakpoint_memory "agent_X64_MM env off smm" memory for env off smm
  unfolding agent_X64_MM_def
  by (rule breakpoint_memory_X64) (rule mm_memory.debug_memory_axioms)

interpretation x64_pei: breakpoint_memory "agent_X64_PEI env off" memory for env off
  unfolding agent_X64_PEI_def
  by (rule breakpoint_memory_X64) (rule pei_memory.debug_memory_axioms)

interpretation aarch64_dxe: breakpoint_memory "agent_AARCH64_DXE env off ma" memory for env off ma
  unfolding agent_AARCH64_DXE_def
  by (rule breakpoint_memory_AARCH64) (rule dxe_memory.debug_memory_axioms)

interpretation aarch64_mm: breakpoint_memory "agent_AARCH64_MM env off smm" memory for env off smm
  unfolding agent_AARCH64_MM_def
  by (rule breakpoint_memory_AARCH64) (rule mm_memory.debug_memory_axioms)

interpretation aarch64_pei: breakpoint_memory "agent_AARCH64_PEI env off" memory for env off
  unfolding agent_AARCH64_PEI_def
  by (rule breakpoint_memory_AARCH64) (rule pei_memory.debug_memory_axioms)


section \<open>The time source\<close>

text \<open>Only initialisation changes the frequency the conversion divides by.\<close>

lemma x64_freq_more: "machine.more w' = machine.more w \<Longrightarrow> mPerformanceCounterFreq w' = mPerformanceCounterFreq w"
  by (cases w; cases w') simp

lemma aarch64_freq_more: "machine.more w' = machine.more w \<Longrightarrow> CounterFreq w' = CounterFreq w"
  by (cases w; cases w') simp

lemma AddWatchpoint_X64_freq:
  "AddWatchpoint_X64 a l r x w = (ok, w') \<Longrightarrow> mPerformanceCounterFreq w' = mPerformanceCounterFreq w"
  by (auto simp: AddWatchpoint_X64_def Let_def split: if_splits)

lemma RemoveWatchpoint_X64_freq:
  "RemoveWatchpoint_X64 a l r x w = (ok, w') \<Longrightarrow> mPerformanceCounterFreq w' = mPerformanceCounterFreq w"
  by (auto simp: RemoveWatchpoint_X64_def Let_def split: if_splits)

lemma AddWatchpoint_AARCH64_freq:
  "AddWatchpoint_AARCH64 a l r x w = (ok, w') \<Longrightarrow> CounterFreq w' = CounterFreq w"
  by (auto simp: AddWatchpoint_AARCH64_def Let_def split: if_splits option.splits)

lemma RemoveWatchpoint_AARCH64_freq:
  "RemoveWatchpoint_AARCH64 a l r x w = (ok, w') \<Longrightarrow> CounterFreq w' = CounterFreq w"
  by (auto simp: RemoveWatchpoint_AARCH64_def Let_def split: if_splits option.splits)

lemma stub_clock_X64:
  assumes "\<And>a n w ok bs w'. rdmem a n w = (ok, bs, w') \<Longrightarrow> machine.more w' = machine.more w"
    and "\<And>a d w ok w'. wrmem a d w = (ok, w') \<Longrightarrow> machine.more w' = machine.more w"
    and "\<And>w w'. reboot w = Inr w' \<Longrightarrow> machine.more w' = machine.more w"
    and "\<And>M w ok w'. module M w = (ok, w') \<Longrightarrow> machine.more w' = machine.more w"
  shows "stub_clock (agent_X64 env off rdmem wrmem reboot module info) mPerformanceCounterFreq"
proof (unfold_locales, goal_cases)
  case (1 w' w c)
  then show ?case by (simp add: agent_X64_def DebugGetTimeMs_X64_def)
next
  case (2 w w')
  then show ?case
    by (cases rule: world_op.cases)
      (auto simp: agent_X64_def AddSingleStep_X64_def dest: assms [THEN x64_freq_more]
        AddWatchpoint_X64_freq RemoveWatchpoint_X64_freq)
next
  case (3 a n w)
  show ?case by (simp add: agent_X64_def)
qed

lemma stub_clock_AARCH64:
  assumes "\<And>a n w ok bs w'. rdmem a n w = (ok, bs, w') \<Longrightarrow> machine.more w' = machine.more w"
    and "\<And>a d w ok w'. wrmem a d w = (ok, w') \<Longrightarrow> machine.more w' = machine.more w"
    and "\<And>w w'. reboot w = Inr w' \<Longrightarrow> machine.more w' = machine.more w"
    and "\<And>M w ok w'. module M w = (ok, w') \<Longrightarrow> machine.more w' = machine.more w"
  shows "stub_clock (agent_AARCH64 env off rdmem wrmem reboot module info) CounterFreq"
proof (unfold_locales, goal_cases)
  case (1 w' w c)
  then show ?case by (simp add: agent_AARCH64_def DebugGetTimeMs_AARCH64_def)
next
  case (2 w w')
  then show ?case
    by (cases rule: world_op.cases)
      (auto simp: agent_AARCH64_def AddSingleStep_AARCH64_def Let_def dest: assms [THEN aarch64_freq_more]
        AddWatchpoint_AARCH64_freq RemoveWatchpoint_AARCH64_freq)
next
  case (3 a n w)
  show ?case by (simp add: agent_AARCH64_def)
qed

interpretation x64_dxe_clock: stub_clock "agent_X64_DXE env off ma" mPerformanceCounterFreq for env off ma
  unfolding agent_X64_DXE_def by (rule stub_clock_X64 [OF DXE_more module_reboot_more(4,1)])

interpretation x64_mm_clock: stub_clock "agent_X64_MM env off smm" mPerformanceCounterFreq for env off smm
  unfolding agent_X64_MM_def by (rule stub_clock_X64 [OF MM_more module_reboot_more(5,2)])

interpretation x64_pei_clock: stub_clock "agent_X64_PEI env off" mPerformanceCounterFreq for env off
  unfolding agent_X64_PEI_def by (rule stub_clock_X64 [OF PEI_more module_reboot_more(6,3)])

interpretation aarch64_dxe_clock: stub_clock "agent_AARCH64_DXE env off ma" CounterFreq for env off ma
  unfolding agent_AARCH64_DXE_def by (rule stub_clock_AARCH64 [OF DXE_more module_reboot_more(4,1)])

interpretation aarch64_mm_clock: stub_clock "agent_AARCH64_MM env off smm" CounterFreq for env off smm
  unfolding agent_AARCH64_MM_def by (rule stub_clock_AARCH64 [OF MM_more module_reboot_more(5,2)])

interpretation aarch64_pei_clock: stub_clock "agent_AARCH64_PEI env off" CounterFreq for env off
  unfolding agent_AARCH64_PEI_def by (rule stub_clock_AARCH64 [OF PEI_more module_reboot_more(6,3)])

end
