(* ===== verification/Handlers.thy ===== *)
theory Handlers
  imports Builds
begin

text \<open>
  The exception handlers of both architectures composed with the stub: what the processor
  resumes with when the debugger's only request is to continue or to step. The stub's part
  comes from the contract \<open>stub_clock\<close> of the build, the rest from the handler.
\<close>

section \<open>A stop with one request\<close>

text \<open>The debugger sends one resume request; no timeout and no reboot is armed.\<close>

definition one_request :: "u8 list \<Rightarrow> 'w agent \<Rightarrow> 'w gdb \<Rightarrow> bool" where
  "one_request body ag s \<longleftrightarrow> lib_ok (ag_lib ag) \<and> clock_total ag (world s) \<and> waits_end ag s \<and>
     mNextBreakpointTimeout s = 0 \<and> \<not> mRebootOnContinue s \<and> rx s = map Some (frame body)"

context stub_clock
begin

lemma continue_outcome:
  assumes "one_request (str ''vCont;c'') ag s" and "base w = base (world s)"
  shows "\<exists>s'. ReportEntryToDebugger ag info c (s\<lparr>world := w\<rparr>) = Some (Inr s') \<and> gSystemContext s' = c \<and>
    world s' = w \<and> mBreakpoints s' = mBreakpoints s \<and> gRunning s' \<and>
    tx s' = tx s @ frame (str ''T05thread:01;'') @ str ''+'' \<and> rx s' = []"
proof -
  let ?s = "s\<lparr>world := w\<rparr>"
  have clk: "clock_total ag (world ?s)" "waits_end ag ?s"
    using assms same_clock [of w "world s"] by (auto simp: one_request_def)
  obtain n where "ReportEntryToDebugger ag info c ?s = Some
    (ebind (if mRebootOnContinue ?s then ag_DebugReboot ag (world ?s) else Inr (world ?s))
       (\<lambda>w. Inr ((stop_request (str ''vCont;c'') info c ?s)\<lparr>gRunning := True, world := w, clock_reads := n,
          log_suspended := False\<rparr>)))"
    using resume_continue [OF _ clk, of info c] assms(1) by (auto simp: one_request_def)
  then show ?thesis using assms(1) by (simp add: one_request_def)
qed

text \<open>When a reboot is armed the build's routine decides.\<close>

lemma reboot_outcome:
  assumes "one_request (str ''vCont;c'') ag (s\<lparr>mRebootOnContinue := False\<rparr>)" and "mRebootOnContinue s"
  shows "(ag_DebugReboot ag (world s) = Inl SystemReset \<longrightarrow> ReportEntryToDebugger ag info c s = Some (Inl SystemReset)) \<and>
    (ag_DebugReboot ag (world s) = Inr (world s) \<longrightarrow> (\<exists>s'. ReportEntryToDebugger ag info c s = Some (Inr s') \<and>
       gSystemContext s' = c \<and> world s' = world s \<and> gRunning s'))"
proof -
  have lib: "lib_ok (ag_lib ag)" and clk: "clock_total ag (world s)" "waits_end ag s"
    and rest: "mNextBreakpointTimeout s = 0" "rx s = map Some (frame (str ''vCont;c''))"
    using assms(1) by (auto simp: one_request_def)
  obtain n where "ReportEntryToDebugger ag info c s = Some
    (ebind (if mRebootOnContinue s then ag_DebugReboot ag (world s) else Inr (world s))
       (\<lambda>w. Inr ((stop_request (str ''vCont;c'') info c s)\<lparr>gRunning := True, world := w, clock_reads := n,
          log_suspended := False\<rparr>)))"
    using resume_continue [OF lib clk _ rest(2), of info c] rest(1) by auto
  then show ?thesis using assms(2) by auto
qed

lemma step_outcome:
  assumes "one_request (str ''vCont;s'') ag s" and "base w = base (world s)"
    and "ag_AddSingleStep ag c w = (c', w')"
  shows "\<exists>s'. ReportEntryToDebugger ag info c (s\<lparr>world := w\<rparr>) = Some (Inr s') \<and> gSystemContext s' = c' \<and>
    world s' = w' \<and> mBreakpoints s' = mBreakpoints s \<and> gRunning s' \<and>
    tx s' = tx s @ frame (str ''T05thread:01;'') @ str ''+''"
proof -
  let ?s = "s\<lparr>world := w\<rparr>"
  have clk: "clock_total ag (world ?s)" "waits_end ag ?s"
    using assms(1,2) same_clock [of w "world s"] by (auto simp: one_request_def)
  obtain n where "ReportEntryToDebugger ag info c ?s = Some (Inr
    ((stop_request (str ''vCont;s'') info c ?s)\<lparr>gSystemContext := c', gRunning := True, world := w',
       clock_reads := n, log_suspended := False\<rparr>))"
    using resume_step [OF _ clk, of info c c' w'] assms(1,3) by (auto simp: one_request_def)
  then show ?thesis by simp
qed

end

section \<open>X64\<close>

lemma handler_X64:
  assumes "ReportEntryToDebugger ag (snd (DebuggerExceptionHandler_X64_entry off ty c))
      (fst (DebuggerExceptionHandler_X64_entry off ty c))
      (s\<lparr>world := (world s)\<lparr>plat := snd (WatchdogSuspend wd (plat (world s)))\<rparr>\<rparr>) = Some (Inr s1)"
  shows "DebuggerExceptionHandler_X64 wd off ag ty c s = Some (Inr (s1\<lparr>
    gSystemContext := (if ty = EXCEPT_X64_BREAKPOINT \<and>
        memory (world s1) (ctx_get64 (gSystemContext s1) (off X_Rip)) = 0xCC
      then ctx_set64 (gSystemContext s1) (off X_Rip) (ctx_get64 (gSystemContext s1) (off X_Rip) + 1)
      else gSystemContext s1),
    world := (world s1)\<lparr>plat := WatchdogResume wd (fst (WatchdogSuspend wd (plat (world s)))) (plat (world s1))\<rparr>\<rparr>))"
  using assms
  by (cases "WatchdogSuspend wd (plat (world s))"; cases "DebuggerExceptionHandler_X64_entry off ty c")
    (simp add: DebuggerExceptionHandler_X64_def Let_def del: if_split)

lemma entry_X64:
  "DebuggerExceptionHandler_X64_entry off EXCEPT_X64_BREAKPOINT c =
     (ctx_set64 c (off X_Rip) (ctx_get64 c (off X_Rip) - 1),
      \<lparr>ExceptionType = ExceptionBreakpoint, ExceptionAddress = ctx_get64 c (off X_Rip) - 1,
       ArchExceptionCode = EXCEPT_X64_BREAKPOINT\<rparr>)"
  "fst (DebuggerExceptionHandler_X64_entry off EXCEPT_X64_DEBUG c) =
     ctx_set64 c (off X_Rflags) (ctx_get64 c (off X_Rflags) AND NOT TF_BIT)"
  by (simp_all add: DebuggerExceptionHandler_X64_entry_def EXCEPT_X64_DEBUG_def EXCEPT_X64_BREAKPOINT_def Let_def)

lemma TF_twice: "(v AND NOT TF_BIT) OR TF_BIT = v OR TF_BIT"
  by (rule bit_word_eqI) (auto simp: bit_simps)

section \<open>AARCH64\<close>

definition esr_class :: "(AARCH64_FIELD \<Rightarrow> nat) \<Rightarrow> ctx \<Rightarrow> u64" where
  "esr_class off c = 0x3F AND drop_bit 26 (ctx_get64 c (off A_ESR))"

lemma handler_AARCH64:
  assumes "DebuggerExceptionHandler_AARCH64_entry off c
      ((world s)\<lparr>plat := snd (WatchdogSuspend wd (plat (world s)))\<rparr>) = (ty, info, w1)"
    and "ReportEntryToDebugger ag info c (s\<lparr>world := w1\<rparr>) = Some (Inr s1)"
  shows "DebuggerExceptionHandler_AARCH64 wd off ag c s = Some (Inr (s1\<lparr>
    gSystemContext := (if ty = 0x3c \<and> read_bytes (memory (world s1))
        (ctx_get64 (gSystemContext s1) (off A_ELR)) 4 = mArchBreakpointInstruction_AARCH64
      then ctx_set64 (gSystemContext s1) (off A_ELR) (ctx_get64 (gSystemContext s1) (off A_ELR) + 4)
      else gSystemContext s1),
    world := (world s1)\<lparr>plat := WatchdogResume wd (fst (WatchdogSuspend wd (plat (world s)))) (plat (world s1))\<rparr>\<rparr>))"
  using assms
  by (cases "WatchdogSuspend wd (plat (world s))")
    (simp add: DebuggerExceptionHandler_AARCH64_def Let_def del: if_split)

lemma entry_AARCH64:
  "esr_class off c = 0x3c \<Longrightarrow> DebuggerExceptionHandler_AARCH64_entry off c m =
     (0x3c, \<lparr>ExceptionType = ExceptionBreakpoint, ExceptionAddress = ctx_get64 c (off A_ELR),
            ArchExceptionCode = 0x3c\<rparr>, m)"
  "esr_class off c \<in> {0x32, 0x33} \<Longrightarrow> DebuggerExceptionHandler_AARCH64_entry off c m =
     (esr_class off c, \<lparr>ExceptionType = ExceptionDebugStep, ExceptionAddress = ctx_get64 c (off A_ELR),
            ArchExceptionCode = esr_class off c\<rparr>, m\<lparr>MDSCR_EL1 := MDSCR_EL1 m AND NOT MDSCR_SS\<rparr>)"
  by (auto simp: DebuggerExceptionHandler_AARCH64_entry_def esr_class_def Let_def)


section \<open>Continuing from a breakpoint\<close>

lemma breakpoint_continue_X64:
  assumes clk: "stub_clock ag mPerformanceCounterFreq" and req: "one_request (str ''vCont;c'') ag s"
  shows "\<exists>s2. DebuggerExceptionHandler_X64 wd off ag EXCEPT_X64_BREAKPOINT c s = Some (Inr s2) \<and>
    memory (world s2) = memory (world s) \<and> mBreakpoints s2 = mBreakpoints s \<and> gRunning s2 \<and> rx s2 = [] \<and>
    tx s2 = tx s @ frame (str ''T05thread:01;'') @ str ''+'' \<and>
    gSystemContext s2 =
      (if memory (world s) (ctx_get64 c (off X_Rip) - 1) = 0xCC then c
       else ctx_set64 c (off X_Rip) (ctx_get64 c (off X_Rip) - 1))"
proof -
  let ?w = "(world s)\<lparr>plat := snd (WatchdogSuspend wd (plat (world s)))\<rparr>"
  obtain s1 where s1: "ReportEntryToDebugger ag (snd (DebuggerExceptionHandler_X64_entry off EXCEPT_X64_BREAKPOINT c))
      (fst (DebuggerExceptionHandler_X64_entry off EXCEPT_X64_BREAKPOINT c)) (s\<lparr>world := ?w\<rparr>) = Some (Inr s1)"
    "gSystemContext s1 = fst (DebuggerExceptionHandler_X64_entry off EXCEPT_X64_BREAKPOINT c)" "world s1 = ?w"
    "mBreakpoints s1 = mBreakpoints s" "gRunning s1" "rx s1 = []" "tx s1 = tx s @ frame (str ''T05thread:01;'') @ str ''+''"
    using stub_clock.continue_outcome [OF clk req, of ?w] by auto
  show ?thesis unfolding handler_X64 [OF s1(1)] using s1(2-) by (simp add: entry_X64)
qed

lemma breakpoint_continue_AARCH64:
  assumes clk: "stub_clock ag CounterFreq" and req: "one_request (str ''vCont;c'') ag s" and brk: "esr_class off c = 0x3c"
  shows "\<exists>s2. DebuggerExceptionHandler_AARCH64 wd off ag c s = Some (Inr s2) \<and>
    memory (world s2) = memory (world s) \<and> mBreakpoints s2 = mBreakpoints s \<and> gRunning s2 \<and> rx s2 = [] \<and>
    tx s2 = tx s @ frame (str ''T05thread:01;'') @ str ''+'' \<and>
    gSystemContext s2 =
      (if read_bytes (memory (world s)) (ctx_get64 c (off A_ELR)) 4 = mArchBreakpointInstruction_AARCH64
       then ctx_set64 c (off A_ELR) (ctx_get64 c (off A_ELR) + 4) else c)"
proof -
  let ?w = "(world s)\<lparr>plat := snd (WatchdogSuspend wd (plat (world s)))\<rparr>"
  let ?info = "\<lparr>ExceptionType = ExceptionBreakpoint, ExceptionAddress = ctx_get64 c (off A_ELR), ArchExceptionCode = 0x3c\<rparr>"
  obtain s1 where s1: "ReportEntryToDebugger ag ?info c (s\<lparr>world := ?w\<rparr>) = Some (Inr s1)" "gSystemContext s1 = c"
    "world s1 = ?w" "mBreakpoints s1 = mBreakpoints s" "gRunning s1" "rx s1 = []"
    "tx s1 = tx s @ frame (str ''T05thread:01;'') @ str ''+''"
    using stub_clock.continue_outcome [OF clk req, of ?w] by auto
  show ?thesis unfolding handler_AARCH64 [OF entry_AARCH64(1) [OF brk] s1(1)] using s1(2-) by simp
qed

section \<open>Breaking into a running target\<close>

text \<open>
  A poll that finds the break character takes a breakpoint, whose exception the handler
  serves; when the handler returns with no input left, so does the poll.
\<close>

definition break_state :: "u8 list \<Rightarrow> u8 option list \<Rightarrow> 'w gdb \<Rightarrow> 'w gdb" where
  "break_state xs r s = s\<lparr>rx := r, clock_reads := clock_reads s + length xs + 1,
     DebuggerBreakpointReason := BreakpointReasonDebuggerBreak\<rparr>"

lemma break_state_simps [simp]:
  "world (break_state xs r s) = world s" "mBreakpoints (break_state xs r s) = mBreakpoints s"
  "tx (break_state xs r s) = tx s" "rx (break_state xs r s) = r"
  "mNextBreakpointTimeout (break_state xs r s) = mNextBreakpointTimeout s"
  "mRebootOnContinue (break_state xs r s) = mRebootOnContinue s"
  by (simp_all add: break_state_def)

lemma DebuggerPollInput_break_in:
  assumes total: "clock_total ag (world s)" and xs: "3 \<notin> set xs" and rx: "rx s = map Some xs @ Some 3 # r"
    and cpu: "cpu (break_state xs r s) = Some (Inr s1)" and empty: "rx s1 = []"
  shows "DebuggerPollInput cpu ag s = Some (Inr (s1\<lparr>DebuggerBreakpointReason := BreakpointReasonNone\<rparr>))"
proof -
  let ?s = "s\<lparr>rx := r, clock_reads := clock_reads s + length xs + 1\<rparr>"
  have "DebuggerPollInput cpu ag s = obind (DebuggerBreak cpu BreakpointReasonDebuggerBreak ?s) (DebuggerPollInput cpu ag)"
    using DebuggerPollInput_discards [OF total xs rx, of cpu]
      DebuggerPollInput_break [of ag "s\<lparr>rx := Some 3 # r, clock_reads := clock_reads s + length xs\<rparr>" r cpu] total
    by simp
  moreover have "DebuggerBreak cpu BreakpointReasonDebuggerBreak ?s =
      Some (Inr (s1\<lparr>DebuggerBreakpointReason := BreakpointReasonNone\<rparr>))"
    using cpu by (simp add: DebuggerBreak_def break_state_def)
  moreover have "DebuggerPollInput cpu ag (s1\<lparr>DebuggerBreakpointReason := BreakpointReasonNone\<rparr>) =
      Some (Inr (s1\<lparr>DebuggerBreakpointReason := BreakpointReasonNone\<rparr>))"
    using DebuggerPollInput_idle [of "s1\<lparr>DebuggerBreakpointReason := BreakpointReasonNone\<rparr>" cpu ag] empty by (cases s1) simp
  ultimately show ?thesis by simp
qed

end
