(* ===== verification/Protocol.thy ===== *)
theory Protocol
  imports CommandFacts
begin

text \<open>
  The debugger as its client sees it: requests and replies without their text, a target that
  is a context, a memory, a map of breakpoints and a set of watchpoints, and \<open>serve\<close>, the
  answer to a request and the target after it. \<open>request_text\<close> says which packet bodies
  denote a request, \<open>encode\<close> prints one of them. Nothing here mentions buffers, tables of
  entries, debug registers or pages; the theories \<open>Simulation\<close> and \<open>Conversation\<close> show that
  the stub implements it.
\<close>

section \<open>Requests and replies\<close>

datatype watch_kind = On_write | On_read | On_access

datatype question =
    Supported_features "u8 list"
  | First_threads
  | More_threads
  | Is_attached
  | Select_thread "u8 list"
  | Extended_mode
  | Resume_actions

datatype request =
    Get_registers
  | Set_registers ctx
  | Get_register nat
  | Set_register nat "u8 list"
  | Get_memory u64 nat
  | Set_memory u64 "u8 list"
  | Insert_breakpoint u64
  | Delete_breakpoint u64
  | Insert_watchpoint watch_kind u64 u64
  | Delete_watchpoint watch_kind u64 u64
  | Stop_reason
  | Ask question

text \<open>A reply is an acknowledgement, an error with its number, a value shown in digits, or text.\<close>

datatype reply = Acknowledged | Refused u8 | Value "u8 list" | Said "u8 list"

fun reply_text :: "reply \<Rightarrow> u8 list" where
  "reply_text Acknowledged = str ''OK''"
| "reply_text (Refused e) = error_text e"
| "reply_text (Value bs) = hex_bytes bs"
| "reply_text (Said m) = m"

section \<open>The target\<close>

text \<open>
  What a build fixes: the register table, the breakpoint instruction, which watchpoint
  requests have a hardware key and how many keys fit, how many bytes of a range can be read
  and written given the protections \<open>'e\<close> and the memory, and whether assertions are on.
\<close>

record ('e, 'k) platform =
  pf_registers :: "GDB_REGISTER_OFFSET_DATA list"
  pf_instruction :: "u8 list"
  pf_key :: "u64 \<Rightarrow> u64 \<Rightarrow> bool \<Rightarrow> bool \<Rightarrow> 'k option"
  pf_capacity :: nat
  pf_readable :: "'e \<Rightarrow> (u64 \<Rightarrow> u8) \<Rightarrow> u64 \<Rightarrow> nat \<Rightarrow> nat"
  pf_writable :: "'e \<Rightarrow> (u64 \<Rightarrow> u8) \<Rightarrow> u64 \<Rightarrow> nat \<Rightarrow> nat"
  pf_asserts :: bool

record ('e, 'k) target =
  tg_registers :: ctx
  tg_memory :: "u64 \<Rightarrow> u8"
  tg_breakpoints :: "u64 \<Rightarrow> u8 list option"
  tg_watchpoints :: "'k set"
  tg_protection :: 'e

fun reads_watch :: "watch_kind \<Rightarrow> bool" where
  "reads_watch On_write = False"
| "reads_watch On_read = True"
| "reads_watch On_access = True"

fun writes_watch :: "watch_kind \<Rightarrow> bool" where
  "writes_watch On_write = True"
| "writes_watch On_read = False"
| "writes_watch On_access = True"

text \<open>The value of a register of the table; one that is not in the context reads as zero.\<close>

definition register_value :: "GDB_REGISTER_OFFSET_DATA list \<Rightarrow> ctx \<Rightarrow> nat \<Rightarrow> u8 list" where
  "register_value t c i =
     (if reg_Offset (t ! i) \<noteq> REG_NOT_PRESENT then ctx_bytes c (reg_Offset (t ! i)) (reg_Size (t ! i))
      else replicate (reg_Size (t ! i)) 0)"

definition present_registers :: "GDB_REGISTER_OFFSET_DATA list \<Rightarrow> nat list" where
  "present_registers t = filter (\<lambda>i. reg_Offset (t ! i) \<noteq> REG_NOT_PRESENT) [0..<length t]"

fun answer :: "question \<Rightarrow> reply" where
  "answer (Supported_features _) = Said (str ''PacketSize=1000;qXfer:features:read+;vContSupported+'')"
| "answer First_threads = Said (str ''m01'')"
| "answer More_threads = Said (str ''l'')"
| "answer Is_attached = Said (str ''1'')"
| "answer (Select_thread _) = Acknowledged"
| "answer Extended_mode = Acknowledged"
| "answer Resume_actions = Said (str ''vCont;c;C;s;S'')"

section \<open>Serving a request\<close>

fun serve :: "('e, 'k) platform \<Rightarrow> request \<Rightarrow> ('e, 'k) target \<Rightarrow> reply \<times> ('e, 'k) target" where
  "serve P Get_registers T =
     (Value (concat (map (register_value (pf_registers P) (tg_registers T)) [0..<length (pf_registers P)])), T)"
| "serve P (Set_registers c) T =
     (Acknowledged, T\<lparr>tg_registers := store_regs (pf_registers P) (register_value (pf_registers P) c)
        (present_registers (pf_registers P)) (tg_registers T)\<rparr>)"
| "serve P (Get_register i) T =
     (if i < length (pf_registers P) then Value (register_value (pf_registers P) (tg_registers T) i)
      else Refused GDB_ERROR_BAD_REG_INDEX, T)"
| "serve P (Set_register i v) T =
     (if length (pf_registers P) \<le> i then (Refused GDB_ERROR_BAD_REG_INDEX, T)
      else if reg_Offset (pf_registers P ! i) = REG_NOT_PRESENT then (Acknowledged, T)
      else (Acknowledged, T\<lparr>tg_registers := ctx_store (tg_registers T) (reg_Offset (pf_registers P ! i)) v\<rparr>))"
| "serve P (Get_memory a n) T =
     (if pf_readable P (tg_protection T) (tg_memory T) a n = n then Value (read_bytes (tg_memory T) a n)
      else Refused GDB_ERROR_BAD_MEM_ADDRESS, T)"
| "serve P (Set_memory a bs) T =
     (let k = pf_writable P (tg_protection T) (tg_memory T) a (length bs) in
      (if k = length bs then Acknowledged else Refused GDB_ERROR_BAD_MEM_ADDRESS,
       T\<lparr>tg_memory := write_bytes (tg_memory T) a (take k bs)\<rparr>))"
| "serve P (Insert_breakpoint a) T =
     (if a \<in> dom (tg_breakpoints T) then (Acknowledged, T)
      else if MAX_BREAKPOINTS \<le> card (dom (tg_breakpoints T)) then (Refused GDB_ERROR_INTERNAL, T)
      else (let n = length (pf_instruction P) in
        (Acknowledged, T\<lparr>
           tg_breakpoints := (tg_breakpoints T)(a \<mapsto> read_bytes (tg_memory T) a n),
           tg_memory := write_bytes (tg_memory T) a
             (take (pf_writable P (tg_protection T) (tg_memory T) a n) (pf_instruction P))\<rparr>)))"
| "serve P (Delete_breakpoint a) T =
     (case tg_breakpoints T a of
        None \<Rightarrow> (Refused GDB_ERROR_INTERNAL, T)
      | Some saved \<Rightarrow>
          (Acknowledged, T\<lparr>
             tg_breakpoints := (tg_breakpoints T)(a := None),
             tg_memory := write_bytes (tg_memory T) a
               (take (pf_writable P (tg_protection T) (tg_memory T) a (length saved)) saved)\<rparr>))"
| "serve P (Insert_watchpoint k a l) T =
     (case pf_key P a l (reads_watch k) (writes_watch k) of
        None \<Rightarrow> (Refused GDB_ERROR_INTERNAL, T)
      | Some key \<Rightarrow>
          if key \<in> tg_watchpoints T \<or> card (tg_watchpoints T) < pf_capacity P
          then (Acknowledged, T\<lparr>tg_watchpoints := insert key (tg_watchpoints T)\<rparr>)
          else (Refused GDB_ERROR_INTERNAL, T))"
| "serve P (Delete_watchpoint k a l) T =
     (case pf_key P a l (reads_watch k) (writes_watch k) of
        None \<Rightarrow> (Refused GDB_ERROR_INTERNAL, T)
      | Some key \<Rightarrow>
          if key \<in> tg_watchpoints T then (Acknowledged, T\<lparr>tg_watchpoints := tg_watchpoints T - {key}\<rparr>)
          else (Refused GDB_ERROR_INTERNAL, T))"
| "serve P Stop_reason T = (Said (str ''T05thread:01;''), T)"
| "serve P (Ask q) T = (answer q, T)"

text \<open>
  Requests within the stub's limits: memory in one chunk of \<open>mScratch\<close>, a value of the
  register's size, a breakpoint where the instruction can be read and, when assertions are
  on, while there is room for it.
\<close>

fun admissible :: "('e, 'k) platform \<Rightarrow> request \<Rightarrow> ('e, 'k) target \<Rightarrow> bool" where
  "admissible P (Set_register i v) T \<longleftrightarrow>
     (i < length (pf_registers P) \<longrightarrow> length v = reg_Size (pf_registers P ! i))"
| "admissible P (Get_memory a n) T \<longleftrightarrow> 0 < n \<and> n \<le> SCRATCH_SIZE"
| "admissible P (Set_memory a bs) T \<longleftrightarrow> bs \<noteq> [] \<and> length bs \<le> SCRATCH_SIZE"
| "admissible P (Insert_breakpoint a) T \<longleftrightarrow>
     (a \<in> dom (tg_breakpoints T) \<or>
      (if card (dom (tg_breakpoints T)) < MAX_BREAKPOINTS
       then pf_readable P (tg_protection T) (tg_memory T) a (length (pf_instruction P)) =
            length (pf_instruction P)
       else \<not> pf_asserts P))"
| "admissible P r T \<longleftrightarrow> True"

text \<open>A list of requests in turn: their replies and the target at the end.\<close>

fun serve_all ::
  "('e, 'k) platform \<Rightarrow> request list \<Rightarrow> ('e, 'k) target \<Rightarrow> reply list \<times> ('e, 'k) target" where
  "serve_all P [] T = ([], T)"
| "serve_all P (r # rs) T =
     (case serve P r T of (x, T1) \<Rightarrow> case serve_all P rs T1 of (xs, T2) \<Rightarrow> (x # xs, T2))"

fun admissible_all :: "('e, 'k) platform \<Rightarrow> request list \<Rightarrow> ('e, 'k) target \<Rightarrow> bool" where
  "admissible_all P [] T \<longleftrightarrow> True"
| "admissible_all P (r # rs) T \<longleftrightarrow> admissible P r T \<and> admissible_all P rs (snd (serve P r T))"

lemma length_serve_all: "length (fst (serve_all P rs T)) = length rs"
  by (induction rs arbitrary: T) (simp_all add: case_prod_beta)

lemma serve_all_append:
  "serve_all P (rs @ qs) T =
     (case serve_all P rs T of (xs, T1) \<Rightarrow> case serve_all P qs T1 of (ys, T2) \<Rightarrow> (xs @ ys, T2))"
  by (induction rs arbitrary: T) (auto split: prod.split)

section \<open>Packet bodies\<close>

text \<open>Numerals as a client prints them: lower case, without leading zeros.\<close>

fun hex_numeral :: "nat \<Rightarrow> u8 list" where
  "hex_numeral n = (if n < 16 then [HexChars ! n] else hex_numeral (n div 16) @ [HexChars ! (n mod 16)])"

declare hex_numeral.simps [simp del]

lemma hex_numeral_digits: "\<forall>d \<in> set (hex_numeral n). is_hex d"
proof (induction n rule: hex_numeral.induct)
  case (1 n)
  then show ?case by (subst hex_numeral.simps) (auto simp: HexChars_hex)
qed

lemma hex_val_hex_numeral: "hex_val (hex_numeral n) = n"
proof (induction n rule: hex_numeral.induct)
  case (1 n)
  show ?case
  proof (cases "n < 16")
    case True
    then show ?thesis by (subst hex_numeral.simps) (simp add: hex_val_def HexChars_digit)
  next
    case False
    then show ?thesis
      using 1 by (subst hex_numeral.simps) (simp add: hex_val_snoc HexChars_digit)
  qed
qed

lemma length_hex_numeral: "n < 16 ^ Suc k \<Longrightarrow> length (hex_numeral n) \<le> Suc k"
proof (induction k arbitrary: n)
  case 0
  then show ?case by (subst hex_numeral.simps) simp
next
  case (Suc k)
  then have "n div 16 < 16 ^ Suc k" by (simp add: less_mult_imp_div_less mult.commute)
  from Suc.IH [OF this] show ?case by (subst hex_numeral.simps) simp
qed

lemma hex_numeral_numeral_of: "n < 2 ^ 64 \<Longrightarrow> numeral_of (hex_numeral n) n"
proof -
  assume "n < 2 ^ 64"
  then have "length (hex_numeral n) \<le> 16" using length_hex_numeral [of n 15] by simp
  moreover have "hex_numeral n \<noteq> []" by (subst hex_numeral.simps) simp
  ultimately show ?thesis
    by (simp add: numeral_of_def hex_numeral_digits hex_val_hex_numeral)
qed

text \<open>The digit in a breakpoint packet that selects the kind.\<close>

fun watch_type :: "watch_kind \<Rightarrow> nat" where
  "watch_type On_write = 2"
| "watch_type On_read = 3"
| "watch_type On_access = 4"

text \<open>
  The bodies that denote a request. Numbers may be written in any way the parser accepts,
  with capital digits or leading zeros.
\<close>

inductive request_text :: "GDB_REGISTER_OFFSET_DATA list \<Rightarrow> u8 list \<Rightarrow> request \<Rightarrow> bool" for t where
  "request_text t [103] Get_registers"
| "request_text t (71 # ReadGeneralRegisters_chars t c) (Set_registers c)"
| "numeral_of d i \<Longrightarrow> request_text t (112 # d) (Get_register i)"
| "numeral_of d i \<Longrightarrow> request_text t (80 # d @ 61 # hex_bytes v) (Set_register i v)"
| "numeral_of da (unat a) \<Longrightarrow> numeral_of dl n \<Longrightarrow>
     request_text t (109 # da @ 44 # dl) (Get_memory a n)"
| "numeral_of da (unat a) \<Longrightarrow> numeral_of dl (length bs) \<Longrightarrow>
     request_text t (77 # da @ 44 # dl @ 58 # hex_bytes bs) (Set_memory a bs)"
| "numeral_of d 0 \<Longrightarrow> numeral_of da (unat a) \<Longrightarrow> numeral_of dl l \<Longrightarrow>
     request_text t (90 # d @ 44 # da @ 44 # dl) (Insert_breakpoint a)"
| "numeral_of d 0 \<Longrightarrow> numeral_of da (unat a) \<Longrightarrow> numeral_of dl l \<Longrightarrow>
     request_text t (122 # d @ 44 # da @ 44 # dl) (Delete_breakpoint a)"
| "numeral_of d (watch_type k) \<Longrightarrow> numeral_of da (unat a) \<Longrightarrow> numeral_of dl (unat l) \<Longrightarrow>
     request_text t (90 # d @ 44 # da @ 44 # dl) (Insert_watchpoint k a l)"
| "numeral_of d (watch_type k) \<Longrightarrow> numeral_of da (unat a) \<Longrightarrow> numeral_of dl (unat l) \<Longrightarrow>
     request_text t (122 # d @ 44 # da @ 44 # dl) (Delete_watchpoint k a l)"
| "request_text t [63] Stop_reason"
| "0 \<notin> set fs \<Longrightarrow> 35 \<notin> set fs \<Longrightarrow> request_text t (str ''qSupported'' @ fs) (Ask (Supported_features fs))"
| "request_text t (str ''qfThreadInfo'') (Ask First_threads)"
| "request_text t (str ''qsThreadInfo'') (Ask More_threads)"
| "request_text t (str ''qAttached'') (Ask Is_attached)"
| "0 \<notin> set th \<Longrightarrow> 35 \<notin> set th \<Longrightarrow> request_text t (72 # th) (Ask (Select_thread th))"
| "request_text t [33] (Ask Extended_mode)"
| "request_text t (str ''vCont?'') (Ask Resume_actions)"

inductive_cases request_textE: "request_text t body r"

text \<open>No body contains the checksum marker, so every request can be framed.\<close>

lemma hex_bytes_notin: "\<not> is_hex v \<Longrightarrow> v \<notin> set (hex_bytes bs)"
  using hex_byte_hex by (induction bs) auto

lemma ReadGeneralRegisters_chars_value:
  "ReadGeneralRegisters_chars t c = hex_bytes (concat (map (register_value t c) [0..<length t]))"
proof -
  have "concat (map (\<lambda>i. hex_bytes (f i)) is) = hex_bytes (concat (map f is))" for f "is"
    by (induction "is") simp_all
  then show ?thesis
    by (simp add: ReadGeneralRegisters_chars_def register_value_def [abs_def] ReadRegisterFromContext_hex [abs_def])
qed

lemma request_text_no_marker: "request_text t body r \<Longrightarrow> 35 \<notin> set body"
  by (induction rule: request_text.induct)
    (auto simp: str_def hex_bytes_notin ReadGeneralRegisters_chars_value dest: numeral_of_notin [where v = 35])

section \<open>Printing a request\<close>

text \<open>One body for each request, as a client prints it.\<close>

fun encode_question :: "question \<Rightarrow> u8 list" where
  "encode_question (Supported_features fs) = str ''qSupported'' @ fs"
| "encode_question First_threads = str ''qfThreadInfo''"
| "encode_question More_threads = str ''qsThreadInfo''"
| "encode_question Is_attached = str ''qAttached''"
| "encode_question (Select_thread th) = 72 # th"
| "encode_question Extended_mode = [33]"
| "encode_question Resume_actions = str ''vCont?''"

fun encode :: "GDB_REGISTER_OFFSET_DATA list \<Rightarrow> nat \<Rightarrow> request \<Rightarrow> u8 list" where
  "encode t n Get_registers = [103]"
| "encode t n (Set_registers c) = 71 # ReadGeneralRegisters_chars t c"
| "encode t n (Get_register i) = 112 # hex_numeral i"
| "encode t n (Set_register i v) = 80 # hex_numeral i @ 61 # hex_bytes v"
| "encode t n (Get_memory a l) = 109 # hex_numeral (unat a) @ 44 # hex_numeral l"
| "encode t n (Set_memory a bs) = 77 # hex_numeral (unat a) @ 44 # hex_numeral (length bs) @ 58 # hex_bytes bs"
| "encode t n (Insert_breakpoint a) = 90 # [48] @ 44 # hex_numeral (unat a) @ 44 # hex_numeral n"
| "encode t n (Delete_breakpoint a) = 122 # [48] @ 44 # hex_numeral (unat a) @ 44 # hex_numeral n"
| "encode t n (Insert_watchpoint k a l) =
     90 # hex_numeral (watch_type k) @ 44 # hex_numeral (unat a) @ 44 # hex_numeral (unat l)"
| "encode t n (Delete_watchpoint k a l) =
     122 # hex_numeral (watch_type k) @ 44 # hex_numeral (unat a) @ 44 # hex_numeral (unat l)"
| "encode t n Stop_reason = [63]"
| "encode t n (Ask q) = encode_question q"

text \<open>The numbers of a request that are not machine words are within 64 bits, its texts printable.\<close>

fun expressible :: "request \<Rightarrow> bool" where
  "expressible (Get_register i) \<longleftrightarrow> i < 2 ^ 64"
| "expressible (Set_register i v) \<longleftrightarrow> i < 2 ^ 64"
| "expressible (Get_memory a n) \<longleftrightarrow> n < 2 ^ 64"
| "expressible (Set_memory a bs) \<longleftrightarrow> length bs < 2 ^ 64"
| "expressible (Ask (Supported_features fs)) \<longleftrightarrow> 0 \<notin> set fs \<and> 35 \<notin> set fs"
| "expressible (Ask (Select_thread th)) \<longleftrightarrow> 0 \<notin> set th \<and> 35 \<notin> set th"
| "expressible r \<longleftrightarrow> True"

lemma encode_request_text:
  assumes "expressible r" and "n < 2 ^ 64"
  shows "request_text t (encode t n r) r"
proof -
  have u: "numeral_of (hex_numeral (unat a)) (unat a)" for a :: u64
    using unsigned_less [of a] by (intro hex_numeral_numeral_of) simp
  have k: "numeral_of (hex_numeral (watch_type k)) (watch_type k)" for k
    by (rule hex_numeral_numeral_of) (cases k; simp)
  have z: "numeral_of [48] 0" by (simp add: numeral_of_def is_hex_def hex_val_def hex_digit_def)
  have n: "numeral_of (hex_numeral n) n" using assms(2) by (rule hex_numeral_numeral_of)
  have num: "m < 18446744073709551616 \<Longrightarrow> numeral_of (hex_numeral m) m" for m
    by (rule hex_numeral_numeral_of) simp
  show ?thesis
  proof (cases r)
    case (Ask q)
    then show ?thesis using assms(1) by (cases q) (auto intro: request_text.intros)
  qed (use assms(1) u k n num request_text.intros(7,8) [OF z] in \<open>auto intro: request_text.intros\<close>)
qed

end
