(* ===== verification/Simulation.thy ===== *)
theory Simulation
  imports Protocol
begin

text \<open>
  The commands implement the protocol: on a state whose table and machine are sound, every
  admissible request is answered with the text of the reply \<open>serve\<close> gives, and the new
  state stands for the target \<open>serve\<close> gives. What the proof needs of a build is the contract
  \<open>stub_target\<close>, which the theory \<open>Targets\<close> discharges for the builds.
\<close>

section \<open>Requests the contract does not concern\<close>

lemma str_zero_35 [simp]:
  "0 \<notin> set (str ''Supported'')" "0 \<notin> set (str ''fThreadInfo'')" "0 \<notin> set (str ''sThreadInfo'')"
  "0 \<notin> set (str ''Attached'')"
  by (simp_all add: str_def)

lemma str_q:
  "str ''qSupported'' = 113 # str ''Supported''" "str ''qfThreadInfo'' = 113 # str ''fThreadInfo''"
  "str ''qsThreadInfo'' = 113 # str ''sThreadInfo''" "str ''qAttached'' = 113 # str ''Attached''"
  by (simp_all add: str_def)

lemma ExecuteGdbCommand_question:
  assumes "request_text t body (Ask q)"
  shows "ExecuteGdbCommand ag (body @ 0 # x) (length body) s = Inr (responded (reply_text (answer q)) s)"
proof -
  have fixed: "SendGdbResponse ag (Some (str m)) s = Inr (responded (str m) s)"
    if "0 \<notin> set (str m)" "length (str m) \<le> MAX_RESPONSE_SIZE" for m
    using that by (rule text_response)
  have len: "length (str ''PacketSize=1000;qXfer:features:read+;vContSupported+'') \<le> MAX_RESPONSE_SIZE"
    "length (str ''m01'') \<le> MAX_RESPONSE_SIZE" "length (str ''l'') \<le> MAX_RESPONSE_SIZE"
    "length (str ''1'') \<le> MAX_RESPONSE_SIZE"
    by (simp_all add: str_def MAX_RESPONSE_SIZE_def)
  have nz: "0 \<notin> set (str ''PacketSize=1000;qXfer:features:read+;vContSupported+'')"
    "0 \<notin> set (str ''m01'')" "0 \<notin> set (str ''l'')" "0 \<notin> set (str ''1'')"
    by (simp_all add: str_def)
  note sent = fixed [OF nz(1) len(1)] fixed [OF nz(2) len(2)] fixed [OF nz(3) len(3)] fixed [OF nz(4) len(4)]
  from assms show ?thesis
  proof (cases rule: request_text.cases)
    case (12 fs)
    have "take 9 (cstr (str ''Supported'' @ fs @ 0 # x)) = take 9 (str ''Supported'')"
      by (simp add: cstr_append) (simp add: str_def)
    then show ?thesis
      using 12 sent(1) by (simp add: str_q ExecuteGdbCommand_simps ProcessQuery_def AsciiStrnCmp_eq_0)
  next
    case 13
    then show ?thesis using sent(2)
      by (simp add: str_q ExecuteGdbCommand_simps ProcessQuery_def AsciiStrnCmp_eq_0) (simp add: str_def)
  next
    case 14
    then show ?thesis using sent(3)
      by (simp add: str_q ExecuteGdbCommand_simps ProcessQuery_def AsciiStrnCmp_eq_0) (simp add: str_def)
  next
    case 15
    then show ?thesis using sent(4)
      by (simp add: str_q ExecuteGdbCommand_simps ProcessQuery_def AsciiStrnCmp_eq_0) (simp add: str_def)
  next
    case (16 th)
    then show ?thesis by (simp add: ExecuteGdbCommand_def)
  next
    case 17
    then show ?thesis by (simp add: ExecuteGdbCommand_def)
  next
    case 18
    have eq: "str ''vCont?'' @ 0 # x = 118 # str ''Cont'' @ 63 # 0 # x" "length (str ''vCont?'') = 6"
      by (simp_all add: str_def)
    have C: "59 \<notin> set (str ''Cont'')" "63 \<notin> set (str ''Cont'')" "0 \<notin> set (str ''Cont'')"
      "length (str ''Cont'') = 4" by (simp_all add: str_def)
    show ?thesis
      unfolding 18 eq ExecuteGdbCommand_simps using C by (subst ProcessVCommand_eq) simp_all
  qed
qed

lemma ExecuteGdbCommand_stop_reason:
  "ExecuteGdbCommand ag (63 # x) n s = Inr (responded (str ''T05thread:01;'') s)"
  by (simp add: ExecuteGdbCommand_simps SendStopReply_eq)

section \<open>Registers\<close>

lemma present_registers_layout: "regs_layout t k \<Longrightarrow> present_registers t = [0..<k]"
proof -
  assume lay: "regs_layout t k"
  then have "[0..<length t] = [0..<k] @ [k..<length t]"
    by (metis regs_layout_def le0 le_add_diff_inverse upt_add_eq_append)
  moreover have "filter (\<lambda>i. reg_Offset (t ! i) \<noteq> REG_NOT_PRESENT) [0..<k] = [0..<k]"
    using lay by (auto simp: regs_layout_def)
  moreover have "filter (\<lambda>i. reg_Offset (t ! i) \<noteq> REG_NOT_PRESENT) [k..<length t] = []"
    using lay by (auto simp: regs_layout_def)
  ultimately show ?thesis by (simp add: present_registers_def)
qed

lemma store_regs_cong: "(\<And>i. i \<in> set js \<Longrightarrow> f i = g i) \<Longrightarrow> store_regs t f js c = store_regs t g js c"
  unfolding store_regs_def by (intro foldl_cong) auto

lemma ReadRegister_value:
  "ReadRegisterFromContext t c i = hex_bytes (register_value t c i)"
  by (simp add: ReadRegisterFromContext_hex register_value_def)

lemma WriteRegister_scan:
  assumes i: "numeral_of di i"
  shows "ScanMem8 (di @ 61 # hex_bytes v @ 0 # x) (AsciiStrLen (di @ 61 # hex_bytes v @ 0 # x)) 61 = Some (length di)"
proof -
  have di: "0 \<notin> set di" "61 \<notin> set di" using numeral_of_notin [OF i] by auto
  then have "AsciiStrLen (di @ 61 # hex_bytes v @ 0 # x) = length di + 1 + 2 * length v"
    using AsciiStrLen_append_zero [of "di @ 61 # hex_bytes v" x] by simp
  then show ?thesis using di by (intro ScanMem8_first) auto
qed

lemma WriteRegister_bad_index:
  assumes "lib_ok (ag_lib ag)" and i: "numeral_of di i" and "length (ag_gRegisterOffsets ag) \<le> i"
  shows "WriteRegister ag (di @ 61 # hex_bytes v @ 0 # x) s = Inr (responded (error_text GDB_ERROR_BAD_REG_INDEX) s)"
  using assms(3)
  by (simp add: WriteRegister_def WriteRegister_scan [OF i])
    (simp add: Let_def numeral_of_Uintn [OF i assms(1)] unat_numeral [OF i] SendGdbError_eq)

lemma WriteRegister_absent:
  assumes "lib_ok (ag_lib ag)" and i: "numeral_of di i"
    and here: "i < length (ag_gRegisterOffsets ag)" "reg_Offset (ag_gRegisterOffsets ag ! i) = REG_NOT_PRESENT"
    and sz: "reg_Size (ag_gRegisterOffsets ag ! i) \<le> 10" "length v = reg_Size (ag_gRegisterOffsets ag ! i)"
  shows "WriteRegister ag (di @ 61 # hex_bytes v @ 0 # x) s = Inr (responded (str ''OK'') s)"
proof -
  have "WriteRegisterToContext (ag_asserts ag) (ag_gRegisterOffsets ag) (gSystemContext s) i
      (hex_bytes v @ 0 # x) = Inr (Some (hex_bytes v @ 0 # x), gSystemContext s)"
    using here sz by (intro WriteRegisterToContext_absent) simp_all
  then show ?thesis
    using here by (simp add: WriteRegister_def WriteRegister_scan [OF i])
      (simp add: Let_def numeral_of_Uintn [OF i assms(1)] unat_numeral [OF i])
qed

text \<open>The four register requests, over the saved context.\<close>

lemma ExecuteGdbCommand_registers:
  fixes T :: "('e, 'k) target"
  assumes lib: "lib_ok (ag_lib ag)" and lay: "regs_layout (ag_gRegisterOffsets ag) k"
    and fit: "regs_fit (ag_gRegisterOffsets ag)"
    and P: "pf_registers P = ag_gRegisterOffsets ag" and T: "tg_registers T = gSystemContext s"
    and req: "request_text (ag_gRegisterOffsets ag) body r" and adm: "admissible P r T"
    and r: "r \<in> {Get_registers, Set_registers c0, Get_register i, Set_register i v}"
  shows "\<exists>c. ExecuteGdbCommand ag (body @ 0 # x) (length body) s =
      Inr (responded (reply_text (fst (serve P r T))) (s\<lparr>gSystemContext := c\<rparr>)) \<and>
    snd (serve P r T) = T\<lparr>tg_registers := c\<rparr>"
proof -
  have sz: "\<forall>r \<in> set (ag_gRegisterOffsets ag). reg_Size r \<le> 10"
    using lay by (auto simp: regs_layout_def in_set_conv_nth)
  have keep: "s\<lparr>gSystemContext := gSystemContext s\<rparr> = s" "T\<lparr>tg_registers := gSystemContext s\<rparr> = T"
    using T by simp_all
  from req show ?thesis
  proof (cases rule: request_text.cases)
    case 1
    then show ?thesis
      using ReadGeneralRegisters_eq [OF fit, of s] keep
      by (intro exI [of _ "gSystemContext s"])
        (simp add: ExecuteGdbCommand_simps P T ReadGeneralRegisters_chars_value)
  next
    case (2 c)
    let ?t = "ag_gRegisterOffsets ag"
    let ?c = "store_regs ?t (register_value ?t c) (present_registers ?t) (gSystemContext s)"
    have "store_regs ?t (\<lambda>i. ctx_bytes c (reg_Offset (?t ! i)) (reg_Size (?t ! i))) [0..<k] (gSystemContext s) = ?c"
      using lay unfolding present_registers_layout [OF lay]
      by (intro store_regs_cong) (auto simp: register_value_def regs_layout_def)
    then show ?thesis
      using 2 WriteGeneralRegisters_dump [OF lay, of c x s]
      by (intro exI [of _ ?c]) (simp add: ExecuteGdbCommand_simps P T)
  next
    case (3 d i)
    then show ?thesis
      using ReadRegister_eq [OF lib 3(3) sz, of x s] keep
      by (intro exI [of _ "gSystemContext s"])
        (simp add: ExecuteGdbCommand_simps P T ReadRegister_value)
  next
    case (4 d i v)
    note num = 4(3)
    consider (bad) "length (ag_gRegisterOffsets ag) \<le> i"
      | (absent) "i < length (ag_gRegisterOffsets ag)" "reg_Offset (ag_gRegisterOffsets ag ! i) = REG_NOT_PRESENT"
      | (here) "i < length (ag_gRegisterOffsets ag)" "reg_Offset (ag_gRegisterOffsets ag ! i) \<noteq> REG_NOT_PRESENT"
      by linarith
    then show ?thesis
    proof cases
      case bad
      then show ?thesis
        using 4 WriteRegister_bad_index [OF lib num bad, of v x s] keep
        by (intro exI [of _ "gSystemContext s"]) (simp add: ExecuteGdbCommand_simps P)
    next
      case absent
      then have "reg_Size (ag_gRegisterOffsets ag ! i) \<le> 10" "length v = reg_Size (ag_gRegisterOffsets ag ! i)"
        using sz adm 4(2) P by simp_all
      from 4 WriteRegister_absent [OF lib num absent this, of x s] keep absent show ?thesis
        by (intro exI [of _ "gSystemContext s"]) (simp add: ExecuteGdbCommand_simps P)
    next
      case here
      then have "reg_Size (ag_gRegisterOffsets ag ! i) \<le> 10" "length v = reg_Size (ag_gRegisterOffsets ag ! i)"
        using sz adm 4(2) P by simp_all
      from 4 WriteRegister_eq [OF lib num here this, of x s] here show ?thesis
        by (intro exI [of _ "ctx_store (gSystemContext s) (reg_Offset (ag_gRegisterOffsets ag ! i)) v"])
          (simp add: ExecuteGdbCommand_simps P T)
    qed
  qed (use r in auto)
qed

section \<open>The contract of a build\<close>

text \<open>The platform a build is, and the target a stub state stands for.\<close>

definition platform_of ::
  "'w agent \<Rightarrow> (u64 \<Rightarrow> u64 \<Rightarrow> bool \<Rightarrow> bool \<Rightarrow> 'k option) \<Rightarrow> nat \<Rightarrow>
   ('e \<Rightarrow> (u64 \<Rightarrow> u8) \<Rightarrow> u64 \<Rightarrow> nat \<Rightarrow> nat) \<Rightarrow> ('e \<Rightarrow> (u64 \<Rightarrow> u8) \<Rightarrow> u64 \<Rightarrow> nat \<Rightarrow> nat) \<Rightarrow>
   ('e, 'k) platform" where
  "platform_of ag key capacity readable writable = \<lparr>
     pf_registers = ag_gRegisterOffsets ag,
     pf_instruction = ag_mArchBreakpointInstruction ag,
     pf_key = key,
     pf_capacity = capacity,
     pf_readable = readable,
     pf_writable = writable,
     pf_asserts = ag_asserts ag\<rparr>"

definition saved_code :: "nat \<Rightarrow> BREAKPOINT_INFO list \<Rightarrow> u64 \<Rightarrow> u8 list option" where
  "saved_code n t a = map_option (take n) (bp_map t a)"

definition target_of ::
  "'w agent \<Rightarrow> ('w \<Rightarrow> u64 \<Rightarrow> u8) \<Rightarrow> ('w \<Rightarrow> 'k set) \<Rightarrow> ('w \<Rightarrow> 'e) \<Rightarrow> 'w gdb \<Rightarrow> ('e, 'k) target" where
  "target_of ag mem armed view s = \<lparr>
     tg_registers = gSystemContext s,
     tg_memory = mem (world s),
     tg_breakpoints = saved_code (length (ag_mArchBreakpointInstruction ag)) (mBreakpoints s),
     tg_watchpoints = armed (world s),
     tg_protection = view (world s)\<rparr>"

lemma dom_saved_code [simp]: "dom (saved_code n t) = dom (bp_map t)"
  by (auto simp: saved_code_def dom_def)

lemma saved_code_update:
  "bp_map t' = (bp_map t)(a \<mapsto> v) \<Longrightarrow> saved_code n t' = (saved_code n t)(a \<mapsto> take n v)"
  "bp_map t' = (bp_map t)(a := None) \<Longrightarrow> saved_code n t' = (saved_code n t)(a := None)"
  by (auto simp: saved_code_def fun_eq_iff)

text \<open>
  Memory accessors and watchpoints with their contracts, and what ties them together:
  exactly the accessible bytes of a range are transferred, and no routine disturbs what
  another one maintains. \<open>sound\<close> is the state of the machine in which this holds; it also
  carries what the configuration has to satisfy.
\<close>

locale stub_target =
  breakpoint_memory ag mem +
  watchpoint_unit "ag_AddWatchpoint ag" "ag_RemoveWatchpoint ag" key armed capacity sound
  for ag :: "'w agent" and mem :: "'w \<Rightarrow> u64 \<Rightarrow> u8"
    and key :: "u64 \<Rightarrow> u64 \<Rightarrow> bool \<Rightarrow> bool \<Rightarrow> 'k option" and armed :: "'w \<Rightarrow> 'k set"
    and capacity :: nat and sound :: "'w \<Rightarrow> bool" +
  fixes view :: "'w \<Rightarrow> 'e"
    and readable writable :: "'e \<Rightarrow> (u64 \<Rightarrow> u8) \<Rightarrow> u64 \<Rightarrow> nat \<Rightarrow> nat"
  assumes sound_lib: "sound w \<Longrightarrow> lib_ok (ag_lib ag)"
    and sound_registers: "sound w \<Longrightarrow> regs_fit (ag_gRegisterOffsets ag) \<and> (\<exists>k. regs_layout (ag_gRegisterOffsets ag) k)"
    and sound_pages: "sound w \<Longrightarrow> \<not> ag_WindbgWorkarounds ag"
    and instr_nonempty: "ag_mArchBreakpointInstruction ag \<noteq> []"
    and read_exact: "sound w \<Longrightarrow> 0 < n \<Longrightarrow> n \<le> SCRATCH_SIZE \<Longrightarrow> ag_DbgReadMemory ag a n w = (ok, bs, w') \<Longrightarrow>
      length bs = readable (view w) (mem w) a n \<and> (ok \<longleftrightarrow> length bs = n)"
    and read_keeps: "sound w \<Longrightarrow> ag_DbgReadMemory ag a n w = (ok, bs, w') \<Longrightarrow>
      sound w' \<and> view w' = view w \<and> armed w' = armed w"
    and write_exact: "sound w \<Longrightarrow> bs \<noteq> [] \<Longrightarrow> length bs \<le> SCRATCH_SIZE \<Longrightarrow> ag_DbgWriteMemory ag a bs w = (ok, w') \<Longrightarrow>
      mem w' = write_bytes (mem w) a (take (writable (view w) (mem w) a (length bs)) bs) \<and>
      (ok \<longleftrightarrow> writable (view w) (mem w) a (length bs) = length bs)"
    and write_keeps: "sound w \<Longrightarrow> ag_DbgWriteMemory ag a bs w = (ok, w') \<Longrightarrow>
      sound w' \<and> view w' = view w \<and> armed w' = armed w"
    and flush_keeps: "sound w \<Longrightarrow> sound (ag_InvalidateInstructionCacheRange ag a n w) \<and>
      view (ag_InvalidateInstructionCacheRange ag a n w) = view w \<and>
      armed (ag_InvalidateInstructionCacheRange ag a n w) = armed w"
    and watch_keeps: "sound w \<Longrightarrow> ag_AddWatchpoint ag a l r x w = (ok, w') \<or>
      ag_RemoveWatchpoint ag a l r x w = (ok, w') \<Longrightarrow> mem w' = mem w \<and> view w' = view w"
begin

abbreviation platform :: "('e, 'k) platform" where
  "platform \<equiv> platform_of ag key capacity readable writable"

abbreviation target :: "'w gdb \<Rightarrow> ('e, 'k) target" where
  "target s \<equiv> target_of ag mem armed view s"

lemma instr_small: "length (ag_mArchBreakpointInstruction ag) \<le> SCRATCH_SIZE"
  using instr_size by (simp add: MAX_BREAKPOINT_SIZE_def SCRATCH_SIZE_def)

text \<open>Memory requests.\<close>

lemma serves_read:
  assumes sound: "sound (world s)" and da: "numeral_of da (unat a)" and dl: "numeral_of dl n"
    and n: "0 < n" "n \<le> SCRATCH_SIZE"
  shows "\<exists>w. ExecuteGdbCommand ag (109 # da @ 44 # dl @ 0 # x) (length da + length dl + 2) s =
      Inr (responded (reply_text (fst (serve platform (Get_memory a n) (target s)))) (s\<lparr>world := w\<rparr>)) \<and>
    target (s\<lparr>world := w\<rparr>) = snd (serve platform (Get_memory a n) (target s)) \<and> sound w"
proof -
  obtain ok bs w where rd: "ag_DbgReadMemory ag (of_nat (unat a)) n (world s) = (ok, bs, w)"
    by (metis prod_cases3)
  note rd' = rd [simplified]
  have win: "\<not> windbg_page ag (of_nat (unat a)) (of_nat n)"
    using sound_pages [OF sound] by (simp add: windbg_page_def)
  have len: "length bs \<le> n" using rd_length [OF rd] by simp
  have "bs = read_bytes (mem (world s)) a n" if ok using rd_success rd' that by simp
  moreover have "mem w = mem (world s)" by (rule rd_frame [OF rd])
  ultimately show ?thesis
    using ProcessMemoryCommand_read [OF sound_lib [OF sound] da dl n win rd len, of "length da + length dl + 1" x]
      read_exact [OF sound n rd'] read_keeps [OF sound rd']
    by (intro exI [of _ w]) (simp add: ExecuteGdbCommand_simps platform_of_def target_of_def)
qed

lemma serves_write:
  assumes sound: "sound (world s)" and da: "numeral_of da (unat a)" and dl: "numeral_of dl (length bs)"
    and n: "bs \<noteq> []" "length bs \<le> SCRATCH_SIZE"
  shows "\<exists>w. ExecuteGdbCommand ag (77 # da @ 44 # dl @ 58 # hex_bytes bs @ 0 # x)
        (length da + length dl + 2 * length bs + 3) s =
      Inr (responded (reply_text (fst (serve platform (Set_memory a bs) (target s)))) (s\<lparr>world := w\<rparr>)) \<and>
    target (s\<lparr>world := w\<rparr>) = snd (serve platform (Set_memory a bs) (target s)) \<and> sound w"
proof -
  obtain ok w where wr: "ag_DbgWriteMemory ag (of_nat (unat a)) bs (world s) = (ok, w)" by fastforce
  note wr' = wr [simplified]
  show ?thesis
    using ProcessMemoryCommand_write [OF sound_lib [OF sound] da dl n wr, of "length da + length dl + 2 * length bs + 2" x]
      write_exact [OF sound n wr'] write_keeps [OF sound wr']
    by (intro exI [of _ w]) (simp add: ExecuteGdbCommand_simps platform_of_def target_of_def Let_def add.assoc)
qed

end

context stub_target
begin

text \<open>Breakpoint requests, first the operations on the table.\<close>

lemma target_breakpoints:
  "dom (tg_breakpoints (target s)) = dom (bp_map (mBreakpoints s))"
  by (simp add: target_of_def)

lemma adds:
  assumes sound: "sound (world s)" and ok: "bp_table_ok (mBreakpoints s)"
    and adm: "admissible platform (Insert_breakpoint a) (target s)"
  shows "\<exists>r t w. AddSoftwareBreakpoint ag a (mBreakpoints s, world s) = Inr (r, t, w) \<and>
    fst (serve platform (Insert_breakpoint a) (target s)) = (if r then Acknowledged else Refused GDB_ERROR_INTERNAL) \<and>
    target (s\<lparr>mBreakpoints := t, world := w\<rparr>) = snd (serve platform (Insert_breakpoint a) (target s)) \<and>
    bp_table_ok t \<and> sound w"
proof -
  let ?n = "length (ag_mArchBreakpointInstruction ag)"
  let ?t = "mBreakpoints s"
  consider (dup) "bp_map ?t a \<noteq> None"
    | (full) "bp_map ?t a = None" "\<forall>e \<in> set ?t. bp_Active e"
    | (new) "bp_map ?t a = None" "\<exists>e \<in> set ?t. \<not> bp_Active e" by blast
  then show ?thesis
  proof cases
    case dup
    then have "a \<in> dom (tg_breakpoints (target s))" unfolding target_breakpoints by (simp add: domIff)
    with add_duplicate [OF dup, of "world s"] sound ok show ?thesis
      by (intro exI [of _ True] exI [of _ ?t] exI [of _ "world s"]) simp
  next
    case full
    then have no: "a \<notin> dom (tg_breakpoints (target s))"
      "\<not> card (dom (tg_breakpoints (target s))) < MAX_BREAKPOINTS"
      unfolding target_breakpoints using bp_map_full [OF ok] by (auto simp: domIff)
    then have "\<not> ag_asserts ag" using adm by (simp add: platform_of_def)
    with no add_full [OF full, of "world s"] sound ok show ?thesis
      by (intro exI [of _ False] exI [of _ ?t] exI [of _ "world s"]) simp
  next
    case new
    then have no: "a \<notin> dom (tg_breakpoints (target s))"
      "card (dom (tg_breakpoints (target s))) < MAX_BREAKPOINTS"
      unfolding target_breakpoints using bp_map_full [OF ok] by (auto simp: domIff)
    then have acc: "readable (view (world s)) (mem (world s)) a ?n = ?n"
      using adm by (simp add: platform_of_def target_of_def)
    obtain okr bs w1 where rd: "ag_DbgReadMemory ag a ?n (world s) = (okr, bs, w1)" by (metis prod_cases3)
    obtain okw w2 where wr: "ag_DbgWriteMemory ag a (ag_mArchBreakpointInstruction ag) w1 = (okw, w2)" by fastforce
    have s1: "sound w1" "view w1 = view (world s)" "armed w1 = armed (world s)" "mem w1 = mem (world s)"
      using read_keeps [OF sound rd] rd_frame [OF rd] by simp_all
    have "length bs = ?n" using read_exact [OF sound _ instr_small rd] instr_nonempty acc by simp
    then have bs: "bs = read_bytes (mem (world s)) a ?n" using rd_bytes [OF rd] by simp
    from add_new [OF ok new rd wr] obtain i y where iy: "i < length ?t" "\<not> bp_Active (?t ! i)"
      "bp_Active y" "bp_Address y = a" "bp_OriginalValue y = bs @ drop (length bs) (bp_OriginalValue (?t ! i))"
      and add: "AddSoftwareBreakpoint ag a (?t, world s) =
        Inr (True, ?t[i := y], ag_InvalidateInstructionCacheRange ag a ?n w2)"
      by (metis (no_types, lifting) BREAKPOINT_INFO.select_convs)
    let ?w = "ag_InvalidateInstructionCacheRange ag a ?n w2"
    have map: "bp_map (?t[i := y]) = (bp_map ?t)(a \<mapsto> bp_OriginalValue y)"
      using iy new by (simp add: bp_map_add)
    have saved: "take ?n (bp_OriginalValue y) = bs" using iy(5) bs by simp
    have w2: "sound w2" "view w2 = view (world s)" "armed w2 = armed (world s)"
      "mem w2 = write_bytes (mem (world s)) a
        (take (writable (view (world s)) (mem (world s)) a ?n) (ag_mArchBreakpointInstruction ag))"
      using write_keeps [OF s1(1) wr] write_exact [OF s1(1) instr_nonempty instr_small wr] s1 by simp_all
    have "target (s\<lparr>mBreakpoints := ?t[i := y], world := ?w\<rparr>) = snd (serve platform (Insert_breakpoint a) (target s))"
      using no w2 flush_keeps [OF w2(1), of a ?n] saved
      by (simp add: Let_def) (simp add: target_of_def platform_of_def saved_code_update(1) [OF map] flush_mem bs)
    then show ?thesis
      using add add_refines(1) [OF ok add] no flush_keeps [OF w2(1), of a ?n]
      by (intro exI [of _ True] exI [of _ "?t[i := y]"] exI [of _ ?w]) (simp add: Let_def)
  qed
qed

lemma removes:
  assumes sound: "sound (world s)" and ok: "bp_table_ok (mBreakpoints s)"
  shows "\<exists>r t w. RemoveSoftwareBreakpoint ag a (mBreakpoints s, world s) = (r, t, w) \<and>
    fst (serve platform (Delete_breakpoint a) (target s)) = (if r then Acknowledged else Refused GDB_ERROR_INTERNAL) \<and>
    target (s\<lparr>mBreakpoints := t, world := w\<rparr>) = snd (serve platform (Delete_breakpoint a) (target s)) \<and>
    bp_table_ok t \<and> sound w"
proof -
  let ?n = "length (ag_mArchBreakpointInstruction ag)"
  let ?t = "mBreakpoints s"
  show ?thesis
  proof (cases "bp_map ?t a")
    case None
    then have "RemoveSoftwareBreakpoint ag a (?t, world s) = (False, ?t, world s)"
      by (simp add: RemoveSoftwareBreakpoint_def RemoveSoftwareBreakpoint_scan_None [THEN iffD2])
    moreover have "tg_breakpoints (target s) a = None" using None by (simp add: target_of_def saved_code_def)
    ultimately show ?thesis using sound ok
      by (intro exI [of _ False] exI [of _ ?t] exI [of _ "world s"]) simp
  next
    case (Some v)
    then have some: "bp_map ?t a \<noteq> None" by simp
    from remove_cases [OF ok some, of "world s"] obtain i w1 okw where
      i: "i < length ?t" "bp_Active (?t ! i)" "bp_Address (?t ! i) = a"
      and wr: "ag_DbgWriteMemory ag a (take ?n (bp_OriginalValue (?t ! i))) (world s) = (okw, w1)"
      and rm: "RemoveSoftwareBreakpoint ag a (?t, world s) = (True, ?t[i := (?t ! i)\<lparr>bp_Active := False\<rparr>],
           ag_InvalidateInstructionCacheRange ag a ?n w1)" by blast
    let ?w = "ag_InvalidateInstructionCacheRange ag a ?n w1"
    have uniq: "bp_unique ?t" and len: "length (bp_OriginalValue (?t ! i)) = MAX_BREAKPOINT_SIZE"
      using ok i by (simp_all add: bp_table_ok_def)
    have v: "v = bp_OriginalValue (?t ! i)"
    proof -
      obtain j where scan: "RemoveSoftwareBreakpoint_scan ?t a = Some j"
        using some RemoveSoftwareBreakpoint_scan_None [of ?t a] by auto
      from RemoveSoftwareBreakpoint_scan_Some [OF scan] Some i bp_uniqueD [OF uniq, of i j]
      show ?thesis by simp
    qed
    have map: "bp_map (?t[i := (?t ! i)\<lparr>bp_Active := False\<rparr>]) = (bp_map ?t)(a := None)"
      using uniq i by (simp add: bp_map_remove)
    have n: "length (take ?n v) = ?n" "length (take ?n v) \<le> SCRATCH_SIZE" "take ?n v \<noteq> []"
      using len v instr_size instr_small instr_nonempty by (simp_all, auto simp: MAX_BREAKPOINT_SIZE_def)
    have w1: "sound w1" "view w1 = view (world s)" "armed w1 = armed (world s)"
      "mem w1 = write_bytes (mem (world s)) a (take (writable (view (world s)) (mem (world s)) a ?n) (take ?n v))"
      using write_keeps [OF sound wr] write_exact [OF sound n(3,2) wr [folded v]] n(1) by simp_all
    have "target (s\<lparr>mBreakpoints := ?t[i := (?t ! i)\<lparr>bp_Active := False\<rparr>], world := ?w\<rparr>) =
        snd (serve platform (Delete_breakpoint a) (target s))"
      using w1 flush_keeps [OF w1(1), of a ?n] Some n(1)
      by (simp add: target_of_def platform_of_def saved_code_update(2) [OF map] flush_mem) (simp add: saved_code_def)
    moreover have "tg_breakpoints (target s) a = Some (take ?n v)" using Some by (simp add: target_of_def saved_code_def)
    ultimately show ?thesis
      using rm remove_refines(1) [OF ok rm] flush_keeps [OF w1(1), of a ?n]
      by (intro exI [of _ True] exI [of _ "?t[i := (?t ! i)\<lparr>bp_Active := False\<rparr>]"] exI [of _ ?w]) simp
  qed
qed

end

context stub_target
begin

text \<open>Watchpoint requests.\<close>

lemma watches:
  assumes sound: "sound (world s)"
  shows "ag_AddWatchpoint ag a l (reads_watch k) (writes_watch k) (world s) = (r, w) \<Longrightarrow>
      fst (serve platform (Insert_watchpoint k a l) (target s)) = (if r then Acknowledged else Refused GDB_ERROR_INTERNAL) \<and>
      target (s\<lparr>world := w\<rparr>) = snd (serve platform (Insert_watchpoint k a l) (target s)) \<and> sound w"
    and "ag_RemoveWatchpoint ag a l (reads_watch k) (writes_watch k) (world s) = (r, w) \<Longrightarrow>
      fst (serve platform (Delete_watchpoint k a l) (target s)) = (if r then Acknowledged else Refused GDB_ERROR_INTERNAL) \<and>
      target (s\<lparr>world := w\<rparr>) = snd (serve platform (Delete_watchpoint k a l) (target s)) \<and> sound w"
proof -
  assume add: "ag_AddWatchpoint ag a l (reads_watch k) (writes_watch k) (world s) = (r, w)"
  note keeps = watch_keeps [OF sound disjI1 [OF add]] add_inv [OF sound add]
  show "fst (serve platform (Insert_watchpoint k a l) (target s)) = (if r then Acknowledged else Refused GDB_ERROR_INTERNAL) \<and>
      target (s\<lparr>world := w\<rparr>) = snd (serve platform (Insert_watchpoint k a l) (target s)) \<and> sound w"
  proof (cases r)
    case True
    then have "ag_AddWatchpoint ag a l (reads_watch k) (writes_watch k) (world s) = (True, w)" using add by simp
    from add_True [OF sound this] obtain key' where k: "key a l (reads_watch k) (writes_watch k) = Some key'"
      "armed w = insert key' (armed (world s))" by blast
    have "card (armed w) \<le> capacity" "finite (armed (world s))"
      using armed_capacity keeps(2) sound by blast+
    then have "key' \<in> armed (world s) \<or> card (armed (world s)) < capacity"
      unfolding k(2) by (cases "key' \<in> armed (world s)") auto
    with True k keeps show ?thesis by (simp add: target_of_def platform_of_def)
  next
    case False
    with add_False [OF sound] add keeps show ?thesis
      by (fastforce simp: target_of_def platform_of_def split: option.splits)
  qed
next
  assume rm: "ag_RemoveWatchpoint ag a l (reads_watch k) (writes_watch k) (world s) = (r, w)"
  note keeps = watch_keeps [OF sound disjI2 [OF rm]] remove_inv [OF sound rm]
  show "fst (serve platform (Delete_watchpoint k a l) (target s)) = (if r then Acknowledged else Refused GDB_ERROR_INTERNAL) \<and>
      target (s\<lparr>world := w\<rparr>) = snd (serve platform (Delete_watchpoint k a l) (target s)) \<and> sound w"
  proof (cases r)
    case True
    then have "ag_RemoveWatchpoint ag a l (reads_watch k) (writes_watch k) (world s) = (True, w)" using rm by simp
    from remove_True [OF sound this] obtain key' where "key a l (reads_watch k) (writes_watch k) = Some key'"
      "key' \<in> armed (world s)" "armed w = armed (world s) - {key'}" by blast
    with True keeps show ?thesis by (simp add: target_of_def platform_of_def)
  next
    case False
    with remove_False [OF sound] rm keeps show ?thesis
      by (fastforce simp: target_of_def platform_of_def split: option.splits)
  qed
qed

lemma watch_flags:
  "watch_type k = 3 \<or> watch_type k = 4 \<longleftrightarrow> reads_watch k"
  "watch_type k = 2 \<or> watch_type k = 4 \<longleftrightarrow> writes_watch k"
  "watch_type k \<noteq> 0" "2 \<le> watch_type k" "watch_type k \<le> 4"
  by (cases k; simp)+

end

text \<open>
  The outcome of a command: the reply is sent, nothing but the context, the table and the
  machine has changed, and these stand for the target that the request leads to.
\<close>

definition outcome ::
  "'w agent \<Rightarrow> ('w gdb \<Rightarrow> 't) \<Rightarrow> ('w \<Rightarrow> bool) \<Rightarrow> u8 list \<Rightarrow> u8 list \<Rightarrow> 'w gdb \<Rightarrow> reply \<times> 't \<Rightarrow> bool" where
  "outcome ag tg sound body x s served \<longleftrightarrow> (\<exists>c t w. ExecuteGdbCommand ag (body @ 0 # x) (length body) s =
      Inr (responded (reply_text (fst served)) (s\<lparr>gSystemContext := c, mBreakpoints := t, world := w\<rparr>)) \<and>
    tg (s\<lparr>gSystemContext := c, mBreakpoints := t, world := w\<rparr>) = snd served \<and> bp_table_ok t \<and> sound w)"

lemma outcome_world:
  assumes "ExecuteGdbCommand ag (body @ 0 # x) (length body) s = Inr (responded (reply_text (fst served)) (s\<lparr>world := w\<rparr>))"
    and "tg (s\<lparr>world := w\<rparr>) = snd served" and "bp_table_ok (mBreakpoints s)" and "sound w"
  shows "outcome ag tg sound body x s served"
  unfolding outcome_def using assms
  by (intro exI [of _ "gSystemContext s"] exI [of _ "mBreakpoints s"] exI [of _ w]) simp

lemma outcome_table:
  assumes "ExecuteGdbCommand ag (body @ 0 # x) (length body) s =
      Inr (responded (reply_text (fst served)) (s\<lparr>mBreakpoints := t, world := w\<rparr>))"
    and "tg (s\<lparr>mBreakpoints := t, world := w\<rparr>) = snd served" and "bp_table_ok t" and "sound w"
  shows "outcome ag tg sound body x s served"
  unfolding outcome_def using assms by (intro exI [of _ "gSystemContext s"] exI [of _ t] exI [of _ w]) simp

lemma outcome_context:
  assumes "ExecuteGdbCommand ag (body @ 0 # x) (length body) s =
      Inr (responded (reply_text (fst served)) (s\<lparr>gSystemContext := c\<rparr>))"
    and "tg (s\<lparr>gSystemContext := c\<rparr>) = snd served" and "bp_table_ok (mBreakpoints s)" and "sound (world s)"
  shows "outcome ag tg sound body x s served"
  unfolding outcome_def using assms
  by (intro exI [of _ c] exI [of _ "mBreakpoints s"] exI [of _ "world s"]) simp

lemma bp_reply_text: "reply_text (if b then Acknowledged else Refused GDB_ERROR_INTERNAL) = bp_reply b"
  by (simp add: bp_reply_def)

context stub_target
begin

text \<open>The requests by kind: registers, memory, breakpoints, watchpoints, questions.\<close>

lemma register_outcome:
  assumes sound: "sound (world s)" and ok: "bp_table_ok (mBreakpoints s)"
    and req: "request_text (ag_gRegisterOffsets ag) body r" and adm: "admissible platform r (target s)"
    and kind: "r \<in> {Get_registers, Set_registers c0, Get_register i, Set_register i v}"
  shows "outcome ag target sound body x s (serve platform r (target s))"
proof -
  obtain k where lay: "regs_layout (ag_gRegisterOffsets ag) k" and fit: "regs_fit (ag_gRegisterOffsets ag)"
    using sound_registers [OF sound] by blast
  obtain c where c: "ExecuteGdbCommand ag (body @ 0 # x) (length body) s =
      Inr (responded (reply_text (fst (serve platform r (target s)))) (s\<lparr>gSystemContext := c\<rparr>))"
    "snd (serve platform r (target s)) = (target s)\<lparr>tg_registers := c\<rparr>"
    using ExecuteGdbCommand_registers [OF sound_lib [OF sound] lay fit _ _ req adm kind]
    by (auto simp: platform_of_def target_of_def)
  show ?thesis by (rule outcome_context [OF c(1)]) (use c(2) sound ok in \<open>simp_all add: target_of_def\<close>)
qed

lemma memory_outcome:
  assumes sound: "sound (world s)" and ok: "bp_table_ok (mBreakpoints s)" and da: "numeral_of da (unat a)"
  shows "numeral_of dl n \<Longrightarrow> admissible platform (Get_memory a n) (target s) \<Longrightarrow>
      outcome ag target sound (109 # da @ 44 # dl) x s (serve platform (Get_memory a n) (target s))"
    and "numeral_of dl (length bs) \<Longrightarrow> admissible platform (Set_memory a bs) (target s) \<Longrightarrow>
      outcome ag target sound (77 # da @ 44 # dl @ 58 # hex_bytes bs) x s (serve platform (Set_memory a bs) (target s))"
proof -
  assume "numeral_of dl n" "admissible platform (Get_memory a n) (target s)"
  with serves_read [OF sound da, of dl n x] obtain w where
    "ExecuteGdbCommand ag (109 # da @ 44 # dl @ 0 # x) (length da + length dl + 2) s =
      Inr (responded (reply_text (fst (serve platform (Get_memory a n) (target s)))) (s\<lparr>world := w\<rparr>))"
    "target (s\<lparr>world := w\<rparr>) = snd (serve platform (Get_memory a n) (target s))" "sound w" by auto
  then show "outcome ag target sound (109 # da @ 44 # dl) x s (serve platform (Get_memory a n) (target s))"
    using ok by (intro outcome_world) simp_all
next
  assume "numeral_of dl (length bs)" "admissible platform (Set_memory a bs) (target s)"
  with serves_write [OF sound da, of dl bs x] obtain w where
    "ExecuteGdbCommand ag (77 # da @ 44 # dl @ 58 # hex_bytes bs @ 0 # x) (length da + length dl + 2 * length bs + 3) s =
      Inr (responded (reply_text (fst (serve platform (Set_memory a bs) (target s)))) (s\<lparr>world := w\<rparr>))"
    "target (s\<lparr>world := w\<rparr>) = snd (serve platform (Set_memory a bs) (target s))" "sound w" by auto
  then show "outcome ag target sound (77 # da @ 44 # dl @ 58 # hex_bytes bs) x s (serve platform (Set_memory a bs) (target s))"
    using ok by (intro outcome_world) (simp_all add: add.assoc eval_nat_numeral)
qed

lemma breakpoint_outcome:
  assumes sound: "sound (world s)" and ok: "bp_table_ok (mBreakpoints s)"
    and num: "numeral_of d 0" "numeral_of da (unat a)" "numeral_of dl l"
  shows "admissible platform (Insert_breakpoint a) (target s) \<Longrightarrow>
      outcome ag target sound (90 # d @ 44 # da @ 44 # dl) x s (serve platform (Insert_breakpoint a) (target s))"
    and "outcome ag target sound (122 # d @ 44 # da @ 44 # dl) x s (serve platform (Delete_breakpoint a) (target s))"
proof -
  note lib = sound_lib [OF sound]
  assume "admissible platform (Insert_breakpoint a) (target s)"
  with adds [OF sound ok, of a] obtain b t w where
    "AddSoftwareBreakpoint ag a (mBreakpoints s, world s) = Inr (b, t, w)"
    "fst (serve platform (Insert_breakpoint a) (target s)) = (if b then Acknowledged else Refused GDB_ERROR_INTERNAL)"
    "target (s\<lparr>mBreakpoints := t, world := w\<rparr>) = snd (serve platform (Insert_breakpoint a) (target s))"
    "bp_table_ok t" "sound w"
    by auto
  with ProcessBreakpoint_eq [OF lib num, of False x s] show
    "outcome ag target sound (90 # d @ 44 # da @ 44 # dl) x s (serve platform (Insert_breakpoint a) (target s))"
    by (intro outcome_table [where t = t and w = w]) (simp_all add: ExecuteGdbCommand_simps bp_reply_text del: serve.simps)
next
  note lib = sound_lib [OF sound]
  from removes [OF sound ok, of a] obtain b t w where
    "RemoveSoftwareBreakpoint ag a (mBreakpoints s, world s) = (b, t, w)"
    "fst (serve platform (Delete_breakpoint a) (target s)) = (if b then Acknowledged else Refused GDB_ERROR_INTERNAL)"
    "target (s\<lparr>mBreakpoints := t, world := w\<rparr>) = snd (serve platform (Delete_breakpoint a) (target s))"
    "bp_table_ok t" "sound w"
    by auto
  with ProcessBreakpoint_eq [OF lib num, of True x s] show
    "outcome ag target sound (122 # d @ 44 # da @ 44 # dl) x s (serve platform (Delete_breakpoint a) (target s))"
    by (intro outcome_table [where t = t and w = w]) (simp_all add: ExecuteGdbCommand_simps bp_reply_text del: serve.simps)
qed

lemma watchpoint_outcome:
  assumes sound: "sound (world s)" and ok: "bp_table_ok (mBreakpoints s)"
    and num: "numeral_of d (watch_type k)" "numeral_of da (unat a)" "numeral_of dl (unat l)"
  shows "outcome ag target sound (90 # d @ 44 # da @ 44 # dl) x s (serve platform (Insert_watchpoint k a l) (target s))"
    and "outcome ag target sound (122 # d @ 44 # da @ 44 # dl) x s (serve platform (Delete_watchpoint k a l) (target s))"
proof -
  note lib = sound_lib [OF sound]
  obtain b w where wp: "ag_AddWatchpoint ag a l (reads_watch k) (writes_watch k) (world s) = (b, w)" by fastforce
  from watches(1) [OF sound wp] ProcessBreakpoint_eq [OF lib num, of False x s] wp ok show
    "outcome ag target sound (90 # d @ 44 # da @ 44 # dl) x s (serve platform (Insert_watchpoint k a l) (target s))"
    by (intro outcome_world [where w = w])
      (simp_all add: ExecuteGdbCommand_simps bp_reply_text watch_flags del: serve.simps)
  obtain b w where wp: "ag_RemoveWatchpoint ag a l (reads_watch k) (writes_watch k) (world s) = (b, w)" by fastforce
  from watches(2) [OF sound wp] ProcessBreakpoint_eq [OF lib num, of True x s] wp ok show
    "outcome ag target sound (122 # d @ 44 # da @ 44 # dl) x s (serve platform (Delete_watchpoint k a l) (target s))"
    by (intro outcome_world [where w = w])
      (simp_all add: ExecuteGdbCommand_simps bp_reply_text watch_flags del: serve.simps)
qed

lemma question_outcome:
  assumes sound: "sound (world s)" and ok: "bp_table_ok (mBreakpoints s)"
    and req: "request_text (ag_gRegisterOffsets ag) body (Ask q)"
  shows "outcome ag target sound body x s (serve platform (Ask q) (target s))"
  using ExecuteGdbCommand_question [OF req] assms by (intro outcome_world [where w = "world s"]) simp_all

text \<open>One request, whatever it is.\<close>

theorem serves_outcome:
  assumes sound: "sound (world s)" and ok: "bp_table_ok (mBreakpoints s)"
    and req: "request_text (ag_gRegisterOffsets ag) body r" and adm: "admissible platform r (target s)"
  shows "outcome ag target sound body x s (serve platform r (target s))"
proof -
  note reg = register_outcome [OF sound ok req adm, of _ _ _ x]
  from req show ?thesis
  proof (cases rule: request_text.cases)
    case 1
    then show ?thesis by (intro reg) simp
  next
    case (2 c)
    then show ?thesis by (intro reg [of c]) simp
  next
    case (3 d i)
    then show ?thesis by (intro reg [of _ i]) simp
  next
    case (4 d i v)
    then show ?thesis by (intro reg [of _ i v]) simp
  next
    case (5 da a dl n)
    from memory_outcome(1) [OF sound ok 5(3,4)] adm show ?thesis unfolding 5(1,2) by blast
  next
    case (6 da a dl bs)
    from memory_outcome(2) [OF sound ok 6(3,4)] adm show ?thesis unfolding 6(1,2) by blast
  next
    case (7 d da a dl l)
    from breakpoint_outcome(1) [OF sound ok 7(3-5)] adm show ?thesis unfolding 7(1,2) by blast
  next
    case (8 d da a dl l)
    from breakpoint_outcome(2) [OF sound ok 8(3-5)] show ?thesis unfolding 8(1,2) by blast
  next
    case (9 d k da a dl l)
    from watchpoint_outcome(1) [OF sound ok 9(3-5)] show ?thesis unfolding 9(1,2) by blast
  next
    case (10 d k da a dl l)
    from watchpoint_outcome(2) [OF sound ok 10(3-5)] show ?thesis unfolding 10(1,2) by blast
  next
    case 11
    then show ?thesis using sound ok
      by (intro outcome_world [where w = "world s"]) (simp_all add: ExecuteGdbCommand_stop_reason)
  qed (use question_outcome [OF sound ok] req in blast)+
qed

lemmas serves = serves_outcome [unfolded outcome_def]

end

end
