(* ===== verification/Conversation.thy ===== *)
theory Conversation
  imports Simulation Session
begin

text \<open>
  A whole stop, from the stop reply to the resume request: the client's messages arrive with
  pauses of any length between them, and the stub's request loop, with its timeouts and its
  nested polls, answers them in order as \<open>serve\<close> does. The messages are requests,
  acknowledgements, demands to repeat, and bytes that mean nothing.
\<close>

section \<open>Messages\<close>

datatype message = Acknowledge | Repeat | Noise u8 | Send "u8 list" request

fun message_bytes :: "message \<Rightarrow> u8 list" where
  "message_bytes Acknowledge = [43]"
| "message_bytes Repeat = [45]"
| "message_bytes (Noise b) = [b]"
| "message_bytes (Send body r) = frame body"

text \<open>A message after as many polls that find nothing as the number says.\<close>

type_synonym conversation = "(nat \<times> message) list"

fun stream :: "conversation \<Rightarrow> u8 option list" where
  "stream [] = []"
| "stream ((k, e) # cs) = replicate k None @ map Some (message_bytes e) @ stream cs"

fun message_ok :: "GDB_REGISTER_OFFSET_DATA list \<Rightarrow> message \<Rightarrow> bool" where
  "message_ok t (Send body r) \<longleftrightarrow> request_text t body r \<and> length body + 4 \<le> MAX_REQUEST_SIZE"
| "message_ok t (Noise b) \<longleftrightarrow> b \<noteq> 36 \<and> b \<noteq> 43 \<and> b \<noteq> 45"
| "message_ok t _ \<longleftrightarrow> True"

fun requests :: "conversation \<Rightarrow> request list" where
  "requests [] = []"
| "requests ((k, Send body r) # cs) = r # requests cs"
| "requests ((k, _) # cs) = requests cs"

text \<open>
  What the client receives: each request is acknowledged and answered, and a demand to repeat
  brings the last packet again, unless that has been acknowledged.
\<close>

fun transcript ::
  "('e, 'k) platform \<Rightarrow> conversation \<Rightarrow> u8 list \<Rightarrow> bool \<Rightarrow> ('e, 'k) target \<Rightarrow> u8 list" where
  "transcript P [] prev acked T = []"
| "transcript P ((k, Acknowledge) # cs) prev acked T = transcript P cs prev True T"
| "transcript P ((k, Repeat) # cs) prev acked T =
     (if acked then [] else frame prev) @ transcript P cs prev acked T"
| "transcript P ((k, Noise b) # cs) prev acked T = transcript P cs prev acked T"
| "transcript P ((k, Send body r) # cs) prev acked T =
     (case serve P r T of (x, T') \<Rightarrow>
        43 # frame (reply_text x) @ transcript P cs (reply_text x) False T')"

text \<open>The pause before the first byte, and what follows it.\<close>

lemma stream_head:
  obtains k b r cs' n' where "stream cs @ replicate n None @ map Some (frame body) = replicate k None @ Some b # r"
    and "Some b # r = stream cs' @ replicate n' None @ map Some (frame body)"
    and "requests cs' = requests cs" and "transcript P cs' = transcript P cs" and "snd ` set cs' = snd ` set cs"
proof (cases cs rule: stream.cases)
  case 1
  then show ?thesis by (intro that [of n 36 _ "[]" 0]) (auto simp: frame_def)
next
  case (2 k e cs1)
  obtain b r where b: "message_bytes e = b # r" by (cases e) (auto simp: frame_def)
  have "transcript P ((0, e) # cs1) = transcript P cs" using 2 by (intro ext) (cases e; simp)
  moreover have "requests ((0, e) # cs1) = requests cs" using 2 by (cases e) simp_all
  ultimately show ?thesis
    using 2 b by (intro that [of k b "map Some r @ stream cs1 @ replicate n None @ map Some (frame body)" "(0, e) # cs1" n]) simp_all
qed

section \<open>Positions in the request loop\<close>

text \<open>Between two polls of \<open>ReportEntryToDebugger\<close>, and inside \<open>ProcessInputData\<close>.\<close>

definition outside :: "'w agent \<Rightarrow> u64 \<Rightarrow> 'w gdb \<Rightarrow> (stop + 'w gdb) option" where
  "outside ag E s =
     obind (ReportEntryToDebugger_input ag s) (\<lambda>s1.
        if \<not> mConnectionOccurred s1 \<and> E \<noteq> 0 then
          obind (Some (GetTimeMs ag s1)) (\<lambda>(t, s2).
            ReportEntryToDebugger_loop ag E (if E \<le> t then s2\<lparr>gRunning := True\<rparr> else s2))
        else ReportEntryToDebugger_loop ag E s1)"

definition inside :: "'w agent \<Rightarrow> u64 \<Rightarrow> u8 list \<Rightarrow> 'w gdb \<Rightarrow> (stop + 'w gdb) option" where
  "inside ag E m s = obind (ProcessInputData_loop ag m s) (outside ag E)"

lemma obind_assoc: "obind (obind m f) g = obind m (\<lambda>x. obind (f x) g)"
  by (cases m) (auto simp: obind_def split: sum.split)

lemma loop_outside: "\<not> gRunning s \<Longrightarrow> ReportEntryToDebugger_loop ag E s = outside ag E s"
  unfolding outside_def by (subst ReportEntryToDebugger_loop.simps) simp

lemma outside_pending:
  assumes "rx s = Some b # r"
  shows "outside ag E s = inside ag E (replicate MAX_REQUEST_SIZE 0) s"
proof -
  have "ReportEntryToDebugger_input ag s = obind (ProcessInputData ag s) (ReportEntryToDebugger_input ag)"
    using assms by (subst ReportEntryToDebugger_input.simps) simp
  then show ?thesis by (simp add: outside_def [abs_def] inside_def ProcessInputData_def obind_assoc)
qed

text \<open>The conditions under which waiting changes nothing: stopped, and no timeout armed.\<close>

abbreviation waiting :: "u64 \<Rightarrow> 'w gdb \<Rightarrow> bool" where
  "waiting E s \<equiv> \<not> gRunning s \<and> (mConnectionOccurred s \<or> E = 0)"

lemma outside_gap:
  "waiting E s \<Longrightarrow> rx s = replicate k None @ Some b # r \<Longrightarrow>
     outside ag E s = inside ag E (replicate MAX_REQUEST_SIZE 0) (s\<lparr>rx := Some b # r\<rparr>)"
proof (induction k arbitrary: s)
  case 0
  then have same: "s\<lparr>rx := Some b # r\<rparr> = s" by (cases s) simp
  show ?case unfolding same using 0 outside_pending [of s b r ag E] by simp
next
  case (Suc k)
  let ?s = "s\<lparr>rx := replicate k None @ Some b # r\<rparr>"
  have "ReportEntryToDebugger_input ag s = Some (Inr ?s)"
    using Suc.prems by (subst ReportEntryToDebugger_input.simps) simp
  then have "outside ag E s = ReportEntryToDebugger_loop ag E ?s"
    using Suc.prems by (auto simp: outside_def)
  with Suc.IH [of ?s] Suc.prems show ?case by (simp add: loop_outside)
qed

text \<open>A read either finds the next byte or gives up during the pause before it.\<close>

lemma DebugReadByte_loop_gap:
  "clock_total ag (world s) \<Longrightarrow> rx s = replicate k None @ Some b # r \<Longrightarrow>
     (\<exists>n \<ge> clock_reads s. n \<le> clock_reads s + k \<and>
        DebugReadByte_loop ag E s = Some (Inr (Some b, s\<lparr>rx := r, clock_reads := n\<rparr>))) \<or>
     (\<exists>j n. 0 < k \<and> n \<le> clock_reads s + k \<and> DebugReadByte_loop ag E s =
        Some (Inr (None, s\<lparr>rx := replicate j None @ Some b # r, clock_reads := n\<rparr>)))"
proof (induction k arbitrary: s)
  case 0
  then show ?case by (intro disjI1 exI [of _ "clock_reads s"]) (simp add: DebugReadByte_loop.simps)
next
  case (Suc k)
  let ?s = "s\<lparr>rx := replicate k None @ Some b # r\<rparr>"
  obtain t where t: "GetTimeMs ag ?s = Inr (t, ?s\<lparr>clock_reads := Suc (clock_reads ?s)\<rparr>)"
    using clock_totalE [of ag ?s] Suc.prems by auto
  show ?case
  proof (cases "t < E")
    case True
    then have "DebugReadByte_loop ag E s = DebugReadByte_loop ag E (?s\<lparr>clock_reads := Suc (clock_reads s)\<rparr>)"
      using Suc.prems t by (subst DebugReadByte_loop.simps) simp
    moreover have "(\<exists>n \<ge> Suc (clock_reads s). n \<le> Suc (clock_reads s) + k \<and>
        DebugReadByte_loop ag E (?s\<lparr>clock_reads := Suc (clock_reads s)\<rparr>) =
          Some (Inr (Some b, s\<lparr>rx := r, clock_reads := n\<rparr>))) \<or>
      (\<exists>j n. 0 < k \<and> n \<le> Suc (clock_reads s) + k \<and>
        DebugReadByte_loop ag E (?s\<lparr>clock_reads := Suc (clock_reads s)\<rparr>) =
          Some (Inr (None, s\<lparr>rx := replicate j None @ Some b # r, clock_reads := n\<rparr>)))"
      using Suc.IH [of "?s\<lparr>clock_reads := Suc (clock_reads s)\<rparr>"] Suc.prems by simp
    ultimately show ?thesis
      by (elim disjE exE conjE) (simp_all only: add_Suc_right add_Suc zero_less_Suc, (blast dest: Suc_leD)+)
  next
    case False
    then have "DebugReadByte_loop ag E s = Some (Inr (None, ?s\<lparr>clock_reads := Suc (clock_reads s)\<rparr>))"
      using Suc.prems t by (subst DebugReadByte_loop.simps) simp
    then show ?thesis by (intro disjI2 exI [of _ k] exI [of _ "Suc (clock_reads s)"]) simp
  qed
qed

text \<open>Either way the clock is read at most twice for each poll of the pause.\<close>

lemma DebugReadByte_gap:
  assumes "clock_total ag (world s)" and "rx s = replicate k None @ Some b # r"
  shows "(\<exists>n \<le> clock_reads s + 2 * k.
        DebugReadByte ag T s = Some (Inr (Some b, s\<lparr>rx := r, clock_reads := Suc n\<rparr>))) \<or>
     (\<exists>j. \<exists>n \<le> clock_reads s + 2 * k. DebugReadByte ag T s =
        Some (Inr (None, s\<lparr>rx := replicate j None @ Some b # r, clock_reads := n\<rparr>)))"
proof -
  obtain t where t: "GetTimeMs ag s = Inr (t, s\<lparr>clock_reads := Suc (clock_reads s)\<rparr>)"
    using clock_totalE [OF assms(1)] .
  have "DebugReadByte ag T s = DebugReadByte_loop ag (t + ucast T) (s\<lparr>clock_reads := Suc (clock_reads s)\<rparr>)"
    by (simp add: DebugReadByte_def t)
  moreover have "(\<exists>n \<ge> Suc (clock_reads s). n \<le> Suc (clock_reads s) + k \<and>
        DebugReadByte_loop ag (t + ucast T) (s\<lparr>clock_reads := Suc (clock_reads s)\<rparr>) =
          Some (Inr (Some b, s\<lparr>rx := r, clock_reads := n\<rparr>))) \<or>
      (\<exists>j n. 0 < k \<and> n \<le> Suc (clock_reads s) + k \<and>
        DebugReadByte_loop ag (t + ucast T) (s\<lparr>clock_reads := Suc (clock_reads s)\<rparr>) =
          Some (Inr (None, s\<lparr>rx := replicate j None @ Some b # r, clock_reads := n\<rparr>)))"
    using DebugReadByte_loop_gap [of ag "s\<lparr>clock_reads := Suc (clock_reads s)\<rparr>" k b r "t + ucast T"] assms
    by simp
  ultimately show ?thesis
  proof (elim disjE exE conjE, goal_cases)
    case (1 n)
    then obtain i where "n = Suc i" by (auto dest: Suc_le_D)
    then show ?thesis using 1 by (intro disjI1 exI [of _ i]) simp
  next
    case (2 j n)
    then show ?thesis by (intro disjI2 exI [of _ j] exI [of _ n]) simp
  qed
qed

section \<open>One message\<close>

text \<open>A pause before a byte does not matter, whichever loop it is spent in.\<close>

lemma inside_gap:
  assumes "clock_total ag (world s)" and "waiting E s" and "rx s = replicate k None @ Some b # r"
    and "length m = MAX_REQUEST_SIZE"
  shows "\<exists>m' n. length m' = MAX_REQUEST_SIZE \<and> n \<le> clock_reads s + 2 * k \<and>
    inside ag E m s = inside ag E m' (s\<lparr>rx := Some b # r, clock_reads := n\<rparr>)"
  using DebugReadByte_gap [OF assms(1,3), of 10]
proof (elim disjE exE conjE)
  fix n
  assume n: "n \<le> clock_reads s + 2 * k" and rd: "DebugReadByte ag 10 s = Some (Inr (Some b, s\<lparr>rx := r, clock_reads := Suc n\<rparr>))"
  have "DebugReadByte ag 10 (s\<lparr>rx := Some b # r, clock_reads := n\<rparr>) =
      Some (Inr (Some b, s\<lparr>rx := r, clock_reads := Suc n\<rparr>))"
    using DebugReadByte_pending [of ag "s\<lparr>rx := Some b # r, clock_reads := n\<rparr>" b r 10] assms(1) by simp
  with rd have "ProcessInputData_loop ag m s = ProcessInputData_loop ag m (s\<lparr>rx := Some b # r, clock_reads := n\<rparr>)"
    by (simp add: ProcessInputData_loop.simps [of ag m])
  then show ?thesis using assms(4) n by (intro exI [of _ m] exI [of _ n]) (simp add: inside_def)
next
  fix j n
  assume n: "n \<le> clock_reads s + 2 * k" and "DebugReadByte ag 10 s = Some (Inr (None, s\<lparr>rx := replicate j None @ Some b # r, clock_reads := n\<rparr>))"
  then have "ProcessInputData_loop ag m s = Some (Inr (s\<lparr>rx := replicate j None @ Some b # r, clock_reads := n\<rparr>))"
    by (simp add: ProcessInputData_loop.simps [of ag m])
  then have "inside ag E m s = outside ag E (s\<lparr>rx := replicate j None @ Some b # r, clock_reads := n\<rparr>)"
    by (simp add: inside_def)
  also have "\<dots> = inside ag E (replicate MAX_REQUEST_SIZE 0)
      (s\<lparr>rx := replicate j None @ Some b # r, clock_reads := n\<rparr>\<lparr>rx := Some b # r\<rparr>)"
    using assms(2) by (intro outside_gap [where k = j]) simp_all
  also have "s\<lparr>rx := replicate j None @ Some b # r, clock_reads := n\<rparr>\<lparr>rx := Some b # r\<rparr> =
      s\<lparr>rx := Some b # r, clock_reads := n\<rparr>" by simp
  finally show ?thesis using n by (intro exI [of _ "replicate MAX_REQUEST_SIZE 0"] exI [of _ n]) simp
qed

text \<open>A request is acknowledged and executed, and the loop goes on inside.\<close>

lemma inside_request:
  assumes "lib_ok (ag_lib ag)" and "clock_total ag (world s)"
    and "35 \<notin> set body" and "length body + 4 \<le> MAX_REQUEST_SIZE" and m: "length m = MAX_REQUEST_SIZE"
    and "rx s = map Some (frame body) @ r"
    and ex: "ExecuteGdbCommand ag (body @ 0 # hex_byte (sum_list body) @ drop (length body + 4) m) (length body)
        (s\<lparr>rx := r, clock_reads := clock_reads s + (length body + 4),
           tx := tx s @ str ''+'', mConnectionOccurred := True\<rparr>) = Inr s2"
  shows "\<exists>m'. length m' = MAX_REQUEST_SIZE \<and> inside ag E m s = inside ag E m' s2"
proof -
  have len: "length body + 4 \<le> length m" using assms(4) m by simp
  have h: "length (hex_byte (sum_list body)) = 2" by simp
  show ?thesis
    using ProcessInputData_deliver [OF assms(1-3) len assms(6)] ex m len h
    by (intro exI [of _ "36 # body @ 0 # hex_byte (sum_list body) @ drop (length body + 4) m"])
      (simp add: inside_def)
qed

text \<open>The other messages.\<close>

lemma keep_acknowledged: "mResponseAcknowledged s = v \<Longrightarrow> s\<lparr>mResponseAcknowledged := v\<rparr> = s"
  by (cases s) simp

lemma inside_byte:
  assumes "clock_total ag (world s)" and "rx s = Some b # r" and "b \<noteq> 36"
    and "length m = MAX_REQUEST_SIZE" and full: "4 \<le> length (mResponseFull s)"
  shows "\<exists>m'. length m' = MAX_REQUEST_SIZE \<and> inside ag E m s = inside ag E m'
    (s\<lparr>rx := r, clock_reads := Suc (clock_reads s),
       tx := tx s @ (if b = 45 \<and> \<not> mResponseAcknowledged s then mResponseFull s else []),
       mResponseAcknowledged := (mResponseAcknowledged s \<or> b = 43)\<rparr>)"
proof -
  let ?s1 = "s\<lparr>rx := r, clock_reads := Suc (clock_reads s)\<rparr>"
  let ?s2 = "?s1\<lparr>tx := tx s @ (if b = 45 \<and> \<not> mResponseAcknowledged s then mResponseFull s else []),
       mResponseAcknowledged := (mResponseAcknowledged s \<or> b = 43)\<rparr>"
  consider (nak) "b = 45" "\<not> mResponseAcknowledged s" | (ack) "b = 43"
    | (other) "b \<noteq> 43" "\<not> (b = 45 \<and> \<not> mResponseAcknowledged s)" by blast
  then have "ProcessInputData_loop ag m s = ProcessInputData_loop ag (m[0 := b]) ?s2"
  proof cases
    case nak
    then have sent: "SendGdbResponse ag None ?s1 = Inr (?s1\<lparr>tx := tx s @ mResponseFull s\<rparr>)"
      using SendGdbResponse_resend [of ?s1 ag] full by simp
    have s2: "?s2 = ?s1\<lparr>tx := tx s @ mResponseFull s\<rparr>"
      using nak keep_acknowledged [of "?s1\<lparr>tx := tx s @ mResponseFull s\<rparr>" False] by simp
    show ?thesis
      unfolding ProcessInputData_loop_read [OF assms(1-3)] s2 using nak sent by (simp add: Let_def)
  next
    case ack
    then have "?s2 = ?s1\<lparr>mResponseAcknowledged := True\<rparr>" by simp
    then show ?thesis
      unfolding ProcessInputData_loop_read [OF assms(1-3)] using ack by (simp add: Let_def)
  next
    case other
    then have "(if b = 45 \<and> \<not> mResponseAcknowledged s then mResponseFull s else []) = []"
      "(mResponseAcknowledged s \<or> b = 43) = mResponseAcknowledged s" by auto
    then have "?s2 = ?s1"
      using keep_acknowledged [of ?s1 "mResponseAcknowledged s"] by simp
    then show ?thesis
      unfolding ProcessInputData_loop_read [OF assms(1-3)] using other by (auto simp: Let_def)
  qed
  then show ?thesis
    using assms(4) unfolding inside_def
    by (intro exI [of _ "m[0 := b]"]) simp
qed

section \<open>A whole conversation\<close>

context stub_clock
begin

lemma inside_resume:
  assumes lib: "lib_ok (ag_lib ag)" and clk: "clock_total ag (world s)" "waits_end ag s"
    and m: "length m = MAX_REQUEST_SIZE" and rx: "rx s = map Some (frame (str ''vCont;c''))"
  shows "\<exists>n. inside ag E m s = Some (Inr (s\<lparr>rx := [], clock_reads := n, tx := tx s @ str ''+'',
    mConnectionOccurred := True, gRunning := True\<rparr>))"
proof -
  have b: "35 \<notin> set (str ''vCont;c'')" "length (str ''vCont;c'') + 4 \<le> MAX_REQUEST_SIZE"
      "length (str ''vCont;c'') = 7"
    by (simp_all add: str_def MAX_REQUEST_SIZE_def)
  let ?s1 = "s\<lparr>rx := [], clock_reads := clock_reads s + (length (str ''vCont;c'') + 4),
           tx := tx s @ str ''+'', mConnectionOccurred := True\<rparr>"
  let ?s2 = "?s1\<lparr>gRunning := True\<rparr>"
  have rx': "rx s = map Some (frame (str ''vCont;c'')) @ []" using rx by simp
  have "ExecuteGdbCommand ag (str ''vCont;c'' @ 0 # x) (length (str ''vCont;c'')) ?s1 = Inr ?s2" for x
    unfolding b(3) ExecuteGdbCommand_continue by simp
  from inside_request [OF lib clk(1) b(1,2) m rx' this, of E] obtain m' where
    m': "inside ag E m s = inside ag E m' ?s2" by blast
  obtain n where rd: "DebugReadByte ag 10 ?s2 = Some (Inr (None, ?s2\<lparr>clock_reads := n\<rparr>))"
    using DebugReadByte_silent [of ag ?s2 1000 "spent s" 10] clk rx by auto
  have "ProcessInputData_loop ag m' ?s2 = Some (Inr (?s2\<lparr>clock_reads := n\<rparr>))"
    by (subst ProcessInputData_loop.simps) (simp only: rd, simp)
  then have "inside ag E m' ?s2 = outside ag E (?s2\<lparr>clock_reads := n\<rparr>)"
    by (simp add: inside_def)
  also have "\<dots> = Some (Inr (?s2\<lparr>clock_reads := n\<rparr>))"
    by (simp add: outside_def ReportEntryToDebugger_input.simps ReportEntryToDebugger_loop.simps)
  finally show ?thesis unfolding m' by (intro exI [of _ n]) simp
qed

end

text \<open>What a stop leaves alone, whatever the debugger asks.\<close>

definition untouched :: "'w gdb \<Rightarrow> 'w gdb \<Rightarrow> bool" where
  "untouched s s' \<longleftrightarrow> gExceptionInfo s' = gExceptionInfo s \<and> mRebootOnContinue s' = mRebootOnContinue s \<and>
     mNextBreakpointTimeout s' = mNextBreakpointTimeout s \<and> log_suspended s' = log_suspended s \<and>
     DebuggerBreakpointReason s' = DebuggerBreakpointReason s \<and> clock s' = clock s"

lemma untouched_refl [simp]: "untouched s s"
  by (simp add: untouched_def)

lemma untouched_trans: "untouched s s1 \<Longrightarrow> untouched s1 s2 \<Longrightarrow> untouched s s2"
  by (simp add: untouched_def)

text \<open>The states between two messages.\<close>

definition at_rest :: "'w agent \<Rightarrow> ('w \<Rightarrow> bool) \<Rightarrow> u64 \<Rightarrow> 'w gdb \<Rightarrow> bool" where
  "at_rest ag sound E s \<longleftrightarrow> sound (world s) \<and> bp_table_ok (mBreakpoints s) \<and> waiting E s \<and>
     clock_total ag (world s) \<and> waits_end ag s"

lemma str_plus: "str ''+'' = [43]"
  by (simp add: str_def)

locale stub_session =
  stub_clock ag base + stub_target ag mem key armed capacity sound view readable writable
  for ag :: "'w agent" and base :: "'w \<Rightarrow> 'b" and mem :: "'w \<Rightarrow> u64 \<Rightarrow> u8"
    and key :: "u64 \<Rightarrow> u64 \<Rightarrow> bool \<Rightarrow> bool \<Rightarrow> 'k option" and armed :: "'w \<Rightarrow> 'k set"
    and capacity :: nat and sound :: "'w \<Rightarrow> bool" and view :: "'w \<Rightarrow> 'e"
    and readable writable :: "'e \<Rightarrow> (u64 \<Rightarrow> u8) \<Rightarrow> u64 \<Rightarrow> nat \<Rightarrow> nat"
begin

lemma at_rest_update:
  "at_rest ag sound E s \<Longrightarrow> n + 2 * length r \<le> spent s \<Longrightarrow>
     at_rest ag sound E (s\<lparr>rx := r, clock_reads := n, tx := x, mResponseAcknowledged := v\<rparr>)"
  using clock_runs_mono by (fastforce simp: at_rest_def)

lemma target_update:
  "target (s\<lparr>rx := r, clock_reads := n, tx := x, mResponseAcknowledged := v\<rparr>) = target s"
  "target (s\<lparr>rx := r, clock_reads := n, tx := x, mConnectionOccurred := v\<rparr>) = target s"
  "target (s\<lparr>rx := r, clock_reads := n, tx := x, mConnectionOccurred := v, gRunning := u\<rparr>) = target s"
  "target (s\<lparr>gSystemContext := gSystemContext s', mBreakpoints := mBreakpoints s', world := world s'\<rparr>) = target s'"
  "target (responded b s) = target s"
  by (simp_all add: target_of_def)

text \<open>One message without a pause, then the rest.\<close>

lemma message_step:
  assumes rest: "at_rest ag sound E s" and m: "length m = MAX_REQUEST_SIZE" and full: "mResponseFull s = frame prev"
    and ok: "message_ok (ag_gRegisterOffsets ag) e" and adm: "admissible_all platform (requests [(0, e)]) (target s)"
    and rx: "rx s = map Some (message_bytes e) @ r"
  shows "\<exists>m' s' prev'. length m' = MAX_REQUEST_SIZE \<and> inside ag E m s = inside ag E m' s' \<and> at_rest ag sound E s' \<and>
    rx s' = r \<and> untouched s s' \<and> mResponseFull s' = frame prev' \<and>
    target s' = snd (serve_all platform (requests [(0, e)]) (target s)) \<and>
    (\<forall>cs. tx s @ transcript platform ((0, e) # cs) prev (mResponseAcknowledged s) (target s) =
       tx s' @ transcript platform cs prev' (mResponseAcknowledged s') (target s'))"
proof -
  have byte: ?thesis if e: "message_bytes e = [b]" "requests [(0, e)] = []" "b \<noteq> 36"
    and tr: "\<And>cs. transcript platform ((0, e) # cs) prev (mResponseAcknowledged s) (target s) =
      (if b = 45 \<and> \<not> mResponseAcknowledged s then frame prev else []) @
        transcript platform cs prev (mResponseAcknowledged s \<or> b = 43) (target s)" for b
  proof -
    have rxb: "rx s = Some b # r" using rx e by simp
    have "clock_total ag (world s)" "4 \<le> length (mResponseFull s)" using rest full by (simp_all add: at_rest_def)
    from inside_byte [OF this(1) rxb e(3) m this(2), of E] obtain m' where m': "length m' = MAX_REQUEST_SIZE"
      "inside ag E m s = inside ag E m' (s\<lparr>rx := r, clock_reads := Suc (clock_reads s),
       tx := tx s @ (if b = 45 \<and> \<not> mResponseAcknowledged s then mResponseFull s else []),
       mResponseAcknowledged := (mResponseAcknowledged s \<or> b = 43)\<rparr>)" by blast
    let ?s' = "s\<lparr>rx := r, clock_reads := Suc (clock_reads s),
       tx := tx s @ (if b = 45 \<and> \<not> mResponseAcknowledged s then mResponseFull s else []),
       mResponseAcknowledged := (mResponseAcknowledged s \<or> b = 43)\<rparr>"
    show ?thesis
      using m' at_rest_update [OF rest, of "Suc (clock_reads s)" r] rxb e full tr
      by (intro exI [of _ m'] exI [of _ ?s'] exI [of _ prev]) (simp add: target_update untouched_def)
  qed
  show ?thesis
  proof (cases e)
    case Acknowledge
    then show ?thesis by (intro byte [of 43]) simp_all
  next
    case Repeat
    then show ?thesis by (intro byte [of 45]) auto
  next
    case (Noise b)
    then show ?thesis using ok by (intro byte [of b]) auto
  next
    case (Send body q)
    then have q: "request_text (ag_gRegisterOffsets ag) body q" "length body + 4 \<le> MAX_REQUEST_SIZE"
      "admissible platform q (target s)" "rx s = map Some (frame body) @ r" using ok adm rx by simp_all
    have rst: "sound (world s)" "bp_table_ok (mBreakpoints s)" "clock_total ag (world s)" "waits_end ag s"
      "waiting E s" using rest by (simp_all add: at_rest_def)
    let ?s1 = "s\<lparr>rx := r, clock_reads := clock_reads s + (length body + 4),
           tx := tx s @ str ''+'', mConnectionOccurred := True\<rparr>"
    have T1: "target ?s1 = target s" by (rule target_update)
    have s1: "sound (world ?s1)" "bp_table_ok (mBreakpoints ?s1)" "admissible platform q (target ?s1)"
      using rst q(3) T1 by simp_all
    let ?x = "hex_byte (sum_list body) @ drop (length body + 4) m"
    obtain c t w where ex: "ExecuteGdbCommand ag (body @ 0 # ?x) (length body) ?s1 =
        Inr (responded (reply_text (fst (serve platform q (target s))))
          (?s1\<lparr>gSystemContext := c, mBreakpoints := t, world := w\<rparr>))"
      and T2: "target (?s1\<lparr>gSystemContext := c, mBreakpoints := t, world := w\<rparr>) = snd (serve platform q (target s))"
      and s2: "bp_table_ok t" "sound w"
      using serves [OF s1(1,2) q(1) s1(3), of ?x] T1 by auto
    let ?s2 = "responded (reply_text (fst (serve platform q (target s))))
          (?s1\<lparr>gSystemContext := c, mBreakpoints := t, world := w\<rparr>)"
    obtain m' where m': "length m' = MAX_REQUEST_SIZE" "inside ag E m s = inside ag E m' ?s2"
      using inside_request [OF sound_lib [OF rst(1)] rst(3) request_text_no_marker [OF q(1)] q(2) m q(4) ex, of E] by blast
    have T2': "target ?s2 = snd (serve platform q (target s))" using T2 target_update(5) by simp
    have "spent ?s2 \<le> spent s" using q(4) by simp
    then have "at_rest ag sound E ?s2"
      using rst s2 steps_clock [OF ExecuteGdbCommand_steps [OF ex]] clock_runs_mono [of ag "clock s" "world s" 1000]
      by (simp add: at_rest_def)
    then show ?thesis
      using m' Send T2' str_plus
      by (intro exI [of _ m'] exI [of _ ?s2] exI [of _ "reply_text (fst (serve platform q (target s)))"])
        (simp add: untouched_def case_prod_beta)
  qed
qed

end

lemma requests_Cons: "requests ((k, e) # cs) = requests [(0, e)] @ requests cs"
  by (cases e) simp_all

lemma admissible_all_append:
  "admissible_all P (rs @ qs) T \<longleftrightarrow> admissible_all P rs T \<and> admissible_all P qs (snd (serve_all P rs T))"
  by (induction rs arbitrary: T) (auto split: prod.split)

lemma serve_all_append_snd:
  "snd (serve_all P (rs @ qs) T) = snd (serve_all P qs (snd (serve_all P rs T)))"
  by (simp add: serve_all_append case_prod_beta)

lemma transcript_pause: "transcript P ((k, e) # cs) prev a T = transcript P ((0, e) # cs) prev a T"
  by (cases e) simp_all

context stub_session
begin

text \<open>
  The client's whole conversation, ended by a continue request: the loop returns, the state
  stands for the target the requests lead to, and the client has received the transcript.
\<close>

lemma conversation_inside:
  assumes "at_rest ag sound E s" and "length m = MAX_REQUEST_SIZE" and "mResponseFull s = frame prev"
    and "\<forall>(k, e) \<in> set cs. message_ok (ag_gRegisterOffsets ag) e"
    and "admissible_all platform (requests cs) (target s)"
    and "rx s = stream cs @ replicate n None @ map Some (frame (str ''vCont;c''))"
  shows "\<exists>s'. inside ag E m s = Some (Inr s') \<and> gRunning s' \<and> rx s' = [] \<and> untouched s s' \<and>
    target s' = snd (serve_all platform (requests cs) (target s)) \<and>
    tx s' = tx s @ transcript platform cs prev (mResponseAcknowledged s) (target s) @ str ''+'' \<and>
    bp_table_ok (mBreakpoints s') \<and> sound (world s')"
  using assms
proof (induction cs arbitrary: s m prev)
  case Nil
  have rst: "clock_total ag (world s)" "waiting E s" "sound (world s)" "bp_table_ok (mBreakpoints s)" "waits_end ag s"
    using Nil.prems(1) by (simp_all add: at_rest_def)
  obtain x r where x: "frame (str ''vCont;c'') = x # r" by (simp add: frame_def)
  have rx: "rx s = replicate n None @ Some x # map Some r" using Nil.prems(6) x by simp
  obtain m' j where m': "length m' = MAX_REQUEST_SIZE" "j \<le> clock_reads s + 2 * n"
    "inside ag E m s = inside ag E m' (s\<lparr>rx := Some x # map Some r, clock_reads := j\<rparr>)"
    using inside_gap [OF rst(1,2) rx Nil.prems(2)] by blast
  let ?s = "s\<lparr>rx := map Some (frame (str ''vCont;c'')), clock_reads := j\<rparr>"
  have "spent ?s \<le> spent s" using m'(2) Nil.prems(6) by simp
  then have "clock_total ag (world ?s)" "waits_end ag ?s" "rx ?s = map Some (frame (str ''vCont;c''))"
    using rst clock_runs_mono [of ag "clock s" "world s" 1000] by simp_all
  from inside_resume [OF sound_lib [OF rst(3)] this(1,2) m'(1) this(3)] obtain i where
    "inside ag E m' ?s = Some (Inr (?s\<lparr>rx := [], clock_reads := i, tx := tx ?s @ str ''+'',
      mConnectionOccurred := True, gRunning := True\<rparr>))" by blast
  then show ?case
    unfolding m'(3) x using rst by (simp add: target_of_def untouched_def)
next
  case (Cons p cs)
  obtain k e where p: "p = (k, e)" by fastforce
  have rst: "clock_total ag (world s)" "waiting E s" using Cons.prems(1) by (simp_all add: at_rest_def)
  obtain x r where x: "message_bytes e = x # r" by (cases e) (simp_all add: frame_def)
  let ?rest = "stream cs @ replicate n None @ map Some (frame (str ''vCont;c''))"
  have rx: "rx s = replicate k None @ Some x # map Some r @ ?rest" using Cons.prems(6) p x by simp
  obtain m1 j where m1: "length m1 = MAX_REQUEST_SIZE" "j \<le> clock_reads s + 2 * k"
    "inside ag E m s = inside ag E m1 (s\<lparr>rx := Some x # map Some r @ ?rest, clock_reads := j\<rparr>)"
    using inside_gap [OF rst rx Cons.prems(2)] by blast
  let ?s1 = "s\<lparr>rx := Some x # map Some r @ ?rest, clock_reads := j\<rparr>"
  have T1: "target ?s1 = target s" by (simp add: target_of_def)
  have "spent ?s1 \<le> spent s" using m1(2) rx by simp
  then have "at_rest ag sound E ?s1" using Cons.prems(1) clock_runs_mono by (fastforce simp: at_rest_def)
  moreover have "mResponseFull ?s1 = frame prev" "message_ok (ag_gRegisterOffsets ag) e"
    "admissible_all platform (requests [(0, e)]) (target ?s1)" "rx ?s1 = map Some (message_bytes e) @ ?rest"
    using Cons.prems x T1 unfolding p requests_Cons [of k e] admissible_all_append by simp_all
  ultimately obtain m2 s2 prev2 where
    m2: "length m2 = MAX_REQUEST_SIZE" "inside ag E m1 ?s1 = inside ag E m2 s2" and
    s2: "at_rest ag sound E s2" "rx s2 = ?rest" "untouched ?s1 s2" "mResponseFull s2 = frame prev2"
      "target s2 = snd (serve_all platform (requests [(0, e)]) (target s))" and
    tr: "\<And>cs. tx s @ transcript platform ((0, e) # cs) prev (mResponseAcknowledged s) (target s) =
       tx s2 @ transcript platform cs prev2 (mResponseAcknowledged s2) (target s2)"
    using message_step [of E ?s1 m1 prev e ?rest] m1(1) unfolding T1 by auto
  have "\<forall>(k, e) \<in> set cs. message_ok (ag_gRegisterOffsets ag) e"
    "admissible_all platform (requests cs) (target s2)"
    using Cons.prems(4,5) unfolding p requests_Cons [of k e] admissible_all_append s2(5) by simp_all
  from Cons.IH [OF s2(1) m2(1) s2(4) this s2(2)] obtain s' where
    s': "inside ag E m2 s2 = Some (Inr s')" "gRunning s'" "rx s' = []" "untouched s2 s'"
      "target s' = snd (serve_all platform (requests cs) (target s2))"
      "tx s' = tx s2 @ transcript platform cs prev2 (mResponseAcknowledged s2) (target s2) @ str ''+''"
      "bp_table_ok (mBreakpoints s')" "sound (world s')" by blast
  have "untouched s s'" using s2(3) s'(4) by (simp add: untouched_def)
  moreover have "target s' = snd (serve_all platform (requests (p # cs)) (target s))"
    unfolding p requests_Cons [of k e] serve_all_append_snd s'(5) s2(5) ..
  moreover have "tx s' = tx s @ transcript platform (p # cs) prev (mResponseAcknowledged s) (target s) @ str ''+''"
    using tr [of cs] s'(6) unfolding p transcript_pause [of platform k] by simp
  ultimately show ?case unfolding m1(3) m2(2) using s' by blast
qed

text \<open>The same for a stop, from the exception to the return.\<close>

lemma conversation:
  assumes sound: "sound (world s)" and ok: "bp_table_ok (mBreakpoints s)"
    and clk: "clock_total ag (world s)" "waits_end ag s"
    and notime: "ExceptionType info \<noteq> ExceptionBreakpoint \<or> mNextBreakpointTimeout s = 0"
    and boot: "\<not> mRebootOnContinue s"
    and msgs: "\<forall>(k, e) \<in> set cs. message_ok (ag_gRegisterOffsets ag) e"
    and adm: "admissible_all platform (requests cs) (target (s\<lparr>gSystemContext := c\<rparr>))"
    and rx: "rx s = stream cs @ replicate n None @ map Some (frame (str ''vCont;c''))"
  shows "\<exists>s'. ReportEntryToDebugger ag info c s = Some (Inr s') \<and> gRunning s' \<and> rx s' = [] \<and>
    target s' = snd (serve_all platform (requests cs) (target (s\<lparr>gSystemContext := c\<rparr>))) \<and>
    tx s' = tx s @ frame (str ''T05thread:01;'') @
      transcript platform cs (str ''T05thread:01;'') False (target (s\<lparr>gSystemContext := c\<rparr>)) @ str ''+'' \<and>
    mNextBreakpointTimeout s' = mNextBreakpointTimeout s \<and> \<not> mRebootOnContinue s' \<and>
    DebuggerBreakpointReason s' = DebuggerBreakpointReason s \<and> \<not> log_suspended s' \<and>
    gExceptionInfo s' = info \<and> bp_table_ok (mBreakpoints s') \<and> sound (world s')"
proof -
  let ?s0 = "responded (str ''T05thread:01;'')
      (s\<lparr>gSystemContext := c, gExceptionInfo := info, gRunning := False, log_suspended := True\<rparr>)"
  have T0: "target ?s0 = target (s\<lparr>gSystemContext := c\<rparr>)" by (simp add: target_of_def)
  have rx0: "rx ?s0 = stream cs @ replicate n None @ map Some (frame (str ''vCont;c''))" using rx by simp
  obtain k b r cs' n' where head: "rx ?s0 = replicate k None @ Some b # r"
    and cs': "Some b # r = stream cs' @ replicate n' None @ map Some (frame (str ''vCont;c''))"
      "requests cs' = requests cs" "transcript platform cs' = transcript platform cs" "snd ` set cs' = snd ` set cs"
    unfolding rx0 by (rule stream_head)
  let ?s1 = "?s0\<lparr>rx := Some b # r\<rparr>"
  have w0: "waiting 0 ?s0" by simp
  have "ReportEntryToDebugger_loop ag 0 ?s0 = outside ag 0 ?s0" by (intro loop_outside) simp
  also have "\<dots> = inside ag 0 (replicate MAX_REQUEST_SIZE 0) ?s1" by (rule outside_gap [OF w0 head])
  finally have start: "ReportEntryToDebugger_loop ag 0 ?s0 = inside ag 0 (replicate MAX_REQUEST_SIZE 0) ?s1" .
  have "\<forall>(k, e) \<in> set cs'. message_ok (ag_gRegisterOffsets ag) e"
  proof safe
    fix k e assume "(k, e) \<in> set cs'"
    then have "e \<in> snd ` set cs" using cs'(4) by force
    then show "message_ok (ag_gRegisterOffsets ag) e" using msgs by auto
  qed
  moreover have T1: "target ?s1 = target (s\<lparr>gSystemContext := c\<rparr>)" by (simp add: target_of_def)
  moreover have "spent ?s1 \<le> spent s" using arg_cong [OF head, of length] by simp
  then have "at_rest ag sound 0 ?s1"
    using sound ok clk clock_runs_mono [of ag "clock s" "world s" 1000 "spent s" "spent ?s1"] by (simp add: at_rest_def)
  moreover have "mResponseFull ?s1 = frame (str ''T05thread:01;'')" by simp
  ultimately obtain s' where s': "inside ag 0 (replicate MAX_REQUEST_SIZE 0) ?s1 = Some (Inr s')"
    "gRunning s'" "rx s' = []" "untouched ?s1 s'"
    "target s' = snd (serve_all platform (requests cs) (target (s\<lparr>gSystemContext := c\<rparr>)))"
    "tx s' = tx ?s1 @ transcript platform cs (str ''T05thread:01;'') (mResponseAcknowledged ?s1)
        (target (s\<lparr>gSystemContext := c\<rparr>)) @ str ''+''"
    "bp_table_ok (mBreakpoints s')" "sound (world s')"
    using conversation_inside [of 0 ?s1 "replicate MAX_REQUEST_SIZE 0" "str ''T05thread:01;''" cs' n'] adm cs'
    by auto
  have "ReportEntryToDebugger ag info c s = Some (Inr (s'\<lparr>log_suspended := False\<rparr>))"
    using notime s'(1,4) boot start
    by (elim disjE) (simp_all add: ReportEntryToDebugger_def Let_def SendStopReply_eq untouched_def)
  moreover have "target (s'\<lparr>log_suspended := False\<rparr>) = target s'" by (simp add: target_of_def)
  ultimately show ?thesis
    using s'(2-) boot by (intro exI [of _ "s'\<lparr>log_suspended := False\<rparr>"]) (simp add: untouched_def)
qed

end

end
