(* ===== verification/Targets.thy ===== *)
theory Targets
  imports Handlers Conversation
begin

text \<open>
  The six builds as implementations of the protocol: the contracts \<open>stub_target\<close> and
  \<open>stub_session\<close> interpreted on each. In DXE, with the Memory Attribute Protocol, the
  protections are the page attributes and a range is accessible up to its first read
  protected page; in MM every page is; in PEI the page tables decide, at the first address
  of a range only.
\<close>

section \<open>Configurations\<close>

text \<open>
  The libraries work as documented, the workaround for another debugger is off, the context's
  fields are apart, and cache maintenance leaves the page attributes alone.
\<close>

definition configured :: "'p environment \<Rightarrow> ('f \<Rightarrow> nat) \<Rightarrow> ('p \<Rightarrow> u64 \<Rightarrow> u64) \<Rightarrow> bool" where
  "configured env off attrs \<longleftrightarrow> lib_ok (env_lib env) \<and> \<not> env_WindbgWorkarounds env \<and> ctx_offsets_ok off \<and>
     (\<forall>a n p. attrs (env_InvalidateInstructionCacheRange env a n p) = attrs p)"

text \<open>Attribute services that work.\<close>

definition services_fit :: "'p attribute_services \<Rightarrow> ('p \<Rightarrow> u64 \<Rightarrow> u64) \<Rightarrow> bool" where
  "services_fit ma attrs \<longleftrightarrow> attribute_services_ok ma attrs \<and> attributes_set ma \<and> attributes_known ma"

text \<open>What protects memory: the page attributes the services know, and the page tables.\<close>

definition protection_X64 :: "('p \<Rightarrow> u64 \<Rightarrow> u64) \<Rightarrow> 'p x64 \<Rightarrow> (u64 \<Rightarrow> u64) \<times> u64 \<times> u64" where
  "protection_X64 attrs w = (attrs (plat w), CR3 w, CR4 w)"

definition protection_AARCH64 :: "('p \<Rightarrow> u64 \<Rightarrow> u64) \<Rightarrow> 'p aarch64 \<Rightarrow> (u64 \<Rightarrow> u64) \<times> u64 \<times> u64" where
  "protection_AARCH64 attrs w = (attrs (plat w), TCR w, TTBR0 w)"

definition x64_sound :: "bool \<Rightarrow> 'p x64 \<Rightarrow> bool" where
  "x64_sound conf w \<longleftrightarrow> conf \<and> slots_unique (x64_slots w) \<and> length (x64_slots w) = 4"

definition aarch64_sound :: "bool \<Rightarrow> 'p aarch64 \<Rightarrow> bool" where
  "aarch64_sound conf w \<longleftrightarrow> conf \<and> slots_unique (aarch64_slots w) \<and> length (aarch64_slots w) = MAX_WATCHPOINTS"

text \<open>A watchpoint unit stays one when its invariant is strengthened by a constant.\<close>

lemma watchpoint_unit_constant:
  assumes "watchpoint_unit add remove key armed capacity ok"
  shows "watchpoint_unit add remove key armed capacity (\<lambda>w. conf \<and> ok w)"
proof (unfold_locales, goal_cases)
  case (1 w)
  then show ?case using watchpoint_unit.armed_capacity [OF assms] by blast
next
  case (2 w a l r s w')
  then show ?case using watchpoint_unit.add_True [OF assms] by blast
next
  case (3 w a l r s w')
  then show ?case using watchpoint_unit.add_False [OF assms] by blast
next
  case (4 w a l r s ok' w')
  then show ?case using watchpoint_unit.add_inv [OF assms] by blast
next
  case (5 w a l r s w')
  then show ?case using watchpoint_unit.remove_True [OF assms] by blast
next
  case (6 w a l r s w')
  then show ?case using watchpoint_unit.remove_False [OF assms] by blast
next
  case (7 w a l r s ok' w')
  then show ?case using watchpoint_unit.remove_inv [OF assms] by blast
qed

section \<open>X64\<close>

lemma regs_fit_agents: "configured env off attrs \<Longrightarrow>
    regs_fit (gRegisterOffsets_X64 off) \<and> (\<exists>k. regs_layout (gRegisterOffsets_X64 off) k)"
  "configured env off' attrs' \<Longrightarrow>
    regs_fit (gRegisterOffsets_AARCH64 off') \<and> (\<exists>k. regs_layout (gRegisterOffsets_AARCH64 off') k)"
  using regs_X64(1) [of off] regs_AARCH64(1) [of off'] regs_fit_X64 regs_fit_AARCH64
  unfolding configured_def by blast+

lemma x64_slots_more: "machine.more w' = machine.more w \<Longrightarrow> x64_slots w' = x64_slots w"
  by (cases w; cases w') (simp add: x64_slots_def)

text \<open>The machine but for the registers that hold watchpoints.\<close>

definition undebugged :: "'p x64 \<Rightarrow> 'p x64" where
  "undebugged w = w\<lparr>DR0 := 0, DR1 := 0, DR2 := 0, DR3 := 0, DR7 := 0\<rparr>"

lemma undebugged_simps:
  "undebugged (w\<lparr>DR0 := a\<rparr>) = undebugged w" "undebugged (w\<lparr>DR1 := a\<rparr>) = undebugged w"
  "undebugged (w\<lparr>DR2 := a\<rparr>) = undebugged w" "undebugged (w\<lparr>DR3 := a\<rparr>) = undebugged w"
  "undebugged (w\<lparr>DR7 := a\<rparr>) = undebugged w"
  by (simp_all add: undebugged_def)

lemma AddWatchpoint_X64_only: "AddWatchpoint_X64 a l r x w = (ok, w') \<Longrightarrow> undebugged w' = undebugged w"
  by (auto simp: AddWatchpoint_X64_def Let_def undebugged_simps split: if_splits)

lemma RemoveWatchpoint_X64_only: "RemoveWatchpoint_X64 a l r x w = (ok, w') \<Longrightarrow> undebugged w' = undebugged w"
  by (auto simp: RemoveWatchpoint_X64_def Let_def undebugged_simps split: if_splits)

lemma undebugged_view:
  "undebugged w' = undebugged w \<Longrightarrow>
     memory w' = memory w \<and> plat w' = plat w \<and> CR3 w' = CR3 w \<and> CR4 w' = CR4 w"
  by (cases w; cases w') (simp add: undebugged_def)

text \<open>
  What a phase has to show of its accessors: they transfer exactly the accessible bytes and
  keep the page attributes.
\<close>

lemma stub_target_X64:
  assumes mem: "debug_memory rdmem wrmem memory"
    and conf: "conf \<Longrightarrow> configured env off attrs"
    and rd: "\<And>a n w ok bs w'. conf \<Longrightarrow> 0 < n \<Longrightarrow> n \<le> SCRATCH_SIZE \<Longrightarrow> rdmem a n w = (ok, bs, w') \<Longrightarrow>
      length bs = readable (protection_X64 attrs w) (memory w) a n \<and> (ok \<longleftrightarrow> length bs = n)"
    and rd_attrs: "\<And>a n w ok bs w'. conf \<Longrightarrow> rdmem a n w = (ok, bs, w') \<Longrightarrow> attrs (plat w') = attrs (plat w)"
    and wr: "\<And>a bs w ok w'. conf \<Longrightarrow> bs \<noteq> [] \<Longrightarrow> length bs \<le> SCRATCH_SIZE \<Longrightarrow> wrmem a bs w = (ok, w') \<Longrightarrow>
      memory w' = write_bytes (memory w) a (take (writable (protection_X64 attrs w) (memory w) a (length bs)) bs) \<and>
      (ok \<longleftrightarrow> writable (protection_X64 attrs w) (memory w) a (length bs) = length bs)"
    and wr_attrs: "\<And>a bs w ok w'. conf \<Longrightarrow> wrmem a bs w = (ok, w') \<Longrightarrow> attrs (plat w') = attrs (plat w)"
    and more: "\<And>a n w ok bs w'. rdmem a n w = (ok, bs, w') \<Longrightarrow> machine.more w' = machine.more w"
      "\<And>a d w ok w'. wrmem a d w = (ok, w') \<Longrightarrow> machine.more w' = machine.more w"
  shows "stub_target (agent_X64 env off rdmem wrmem reboot module info) memory x64_key
    (\<lambda>w. slots_armed (x64_slots w)) 4 (x64_sound conf) (protection_X64 attrs) readable writable"
proof -
  have unit: "watchpoint_unit AddWatchpoint_X64 RemoveWatchpoint_X64 x64_key (\<lambda>w. slots_armed (x64_slots w)) 4
      (x64_sound conf)"
    using watchpoint_unit_constant [OF x64_wp.watchpoint_unit_axioms, of conf] unfolding x64_sound_def [abs_def] .
  have slots: "x64_sound conf w' = x64_sound conf w" "slots_armed (x64_slots w') = slots_armed (x64_slots w)"
    if "machine.more w' = machine.more w" for w w'
    using x64_slots_more [OF that] by (simp_all add: x64_sound_def)
  have kept: "protection_X64 attrs w' = protection_X64 attrs w"
    if "machine.more w' = machine.more w" "attrs (plat w') = attrs (plat w)" for w w'
    using that by (cases w; cases w') (simp add: protection_X64_def)
  show ?thesis
  proof (intro stub_target.intro stub_target_axioms.intro, goal_cases)
    case 1
    show ?case by (rule breakpoint_memory_X64 [OF mem])
  next
    case 2
    show ?case using unit by (simp add: agent_X64_def)
  next
    case (3 w)
    then show ?case using conf by (simp add: agent_X64_def x64_sound_def configured_def)
  next
    case (4 w)
    then show ?case using regs_fit_agents(1) [OF conf] by (simp add: agent_X64_def x64_sound_def)
  next
    case (5 w)
    then show ?case using conf by (simp add: agent_X64_def x64_sound_def configured_def)
  next
    case 6
    show ?case by (simp add: agent_X64_def mArchBreakpointInstruction_X64_def)
  next
    case (7 w n a ok bs w')
    then show ?case using rd [of n a w ok bs w'] by (simp add: agent_X64_def x64_sound_def)
  next
    case (8 w a n ok bs w')
    then have "conf" "rdmem a n w = (ok, bs, w')" by (simp_all add: agent_X64_def x64_sound_def)
    then show ?case using 8(1) rd_attrs [of a n w ok bs w'] kept [OF more(1)] slots [OF more(1)] by blast
  next
    case (9 w bs a ok w')
    then show ?case using wr [of bs a w ok w'] by (simp add: agent_X64_def x64_sound_def)
  next
    case (10 w a bs ok w')
    then have "conf" "wrmem a bs w = (ok, w')" by (simp_all add: agent_X64_def x64_sound_def)
    then show ?case using 10(1) wr_attrs [of a bs w ok w'] kept [OF more(2)] slots [OF more(2)] by blast
  next
    case (11 w a n)
    then have "configured env off attrs" using conf by (simp add: x64_sound_def)
    then show ?case
      using 11 slots [of "w\<lparr>plat := env_InvalidateInstructionCacheRange env a n (plat w)\<rparr>" w]
      by (simp add: agent_X64_def configured_def protection_X64_def)
  next
    case (12 w a l r x ok w')
    then have "undebugged w' = undebugged w"
      using AddWatchpoint_X64_only [of a l r x w ok w'] RemoveWatchpoint_X64_only [of a l r x w ok w']
      by (auto simp: agent_X64_def)
    then show ?case using undebugged_view [of w' w] by (simp add: protection_X64_def)
  qed
qed

section \<open>AARCH64\<close>

lemma aarch64_slots_more: "machine.more w' = machine.more w \<Longrightarrow> aarch64_slots w' = aarch64_slots w"
  by (cases w; cases w') (simp add: aarch64_slots_def)

lemma AddWatchpoint_AARCH64_only:
  "AddWatchpoint_AARCH64 a l r x w = (ok, w') \<Longrightarrow> \<exists>ps. w' = w\<lparr>DBGW := ps\<rparr>"
proof -
  assume "AddWatchpoint_AARCH64 a l r x w = (ok, w')"
  then have "w' = w \<or> (\<exists>ps. w' = w\<lparr>DBGW := ps\<rparr>)"
    by (auto simp: AddWatchpoint_AARCH64_def Let_def split: if_splits option.splits)
  moreover have "w = w\<lparr>DBGW := DBGW w\<rparr>" by simp
  ultimately show ?thesis by blast
qed

lemma RemoveWatchpoint_AARCH64_only:
  "RemoveWatchpoint_AARCH64 a l r x w = (ok, w') \<Longrightarrow> \<exists>ps. w' = w\<lparr>DBGW := ps\<rparr>"
proof -
  assume "RemoveWatchpoint_AARCH64 a l r x w = (ok, w')"
  then have "w' = w \<or> (\<exists>ps. w' = w\<lparr>DBGW := ps\<rparr>)"
    by (auto simp: RemoveWatchpoint_AARCH64_def Let_def split: if_splits option.splits)
  moreover have "w = w\<lparr>DBGW := DBGW w\<rparr>" by simp
  ultimately show ?thesis by blast
qed

lemma stub_target_AARCH64:
  assumes mem: "debug_memory rdmem wrmem memory"
    and conf: "conf \<Longrightarrow> configured env off attrs"
    and rd: "\<And>a n w ok bs w'. conf \<Longrightarrow> 0 < n \<Longrightarrow> n \<le> SCRATCH_SIZE \<Longrightarrow> rdmem a n w = (ok, bs, w') \<Longrightarrow>
      length bs = readable (protection_AARCH64 attrs w) (memory w) a n \<and> (ok \<longleftrightarrow> length bs = n)"
    and rd_attrs: "\<And>a n w ok bs w'. conf \<Longrightarrow> rdmem a n w = (ok, bs, w') \<Longrightarrow> attrs (plat w') = attrs (plat w)"
    and wr: "\<And>a bs w ok w'. conf \<Longrightarrow> bs \<noteq> [] \<Longrightarrow> length bs \<le> SCRATCH_SIZE \<Longrightarrow> wrmem a bs w = (ok, w') \<Longrightarrow>
      memory w' = write_bytes (memory w) a (take (writable (protection_AARCH64 attrs w) (memory w) a (length bs)) bs) \<and>
      (ok \<longleftrightarrow> writable (protection_AARCH64 attrs w) (memory w) a (length bs) = length bs)"
    and wr_attrs: "\<And>a bs w ok w'. conf \<Longrightarrow> wrmem a bs w = (ok, w') \<Longrightarrow> attrs (plat w') = attrs (plat w)"
    and more: "\<And>a n w ok bs w'. rdmem a n w = (ok, bs, w') \<Longrightarrow> machine.more w' = machine.more w"
      "\<And>a d w ok w'. wrmem a d w = (ok, w') \<Longrightarrow> machine.more w' = machine.more w"
  shows "stub_target (agent_AARCH64 env off rdmem wrmem reboot module info) memory aarch64_key
    (\<lambda>w. slots_armed (aarch64_slots w)) MAX_WATCHPOINTS (aarch64_sound conf) (protection_AARCH64 attrs) readable writable"
proof -
  have unit: "watchpoint_unit AddWatchpoint_AARCH64 RemoveWatchpoint_AARCH64 aarch64_key
      (\<lambda>w. slots_armed (aarch64_slots w)) MAX_WATCHPOINTS (aarch64_sound conf)"
    using watchpoint_unit_constant [OF aarch64_wp.watchpoint_unit_axioms, of conf]
    unfolding aarch64_sound_def [abs_def] .
  have slots: "aarch64_sound conf w' = aarch64_sound conf w"
    "slots_armed (aarch64_slots w') = slots_armed (aarch64_slots w)"
    if "machine.more w' = machine.more w" for w w'
    using aarch64_slots_more [OF that] by (simp_all add: aarch64_sound_def)
  have kept: "protection_AARCH64 attrs w' = protection_AARCH64 attrs w"
    if "machine.more w' = machine.more w" "attrs (plat w') = attrs (plat w)" for w w'
    using that by (cases w; cases w') (simp add: protection_AARCH64_def)
  show ?thesis
  proof (intro stub_target.intro stub_target_axioms.intro, goal_cases)
    case 1
    show ?case by (rule breakpoint_memory_AARCH64 [OF mem])
  next
    case 2
    show ?case using unit by (simp add: agent_AARCH64_def)
  next
    case (3 w)
    then show ?case using conf by (simp add: agent_AARCH64_def aarch64_sound_def configured_def)
  next
    case (4 w)
    then show ?case using regs_fit_agents(2) [OF conf] by (simp add: agent_AARCH64_def aarch64_sound_def)
  next
    case (5 w)
    then show ?case using conf by (simp add: agent_AARCH64_def aarch64_sound_def configured_def)
  next
    case 6
    show ?case by (simp add: agent_AARCH64_def mArchBreakpointInstruction_AARCH64_def)
  next
    case (7 w n a ok bs w')
    then show ?case using rd [of n a w ok bs w'] by (simp add: agent_AARCH64_def aarch64_sound_def)
  next
    case (8 w a n ok bs w')
    then have "conf" "rdmem a n w = (ok, bs, w')" by (simp_all add: agent_AARCH64_def aarch64_sound_def)
    then show ?case using 8(1) rd_attrs [of a n w ok bs w'] kept [OF more(1)] slots [OF more(1)] by blast
  next
    case (9 w bs a ok w')
    then show ?case using wr [of bs a w ok w'] by (simp add: agent_AARCH64_def aarch64_sound_def)
  next
    case (10 w a bs ok w')
    then have "conf" "wrmem a bs w = (ok, w')" by (simp_all add: agent_AARCH64_def aarch64_sound_def)
    then show ?case using 10(1) wr_attrs [of a bs w ok w'] kept [OF more(2)] slots [OF more(2)] by blast
  next
    case (11 w a n)
    then have "configured env off attrs" using conf by (simp add: aarch64_sound_def)
    then show ?case
      using 11 slots [of "w\<lparr>plat := env_InvalidateInstructionCacheRange env a n (plat w)\<rparr>" w]
      by (simp add: agent_AARCH64_def configured_def protection_AARCH64_def)
  next
    case (12 w a l r x ok w')
    then have "\<exists>ps. w' = w\<lparr>DBGW := ps\<rparr>"
      using AddWatchpoint_AARCH64_only [of a l r x w ok w'] RemoveWatchpoint_AARCH64_only [of a l r x w ok w']
      by (auto simp: agent_AARCH64_def)
    then show ?case by (auto simp: protection_AARCH64_def)
  qed
qed

section \<open>The phases\<close>

text \<open>What the accessors of a phase transfer, as functions of the protections and the memory.\<close>

type_synonym access = "(u64 \<Rightarrow> u64) \<times> u64 \<times> u64 \<Rightarrow> (u64 \<Rightarrow> u8) \<Rightarrow> u64 \<Rightarrow> nat \<Rightarrow> nat"

definition dxe_access :: access where
  "dxe_access v m a n = accessible (\<lambda>p. fst v p AND EFI_MEMORY_RP = 0) a n"

definition mm_access :: access where
  "mm_access v m a n = n"

text \<open>In PEI the page tables alone count: a machine with nothing else.\<close>

definition tables_X64 :: "u64 \<times> u64 \<Rightarrow> (u64 \<Rightarrow> u8) \<Rightarrow> unit x64" where
  "tables_X64 v m = \<lparr>memory = m, mDbgBreakOnModuleLoadString = [], plat = (), DR0 = 0, DR1 = 0, DR2 = 0, DR3 = 0,
     DR6 = 0, DR7 = 0, CR3 = fst v, CR4 = snd v, TR = 0, IDTR = (0, 0), GDTR = (0, 0), MSR = (\<lambda>_. 0),
     mPerformanceCounterFreq = 0\<rparr>"

definition tables_AARCH64 :: "u64 \<times> u64 \<Rightarrow> (u64 \<Rightarrow> u8) \<Rightarrow> unit aarch64" where
  "tables_AARCH64 v m = \<lparr>memory = m, mDbgBreakOnModuleLoadString = [], plat = (), MDSCR_EL1 = 0, DAIF = 0,
     OSLSR_EL1 = 0, TCR = fst v, TTBR0 = snd v, DBGW = [], CounterFreq = 0\<rparr>"

definition pei_access :: "(u64 \<times> u64 \<Rightarrow> (u64 \<Rightarrow> u8) \<Rightarrow> u64 \<Rightarrow> bool) \<Rightarrow> access" where
  "pei_access page v m a n = (if page (snd v) m a then n else 0)"

abbreviation pei_readable_X64 :: access where
  "pei_readable_X64 \<equiv> pei_access (\<lambda>v m. IsPageReadable_X64 (tables_X64 v m))"

abbreviation pei_writable_X64 :: access where
  "pei_writable_X64 \<equiv> pei_access (\<lambda>v m. IsPageWritable_X64 (tables_X64 v m))"

abbreviation pei_readable_AARCH64 :: access where
  "pei_readable_AARCH64 \<equiv> pei_access (\<lambda>v m. IsPageReadable_AARCH64 (tables_AARCH64 v m))"

abbreviation pei_writable_AARCH64 :: access where
  "pei_writable_AARCH64 \<equiv> pei_access (\<lambda>v m. IsPageWritable_AARCH64 (tables_AARCH64 v m))"

lemma tables_X64: "GetPageIs (tables_X64 (CR3 w, CR4 w) (memory w)) a = GetPageIs w a"
proof -
  have "memory (tables_X64 (CR3 w, CR4 w) (memory w)) = memory w" "CR3 (tables_X64 (CR3 w, CR4 w) (memory w)) = CR3 w"
    "CR4 (tables_X64 (CR3 w, CR4 w) (memory w)) = CR4 w"
    by (simp_all add: tables_X64_def)
  then show ?thesis by (simp only: GetPageIs_def)
qed

lemma tables_AARCH64: "CheckPageAccess (tables_AARCH64 (TCR w, TTBR0 w) (memory w)) a W = CheckPageAccess w a W"
  by (simp add: CheckPageAccess_def tables_AARCH64_def)

lemma DXE_access_exact:
  assumes "services_fit ma attrs" and v: "fst v = attrs (plat w)"
  shows "n \<le> SCRATCH_SIZE \<Longrightarrow> DbgReadMemory_DXE (Some ma) rd wr a n w = (ok, bs, w') \<Longrightarrow>
      length bs = dxe_access v (memory w) a n \<and> (ok \<longleftrightarrow> length bs = n)"
    and "DbgReadMemory_DXE (Some ma) rd wr a n w = (ok, bs, w') \<Longrightarrow> attrs (plat w') = attrs (plat w)"
    and "length d \<le> SCRATCH_SIZE \<Longrightarrow> DbgWriteMemory_DXE (Some ma) rd wr a d w = (ok, w') \<Longrightarrow>
      memory w' = write_bytes (memory w) a (take (dxe_access v (memory w) a (length d)) d) \<and>
      (ok \<longleftrightarrow> dxe_access v (memory w) a (length d) = length d)"
    and "DbgWriteMemory_DXE (Some ma) rd wr a d w = (ok, w') \<Longrightarrow> attrs (plat w') = attrs (plat w)"
proof -
  have ok: "attribute_services_ok ma attrs" "attributes_set ma" "attributes_known ma"
    using assms(1) by (simp_all add: services_fit_def)
  have big: "n \<le> SCRATCH_SIZE \<Longrightarrow> n \<le> 2 ^ 64" for n by (simp add: SCRATCH_SIZE_def)
  show "n \<le> SCRATCH_SIZE \<Longrightarrow> DbgReadMemory_DXE (Some ma) rd wr a n w = (ok, bs, w') \<Longrightarrow>
      length bs = dxe_access v (memory w) a n \<and> (ok \<longleftrightarrow> length bs = n)"
    using DXE_exact [OF ok, of rd wr a "[]" n False w ok bs w'] big [of n]
    by (auto simp: DbgReadMemory_DXE_def dxe_access_def v)
  show "DbgReadMemory_DXE (Some ma) rd wr a n w = (ok, bs, w') \<Longrightarrow> attrs (plat w') = attrs (plat w)"
    using DXE_pages [OF ok(1,2), of rd wr a "[]" n False w ok bs w'] by (auto simp: DbgReadMemory_DXE_def)
  show "length d \<le> SCRATCH_SIZE \<Longrightarrow> DbgWriteMemory_DXE (Some ma) rd wr a d w = (ok, w') \<Longrightarrow>
      memory w' = write_bytes (memory w) a (take (dxe_access v (memory w) a (length d)) d) \<and>
      (ok \<longleftrightarrow> dxe_access v (memory w) a (length d) = length d)"
    using DXE_exact [OF ok, of rd wr a d "length d" True w ok _ w'] big [of "length d"]
    by (auto simp: DbgWriteMemory_DXE_def dxe_access_def v split: prod.splits)
  show "DbgWriteMemory_DXE (Some ma) rd wr a d w = (ok, w') \<Longrightarrow> attrs (plat w') = attrs (plat w)"
    using DXE_pages [OF ok(1,2), of rd wr a d "length d" True w ok _ w']
    by (auto simp: DbgWriteMemory_DXE_def split: prod.splits)
qed

lemma MM_access_exact:
  assumes "services_fit ma attrs" and v: "fst v = attrs (plat w)"
  shows "n \<le> SCRATCH_SIZE \<Longrightarrow> DbgReadMemory_MM ma a n w = (ok, bs, w') \<Longrightarrow>
      length bs = mm_access v (memory w) a n \<and> (ok \<longleftrightarrow> length bs = n)"
    and "DbgReadMemory_MM ma a n w = (ok, bs, w') \<Longrightarrow> attrs (plat w') = attrs (plat w)"
    and "length d \<le> SCRATCH_SIZE \<Longrightarrow> DbgWriteMemory_MM ma a d w = (ok, w') \<Longrightarrow>
      memory w' = write_bytes (memory w) a (take (mm_access v (memory w) a (length d)) d) \<and>
      (ok \<longleftrightarrow> mm_access v (memory w) a (length d) = length d)"
    and "DbgWriteMemory_MM ma a d w = (ok, w') \<Longrightarrow> attrs (plat w') = attrs (plat w)"
proof -
  have ok: "attribute_services_ok ma attrs" "attributes_set ma" "attributes_known ma"
    using assms(1) by (simp_all add: services_fit_def)
  have big: "n \<le> SCRATCH_SIZE \<Longrightarrow> n \<le> 2 ^ 64" for n by (simp add: SCRATCH_SIZE_def)
  show "n \<le> SCRATCH_SIZE \<Longrightarrow> DbgReadMemory_MM ma a n w = (ok, bs, w') \<Longrightarrow>
      length bs = mm_access v (memory w) a n \<and> (ok \<longleftrightarrow> length bs = n)"
    using MM_exact [OF ok, of a "[]" n False w ok bs w'] big [of n]
    by (auto simp: DbgReadMemory_MM_def mm_access_def v)
  show "DbgReadMemory_MM ma a n w = (ok, bs, w') \<Longrightarrow> attrs (plat w') = attrs (plat w)"
    using MM_pages [OF ok(1,2), of a "[]" n False w ok bs w'] by (auto simp: DbgReadMemory_MM_def)
  show "length d \<le> SCRATCH_SIZE \<Longrightarrow> DbgWriteMemory_MM ma a d w = (ok, w') \<Longrightarrow>
      memory w' = write_bytes (memory w) a (take (mm_access v (memory w) a (length d)) d) \<and>
      (ok \<longleftrightarrow> mm_access v (memory w) a (length d) = length d)"
    using MM_exact [OF ok, of a d "length d" True w ok _ w'] big [of "length d"]
    by (auto simp: DbgWriteMemory_MM_def mm_access_def split: prod.splits)
  show "DbgWriteMemory_MM ma a d w = (ok, w') \<Longrightarrow> attrs (plat w') = attrs (plat w)"
    using MM_pages [OF ok(1,2), of a d "length d" True w ok _ w']
    by (auto simp: DbgWriteMemory_MM_def split: prod.splits)
qed

lemma fst_protection: "fst (protection_X64 attrs x) = attrs (plat x)" "fst (protection_AARCH64 attrs a) = attrs (plat a)"
  by (simp_all add: protection_X64_def protection_AARCH64_def)

text \<open>The contracts, build by build.\<close>

lemma dxe_target_X64:
  "stub_target (agent_X64_DXE env off (Some ma)) memory x64_key (\<lambda>w. slots_armed (x64_slots w)) 4
     (x64_sound (configured env off attrs \<and> services_fit ma attrs)) (protection_X64 attrs) dxe_access dxe_access"
  unfolding agent_X64_DXE_def
proof (rule stub_target_X64, goal_cases)
  case 1
  show ?case by (rule dxe_memory.debug_memory_axioms)
next
  case (3 a n w ok bs w')
  then show ?case using DXE_access_exact(1) [where w = w and attrs = attrs, OF _ fst_protection(1) [of attrs w]] by blast
next
  case (4 a n w ok bs w')
  then show ?case using DXE_access_exact(2) [where w = w and attrs = attrs, OF _ fst_protection(1) [of attrs w]] by blast
next
  case (5 a bs w ok w')
  then show ?case using DXE_access_exact(3) [where w = w and attrs = attrs, OF _ fst_protection(1) [of attrs w]] by blast
next
  case (6 a bs w ok w')
  then show ?case using DXE_access_exact(4) [where w = w and attrs = attrs, OF _ fst_protection(1) [of attrs w]] by blast
next
  case (7 a n w ok bs w')
  then show ?case by (rule DXE_more(1))
next
  case (8 a d w ok w')
  then show ?case by (rule DXE_more(2))
qed simp_all

lemma mm_target_X64:
  "stub_target (agent_X64_MM env off ma) memory x64_key (\<lambda>w. slots_armed (x64_slots w)) 4
     (x64_sound (configured env off attrs \<and> services_fit ma attrs)) (protection_X64 attrs) mm_access mm_access"
  unfolding agent_X64_MM_def
proof (rule stub_target_X64, goal_cases)
  case 1
  show ?case by (rule mm_memory.debug_memory_axioms)
next
  case (3 a n w ok bs w')
  then show ?case using MM_access_exact(1) [where w = w and attrs = attrs, OF _ fst_protection(1) [of attrs w]] by blast
next
  case (4 a n w ok bs w')
  then show ?case using MM_access_exact(2) [where w = w and attrs = attrs, OF _ fst_protection(1) [of attrs w]] by blast
next
  case (5 a bs w ok w')
  then show ?case using MM_access_exact(3) [where w = w and attrs = attrs, OF _ fst_protection(1) [of attrs w]] by blast
next
  case (6 a bs w ok w')
  then show ?case using MM_access_exact(4) [where w = w and attrs = attrs, OF _ fst_protection(1) [of attrs w]] by blast
next
  case (7 a n w ok bs w')
  then show ?case by (rule MM_more(1))
next
  case (8 a d w ok w')
  then show ?case by (rule MM_more(2))
qed simp_all

lemma pei_target_X64:
  "stub_target (agent_X64_PEI env off) memory x64_key (\<lambda>w. slots_armed (x64_slots w)) 4
     (x64_sound (configured env off attrs)) (protection_X64 attrs)
     pei_readable_X64 pei_writable_X64"
  unfolding agent_X64_PEI_def
proof (rule stub_target_X64, goal_cases)
  case 1
  show ?case by (rule pei_memory.debug_memory_axioms)
next
  case (3 a n w ok bs w')
  then show ?case by (auto simp: DbgReadMemory_PEI_def pei_access_def IsPageReadable_X64_def tables_X64 protection_X64_def split: if_splits)
next
  case (4 a n w ok bs w')
  then show ?case by (auto simp: DbgReadMemory_PEI_def split: if_splits)
next
  case (5 a d w ok w')
  then show ?case by (auto simp: DbgWriteMemory_PEI_def pei_access_def IsPageWritable_X64_def tables_X64 protection_X64_def split: if_splits)
next
  case (6 a d w ok w')
  then show ?case by (auto simp: DbgWriteMemory_PEI_def split: if_splits)
next
  case (7 a n w ok bs w')
  then show ?case by (rule PEI_more(1))
next
  case (8 a d w ok w')
  then show ?case by (rule PEI_more(2))
qed simp_all

lemma dxe_target_AARCH64:
  "stub_target (agent_AARCH64_DXE env off (Some ma)) memory aarch64_key (\<lambda>w. slots_armed (aarch64_slots w)) MAX_WATCHPOINTS
     (aarch64_sound (configured env off attrs \<and> services_fit ma attrs)) (protection_AARCH64 attrs) dxe_access dxe_access"
  unfolding agent_AARCH64_DXE_def
proof (rule stub_target_AARCH64, goal_cases)
  case 1
  show ?case by (rule dxe_memory.debug_memory_axioms)
next
  case (3 a n w ok bs w')
  then show ?case using DXE_access_exact(1) [where w = w and attrs = attrs, OF _ fst_protection(2) [of attrs w]] by blast
next
  case (4 a n w ok bs w')
  then show ?case using DXE_access_exact(2) [where w = w and attrs = attrs, OF _ fst_protection(2) [of attrs w]] by blast
next
  case (5 a bs w ok w')
  then show ?case using DXE_access_exact(3) [where w = w and attrs = attrs, OF _ fst_protection(2) [of attrs w]] by blast
next
  case (6 a bs w ok w')
  then show ?case using DXE_access_exact(4) [where w = w and attrs = attrs, OF _ fst_protection(2) [of attrs w]] by blast
next
  case (7 a n w ok bs w')
  then show ?case by (rule DXE_more(1))
next
  case (8 a d w ok w')
  then show ?case by (rule DXE_more(2))
qed simp_all

lemma mm_target_AARCH64:
  "stub_target (agent_AARCH64_MM env off ma) memory aarch64_key (\<lambda>w. slots_armed (aarch64_slots w)) MAX_WATCHPOINTS
     (aarch64_sound (configured env off attrs \<and> services_fit ma attrs)) (protection_AARCH64 attrs) mm_access mm_access"
  unfolding agent_AARCH64_MM_def
proof (rule stub_target_AARCH64, goal_cases)
  case 1
  show ?case by (rule mm_memory.debug_memory_axioms)
next
  case (3 a n w ok bs w')
  then show ?case using MM_access_exact(1) [where w = w and attrs = attrs, OF _ fst_protection(2) [of attrs w]] by blast
next
  case (4 a n w ok bs w')
  then show ?case using MM_access_exact(2) [where w = w and attrs = attrs, OF _ fst_protection(2) [of attrs w]] by blast
next
  case (5 a bs w ok w')
  then show ?case using MM_access_exact(3) [where w = w and attrs = attrs, OF _ fst_protection(2) [of attrs w]] by blast
next
  case (6 a bs w ok w')
  then show ?case using MM_access_exact(4) [where w = w and attrs = attrs, OF _ fst_protection(2) [of attrs w]] by blast
next
  case (7 a n w ok bs w')
  then show ?case by (rule MM_more(1))
next
  case (8 a d w ok w')
  then show ?case by (rule MM_more(2))
qed simp_all

lemma pei_target_AARCH64:
  "stub_target (agent_AARCH64_PEI env off) memory aarch64_key (\<lambda>w. slots_armed (aarch64_slots w)) MAX_WATCHPOINTS
     (aarch64_sound (configured env off attrs)) (protection_AARCH64 attrs)
     pei_readable_AARCH64 pei_writable_AARCH64"
  unfolding agent_AARCH64_PEI_def
proof (rule stub_target_AARCH64, goal_cases)
  case 1
  show ?case by (rule pei_memory.debug_memory_axioms)
next
  case (3 a n w ok bs w')
  then show ?case by (auto simp: DbgReadMemory_PEI_def pei_access_def IsPageReadable_AARCH64_def tables_AARCH64 protection_AARCH64_def split: if_splits)
next
  case (4 a n w ok bs w')
  then show ?case by (auto simp: DbgReadMemory_PEI_def split: if_splits)
next
  case (5 a d w ok w')
  then show ?case by (auto simp: DbgWriteMemory_PEI_def pei_access_def IsPageWritable_AARCH64_def tables_AARCH64 protection_AARCH64_def split: if_splits)
next
  case (6 a d w ok w')
  then show ?case by (auto simp: DbgWriteMemory_PEI_def split: if_splits)
next
  case (7 a n w ok bs w')
  then show ?case by (rule PEI_more(1))
next
  case (8 a d w ok w')
  then show ?case by (rule PEI_more(2))
qed simp_all


section \<open>The builds\<close>

interpretation x64_dxe_target: stub_target "agent_X64_DXE env off (Some ma)" memory x64_key
  "\<lambda>w. slots_armed (x64_slots w)" 4 "x64_sound (configured env off attrs \<and> services_fit ma attrs)"
  "protection_X64 attrs" dxe_access dxe_access for env off ma attrs
  by (rule dxe_target_X64)

interpretation x64_dxe_session: stub_session "agent_X64_DXE env off (Some ma)" mPerformanceCounterFreq memory x64_key
  "\<lambda>w. slots_armed (x64_slots w)" 4 "x64_sound (configured env off attrs \<and> services_fit ma attrs)"
  "protection_X64 attrs" dxe_access dxe_access for env off ma attrs
  by (rule stub_session.intro [OF x64_dxe_clock.stub_clock_axioms dxe_target_X64])

interpretation x64_mm_target: stub_target "agent_X64_MM env off ma" memory x64_key
  "\<lambda>w. slots_armed (x64_slots w)" 4 "x64_sound (configured env off attrs \<and> services_fit ma attrs)"
  "protection_X64 attrs" mm_access mm_access for env off ma attrs
  by (rule mm_target_X64)

interpretation x64_mm_session: stub_session "agent_X64_MM env off ma" mPerformanceCounterFreq memory x64_key
  "\<lambda>w. slots_armed (x64_slots w)" 4 "x64_sound (configured env off attrs \<and> services_fit ma attrs)"
  "protection_X64 attrs" mm_access mm_access for env off ma attrs
  by (rule stub_session.intro [OF x64_mm_clock.stub_clock_axioms mm_target_X64])

interpretation x64_pei_target: stub_target "agent_X64_PEI env off" memory x64_key
  "\<lambda>w. slots_armed (x64_slots w)" 4 "x64_sound (configured env off attrs)"
  "protection_X64 attrs" pei_readable_X64 pei_writable_X64 for env off attrs
  by (rule pei_target_X64)

interpretation x64_pei_session: stub_session "agent_X64_PEI env off" mPerformanceCounterFreq memory x64_key
  "\<lambda>w. slots_armed (x64_slots w)" 4 "x64_sound (configured env off attrs)"
  "protection_X64 attrs" pei_readable_X64 pei_writable_X64 for env off attrs
  by (rule stub_session.intro [OF x64_pei_clock.stub_clock_axioms pei_target_X64])

interpretation aarch64_dxe_target: stub_target "agent_AARCH64_DXE env off (Some ma)" memory aarch64_key
  "\<lambda>w. slots_armed (aarch64_slots w)" MAX_WATCHPOINTS "aarch64_sound (configured env off attrs \<and> services_fit ma attrs)"
  "protection_AARCH64 attrs" dxe_access dxe_access for env off ma attrs
  by (rule dxe_target_AARCH64)

interpretation aarch64_dxe_session: stub_session "agent_AARCH64_DXE env off (Some ma)" CounterFreq memory aarch64_key
  "\<lambda>w. slots_armed (aarch64_slots w)" MAX_WATCHPOINTS "aarch64_sound (configured env off attrs \<and> services_fit ma attrs)"
  "protection_AARCH64 attrs" dxe_access dxe_access for env off ma attrs
  by (rule stub_session.intro [OF aarch64_dxe_clock.stub_clock_axioms dxe_target_AARCH64])

interpretation aarch64_mm_target: stub_target "agent_AARCH64_MM env off ma" memory aarch64_key
  "\<lambda>w. slots_armed (aarch64_slots w)" MAX_WATCHPOINTS "aarch64_sound (configured env off attrs \<and> services_fit ma attrs)"
  "protection_AARCH64 attrs" mm_access mm_access for env off ma attrs
  by (rule mm_target_AARCH64)

interpretation aarch64_mm_session: stub_session "agent_AARCH64_MM env off ma" CounterFreq memory aarch64_key
  "\<lambda>w. slots_armed (aarch64_slots w)" MAX_WATCHPOINTS "aarch64_sound (configured env off attrs \<and> services_fit ma attrs)"
  "protection_AARCH64 attrs" mm_access mm_access for env off ma attrs
  by (rule stub_session.intro [OF aarch64_mm_clock.stub_clock_axioms mm_target_AARCH64])

interpretation aarch64_pei_target: stub_target "agent_AARCH64_PEI env off" memory aarch64_key
  "\<lambda>w. slots_armed (aarch64_slots w)" MAX_WATCHPOINTS "aarch64_sound (configured env off attrs)"
  "protection_AARCH64 attrs" pei_readable_AARCH64 pei_writable_AARCH64 for env off attrs
  by (rule pei_target_AARCH64)

interpretation aarch64_pei_session: stub_session "agent_AARCH64_PEI env off" CounterFreq memory aarch64_key
  "\<lambda>w. slots_armed (aarch64_slots w)" MAX_WATCHPOINTS "aarch64_sound (configured env off attrs)"
  "protection_AARCH64 attrs" pei_readable_AARCH64 pei_writable_AARCH64 for env off attrs
  by (rule stub_session.intro [OF aarch64_pei_clock.stub_clock_axioms pei_target_AARCH64])

section \<open>Debugging sessions\<close>

text \<open>The platform and the target of a build, with what its phase can read and write.\<close>

definition platform_X64 ::
  "'p x64 agent \<Rightarrow> access \<Rightarrow> access \<Rightarrow> ((u64 \<Rightarrow> u64) \<times> u64 \<times> u64, u64 \<times> u64 \<times> u64) platform" where
  "platform_X64 ag readable writable = platform_of ag x64_key 4 readable writable"

definition target_X64 ::
  "'p x64 agent \<Rightarrow> ('p \<Rightarrow> u64 \<Rightarrow> u64) \<Rightarrow> 'p x64 gdb \<Rightarrow>
   ((u64 \<Rightarrow> u64) \<times> u64 \<times> u64, u64 \<times> u64 \<times> u64) target" where
  "target_X64 ag attrs = target_of ag memory (\<lambda>w. slots_armed (x64_slots w)) (protection_X64 attrs)"

definition platform_AARCH64 ::
  "'p aarch64 agent \<Rightarrow> access \<Rightarrow> access \<Rightarrow> ((u64 \<Rightarrow> u64) \<times> u64 \<times> u64, u64 \<times> u64 \<times> u64) platform" where
  "platform_AARCH64 ag readable writable = platform_of ag aarch64_key MAX_WATCHPOINTS readable writable"

definition target_AARCH64 ::
  "'p aarch64 agent \<Rightarrow> ('p \<Rightarrow> u64 \<Rightarrow> u64) \<Rightarrow> 'p aarch64 gdb \<Rightarrow>
   ((u64 \<Rightarrow> u64) \<times> u64 \<times> u64, u64 \<times> u64 \<times> u64) target" where
  "target_AARCH64 ag attrs = target_of ag memory (\<lambda>w. slots_armed (aarch64_slots w)) (protection_AARCH64 attrs)"

text \<open>A watchdog library that leaves the page attributes alone.\<close>

definition watchdog_quiet :: "'p watchdog \<Rightarrow> ('p \<Rightarrow> u64 \<Rightarrow> u64) \<Rightarrow> bool" where
  "watchdog_quiet wd attrs \<longleftrightarrow> (\<forall>p. attrs (snd (WatchdogSuspend wd p)) = attrs p) \<and>
     (\<forall>v p. attrs (WatchdogResume wd v p) = attrs p)"

text \<open>
  A stub that an exception finds ready: its table and machine are sound, the clock can be
  read, and neither a timeout nor a reboot is armed.
\<close>

definition ready :: "'w agent \<Rightarrow> ('w \<Rightarrow> bool) \<Rightarrow> 'w gdb \<Rightarrow> bool" where
  "ready ag sound s \<longleftrightarrow> sound (world s) \<and> bp_table_ok (mBreakpoints s) \<and> clock_total ag (world s) \<and>
     mNextBreakpointTimeout s = 0 \<and> \<not> mRebootOnContinue s"

text \<open>Where the X64 handler resumes, given the memory and the context the debugger left.\<close>

definition resume_X64 :: "(X64_FIELD \<Rightarrow> nat) \<Rightarrow> u64 \<Rightarrow> (u64 \<Rightarrow> u8) \<Rightarrow> ctx \<Rightarrow> ctx" where
  "resume_X64 off ty m c =
     (if ty = EXCEPT_X64_BREAKPOINT \<and> m (ctx_get64 c (off X_Rip)) = 0xCC
      then ctx_set64 c (off X_Rip) (ctx_get64 c (off X_Rip) + 1) else c)"

definition resume_AARCH64 :: "(AARCH64_FIELD \<Rightarrow> nat) \<Rightarrow> u64 \<Rightarrow> (u64 \<Rightarrow> u8) \<Rightarrow> ctx \<Rightarrow> ctx" where
  "resume_AARCH64 off ty m c =
     (if ty = 0x3c \<and> read_bytes m (ctx_get64 c (off A_ELR)) 4 = mArchBreakpointInstruction_AARCH64
      then ctx_set64 c (off A_ELR) (ctx_get64 c (off A_ELR) + 4) else c)"

context stub_clock
begin

lemma ReportEntryToDebugger_clock:
  assumes "ReportEntryToDebugger ag info c s = Some (Inr s')"
  shows "base (world s') = base (world s)" and "clock s' = clock s"
proof -
  obtain T n s4 where st: "stub_steps ag (s\<lparr>gSystemContext := c, gExceptionInfo := info, gRunning := False,
      log_suspended := True, mNextBreakpointTimeout := T, clock_reads := n\<rparr>) s4"
    and s': "s' = s4\<lparr>log_suspended := False\<rparr>"
    using ReportEntryToDebugger_steps [OF assms] by blast
  show "base (world s') = base (world s)" using steps_base [OF st] s' by simp
  show "clock s' = clock s" using steps_env [OF st] s' by simp
qed

end

lemma session_X64:
  assumes sess: "stub_session ag mPerformanceCounterFreq memory x64_key (\<lambda>w. slots_armed (x64_slots w)) 4
      (x64_sound conf) (protection_X64 attrs) readable writable"
    and wd: "watchdog_quiet wd attrs" and ready: "ready ag (x64_sound conf) s" and wait: "waits_end ag s"
    and msgs: "\<forall>(k, e) \<in> set cs. message_ok (ag_gRegisterOffsets ag) e"
    and T0: "T0 = target_X64 ag attrs (s\<lparr>gSystemContext := fst (DebuggerExceptionHandler_X64_entry off ty c)\<rparr>)"
    and adm: "admissible_all (platform_X64 ag readable writable) (requests cs) T0"
    and rx: "rx s = stream cs @ replicate n None @ map Some (frame (str ''vCont;c''))"
    and T1: "T1 = snd (serve_all (platform_X64 ag readable writable) (requests cs) T0)"
  shows "\<exists>s'. DebuggerExceptionHandler_X64 wd off ag ty c s = Some (Inr s') \<and>
    target_X64 ag attrs s' = T1\<lparr>tg_registers := resume_X64 off ty (tg_memory T1) (tg_registers T1)\<rparr> \<and>
    tx s' = tx s @ frame (str ''T05thread:01;'') @
      transcript (platform_X64 ag readable writable) cs (str ''T05thread:01;'') False T0 @ str ''+'' \<and>
    gRunning s' \<and> rx s' = [] \<and> ready ag (x64_sound conf) s'"
proof -
  let ?w = "(world s)\<lparr>plat := snd (WatchdogSuspend wd (plat (world s)))\<rparr>"
  let ?c = "fst (DebuggerExceptionHandler_X64_entry off ty c)" and ?info = "snd (DebuggerExceptionHandler_X64_entry off ty c)"
  let ?s = "s\<lparr>world := ?w\<rparr>"
  have attrs: "attrs (plat ?w) = attrs (plat (world s))" using wd by (simp add: watchdog_quiet_def)
  have slots: "x64_slots ?w = x64_slots (world s)" by (intro x64_slots_more) simp
  have clk: "stub_clock ag mPerformanceCounterFreq" using sess by (rule stub_session.axioms(1))
  have r: "x64_sound conf (world ?s)" "bp_table_ok (mBreakpoints ?s)" "clock_total ag (world ?s)" "waits_end ag ?s"
    "ExceptionType ?info \<noteq> ExceptionBreakpoint \<or> mNextBreakpointTimeout ?s = 0" "\<not> mRebootOnContinue ?s"
    using ready wait slots stub_clock.same_clock [OF clk, of ?w "world s"] by (simp_all add: ready_def x64_sound_def)
  have T: "target_X64 ag attrs (?s\<lparr>gSystemContext := ?c\<rparr>) = T0"
    using attrs slots by (simp add: T0 target_X64_def target_of_def protection_X64_def)
  note fold = target_X64_def [of ag attrs, symmetric] platform_X64_def [of ag readable writable, symmetric]
  from stub_session.conversation [OF sess r msgs, of ?c n, unfolded fold T] adm rx obtain s1 where
    s1: "ReportEntryToDebugger ag ?info ?c ?s = Some (Inr s1)" "gRunning s1" "rx s1 = []" "target_X64 ag attrs s1 = T1"
      "tx s1 = tx ?s @ frame (str ''T05thread:01;'') @
        transcript (platform_X64 ag readable writable) cs (str ''T05thread:01;'') False T0 @ str ''+''"
      "mNextBreakpointTimeout s1 = 0" "\<not> mRebootOnContinue s1" "bp_table_ok (mBreakpoints s1)" "x64_sound conf (world s1)"
    using ready T1 by (auto simp: ready_def)
  let ?s2 = "s1\<lparr>gSystemContext := (if ty = EXCEPT_X64_BREAKPOINT \<and>
        memory (world s1) (ctx_get64 (gSystemContext s1) (off X_Rip)) = 0xCC
      then ctx_set64 (gSystemContext s1) (off X_Rip) (ctx_get64 (gSystemContext s1) (off X_Rip) + 1)
      else gSystemContext s1),
    world := (world s1)\<lparr>plat := WatchdogResume wd (fst (WatchdogSuspend wd (plat (world s)))) (plat (world s1))\<rparr>\<rparr>"
  have h: "DebuggerExceptionHandler_X64 wd off ag ty c s = Some (Inr ?s2)" by (rule handler_X64 [OF s1(1)])
  have slots2: "x64_slots (world ?s2) = x64_slots (world s1)" by (intro x64_slots_more) simp
  have "target_X64 ag attrs ?s2 = T1\<lparr>tg_registers := resume_X64 off ty (tg_memory T1) (tg_registers T1)\<rparr>"
    using wd slots2 by (simp add: s1(4) [symmetric] target_X64_def target_of_def protection_X64_def watchdog_quiet_def resume_X64_def)
  moreover have "ready ag (x64_sound conf) ?s2"
    using s1 r(3) slots2 stub_clock.ReportEntryToDebugger_clock [OF clk s1(1)]
      stub_clock.same_clock [OF clk, of "world ?s2" "world ?s"]
    by (simp add: ready_def x64_sound_def)
  ultimately show ?thesis using h s1(2,3,5) by (intro exI [of _ ?s2]) simp
qed

text \<open>
  On AARCH64 the handler clears the step enable of MDSCR before it enters the stub. The
  exception has class \<open>ty\<close> and is reported as \<open>info\<close>.
\<close>

lemma session_AARCH64:
  assumes sess: "stub_session ag CounterFreq memory aarch64_key (\<lambda>w. slots_armed (aarch64_slots w)) MAX_WATCHPOINTS
      (aarch64_sound conf) (protection_AARCH64 attrs) readable writable"
    and wd: "watchdog_quiet wd attrs" and ready: "ready ag (aarch64_sound conf) s" and wait: "waits_end ag s"
    and msgs: "\<forall>(k, e) \<in> set cs. message_ok (ag_gRegisterOffsets ag) e"
    and T0: "T0 = target_AARCH64 ag attrs (s\<lparr>gSystemContext := c\<rparr>)"
    and adm: "admissible_all (platform_AARCH64 ag readable writable) (requests cs) T0"
    and rx: "rx s = stream cs @ replicate n None @ map Some (frame (str ''vCont;c''))"
    and T1: "T1 = snd (serve_all (platform_AARCH64 ag readable writable) (requests cs) T0)"
  shows "\<exists>s'. DebuggerExceptionHandler_AARCH64 wd off ag c s = Some (Inr s') \<and>
    target_AARCH64 ag attrs s' =
      T1\<lparr>tg_registers := resume_AARCH64 off (esr_class off c) (tg_memory T1) (tg_registers T1)\<rparr> \<and>
    tx s' = tx s @ frame (str ''T05thread:01;'') @
      transcript (platform_AARCH64 ag readable writable) cs (str ''T05thread:01;'') False T0 @ str ''+'' \<and>
    gRunning s' \<and> rx s' = [] \<and> ready ag (aarch64_sound conf) s'"
proof -
  let ?w0 = "(world s)\<lparr>plat := snd (WatchdogSuspend wd (plat (world s)))\<rparr>"
  obtain ty info w where e: "DebuggerExceptionHandler_AARCH64_entry off c ?w0 = (ty, info, w)"
    by (metis prod_cases3)
  have ty: "ty = esr_class off c" and "w = ?w0 \<or> (\<exists>v. w = ?w0\<lparr>MDSCR_EL1 := v\<rparr>)"
    using e by (auto simp: DebuggerExceptionHandler_AARCH64_entry_def Let_def esr_class_def split: if_splits)
  then have w: "memory w = memory (world s)" "attrs (plat w) = attrs (plat (world s))"
    "aarch64_slots w = aarch64_slots (world s)" "CounterFreq w = CounterFreq (world s)" "TCR w = TCR (world s)" "TTBR0 w = TTBR0 (world s)"
    using wd by (auto simp: watchdog_quiet_def aarch64_slots_def)
  let ?s = "s\<lparr>world := w\<rparr>"
  have clk: "stub_clock ag CounterFreq" using sess by (rule stub_session.axioms(1))
  have r: "aarch64_sound conf (world ?s)" "bp_table_ok (mBreakpoints ?s)" "clock_total ag (world ?s)" "waits_end ag ?s"
    "ExceptionType info \<noteq> ExceptionBreakpoint \<or> mNextBreakpointTimeout ?s = 0" "\<not> mRebootOnContinue ?s"
    using ready wait w stub_clock.same_clock [OF clk, of w "world s"] by (simp_all add: ready_def aarch64_sound_def)
  have T: "target_AARCH64 ag attrs (?s\<lparr>gSystemContext := c\<rparr>) = T0"
    using w by (simp add: T0 target_AARCH64_def target_of_def protection_AARCH64_def)
  note fold = target_AARCH64_def [of ag attrs, symmetric] platform_AARCH64_def [of ag readable writable, symmetric]
  from stub_session.conversation [OF sess r msgs, of c n, unfolded fold T] adm rx obtain s1 where
    s1: "ReportEntryToDebugger ag info c ?s = Some (Inr s1)" "gRunning s1" "rx s1 = []" "target_AARCH64 ag attrs s1 = T1"
      "tx s1 = tx ?s @ frame (str ''T05thread:01;'') @
        transcript (platform_AARCH64 ag readable writable) cs (str ''T05thread:01;'') False T0 @ str ''+''"
      "mNextBreakpointTimeout s1 = 0" "\<not> mRebootOnContinue s1" "bp_table_ok (mBreakpoints s1)" "aarch64_sound conf (world s1)"
    using ready T1 by (auto simp: ready_def)
  let ?s2 = "s1\<lparr>gSystemContext := (if ty = 0x3c \<and> read_bytes (memory (world s1))
        (ctx_get64 (gSystemContext s1) (off A_ELR)) 4 = mArchBreakpointInstruction_AARCH64
      then ctx_set64 (gSystemContext s1) (off A_ELR) (ctx_get64 (gSystemContext s1) (off A_ELR) + 4)
      else gSystemContext s1),
    world := (world s1)\<lparr>plat := WatchdogResume wd (fst (WatchdogSuspend wd (plat (world s)))) (plat (world s1))\<rparr>\<rparr>"
  have h: "DebuggerExceptionHandler_AARCH64 wd off ag c s = Some (Inr ?s2)" by (rule handler_AARCH64 [OF e s1(1)])
  have slots2: "aarch64_slots (world ?s2) = aarch64_slots (world s1)" by (intro aarch64_slots_more) simp
  have "target_AARCH64 ag attrs ?s2 =
      T1\<lparr>tg_registers := resume_AARCH64 off (esr_class off c) (tg_memory T1) (tg_registers T1)\<rparr>"
    using wd slots2
    by (simp add: s1(4) [symmetric] target_AARCH64_def target_of_def protection_AARCH64_def watchdog_quiet_def resume_AARCH64_def ty)
  moreover have "ready ag (aarch64_sound conf) ?s2"
    using s1 r(3) slots2 stub_clock.ReportEntryToDebugger_clock [OF clk s1(1)]
      stub_clock.same_clock [OF clk, of "world ?s2" "world ?s"]
    by (simp add: ready_def aarch64_sound_def)
  ultimately show ?thesis using h s1(2,3,5) by (intro exI [of _ ?s2]) simp
qed

section \<open>The three phases of an architecture\<close>

lemma sessions_X64:
  assumes "(ag, readable, writable) \<in> {(agent_X64_DXE env off (Some ma), dxe_access, dxe_access),
      (agent_X64_MM env off ma, mm_access, mm_access), (agent_X64_PEI env off, pei_readable_X64, pei_writable_X64)}"
    and "services_fit ma attrs"
  shows "stub_session ag mPerformanceCounterFreq memory x64_key (\<lambda>w. slots_armed (x64_slots w)) 4
      (x64_sound (configured env off attrs)) (protection_X64 attrs) readable writable"
  using assms x64_dxe_session.stub_session_axioms [of env off ma attrs]
    x64_mm_session.stub_session_axioms [of env off ma attrs] x64_pei_session.stub_session_axioms [of env off attrs]
  by auto

lemma sessions_AARCH64:
  assumes "(ag, readable, writable) \<in> {(agent_AARCH64_DXE env off (Some ma), dxe_access, dxe_access),
      (agent_AARCH64_MM env off ma, mm_access, mm_access), (agent_AARCH64_PEI env off, pei_readable_AARCH64, pei_writable_AARCH64)}"
    and "services_fit ma attrs"
  shows "stub_session ag CounterFreq memory aarch64_key (\<lambda>w. slots_armed (aarch64_slots w)) MAX_WATCHPOINTS
      (aarch64_sound (configured env off attrs)) (protection_AARCH64 attrs) readable writable"
  using assms aarch64_dxe_session.stub_session_axioms [of env off ma attrs]
    aarch64_mm_session.stub_session_axioms [of env off ma attrs] aarch64_pei_session.stub_session_axioms [of env off attrs]
  by auto

end
