(* ===== verification/WellFormed.thy ===== *)
theory WellFormed
  imports Targets
begin

text \<open>
  The type of the stub's state: the shape of the breakpoint table, of the packet that is kept
  for a resend, of the array with the module name and of the watchpoint registers. The
  contract \<open>stub_invariant\<close> asks a build for what its routines keep of the machine; under
  it every stop and every poll keeps the state well formed. All six builds provide it.
\<close>

section \<open>The contract\<close>

definition well_formed :: "('w \<Rightarrow> bool) \<Rightarrow> 'w gdb \<Rightarrow> bool" where
  "well_formed fine s \<longleftrightarrow> sent_ok s \<and> bp_table_ok (mBreakpoints s) \<and> fine (world s)"

locale stub_invariant = breakpoint_memory ag mem
  for ag :: "'w agent" and mem :: "'w \<Rightarrow> u64 \<Rightarrow> u8" +
  fixes fine :: "'w \<Rightarrow> bool"
  assumes op_fine: "world_op ag w w' \<Longrightarrow> fine w \<Longrightarrow> fine w'"
    and flush_fine: "fine w \<Longrightarrow> fine (ag_InvalidateInstructionCacheRange ag a n w)"
begin

lemma read_fine: "ag_DbgReadMemory ag a n w = (ok, bs, w') \<Longrightarrow> fine w \<Longrightarrow> fine w'"
  by (rule op_fine) (rule wo_read)

lemma write_fine: "ag_DbgWriteMemory ag a bs w = (ok, w') \<Longrightarrow> fine w \<Longrightarrow> fine w'"
  by (rule op_fine) (rule wo_write)

lemma add_fine: "AddSoftwareBreakpoint ag a (t, w) = Inr (r, t', w') \<Longrightarrow> fine w \<Longrightarrow> fine w'"
  by (auto simp: AddSoftwareBreakpoint_def Let_def ASSERT_def intro!: flush_fine
      dest!: read_fine write_fine split: option.splits if_splits prod.splits)

lemma remove_fine: "RemoveSoftwareBreakpoint ag a (t, w) = (r, t', w') \<Longrightarrow> fine w \<Longrightarrow> fine w'"
  by (auto simp: RemoveSoftwareBreakpoint_def Let_def intro!: flush_fine
      dest!: write_fine split: option.splits prod.splits)

lemma step_well_formed:
  assumes "stub_step ag s s'" and "well_formed fine s"
  shows "well_formed fine s'"
proof -
  have "fine (world s')"
    using assms by (cases rule: stub_step.cases)
      (auto simp: well_formed_def SendGdbAck_eq dest: op_fine add_fine remove_fine)
  then show ?thesis
    using assms(2) step_sent_ok [OF assms(1)] step_table_ok [OF assms(1)] by (simp add: well_formed_def)
qed

lemma steps_well_formed: "stub_steps ag s s' \<Longrightarrow> well_formed fine s \<Longrightarrow> well_formed fine s'"
  using steps_invariant [where P = "well_formed fine"] step_well_formed by metis

lemma ReportEntryToDebugger_well_formed:
  assumes "ReportEntryToDebugger ag info c s = Some (Inr s')" and "well_formed fine s"
  shows "well_formed fine s'"
proof -
  obtain T n s4 where st: "stub_steps ag (s\<lparr>gSystemContext := c, gExceptionInfo := info, gRunning := False,
      log_suspended := True, mNextBreakpointTimeout := T, clock_reads := n\<rparr>) s4"
    and s': "s' = s4\<lparr>log_suspended := False\<rparr>"
    using ReportEntryToDebugger_steps [OF assms(1)] by blast
  have "well_formed fine s4"
    using assms(2) by (intro steps_well_formed [OF st]) (simp add: well_formed_def sent_ok_def)
  then show ?thesis by (simp add: s' well_formed_def sent_ok_def)
qed

text \<open>A poll, when the breakpoint instruction it may execute keeps the state well formed.\<close>

lemma DebuggerPollInput_well_formed:
  assumes run: "DebuggerPollInput brk ag s = Some res"
    and brk: "\<And>x y. brk x = Some (Inr y) \<Longrightarrow> well_formed fine x \<Longrightarrow> well_formed fine y"
  shows "\<forall>s'. res = Inr s' \<longrightarrow> well_formed fine s \<longrightarrow> well_formed fine s'"
proof -
  have "(\<forall>x y. b x = Some (Inr y) \<longrightarrow> well_formed fine x \<longrightarrow> well_formed fine y) \<and> ag' = ag \<longrightarrow>
      (\<forall>s'. r = Inr s' \<longrightarrow> well_formed fine t \<longrightarrow> well_formed fine s')"
    if "DebuggerPollInput b ag' t = Some r" for b ag' t r
  proof (rule DebuggerPollInput.raw_induct [OF _ that], intro impI allI, elim conjE, goal_cases)
    case (1 f b ag' t r s')
    obtain p s1 where poll: "DebugTransportPoll t = (p, s1)" by fastforce
    have wf1: "well_formed fine s1" using steps_well_formed [OF DebugTransportPoll_steps [OF poll]] 1(2-) by blast
    show ?case
    proof (cases p)
      case False
      with 1 poll wf1 show ?thesis by (simp del: DebugTransportPoll.simps)
    next
      case True
      with 1 poll obtain x s2 where rd: "DebugReadByte ag 10 s1 = Some (Inr (x, s2))"
        and rest: "(case x of None \<Rightarrow> Some (Inr s2) | Some c \<Rightarrow>
          if c = 3 then obind (DebuggerBreak b BreakpointReasonDebuggerBreak s2) (\<lambda>s3. f b ag s3)
          else f b ag s2) = Some (Inr s')"
        by (auto simp: obind_eq_Inr simp del: DebugTransportPoll.simps)
      have wf2: "well_formed fine s2" using steps_well_formed [OF DebugReadByte_steps [OF rd] wf1] .
      have ih: "well_formed fine u \<Longrightarrow> f b ag u = Some (Inr s') \<Longrightarrow> well_formed fine s'" for u
        using 1(1) [of b ag u "Inr s'"] 1(2-) by blast
      have "well_formed fine s3" if br: "DebuggerBreak b BreakpointReasonDebuggerBreak s2 = Some (Inr s3)" for s3
      proof -
        obtain y where y: "b (s2\<lparr>DebuggerBreakpointReason := BreakpointReasonDebuggerBreak\<rparr>) = Some (Inr y)"
          and s3: "s3 = y\<lparr>DebuggerBreakpointReason := BreakpointReasonNone\<rparr>"
          using br by (auto simp: DebuggerBreak_def obind_eq_Inr)
        have "well_formed fine (s2\<lparr>DebuggerBreakpointReason := BreakpointReasonDebuggerBreak\<rparr>)"
          using wf2 by (simp add: well_formed_def sent_ok_def)
        with y 1 have "well_formed fine y" by blast
        then show ?thesis by (simp add: s3 well_formed_def sent_ok_def)
      qed
      with rest ih wf2 show ?thesis by (auto simp: obind_eq_Inr split: option.splits if_splits)
    qed
  qed
  with run brk show ?thesis by blast
qed

end
section \<open>What the routines of a build keep\<close>

definition frame_of :: "('p, 'z) machine_scheme \<Rightarrow> nat \<times> 'z" where
  "frame_of w = (length (mDbgBreakOnModuleLoadString w), machine.more w)"

lemma undisturbed_frame_of: "undisturbed frame_of"
  by (simp add: undisturbed_def frame_of_def)

lemmas memory_frame_of = DXE_keeps [OF undisturbed_frame_of] MM_keeps [OF undisturbed_frame_of]
  PEI_keeps [OF undisturbed_frame_of]

lemma module_frame_of:
  "DbgSetBreakOnModuleLoad_DXE M w = (ok, w') \<Longrightarrow> frame_of w' = frame_of w"
  "DbgSetBreakOnModuleLoad_MM M w = (ok, w') \<Longrightarrow> frame_of w' = frame_of w"
  "DbgSetBreakOnModuleLoad_PEI M w = (ok, w') \<Longrightarrow> frame_of w' = frame_of w"
proof -
  assume set: "DbgSetBreakOnModuleLoad_DXE M w = (ok, w')"
  show "frame_of w' = frame_of w"
    using DbgSetBreakOnModuleLoad_DXE_eq [of M w] module_reboot_more(1) [OF set] unfolding set by (simp add: frame_of_def)
qed (simp_all add: DbgSetBreakOnModuleLoad_MM_def DbgSetBreakOnModuleLoad_PEI_def)

lemma reboot_frame_of:
  "DebugReboot_DXE w = Inr w' \<Longrightarrow> frame_of w' = frame_of w"
  "DebugReboot_MM w = Inr w' \<Longrightarrow> frame_of w' = frame_of w"
  "DebugReboot_PEI w = Inr w' \<Longrightarrow> frame_of w' = frame_of w"
  by (simp_all add: DebugReboot_DXE_def DebugReboot_MM_def DebugReboot_PEI_def)

section \<open>X64\<close>

definition fine_X64 :: "'p x64 \<Rightarrow> bool" where
  "fine_X64 w \<longleftrightarrow> slots_unique (x64_slots w) \<and> length (x64_slots w) = 4 \<and>
     length (mDbgBreakOnModuleLoadString w) = 64"

lemma fine_X64_frame: "frame_of w' = frame_of w \<Longrightarrow> fine_X64 w \<longleftrightarrow> fine_X64 w'"
  using x64_slots_more [of w' w] by (simp add: fine_X64_def frame_of_def)

lemma fine_X64_plat: "fine_X64 (w\<lparr>plat := p\<rparr>) = fine_X64 w"
  using fine_X64_frame [of "w\<lparr>plat := p\<rparr>" w] by (simp add: frame_of_def)

lemma watchpoint_fine_X64:
  assumes "AddWatchpoint_X64 a l r x w = (ok, w') \<or> RemoveWatchpoint_X64 a l r x w = (ok, w')" and "fine_X64 w"
  shows "fine_X64 w'"
proof -
  have "undebugged w' = undebugged w" using assms(1) AddWatchpoint_X64_only RemoveWatchpoint_X64_only by blast
  moreover have "mDbgBreakOnModuleLoadString (undebugged v) = mDbgBreakOnModuleLoadString v" for v :: "'a x64"
    by (simp add: undebugged_def)
  ultimately have "mDbgBreakOnModuleLoadString w' = mDbgBreakOnModuleLoadString w" by metis
  moreover have "slots_unique (x64_slots w') \<and> length (x64_slots w') = 4"
    using assms x64_wp.add_inv [of w a l r x ok w'] x64_wp.remove_inv [of w a l r x ok w'] by (auto simp: fine_X64_def)
  ultimately show ?thesis using assms(2) by (simp add: fine_X64_def)
qed

lemma stub_invariant_X64:
  assumes mem: "debug_memory rdmem wrmem memory"
    and keeps: "\<And>a n w ok bs w'. rdmem a n w = (ok, bs, w') \<Longrightarrow> frame_of w' = frame_of w"
      "\<And>a d w ok w'. wrmem a d w = (ok, w') \<Longrightarrow> frame_of w' = frame_of w"
      "\<And>w w'. reboot w = Inr w' \<Longrightarrow> frame_of w' = frame_of w"
      "\<And>M w ok w'. module M w = (ok, w') \<Longrightarrow> frame_of w' = frame_of w"
  shows "stub_invariant (agent_X64 env off rdmem wrmem reboot module info) memory fine_X64"
proof (intro stub_invariant.intro stub_invariant_axioms.intro, goal_cases)
  case 1
  show ?case by (rule breakpoint_memory_X64 [OF mem])
next
  case (2 w w')
  then show ?case
    by (cases rule: world_op.cases)
      (auto simp: agent_X64_def AddSingleStep_X64_def dest: keeps [THEN fine_X64_frame]
        watchpoint_fine_X64 [OF disjI1] watchpoint_fine_X64 [OF disjI2])
next
  case (3 w a n)
  then show ?case by (simp add: agent_X64_def fine_X64_plat)
qed

interpretation x64_dxe_fine: stub_invariant "agent_X64_DXE env off ma" memory fine_X64 for env off ma
  unfolding agent_X64_DXE_def
  by (rule stub_invariant_X64 [OF dxe_memory.debug_memory_axioms memory_frame_of(1,2) reboot_frame_of(1) module_frame_of(1)])

interpretation x64_mm_fine: stub_invariant "agent_X64_MM env off smm" memory fine_X64 for env off smm
  unfolding agent_X64_MM_def
  by (rule stub_invariant_X64 [OF mm_memory.debug_memory_axioms memory_frame_of(3,4) reboot_frame_of(2) module_frame_of(2)])

interpretation x64_pei_fine: stub_invariant "agent_X64_PEI env off" memory fine_X64 for env off
  unfolding agent_X64_PEI_def
  by (rule stub_invariant_X64 [OF pei_memory.debug_memory_axioms memory_frame_of(5,6) reboot_frame_of(3) module_frame_of(3)])

text \<open>The handler: the watchdog library changes the services' state only.\<close>

lemma handler_X64_well_formed:
  assumes inv: "stub_invariant ag memory fine_X64"
    and run: "DebuggerExceptionHandler_X64 wd off ag ty c s = Some (Inr s')" and s: "well_formed fine_X64 s"
  shows "well_formed fine_X64 s'"
proof -
  obtain s1 p c' where r: "ReportEntryToDebugger ag (snd (DebuggerExceptionHandler_X64_entry off ty c))
      (fst (DebuggerExceptionHandler_X64_entry off ty c))
      (s\<lparr>world := (world s)\<lparr>plat := snd (WatchdogSuspend wd (plat (world s)))\<rparr>\<rparr>) = Some (Inr s1)"
    and s': "s' = s1\<lparr>gSystemContext := c', world := (world s1)\<lparr>plat := p\<rparr>\<rparr>"
    using run by (auto simp: DebuggerExceptionHandler_X64_def Let_def obind_eq_Inr split: prod.splits)
  have "well_formed fine_X64 s1"
    using s by (intro stub_invariant.ReportEntryToDebugger_well_formed [OF inv r])
      (simp add: well_formed_def sent_ok_def fine_X64_plat)
  then show ?thesis by (simp add: s' well_formed_def sent_ok_def fine_X64_plat)
qed

section \<open>AARCH64\<close>

definition fine_AARCH64 :: "'p aarch64 \<Rightarrow> bool" where
  "fine_AARCH64 w \<longleftrightarrow> slots_unique (aarch64_slots w) \<and> length (aarch64_slots w) = MAX_WATCHPOINTS \<and>
     length (mDbgBreakOnModuleLoadString w) = 64"

lemma fine_AARCH64_frame: "frame_of w' = frame_of w \<Longrightarrow> fine_AARCH64 w \<longleftrightarrow> fine_AARCH64 w'"
  using aarch64_slots_more [of w' w] by (simp add: fine_AARCH64_def frame_of_def)

lemma watchpoint_fine_AARCH64:
  assumes "AddWatchpoint_AARCH64 a l r x w = (ok, w') \<or> RemoveWatchpoint_AARCH64 a l r x w = (ok, w')"
    and "fine_AARCH64 w"
  shows "fine_AARCH64 w'"
proof -
  have "mDbgBreakOnModuleLoadString w' = mDbgBreakOnModuleLoadString w"
    using assms(1) AddWatchpoint_AARCH64_only RemoveWatchpoint_AARCH64_only by fastforce
  moreover have "slots_unique (aarch64_slots w') \<and> length (aarch64_slots w') = MAX_WATCHPOINTS"
    using assms aarch64_wp.add_inv [of w a l r x ok w'] aarch64_wp.remove_inv [of w a l r x ok w']
    by (auto simp: fine_AARCH64_def)
  ultimately show ?thesis using assms(2) by (simp add: fine_AARCH64_def)
qed

lemma fine_AARCH64_updates:
  "fine_AARCH64 (w\<lparr>plat := p\<rparr>) = fine_AARCH64 w" "fine_AARCH64 (w\<lparr>MDSCR_EL1 := v\<rparr>) = fine_AARCH64 w"
  by (simp_all add: fine_AARCH64_def aarch64_slots_def)

lemma stub_invariant_AARCH64:
  assumes mem: "debug_memory rdmem wrmem memory"
    and keeps: "\<And>a n w ok bs w'. rdmem a n w = (ok, bs, w') \<Longrightarrow> frame_of w' = frame_of w"
      "\<And>a d w ok w'. wrmem a d w = (ok, w') \<Longrightarrow> frame_of w' = frame_of w"
      "\<And>w w'. reboot w = Inr w' \<Longrightarrow> frame_of w' = frame_of w"
      "\<And>M w ok w'. module M w = (ok, w') \<Longrightarrow> frame_of w' = frame_of w"
  shows "stub_invariant (agent_AARCH64 env off rdmem wrmem reboot module info) memory fine_AARCH64"
proof (intro stub_invariant.intro stub_invariant_axioms.intro, goal_cases)
  case 1
  show ?case by (rule breakpoint_memory_AARCH64 [OF mem])
next
  case (2 w w')
  then show ?case
    by (cases rule: world_op.cases)
      (auto simp: agent_AARCH64_def AddSingleStep_AARCH64_def Let_def fine_AARCH64_updates
        dest: keeps [THEN fine_AARCH64_frame]
        watchpoint_fine_AARCH64 [OF disjI1] watchpoint_fine_AARCH64 [OF disjI2])
next
  case (3 w a n)
  then show ?case by (simp add: agent_AARCH64_def fine_AARCH64_updates)
qed

interpretation aarch64_dxe_fine: stub_invariant "agent_AARCH64_DXE env off ma" memory fine_AARCH64 for env off ma
  unfolding agent_AARCH64_DXE_def
  by (rule stub_invariant_AARCH64 [OF dxe_memory.debug_memory_axioms memory_frame_of(1,2) reboot_frame_of(1) module_frame_of(1)])

interpretation aarch64_mm_fine: stub_invariant "agent_AARCH64_MM env off smm" memory fine_AARCH64 for env off smm
  unfolding agent_AARCH64_MM_def
  by (rule stub_invariant_AARCH64 [OF mm_memory.debug_memory_axioms memory_frame_of(3,4) reboot_frame_of(2) module_frame_of(2)])

interpretation aarch64_pei_fine: stub_invariant "agent_AARCH64_PEI env off" memory fine_AARCH64 for env off
  unfolding agent_AARCH64_PEI_def
  by (rule stub_invariant_AARCH64 [OF pei_memory.debug_memory_axioms memory_frame_of(5,6) reboot_frame_of(3) module_frame_of(3)])

lemma handler_AARCH64_well_formed:
  assumes inv: "stub_invariant ag memory fine_AARCH64"
    and run: "DebuggerExceptionHandler_AARCH64 wd off ag c s = Some (Inr s')" and s: "well_formed fine_AARCH64 s"
  shows "well_formed fine_AARCH64 s'"
proof -
  obtain ty info w where e: "DebuggerExceptionHandler_AARCH64_entry off c
      ((world s)\<lparr>plat := snd (WatchdogSuspend wd (plat (world s)))\<rparr>) = (ty, info, w)"
    by (metis prod_cases3)
  then have w: "fine_AARCH64 w = fine_AARCH64 (world s)"
    by (auto simp: DebuggerExceptionHandler_AARCH64_entry_def Let_def fine_AARCH64_updates split: if_splits)
  obtain s1 p c' where r: "ReportEntryToDebugger ag info c (s\<lparr>world := w\<rparr>) = Some (Inr s1)"
    and s': "s' = s1\<lparr>gSystemContext := c', world := (world s1)\<lparr>plat := p\<rparr>\<rparr>"
    using run e by (auto simp: DebuggerExceptionHandler_AARCH64_def Let_def obind_eq_Inr split: prod.splits)
  have "well_formed fine_AARCH64 s1"
    using s w by (intro stub_invariant.ReportEntryToDebugger_well_formed [OF inv r])
      (simp add: well_formed_def sent_ok_def)
  then show ?thesis by (simp add: s' well_formed_def sent_ok_def fine_AARCH64_updates)
qed

end
