(* ===== verification/AddressCheckAarch64.thy ===== *)
theory AddressCheckAarch64
  imports DebugAarch64
begin

text \<open>
  The page table walk of AARCH64/DebugAarch64.c against the architecture's: four level
  translation with a 4 KiB granule, the configuration of \<open>T0SZ = 16\<close>. The reference walk
  selects each index as a bit field of the address and reads the entry that maps it; the
  recursive walk of the code finds that entry and returns its attribute fields.
\<close>

section \<open>The walk of the architecture\<close>

definition tt_next :: "u64 \<Rightarrow> u64" where "tt_next e = e AND 0x0000FFFFFFFFF000"

definition tt_entry :: "(u64 \<Rightarrow> u8) \<Rightarrow> u64 \<Rightarrow> nat \<Rightarrow> u64 \<Rightarrow> u64" where
  "tt_entry m table lvl a = read_u64 m (table + 8 * get_field a (39 - 9 * lvl) 9)"

definition tt_is_table :: "u64 \<Rightarrow> bool" where "tt_is_table e \<longleftrightarrow> bit e 0 \<and> bit e 1"
definition tt_is_block :: "u64 \<Rightarrow> bool" where "tt_is_block e \<longleftrightarrow> bit e 0 \<and> \<not> bit e 1"

text \<open>Blocks exist at levels 1 and 2, pages at level 3, and level 0 only has tables.\<close>

definition aarch64_leaf :: "(u64 \<Rightarrow> u8) \<Rightarrow> u64 \<Rightarrow> u64 \<Rightarrow> u64 option" where
  "aarch64_leaf m ttbr a =
     (let e0 = tt_entry m ttbr 0 a; e1 = tt_entry m (tt_next e0) 1 a;
          e2 = tt_entry m (tt_next e1) 2 a; e3 = tt_entry m (tt_next e2) 3 a in
      if \<not> tt_is_table e0 then None
      else if tt_is_block e1 then Some e1
      else if \<not> tt_is_table e1 then None
      else if tt_is_block e2 then Some e2
      else if \<not> tt_is_table e2 then None
      else if tt_is_table e3 then Some e3 else None)"

section \<open>Steps of the walk\<close>

lemma two_bits: "take_bit 2 e = of_bool (bit e 0) + 2 * of_bool (bit e 1)" for e :: u64
  by (simp add: numeral_2_eq_2 take_bit_Suc bit_Suc bit_0 mod_2_eq_odd)

lemma entry_type:
  "(e AND TT_TYPE_MASK = 3) = tt_is_table e" "(e AND TT_TYPE_MASK = 1) = tt_is_block e"
proof -
  have m: "e AND TT_TYPE_MASK = take_bit 2 e"
    by (simp add: TT_TYPE_MASK_def take_bit_eq_mask mask_eq_exp_minus_1)
  show "(e AND TT_TYPE_MASK = 3) = tt_is_table e" "(e AND TT_TYPE_MASK = 1) = tt_is_block e"
    by (auto simp: m two_bits tt_is_table_def tt_is_block_def)
qed

lemma table_address: "e AND TT_ADDRESS_MASK_DESCRIPTION_TABLE = tt_next e"
  by (simp add: TT_ADDRESS_MASK_DESCRIPTION_TABLE_def tt_next_def push_bit_eq_mult)

lemma entry_address:
  assumes "lvl \<le> 3"
  shows "read_u64 m (TT_GET_ENTRY_FOR_ADDRESS t (int lvl) a) = tt_entry m t lvl a"
proof -
  have "drop_bit n a AND 0x1FF = get_field a n 9" for n
    by (simp add: get_field_def take_bit_eq_mask mask_eq_exp_minus_1)
  moreover have "TT_ADDRESS_OFFSET_AT_LEVEL (int lvl) = 39 - 9 * lvl"
    using assms by (simp add: TT_ADDRESS_OFFSET_AT_LEVEL_def)
  ultimately show ?thesis
    by (simp add: TT_GET_ENTRY_FOR_ADDRESS_def tt_entry_def mult.commute)
qed

lemma walk_step:
  assumes "lvl < 3"
  shows "ParsePageTableLevel m t (int lvl) a =
    (let e = tt_entry m t lvl a in
     if tt_is_table e then ParsePageTableLevel m (tt_next e) (int (Suc lvl)) a
     else if tt_is_block e then Some (e AND TT_ATTRIBUTES_MASK) else None)"
  using assms
  by (subst ParsePageTableLevel.simps) (simp add: Let_def entry_address entry_type table_address add.commute)

lemma walk_last:
  "ParsePageTableLevel m t (int 3) a =
    (let e = tt_entry m t 3 a in if tt_is_table e then Some (e AND TT_ATTRIBUTES_MASK) else None)"
  by (subst ParsePageTableLevel.simps)
    (simp add: Let_def entry_type entry_address [of 3, simplified])

text \<open>The code also follows a block at level 0, which the architecture does not have.\<close>

lemma ParsePageTableLevel_eq_walk:
  assumes "\<not> tt_is_block (tt_entry m ttbr 0 a)"
  shows "ParsePageTableLevel m ttbr 0 a = map_option (\<lambda>e. e AND TT_ATTRIBUTES_MASK) (aarch64_leaf m ttbr a)"
proof -
  define e0 where "e0 = tt_entry m ttbr 0 a"
  define e1 where "e1 = tt_entry m (tt_next e0) (Suc 0) a"
  define e2 where "e2 = tt_entry m (tt_next e1) 2 a"
  define e3 where "e3 = tt_entry m (tt_next e2) 3 a"
  note es = e0_def [symmetric] e1_def [symmetric] e2_def [symmetric] e3_def [symmetric]
  let ?A = "\<lambda>e. e AND TT_ATTRIBUTES_MASK"
  have s3: "ParsePageTableLevel m (tt_next e2) 3 a = (if tt_is_table e3 then Some (?A e3) else None)"
    using walk_last [of m "tt_next e2" a] by (simp add: Let_def es)
  have s2: "ParsePageTableLevel m (tt_next e1) 2 a =
      (if tt_is_table e2 then ParsePageTableLevel m (tt_next e2) 3 a
       else if tt_is_block e2 then Some (?A e2) else None)"
    using walk_step [of 2 m "tt_next e1" a] by (simp add: Let_def es)
  have s1: "ParsePageTableLevel m (tt_next e0) 1 a =
      (if tt_is_table e1 then ParsePageTableLevel m (tt_next e1) 2 a
       else if tt_is_block e1 then Some (?A e1) else None)"
    using walk_step [of 1 m "tt_next e0" a] by (simp add: Let_def es)
  have s0: "ParsePageTableLevel m ttbr 0 a =
      (if tt_is_table e0 then ParsePageTableLevel m (tt_next e0) 1 a else None)"
    using walk_step [of 0 m ttbr a] assms by (simp add: Let_def es)
  have excl: "tt_is_table e \<Longrightarrow> \<not> tt_is_block e" for e by (simp add: tt_is_table_def tt_is_block_def)
  show ?thesis
    unfolding aarch64_leaf_def Let_def One_nat_def es s0 s1 s2 s3 by (simp add: excl)
qed

text \<open>At level 0 the code takes a block for a mapping.\<close>

lemma ParsePageTableLevel_block_0:
  assumes "tt_is_block (tt_entry m ttbr 0 a)"
  shows "ParsePageTableLevel m ttbr 0 a = Some (tt_entry m ttbr 0 a AND TT_ATTRIBUTES_MASK)"
    and "aarch64_leaf m ttbr a = None"
  using assms walk_step [of 0 m ttbr a]
  by (simp_all add: Let_def tt_is_block_def tt_is_table_def aarch64_leaf_def)

section \<open>Access\<close>

text \<open>The fields of a leaf: attribute index, access permissions, access flag.\<close>

definition tt_AttrIndx :: "u64 \<Rightarrow> u64" where "tt_AttrIndx e = get_field e 2 3"
definition tt_AP :: "u64 \<Rightarrow> u64" where "tt_AP e = get_field e 6 2"
definition tt_AF :: "u64 \<Rightarrow> bool" where "tt_AF e = bit e 10"

lemma and_field_zero:
  assumes "off + len \<le> 64"
  shows "(e AND push_bit off (mask len) = 0) = (get_field e off len = 0)"
proof -
  have "e AND push_bit off (mask len) = push_bit off (get_field e off len)"
    using assms by (intro bit_word_eqI) (auto simp: bit_get_field bit_simps)
  moreover have "drop_bit off (e AND push_bit off (mask len)) = get_field e off len"
    using assms by (intro bit_word_eqI) (auto simp: bit_get_field bit_simps add.commute)
  ultimately show ?thesis by (metis drop_bit_of_0 push_bit_of_0)
qed

lemma odd_field: "0 < len \<Longrightarrow> odd (get_field e off len) = bit e off"
  using bit_get_field [of e off len 0] by (simp add: bit_0)

lemma attribute_fields:
  "((e AND TT_ATTRIBUTES_MASK) AND TT_ATTR_INDX_MASK = 0) = (tt_AttrIndx e = 0)"
  "((e AND TT_ATTRIBUTES_MASK) AND TT_AP_MASK = 0) = (tt_AP e = 0)"
  "((e AND TT_ATTRIBUTES_MASK) AND TT_AP_RW_RW = 0) = (\<not> odd (tt_AP e))"
  "((e AND TT_ATTRIBUTES_MASK) AND TT_AF = 0) = (\<not> tt_AF e)"
proof -
  have keep: "TT_ATTRIBUTES_MASK AND TT_ATTR_INDX_MASK = push_bit 2 (mask 3)"
    "TT_ATTRIBUTES_MASK AND TT_AP_MASK = push_bit 6 (mask 2)"
    "TT_ATTRIBUTES_MASK AND TT_AP_RW_RW = push_bit 6 (mask 1)"
    "TT_ATTRIBUTES_MASK AND TT_AF = push_bit 10 (mask 1)"
    by (simp_all add: TT_ATTRIBUTES_MASK_def TT_ATTR_INDX_MASK_def TT_AP_MASK_def TT_AP_RW_RW_def
        TT_AF_def mask_eq_exp_minus_1 push_bit_eq_mult)
  have one: "get_field e off 1 = 0 \<longleftrightarrow> \<not> bit e off" for off
    by (simp add: get_field_def take_bit_Suc_0 mod_2_eq_odd bit_iff_odd_drop_bit)
  have fits: "2 + 3 \<le> (64 :: nat)" "6 + 2 \<le> (64 :: nat)" "6 + 1 \<le> (64 :: nat)" "10 + 1 \<le> (64 :: nat)"
    by simp_all
  show "((e AND TT_ATTRIBUTES_MASK) AND TT_ATTR_INDX_MASK = 0) = (tt_AttrIndx e = 0)"
    "((e AND TT_ATTRIBUTES_MASK) AND TT_AP_MASK = 0) = (tt_AP e = 0)"
    "((e AND TT_ATTRIBUTES_MASK) AND TT_AP_RW_RW = 0) = (\<not> odd (tt_AP e))"
    "((e AND TT_ATTRIBUTES_MASK) AND TT_AF = 0) = (\<not> tt_AF e)"
    unfolding and.assoc keep
    by (simp_all only: and_field_zero [OF fits(1)] and_field_zero [OF fits(2)] and_field_zero [OF fits(3)]
        and_field_zero [OF fits(4)] tt_AttrIndx_def tt_AP_def tt_AF_def one odd_field zero_less_numeral)
qed

text \<open>
  What the code answers: a leaf of device memory (attribute index 0) is refused; otherwise
  readable means the access flag, and writable means the permission field is not 2.
\<close>

lemma CheckPageAccess_eq:
  assumes "a < 0xfffff00000000000" and "TCR w AND 0x3F = 16"
    and "\<not> tt_is_block (tt_entry (memory w) (TTBR0 w) 0 a)"
  shows "CheckPageAccess w a wr =
    (case aarch64_leaf (memory w) (TTBR0 w) a of
       None \<Rightarrow> False
     | Some e \<Rightarrow> tt_AttrIndx e \<noteq> 0 \<and> (if wr then tt_AP e \<noteq> 2 else tt_AF e))"
proof -
  have ap: "tt_AP e = 0 \<longleftrightarrow> even (tt_AP e) \<and> tt_AP e \<noteq> 2" for e
  proof -
    have "tt_AP e = of_bool (bit e 6) + 2 * of_bool (bit e 7)"
      by (simp only: tt_AP_def get_field_def two_bits bit_drop_bit_eq) simp
    then show ?thesis by auto
  qed
  show ?thesis
    using assms(1,2) ParsePageTableLevel_eq_walk [OF assms(3)]
    by (auto simp: CheckPageAccess_def Let_def attribute_fields not_le [symmetric] ap split: option.splits)
qed

end
