(* ===== verification/AgentInit.thy ===== *)
theory AgentInit
  imports Builds
begin

text \<open>
  Start-up of the agent: the configuration HOB of DebugConfigPei, the registration of the
  exception handlers, and \<open>InitializeDebugAgent\<close> of the MM and PEI builds. Firmware services
  are a parameter, the record \<open>services\<close>: each acts on the state \<open>plat\<close> of code outside the
  repository. The lemmas show which handlers are installed on every path.
\<close>

section \<open>The configuration\<close>

record DEBUGGER_CONTROL_HOB =
  Control :: u32
  PerformanceCounterFreq :: u64
  InitialBreakpointTimeout :: u64

definition InitialBreakpoint :: "DEBUGGER_CONTROL_HOB \<Rightarrow> bool" where "InitialBreakpoint h = bit (Control h) 0"
definition DxeDebugEnabled :: "DEBUGGER_CONTROL_HOB \<Rightarrow> bool" where "DxeDebugEnabled h = bit (Control h) 1"
definition MmDebugEnabled :: "DEBUGGER_CONTROL_HOB \<Rightarrow> bool" where "MmDebugEnabled h = bit (Control h) 2"
definition DisablePolling :: "DEBUGGER_CONTROL_HOB \<Rightarrow> bool" where "DisablePolling h = bit (Control h) 3"

definition DefaultDebugConfig_DXE :: DEBUGGER_CONTROL_HOB where
  "DefaultDebugConfig_DXE = \<lparr>Control = 0x3, PerformanceCounterFreq = 0x300000, InitialBreakpointTimeout = 0\<rparr>"

definition DefaultDebugConfig_MM :: DEBUGGER_CONTROL_HOB where
  "DefaultDebugConfig_MM = \<lparr>Control = 0x5, PerformanceCounterFreq = 0x300000, InitialBreakpointTimeout = 0\<rparr>"

definition DefaultPeiDebugConfig :: DEBUGGER_CONTROL_HOB where
  "DefaultPeiDebugConfig = \<lparr>Control = 0x1, PerformanceCounterFreq = 0x300000, InitialBreakpointTimeout = 0\<rparr>"

text \<open>
  DebugConfigPei: the architecture's part, given the time stamp counter before and after the
  delay, and the entry. \<open>room\<close> tells whether \<open>BuildGuidHob\<close> succeeds; the HOB list is the list
  of debugger HOBs, the oldest first. The result is TRUE for success.
\<close>

definition ArchDebugConfig_X64 :: "u64 \<Rightarrow> u64 \<Rightarrow> DEBUGGER_CONTROL_HOB \<Rightarrow> DEBUGGER_CONTROL_HOB" where
  "ArchDebugConfig_X64 StartTick EndTick h = h\<lparr>PerformanceCounterFreq := EndTick - StartTick\<rparr>"

definition ArchDebugConfig_AARCH64 :: "DEBUGGER_CONTROL_HOB \<Rightarrow> DEBUGGER_CONTROL_HOB" where
  "ArchDebugConfig_AARCH64 h = h"

definition DebugConfigPeiEntry ::
  "(DEBUGGER_CONTROL_HOB \<Rightarrow> DEBUGGER_CONTROL_HOB) \<Rightarrow> u32 \<Rightarrow> u64 \<Rightarrow> bool \<Rightarrow> bool \<Rightarrow>
   DEBUGGER_CONTROL_HOB list \<Rightarrow> bool \<times> DEBUGGER_CONTROL_HOB list" where
  "DebugConfigPeiEntry ArchDebugConfig PcdDebugConfigFlags PcdInitialBreakpointTimeoutMs
     source_debug_enabled room hobs =
     (if \<not> source_debug_enabled then (True, hobs)
      else if \<not> room then (False, hobs)
      else
        (let h0 = \<lparr>Control = 0, PerformanceCounterFreq = 0, InitialBreakpointTimeout = 0\<rparr>;
             h1 = h0\<lparr>Control := PcdDebugConfigFlags\<rparr>;
             h2 = h1\<lparr>InitialBreakpointTimeout := PcdInitialBreakpointTimeoutMs\<rparr>
         in (True, hobs @ [ArchDebugConfig h2])))"

section \<open>Services\<close>

text \<open>
  A handler registration names the vector and whether \<open>DebuggerExceptionHandler\<close> (True) or
  NULL (False) is installed. Results are True for success; events are handles, \<open>None\<close> for a
  failed creation.
\<close>

datatype protocol = CpuArchProtocol | TimerArchProtocol | LoadedImageProtocol | MemoryAttributeProtocol

record 'p services =
  RegisterInterruptHandler :: "u64 \<Rightarrow> bool \<Rightarrow> 'p \<Rightarrow> bool \<times> 'p"
  RegisterCpuInterruptHandler :: "u64 \<Rightarrow> bool \<Rightarrow> 'p \<Rightarrow> bool \<times> 'p"
  InitializeCpuExceptionHandlers :: "'p \<Rightarrow> bool \<times> 'p"
  DebugTransportInitialize :: "'p \<Rightarrow> bool \<times> 'p"
  CreateTimerEvent :: "'p \<Rightarrow> nat option \<times> 'p"
  SetTimer :: "nat \<Rightarrow> 'p \<Rightarrow> bool \<times> 'p"
  CloseEvent :: "nat \<Rightarrow> 'p \<Rightarrow> 'p"
  EfiCreateProtocolNotifyEvent :: "protocol \<Rightarrow> 'p \<Rightarrow> nat option \<times> 'p"
  CreateExitBootServicesEvent :: "'p \<Rightarrow> nat option \<times> 'p"
  LocateProtocol :: "protocol \<Rightarrow> 'p \<Rightarrow> bool \<times> 'p"

text \<open>A service acts on the part \<open>plat\<close> of the machine.\<close>

definition on_plat :: "('p \<Rightarrow> 'r \<times> 'p) \<Rightarrow> ('p, 'z) machine_scheme gdb \<Rightarrow> 'r \<times> ('p, 'z) machine_scheme gdb" where
  "on_plat f s = (case f (plat (world s)) of (r, p) \<Rightarrow> (r, s\<lparr>world := (world s)\<lparr>plat := p\<rparr>\<rparr>))"

lemma on_plat_eq: "f (plat (world s)) = (r, p) \<Longrightarrow> on_plat f s = (r, s\<lparr>world := (world s)\<lparr>plat := p\<rparr>\<rparr>)"
  by (simp add: on_plat_def)

section \<open>Exception handlers\<close>

text \<open>The two loops over \<open>mArchExceptionTypes\<close>; the first stops at a failure.\<close>

fun install_handlers :: "(u64 \<Rightarrow> bool \<Rightarrow> 'p \<Rightarrow> bool \<times> 'p) \<Rightarrow> u64 list \<Rightarrow> 'p \<Rightarrow> bool \<times> 'p" where
  "install_handlers reg [] p = (True, p)"
| "install_handlers reg (v # vs) p =
     (case reg v True p of (ok, p') \<Rightarrow> if ok then install_handlers reg vs p' else (False, p'))"

fun remove_handlers :: "(u64 \<Rightarrow> bool \<Rightarrow> 'p \<Rightarrow> bool \<times> 'p) \<Rightarrow> u64 list \<Rightarrow> 'p \<Rightarrow> 'p" where
  "remove_handlers reg [] p = p"
| "remove_handlers reg (v # vs) p = remove_handlers reg vs (snd (reg v False p))"

text \<open>DXE: through the CPU protocol when it is there; without it the destructor does nothing.\<close>

definition DebugAgentExceptionDestroy_DXE :: "'p services \<Rightarrow> u64 list \<Rightarrow> bool \<Rightarrow> 'p \<Rightarrow> 'p" where
  "DebugAgentExceptionDestroy_DXE sv mArchExceptionTypes gCpu p =
     (if gCpu
      then remove_handlers (if gCpu then RegisterInterruptHandler sv else RegisterCpuInterruptHandler sv)
             mArchExceptionTypes p
      else p)"

definition DebugAgentExceptionInitialize_DXE ::
  "bool \<Rightarrow> 'p services \<Rightarrow> u64 list \<Rightarrow> bool \<Rightarrow> 'p \<Rightarrow> stop + (bool \<times> 'p)" where
  "DebugAgentExceptionInitialize_DXE asserts sv mArchExceptionTypes gCpu p =
     (case install_handlers (if gCpu then RegisterInterruptHandler sv else RegisterCpuInterruptHandler sv)
             mArchExceptionTypes (DebugAgentExceptionDestroy_DXE sv mArchExceptionTypes gCpu p) of
        (True, p') \<Rightarrow> Inr (True, p')
      | (False, p') \<Rightarrow>
          ASSERT asserts False (Inr (False, DebugAgentExceptionDestroy_DXE sv mArchExceptionTypes gCpu p')))"

definition DebugAgentExceptionDestroy_MM :: "'p services \<Rightarrow> u64 list \<Rightarrow> 'p \<Rightarrow> 'p" where
  "DebugAgentExceptionDestroy_MM sv mArchExceptionTypes p =
     remove_handlers (RegisterCpuInterruptHandler sv) mArchExceptionTypes p"

definition DebugAgentExceptionInitialize_MM ::
  "bool \<Rightarrow> 'p services \<Rightarrow> u64 list \<Rightarrow> 'p \<Rightarrow> stop + (bool \<times> 'p)" where
  "DebugAgentExceptionInitialize_MM asserts sv mArchExceptionTypes p =
     (case install_handlers (RegisterCpuInterruptHandler sv) mArchExceptionTypes
             (DebugAgentExceptionDestroy_MM sv mArchExceptionTypes p) of
        (True, p') \<Rightarrow> Inr (True, p')
      | (False, p') \<Rightarrow>
          ASSERT asserts False (Inr (False, DebugAgentExceptionDestroy_MM sv mArchExceptionTypes p')))"

definition DebugAgentExceptionDestroy_PEI :: "'p services \<Rightarrow> u64 list \<Rightarrow> 'p \<Rightarrow> 'p" where
  "DebugAgentExceptionDestroy_PEI sv mArchExceptionTypes p =
     remove_handlers (RegisterCpuInterruptHandler sv) mArchExceptionTypes p"

definition DebugAgentExceptionInitialize_PEI ::
  "bool \<Rightarrow> 'p services \<Rightarrow> u64 list \<Rightarrow> 'p \<Rightarrow> stop + (bool \<times> 'p)" where
  "DebugAgentExceptionInitialize_PEI asserts sv mArchExceptionTypes p =
     (case InitializeCpuExceptionHandlers sv p of
        (False, p1) \<Rightarrow> Inr (False, p1)
      | (True, p1) \<Rightarrow>
          (case install_handlers (RegisterCpuInterruptHandler sv) mArchExceptionTypes p1 of
             (True, p') \<Rightarrow> Inr (True, p')
           | (False, p') \<Rightarrow>
               ASSERT asserts False (Inr (False, DebugAgentExceptionDestroy_PEI sv mArchExceptionTypes p'))))"

text \<open>A registration service over a view of the installed vectors.\<close>

definition registry_ok :: "(u64 \<Rightarrow> bool \<Rightarrow> 'p \<Rightarrow> bool \<times> 'p) \<Rightarrow> ('p \<Rightarrow> u64 set) \<Rightarrow> bool" where
  "registry_ok reg installed \<longleftrightarrow> (\<forall>v on p ok p'. reg v on p = (ok, p') \<longrightarrow>
     installed p' = (if \<not> ok then installed p else if on then insert v (installed p) else installed p - {v}))"

text \<open>Removing a handler fails only for a vector that has none.\<close>

definition removal_ok :: "(u64 \<Rightarrow> bool \<Rightarrow> 'p \<Rightarrow> bool \<times> 'p) \<Rightarrow> ('p \<Rightarrow> u64 set) \<Rightarrow> bool" where
  "removal_ok reg installed \<longleftrightarrow> (\<forall>v p. v \<in> installed p \<longrightarrow> fst (reg v False p))"

lemma remove_handlers_installed:
  assumes "registry_ok reg installed" and "removal_ok reg installed"
  shows "installed (remove_handlers reg vs p) = installed p - set vs"
proof (induction vs arbitrary: p)
  case (Cons v vs)
  obtain ok p' where r: "reg v False p = (ok, p')" by fastforce
  then have "ok \<or> v \<notin> installed p" using assms(2) unfolding removal_ok_def by (metis fst_conv)
  then have "installed p' = installed p - {v}" using assms(1) r unfolding registry_ok_def by auto
  with Cons r show ?case by auto
qed simp

lemma install_handlers_installed:
  assumes "registry_ok reg installed" and "install_handlers reg vs p = (ok, p')"
  shows "installed p \<subseteq> installed p' \<and> installed p' \<subseteq> installed p \<union> set vs \<and> (ok \<longrightarrow> set vs \<subseteq> installed p')"
  using assms(2)
proof (induction vs arbitrary: p)
  case (Cons v vs)
  obtain ok1 p1 where r: "reg v True p = (ok1, p1)" by fastforce
  then have "installed p1 = (if ok1 then insert v (installed p) else installed p)"
    using assms(1) unfolding registry_ok_def by simp
  with Cons r show ?case by (cases ok1) fastforce+
qed simp

text \<open>What initialisation leaves installed, in the phases that have one registration service.\<close>

lemma remove_after_failure:
  assumes "registry_ok reg installed" and "removal_ok reg installed"
  shows "installed (remove_handlers reg vs p) \<inter> set vs = {}"
  using remove_handlers_installed [OF assms] by blast

lemma ExceptionInitialize_MM_installed:
  assumes "registry_ok (RegisterCpuInterruptHandler sv) installed" "removal_ok (RegisterCpuInterruptHandler sv) installed"
    and "DebugAgentExceptionInitialize_MM asserts sv vs p = Inr (ok, p')"
  shows "installed p' \<inter> set vs = (if ok then set vs else {})"
  using assms(3) remove_after_failure [OF assms(1,2)] install_handlers_installed [OF assms(1)]
  by (fastforce simp: DebugAgentExceptionInitialize_MM_def DebugAgentExceptionDestroy_MM_def ASSERT_def
      split: prod.splits bool.splits if_splits)

lemma ExceptionInitialize_DXE_installed:
  assumes "reg = (if gCpu then RegisterInterruptHandler sv else RegisterCpuInterruptHandler sv)"
    and "registry_ok reg installed" "removal_ok reg installed"
    and "DebugAgentExceptionInitialize_DXE asserts sv vs gCpu p = Inr (ok, p')"
  shows "(ok \<longrightarrow> set vs \<subseteq> installed p') \<and> (\<not> ok \<and> gCpu \<longrightarrow> installed p' \<inter> set vs = {})"
  using assms(4) remove_after_failure [OF assms(2,3)] install_handlers_installed [OF assms(2)]
  unfolding DebugAgentExceptionInitialize_DXE_def DebugAgentExceptionDestroy_DXE_def assms(1) [symmetric]
  by (fastforce simp: ASSERT_def assms(1) split: prod.splits bool.splits if_splits)

section \<open>Entry points\<close>

text \<open>The reasons for a call of \<open>InitializeDebugAgent\<close> the sources tell apart.\<close>

datatype INIT_FLAG =
    DEBUG_AGENT_INIT_TERMINATE
  | DEBUG_AGENT_INIT_DXE_CORE
  | DEBUG_AGENT_INIT_DXE_CORE_LATE
  | DEBUG_AGENT_INIT_SMM
  | DEBUG_AGENT_INIT_ENTER_SMI
  | DEBUG_AGENT_INIT_PEI
  | DEBUG_AGENT_INIT_OTHER u32

text \<open>
  What a start-up runs with: the phase's parameters and the code it is linked with. The PCD
  is \<open>PcdForceEnableDebugger\<close>, in PEI \<open>PcdForceEnablePeiDebugger\<close>. \<open>ib_CpuBreakpoint\<close> is the
  effect of a breakpoint instruction: its exception, the handler and the return.
\<close>

record ('p, 'w) init_build =
  ib_asserts :: bool
  ib_services :: "'p services"
  ib_mArchExceptionTypes :: "u64 list"
  ib_DebugArchInit :: "DEBUGGER_CONTROL_HOB \<Rightarrow> 'w \<Rightarrow> 'w"
  ib_PcdForceEnableDebugger :: bool
  ib_CpuBreakpoint :: "'w gdb \<Rightarrow> (stop + 'w gdb) option"
  ib_agent :: "'w agent"

text \<open>The configuration a phase runs with, or \<open>None\<close> where it returns without starting.\<close>

definition debug_config ::
  "bool \<Rightarrow> DEBUGGER_CONTROL_HOB \<Rightarrow> (DEBUGGER_CONTROL_HOB \<Rightarrow> bool) \<Rightarrow> DEBUGGER_CONTROL_HOB option \<Rightarrow>
   DEBUGGER_CONTROL_HOB option" where
  "debug_config force Default enabled GuidHob =
     (if force then Some Default
      else case GuidHob of
        None \<Rightarrow> None
      | Some DebugHob \<Rightarrow> if \<not> enabled DebugHob then None else Some DebugHob)"

text \<open>
  The MM agent: the stub and \<open>mDebuggerInitialized\<close>. The code sets the flag just before the
  initial breakpoint; nothing reads it there, so it is set together with the result.
\<close>

record 'w mm_agent =
  mm_stub :: "'w gdb"
  mm_mDebuggerInitialized :: bool

definition InitializeDebugAgent_MM ::
  "('p, ('p, 'z) machine_scheme) init_build \<Rightarrow> INIT_FLAG \<Rightarrow> DEBUGGER_CONTROL_HOB option \<Rightarrow>
   ('p, 'z) machine_scheme mm_agent \<Rightarrow> (stop + ('p, 'z) machine_scheme mm_agent) option" where
  "InitializeDebugAgent_MM b InitFlag GuidHob d =
     (case InitFlag of
        DEBUG_AGENT_INIT_SMM \<Rightarrow>
          (case debug_config (ib_PcdForceEnableDebugger b) DefaultDebugConfig_MM MmDebugEnabled GuidHob of
             None \<Rightarrow> Some (Inr d)
           | Some DebugHob \<Rightarrow>
               (case on_plat (DebugTransportInitialize (ib_services b)) (mm_stub d) of (ok, s1) \<Rightarrow>
                  if \<not> ok then Some (Inr (d\<lparr>mm_stub := s1\<rparr>))
                  else
                    (let s2 = s1\<lparr>world := ib_DebugArchInit b DebugHob (world s1)\<rparr> in
                     obind (Some (DebugAgentExceptionInitialize_MM (ib_asserts b) (ib_services b)
                                    (ib_mArchExceptionTypes b) (plat (world s2)))) (\<lambda>(ok, p).
                       let s3 = s2\<lparr>world := (world s2)\<lparr>plat := p\<rparr>\<rparr> in
                       if \<not> ok then Some (Inr (d\<lparr>mm_stub := s3\<rparr>))
                       else obind (if InitialBreakpoint DebugHob
                                   then DebuggerInitialBreakpoint (ib_CpuBreakpoint b)
                                          (InitialBreakpointTimeout DebugHob) s3
                                   else Some (Inr s3))
                              (\<lambda>s4. Some (Inr (d\<lparr>mm_stub := s4, mm_mDebuggerInitialized := True\<rparr>)))))))
      | DEBUG_AGENT_INIT_ENTER_SMI \<Rightarrow>
          if mm_mDebuggerInitialized d
          then obind (DebuggerPollInput (ib_CpuBreakpoint b) (ib_agent b) (mm_stub d))
                 (\<lambda>s. Some (Inr (d\<lparr>mm_stub := s\<rparr>)))
          else Some (Inr d)
      | DEBUG_AGENT_INIT_TERMINATE \<Rightarrow>
          if mm_mDebuggerInitialized d
          then Some (Inr (d\<lparr>mm_stub := (mm_stub d)\<lparr>world := (world (mm_stub d))
                 \<lparr>plat := DebugAgentExceptionDestroy_MM (ib_services b) (ib_mArchExceptionTypes b)
                    (plat (world (mm_stub d)))\<rparr>\<rparr>\<rparr>))
          else Some (Inr d)
      | _ \<Rightarrow> Some (Inr d))"

text \<open>PEI: enabled by a PCD only, and always with an initial breakpoint without a timeout.\<close>

definition InitializeDebugAgent_PEI ::
  "('p, ('p, 'z) machine_scheme) init_build \<Rightarrow> INIT_FLAG \<Rightarrow> ('p, 'z) machine_scheme gdb \<Rightarrow>
   (stop + ('p, 'z) machine_scheme gdb) option" where
  "InitializeDebugAgent_PEI b InitFlag s =
     (if \<not> ib_PcdForceEnableDebugger b then Some (Inr s)
      else
        (case on_plat (DebugTransportInitialize (ib_services b)) s of (ok, s1) \<Rightarrow>
           if \<not> ok then Some (Inr s1)
           else
             (let s2 = s1\<lparr>world := ib_DebugArchInit b DefaultPeiDebugConfig (world s1)\<rparr> in
              obind (Some (DebugAgentExceptionInitialize_PEI (ib_asserts b) (ib_services b)
                             (ib_mArchExceptionTypes b) (plat (world s2)))) (\<lambda>(ok, p).
                let s3 = s2\<lparr>world := (world s2)\<lparr>plat := p\<rparr>\<rparr> in
                if \<not> ok then Some (Inr s3)
                else DebuggerInitialBreakpoint (ib_CpuBreakpoint b) 0 s3))))"

definition DebugAgentPeiEntry ::
  "('p, ('p, 'z) machine_scheme) init_build \<Rightarrow> ('p, 'z) machine_scheme gdb \<Rightarrow>
   (stop + ('p, 'z) machine_scheme gdb) option" where
  "DebugAgentPeiEntry b s = InitializeDebugAgent_PEI b DEBUG_AGENT_INIT_PEI s"

text \<open>The debug timer interrupt of the library class: none of the phases has one.\<close>

definition SaveAndSetDebugTimerInterrupt_DXE :: "bool \<Rightarrow> bool" where
  "SaveAndSetDebugTimerInterrupt_DXE EnableStatus = False"

definition SaveAndSetDebugTimerInterrupt_MM :: "bool \<Rightarrow> bool" where
  "SaveAndSetDebugTimerInterrupt_MM EnableStatus = False"

definition SaveAndSetDebugTimerInterrupt_PEI :: "bool \<Rightarrow> bool" where
  "SaveAndSetDebugTimerInterrupt_PEI EnableStatus = False"

text \<open>A disabled agent leaves everything alone, on every later call too.\<close>

lemma InitializeDebugAgent_MM_disabled:
  assumes "\<not> ib_PcdForceEnableDebugger b" and "case GuidHob of None \<Rightarrow> True | Some h \<Rightarrow> \<not> MmDebugEnabled h"
    and "\<not> mm_mDebuggerInitialized d"
  shows "InitializeDebugAgent_MM b InitFlag GuidHob d = Some (Inr d)"
  using assms by (auto simp: InitializeDebugAgent_MM_def debug_config_def split: INIT_FLAG.split option.splits)

end
