(* ===== verification/DxeAgent.thy ===== *)
theory DxeAgent
  imports AgentInit
begin

text \<open>
  DebugAgentDxe.c apart from the memory access: the agent's state, its start-up and
  shut-down, the protocol and timer notifications, and the break on a module load. The
  entries are the steps of a state machine; reachable states satisfy an invariant that
  ties the initialised flag and the events to the handlers that are installed.
\<close>

section \<open>State\<close>

text \<open>
  \<open>gCpu\<close>, \<open>gTimer\<close> and \<open>mMemoryAttributeProtocol\<close> tell whether the pointer is set, events are
  the stored handles with \<open>None\<close> for NULL.
\<close>

record 'w dxe_agent =
  stub :: "'w gdb"
  gCpu :: bool
  gTimer :: bool
  mMemoryAttributeProtocol :: bool
  mTimerEvent :: "nat option"
  mCpuArchEvent :: "nat option"
  mLoadedImageEvent :: "nat option"
  mExitBootServicesEvent :: "nat option"
  mDebuggerInitialized :: bool
  mDisablePolling :: bool

text \<open>A service call of the agent.\<close>

definition dxe_service ::
  "('p \<Rightarrow> 'r \<times> 'p) \<Rightarrow> ('p, 'z) machine_scheme dxe_agent \<Rightarrow> 'r \<times> ('p, 'z) machine_scheme dxe_agent" where
  "dxe_service f d = (case on_plat f (stub d) of (r, s) \<Rightarrow> (r, d\<lparr>stub := s\<rparr>))"

text \<open>The state of the services, and its replacement.\<close>

definition dxe_plat :: "('p, 'z) machine_scheme dxe_agent \<Rightarrow> 'p" where
  "dxe_plat d = plat (world (stub d))"

definition set_plat :: "'p \<Rightarrow> ('p, 'z) machine_scheme dxe_agent \<Rightarrow> ('p, 'z) machine_scheme dxe_agent" where
  "set_plat p d = d\<lparr>stub := (stub d)\<lparr>world := (world (stub d))\<lparr>plat := p\<rparr>\<rparr>\<rparr>"

lemma dxe_service_eq: "dxe_service f d = (case f (dxe_plat d) of (r, p) \<Rightarrow> (r, set_plat p d))"
  by (simp add: dxe_service_def on_plat_def dxe_plat_def set_plat_def split: prod.split)

section \<open>Timer and shut-down\<close>

definition DebugAgentTimerRoutine ::
  "('p, ('p, 'z) machine_scheme) init_build \<Rightarrow> ('p, 'z) machine_scheme dxe_agent \<Rightarrow>
   (stop + ('p, 'z) machine_scheme dxe_agent) option" where
  "DebugAgentTimerRoutine b d =
     obind (DebuggerPollInput (ib_CpuBreakpoint b) (ib_agent b) (stub d)) (\<lambda>s. Some (Inr (d\<lparr>stub := s\<rparr>)))"

text \<open>A failed creation leaves \<open>mTimerEvent\<close> as it was; failures are ignored.\<close>

definition DebugAgentInitializeTimer ::
  "'p services \<Rightarrow> ('p, 'z) machine_scheme dxe_agent \<Rightarrow> ('p, 'z) machine_scheme dxe_agent" where
  "DebugAgentInitializeTimer sv d =
     (case dxe_service (CreateTimerEvent sv) d of
        (None, d1) \<Rightarrow> d1
      | (Some e, d1) \<Rightarrow> snd (dxe_service (SetTimer sv e) (d1\<lparr>mTimerEvent := Some e\<rparr>)))"

definition DebugAgentTimerDestroy ::
  "'p services \<Rightarrow> ('p, 'z) machine_scheme dxe_agent \<Rightarrow> ('p, 'z) machine_scheme dxe_agent" where
  "DebugAgentTimerDestroy sv d =
     (case mTimerEvent d of None \<Rightarrow> d | Some e \<Rightarrow> set_plat (CloseEvent sv e (dxe_plat d)) d)"

definition OnExitBootServices ::
  "('p, ('p, 'z) machine_scheme) init_build \<Rightarrow> ('p, 'z) machine_scheme dxe_agent \<Rightarrow> ('p, 'z) machine_scheme dxe_agent" where
  "OnExitBootServices b d =
     (let d1 = DebugAgentTimerDestroy (ib_services b) d in
      set_plat (DebugAgentExceptionDestroy_DXE (ib_services b) (ib_mArchExceptionTypes b) (gCpu d1) (dxe_plat d1)) d1)"

section \<open>Protocol notifications\<close>

definition OnCpuArchProtocolNotification ::
  "('p, ('p, 'z) machine_scheme) init_build \<Rightarrow> ('p, 'z) machine_scheme dxe_agent \<Rightarrow>
   stop + ('p, 'z) machine_scheme dxe_agent" where
  "OnCpuArchProtocolNotification b d =
     (case dxe_service (LocateProtocol (ib_services b) CpuArchProtocol) d of (found, d1) \<Rightarrow>
        if \<not> found then Inr d1
        else
          (let d2 = d1\<lparr>gCpu := True\<rparr> in
           ebind (DebugAgentExceptionInitialize_DXE (ib_asserts b) (ib_services b) (ib_mArchExceptionTypes b)
                    (gCpu d2) (dxe_plat d2)) (\<lambda>(ok, p).
             let d3 = set_plat p d2 in
             if \<not> ok then ASSERT (ib_asserts b) False (Inr (OnExitBootServices b d3)) else Inr d3)))"

definition OnTimerArchProtocolNotification ::
  "('p, ('p, 'z) machine_scheme) init_build \<Rightarrow> ('p, 'z) machine_scheme dxe_agent \<Rightarrow> ('p, 'z) machine_scheme dxe_agent" where
  "OnTimerArchProtocolNotification b d =
     (case dxe_service (LocateProtocol (ib_services b) TimerArchProtocol) d of (found, d1) \<Rightarrow>
        if \<not> found then d1 else DebugAgentInitializeTimer (ib_services b) (d1\<lparr>gTimer := True\<rparr>))"

definition OnMemoryAttributeProtocolNotification ::
  "('p, ('p, 'z) machine_scheme) init_build \<Rightarrow> ('p, 'z) machine_scheme dxe_agent \<Rightarrow> ('p, 'z) machine_scheme dxe_agent" where
  "OnMemoryAttributeProtocolNotification b d =
     (case dxe_service (LocateProtocol (ib_services b) MemoryAttributeProtocol) d of (found, d1) \<Rightarrow>
        if \<not> found then d1 else d1\<lparr>mMemoryAttributeProtocol := True\<rparr>)"

text \<open>
  The callbacks. The handle of the loaded image event is overwritten by that of the memory
  attribute event; both notifications stay registered.
\<close>

definition DxeDebugSetupCallbacks ::
  "('p, ('p, 'z) machine_scheme) init_build \<Rightarrow> ('p, 'z) machine_scheme dxe_agent \<Rightarrow> ('p, 'z) machine_scheme dxe_agent" where
  "DxeDebugSetupCallbacks b d =
     (let sv = ib_services b;
          d1 = (if \<not> gCpu d
                then (case dxe_service (EfiCreateProtocolNotifyEvent sv CpuArchProtocol) d of
                        (e, d') \<Rightarrow> d'\<lparr>mCpuArchEvent := e\<rparr>)
                else d);
          d2 = (if \<not> mDisablePolling d1 \<and> \<not> gTimer d1
                then (case dxe_service (EfiCreateProtocolNotifyEvent sv TimerArchProtocol) d1 of
                        (e, d') \<Rightarrow> d'\<lparr>mTimerEvent := e\<rparr>)
                else d1);
          d3 = (case dxe_service (EfiCreateProtocolNotifyEvent sv LoadedImageProtocol) d2 of
                  (e, d') \<Rightarrow> d'\<lparr>mLoadedImageEvent := e\<rparr>);
          d4 = (case dxe_service (EfiCreateProtocolNotifyEvent sv MemoryAttributeProtocol) d3 of
                  (e, d') \<Rightarrow> d'\<lparr>mLoadedImageEvent := e\<rparr>)
      in case dxe_service (CreateExitBootServicesEvent sv) d4 of
           (None, d5) \<Rightarrow> d5
         | (Some e, d5) \<Rightarrow> d5\<lparr>mExitBootServicesEvent := Some e\<rparr>)"

section \<open>Module loads\<close>

text \<open>The loop that drops the directories of a path: \<open>Index\<close> runs down from the end.\<close>

fun strip_directories :: "u8 list \<Rightarrow> nat \<Rightarrow> u8 list" where
  "strip_directories PdbPointer 0 = PdbPointer"
| "strip_directories PdbPointer (Suc n) =
     (if PdbPointer ! n = 92 \<or> PdbPointer ! n = 47 then drop (Suc n) PdbPointer
      else strip_directories PdbPointer n)"

text \<open>
  The name of a module in the 64 bytes of \<open>Name\<close>: the file name up to its first dot. A longer
  one stops at the assertion, or is out of bounds without assertions.
\<close>

definition image_name :: "bool \<Rightarrow> u8 list \<Rightarrow> stop + u8 list" where
  "image_name asserts Pdb =
     (let PdbPointer = strip_directories Pdb (AsciiStrLen Pdb) in
      ASSERT asserts (AsciiStrLen PdbPointer < 64)
        (if 64 < AsciiStrLen PdbPointer + 1 then Inl OutOfBounds
         else
           (let Name = take (AsciiStrLen PdbPointer) PdbPointer @ [0] in
            case ScanMem8 Name (AsciiStrLen Name) 46 of
              None \<Rightarrow> Inr Name
            | Some NameEnd \<Rightarrow> Inr (Name[NameEnd := 0]))))"

text \<open>
  What \<open>LocateHandle\<close> and \<open>HandleProtocol\<close> deliver: the loaded images not yet seen, each
  \<open>None\<close> when its protocol cannot be had, else its PDB pointer if it has one. At the end of
  the list \<open>LocateHandle\<close> fails.
\<close>

fun OnLoadedImageNotification_loop ::
  "('p, ('p, 'z) machine_scheme) init_build \<Rightarrow> u8 list option option list \<Rightarrow>
   ('p, 'z) machine_scheme gdb \<Rightarrow> (stop + ('p, 'z) machine_scheme gdb) option" where
  "OnLoadedImageNotification_loop b [] s = Some (Inr s)"
| "OnLoadedImageNotification_loop b (None # images) s = Some (Inr s)"
| "OnLoadedImageNotification_loop b (Some None # images) s = OnLoadedImageNotification_loop b images s"
| "OnLoadedImageNotification_loop b (Some (Some Pdb) # images) s =
     obind (Some (image_name (ib_asserts b) Pdb)) (\<lambda>Name.
       let wanted = mDbgBreakOnModuleLoadString (world s) in
       if AsciiStrLen Name = AsciiStrLen wanted \<and> AsciiStriCmp (ag_lib (ib_agent b)) wanted Name = 0
       then DebuggerBreak (ib_CpuBreakpoint b) BreakpointReasonModuleLoad s
       else OnLoadedImageNotification_loop b images s)"

definition OnLoadedImageNotification ::
  "('p, ('p, 'z) machine_scheme) init_build \<Rightarrow> u8 list option option list \<Rightarrow>
   ('p, 'z) machine_scheme dxe_agent \<Rightarrow> (stop + ('p, 'z) machine_scheme dxe_agent) option" where
  "OnLoadedImageNotification b images d =
     (if AsciiStrLen (mDbgBreakOnModuleLoadString (world (stub d))) = 0 then Some (Inr d)
      else obind (OnLoadedImageNotification_loop b images (stub d)) (\<lambda>s. Some (Inr (d\<lparr>stub := s\<rparr>))))"

section \<open>Start-up\<close>

definition InitializeDebugAgent_DXE ::
  "('p, ('p, 'z) machine_scheme) init_build \<Rightarrow> INIT_FLAG \<Rightarrow> DEBUGGER_CONTROL_HOB option \<Rightarrow>
   ('p, 'z) machine_scheme dxe_agent \<Rightarrow> (stop + ('p, 'z) machine_scheme dxe_agent) option" where
  "InitializeDebugAgent_DXE b InitFlag GuidHob d =
     (case InitFlag of
        DEBUG_AGENT_INIT_DXE_CORE \<Rightarrow>
          (case debug_config (ib_PcdForceEnableDebugger b) DefaultDebugConfig_DXE DxeDebugEnabled GuidHob of
             None \<Rightarrow> Some (Inr d)
           | Some DebugHob \<Rightarrow>
               (case dxe_service (DebugTransportInitialize (ib_services b)) d of (ok, d1) \<Rightarrow>
                  if \<not> ok then Some (Inr d1)
                  else
                    (let d2 = d1\<lparr>stub := (stub d1)\<lparr>world := ib_DebugArchInit b DebugHob (world (stub d1))\<rparr>\<rparr> in
                     obind (Some (DebugAgentExceptionInitialize_DXE (ib_asserts b) (ib_services b)
                                    (ib_mArchExceptionTypes b) (gCpu d2) (dxe_plat d2))) (\<lambda>(ok, p).
                       let d3 = set_plat p d2 in
                       if \<not> ok then Some (Inr d3)
                       else
                         (let d4 = d3\<lparr>mDebuggerInitialized := True, mDisablePolling := DisablePolling DebugHob\<rparr> in
                          if InitialBreakpoint DebugHob
                          then obind (DebuggerInitialBreakpoint (ib_CpuBreakpoint b)
                                        (InitialBreakpointTimeout DebugHob) (stub d4))
                                 (\<lambda>s. Some (Inr (d4\<lparr>stub := s\<rparr>)))
                          else Some (Inr d4))))))
      | DEBUG_AGENT_INIT_TERMINATE \<Rightarrow>
          Some (Inr (if mDebuggerInitialized d then OnExitBootServices b d else d))
      | DEBUG_AGENT_INIT_DXE_CORE_LATE \<Rightarrow>
          Some (Inr (if mDebuggerInitialized d then DxeDebugSetupCallbacks b d else d))
      | _ \<Rightarrow> Some (Inr d))"


section \<open>The agent as a state machine\<close>

text \<open>
  What the firmware calls: the entry, the notifications, the timer and the exit. The firmware
  only delivers what is registered with it, which is part of its own state.
\<close>

datatype dxe_event =
    Entry INIT_FLAG
  | Notify_CpuArch
  | Notify_TimerArch
  | Notify_MemoryAttribute
  | Notify_LoadedImage "u8 list option option list"
  | Timer_tick
  | Exit_boot_services

record 'p notifications =
  nf_protocol :: "protocol \<Rightarrow> 'p \<Rightarrow> bool"
  nf_timer :: "'p \<Rightarrow> bool"
  nf_exit :: "'p \<Rightarrow> bool"

fun registered :: "'p notifications \<Rightarrow> dxe_event \<Rightarrow> 'p \<Rightarrow> bool" where
  "registered nf (Entry f) p = True"
| "registered nf Notify_CpuArch p = nf_protocol nf CpuArchProtocol p"
| "registered nf Notify_TimerArch p = nf_protocol nf TimerArchProtocol p"
| "registered nf Notify_MemoryAttribute p = nf_protocol nf MemoryAttributeProtocol p"
| "registered nf (Notify_LoadedImage images) p = nf_protocol nf LoadedImageProtocol p"
| "registered nf Timer_tick p = nf_timer nf p"
| "registered nf Exit_boot_services p = nf_exit nf p"

fun dxe_event_step ::
  "('p, ('p, 'z) machine_scheme) init_build \<Rightarrow> DEBUGGER_CONTROL_HOB option \<Rightarrow> dxe_event \<Rightarrow>
   ('p, 'z) machine_scheme dxe_agent \<Rightarrow> (stop + ('p, 'z) machine_scheme dxe_agent) option" where
  "dxe_event_step b hob (Entry f) d = InitializeDebugAgent_DXE b f hob d"
| "dxe_event_step b hob Notify_CpuArch d = Some (OnCpuArchProtocolNotification b d)"
| "dxe_event_step b hob Notify_TimerArch d = Some (Inr (OnTimerArchProtocolNotification b d))"
| "dxe_event_step b hob Notify_MemoryAttribute d = Some (Inr (OnMemoryAttributeProtocolNotification b d))"
| "dxe_event_step b hob (Notify_LoadedImage images) d = OnLoadedImageNotification b images d"
| "dxe_event_step b hob Timer_tick d = DebugAgentTimerRoutine b d"
| "dxe_event_step b hob Exit_boot_services d = Some (Inr (OnExitBootServices b d))"

text \<open>A run over a sequence of events; an event that is not registered does not arrive.\<close>

fun dxe_run ::
  "'p notifications \<Rightarrow> ('p, ('p, 'z) machine_scheme) init_build \<Rightarrow> DEBUGGER_CONTROL_HOB option \<Rightarrow>
   dxe_event list \<Rightarrow> ('p, 'z) machine_scheme dxe_agent \<Rightarrow>
   (stop + ('p, 'z) machine_scheme dxe_agent) option" where
  "dxe_run nf b hob [] d = Some (Inr d)"
| "dxe_run nf b hob (e # es) d =
     obind (if registered nf e (dxe_plat d) then dxe_event_step b hob e d else Some (Inr d))
       (dxe_run nf b hob es)"

subsection \<open>A disabled debugger\<close>

text \<open>Nothing of the debugger is known to the firmware.\<close>

definition unhooked :: "'p notifications \<Rightarrow> 'p \<Rightarrow> bool" where
  "unhooked nf p \<longleftrightarrow> (\<forall>x. \<not> nf_protocol nf x p) \<and> \<not> nf_timer nf p \<and> \<not> nf_exit nf p"

lemma InitializeDebugAgent_DXE_disabled:
  assumes "debug_config (ib_PcdForceEnableDebugger b) DefaultDebugConfig_DXE DxeDebugEnabled hob = None"
    and "\<not> mDebuggerInitialized d"
  shows "InitializeDebugAgent_DXE b f hob d = Some (Inr d)"
  using assms by (simp add: InitializeDebugAgent_DXE_def split: INIT_FLAG.split)

lemma dxe_run_disabled:
  assumes "debug_config (ib_PcdForceEnableDebugger b) DefaultDebugConfig_DXE DxeDebugEnabled hob = None"
    and "\<not> mDebuggerInitialized d" and "unhooked nf (dxe_plat d)"
  shows "dxe_run nf b hob es d = Some (Inr d)"
proof (induction es)
  case (Cons e es)
  show ?case
    using Cons.IH assms(3) InitializeDebugAgent_DXE_disabled [OF assms(1,2)]
    by (cases e) (simp_all add: unhooked_def)
qed simp

subsection \<open>The handlers stay installed\<close>

text \<open>The services other than registration, and the code run at a breakpoint, leave the handlers alone.\<close>

definition keeps_handlers :: "('p, ('p, 'z) machine_scheme) init_build \<Rightarrow> ('p \<Rightarrow> u64 set) \<Rightarrow> bool" where
  "keeps_handlers b installed \<longleftrightarrow>
     (\<forall>p. installed (snd (DebugTransportInitialize (ib_services b) p)) = installed p \<and>
       installed (snd (CreateTimerEvent (ib_services b) p)) = installed p \<and>
       (\<forall>e. installed (snd (SetTimer (ib_services b) e p)) = installed p) \<and>
       (\<forall>e. installed (CloseEvent (ib_services b) e p) = installed p) \<and>
       (\<forall>x. installed (snd (EfiCreateProtocolNotifyEvent (ib_services b) x p)) = installed p) \<and>
       installed (snd (CreateExitBootServicesEvent (ib_services b) p)) = installed p \<and>
       (\<forall>x. installed (snd (LocateProtocol (ib_services b) x p)) = installed p)) \<and>
     (\<forall>h w. plat (ib_DebugArchInit b h w) = plat w) \<and>
     (\<forall>s s'. ib_CpuBreakpoint b s = Some (Inr s') \<longrightarrow> installed (plat (world s')) = installed (plat (world s)))"

definition registries_ok :: "'p services \<Rightarrow> ('p \<Rightarrow> u64 set) \<Rightarrow> bool" where
  "registries_ok sv installed \<longleftrightarrow>
     registry_ok (RegisterInterruptHandler sv) installed \<and> removal_ok (RegisterInterruptHandler sv) installed \<and>
     registry_ok (RegisterCpuInterruptHandler sv) installed \<and> removal_ok (RegisterCpuInterruptHandler sv) installed"

lemma dxe_plat_set [simp]: "dxe_plat (set_plat p d) = p"
  by (simp add: dxe_plat_def set_plat_def)

lemma dxe_plat_fields [simp]:
  "dxe_plat (d\<lparr>gCpu := x\<rparr>) = dxe_plat d" "dxe_plat (d\<lparr>gTimer := x\<rparr>) = dxe_plat d"
  "dxe_plat (d\<lparr>mMemoryAttributeProtocol := x\<rparr>) = dxe_plat d" "dxe_plat (d\<lparr>mTimerEvent := e\<rparr>) = dxe_plat d"
  "dxe_plat (d\<lparr>mCpuArchEvent := e\<rparr>) = dxe_plat d" "dxe_plat (d\<lparr>mLoadedImageEvent := e\<rparr>) = dxe_plat d"
  "dxe_plat (d\<lparr>mExitBootServicesEvent := e\<rparr>) = dxe_plat d" "dxe_plat (d\<lparr>mDebuggerInitialized := x\<rparr>) = dxe_plat d"
  "dxe_plat (d\<lparr>mDisablePolling := x\<rparr>) = dxe_plat d" "dxe_plat (d\<lparr>stub := s\<rparr>) = plat (world s)"
  by (simp_all add: dxe_plat_def)

lemma set_plat_fields [simp]:
  "gCpu (set_plat p d) = gCpu d" "mDebuggerInitialized (set_plat p d) = mDebuggerInitialized d"
  "mTimerEvent (set_plat p d) = mTimerEvent d" "stub (set_plat p d) = (stub d)\<lparr>world := (world (stub d))\<lparr>plat := p\<rparr>\<rparr>"
  "mDisablePolling (set_plat p d) = mDisablePolling d"
  by (simp_all add: set_plat_def)

lemma dxe_serviceE:
  assumes "dxe_service f d = (r, d')"
  obtains p where "f (dxe_plat d) = (r, p)" "d' = set_plat p d"
  using assms by (auto simp: dxe_service_eq split: prod.splits)

text \<open>One step at a time; \<open>keep\<close> collects what the assumption says of each service.\<close>

lemma keep:
  assumes "keeps_handlers b installed"
  shows "DebugTransportInitialize (ib_services b) p = (ok, p') \<Longrightarrow> installed p' = installed p"
    and "CreateTimerEvent (ib_services b) p = (ev, p') \<Longrightarrow> installed p' = installed p"
    and "SetTimer (ib_services b) e p = (ok, p') \<Longrightarrow> installed p' = installed p"
    and "EfiCreateProtocolNotifyEvent (ib_services b) x p = (ev, p') \<Longrightarrow> installed p' = installed p"
    and "CreateExitBootServicesEvent (ib_services b) p = (ev, p') \<Longrightarrow> installed p' = installed p"
    and "LocateProtocol (ib_services b) x p = (ok, p') \<Longrightarrow> installed p' = installed p"
    and "installed (CloseEvent (ib_services b) e p) = installed p"
    and "plat (ib_DebugArchInit b h w) = plat w"
    and "ib_CpuBreakpoint b s = Some (Inr s') \<Longrightarrow> installed (plat (world s')) = installed (plat (world s))"
  using assms unfolding keeps_handlers_def by (metis snd_conv)+

lemma break_keeps:
  assumes "keeps_handlers b installed" and "DebuggerBreak (ib_CpuBreakpoint b) reason s = Some (Inr s')"
  shows "installed (plat (world s')) = installed (plat (world s))"
  using assms(2) keep(9) [OF assms(1)] by (fastforce simp: DebuggerBreak_def obind_eq_Inr)

lemma image_loop_keeps:
  assumes "keeps_handlers b installed"
  shows "OnLoadedImageNotification_loop b images s = Some (Inr s') \<Longrightarrow>
    installed (plat (world s')) = installed (plat (world s))"
proof (induction images)
  case (Cons img images)
  show ?case
  proof (cases img)
    case (Some pdb)
    then show ?thesis
      using Cons break_keeps [OF assms]
      by (cases pdb) (auto simp: obind_eq_Inr Let_def simp del: not_None_eq split: if_splits)
  qed (use Cons in simp)
qed simp

text \<open>The effect of a service on the handlers, as equations on the resulting state.\<close>

lemma service_keeps:
  assumes "\<And>p r p'. f p = (r, p') \<Longrightarrow> installed p' = installed p"
  shows "installed (dxe_plat (snd (dxe_service f d))) = installed (dxe_plat d)"
  using assms by (simp add: dxe_service_eq split: prod.split)

lemma services_keep:
  assumes "keeps_handlers b installed"
  shows "installed (dxe_plat (snd (dxe_service (DebugTransportInitialize (ib_services b)) d))) = installed (dxe_plat d)"
    and "installed (dxe_plat (snd (dxe_service (CreateTimerEvent (ib_services b)) d))) = installed (dxe_plat d)"
    and "installed (dxe_plat (snd (dxe_service (SetTimer (ib_services b) e) d))) = installed (dxe_plat d)"
    and "installed (dxe_plat (snd (dxe_service (EfiCreateProtocolNotifyEvent (ib_services b) x) d))) = installed (dxe_plat d)"
    and "installed (dxe_plat (snd (dxe_service (CreateExitBootServicesEvent (ib_services b)) d))) = installed (dxe_plat d)"
    and "installed (dxe_plat (snd (dxe_service (LocateProtocol (ib_services b) x) d))) = installed (dxe_plat d)"
  by (rule service_keeps, erule keep(1) [OF assms], rule service_keeps, erule keep(2) [OF assms],
      rule service_keeps, erule keep(3) [OF assms], rule service_keeps, erule keep(4) [OF assms],
      rule service_keeps, erule keep(5) [OF assms], rule service_keeps, erule keep(6) [OF assms])

lemma TimerArch_keeps:
  assumes "keeps_handlers b installed"
  shows "installed (dxe_plat (OnTimerArchProtocolNotification b d)) = installed (dxe_plat d)"
proof -
  note ks = services_keep [OF assms]
  have timer: "installed (dxe_plat (DebugAgentInitializeTimer (ib_services b) e)) = installed (dxe_plat e)" for e
    using ks(2) [of e] by (simp add: DebugAgentInitializeTimer_def ks(3) split_beta split: option.split)
  show ?thesis
    using ks(6) [of TimerArchProtocol d]
    by (simp add: OnTimerArchProtocolNotification_def timer split_beta)
qed

lemma MemoryAttribute_keeps:
  assumes "keeps_handlers b installed"
  shows "installed (dxe_plat (OnMemoryAttributeProtocolNotification b d)) = installed (dxe_plat d)"
  using services_keep(6) [OF assms, of MemoryAttributeProtocol d]
  by (simp add: OnMemoryAttributeProtocolNotification_def split_beta)

lemma SetupCallbacks_keeps:
  assumes "keeps_handlers b installed"
  shows "installed (dxe_plat (DxeDebugSetupCallbacks b d)) = installed (dxe_plat d) \<and>
    mDebuggerInitialized (DxeDebugSetupCallbacks b d) = mDebuggerInitialized d"
proof -
  let ?n = "\<lambda>x. dxe_service (EfiCreateProtocolNotifyEvent (ib_services b) x)"
  let ?same = "\<lambda>d d'. installed (dxe_plat d') = installed (dxe_plat d) \<and> mDebuggerInitialized d' = mDebuggerInitialized d"
  have flag: "mDebuggerInitialized (snd (dxe_service f d)) = mDebuggerInitialized d" for f :: "'a \<Rightarrow> 'r \<times> 'a" and d
    by (simp add: dxe_service_eq split: prod.split)
  have n: "?same d (case ?n x d of (e, d') \<Rightarrow> d'\<lparr>mCpuArchEvent := e\<rparr>)"
    "?same d (case ?n x d of (e, d') \<Rightarrow> d'\<lparr>mTimerEvent := e\<rparr>)"
    "?same d (case ?n x d of (e, d') \<Rightarrow> d'\<lparr>mLoadedImageEvent := e\<rparr>)" for x d
    using services_keep(4) [OF assms, of x d] flag [of "EfiCreateProtocolNotifyEvent (ib_services b) x" d]
    by (simp_all add: split_beta)
  have x: "?same d (case dxe_service (CreateExitBootServicesEvent (ib_services b)) d of
      (None, d5) \<Rightarrow> d5 | (Some e, d5) \<Rightarrow> d5\<lparr>mExitBootServicesEvent := Some e\<rparr>)" for d
    using services_keep(5) [OF assms, of d] flag [of "CreateExitBootServicesEvent (ib_services b)" d]
    by (simp add: split_beta split: option.split)
  define d1 where "d1 = (if \<not> gCpu d then (case ?n CpuArchProtocol d of (e, d') \<Rightarrow> d'\<lparr>mCpuArchEvent := e\<rparr>) else d)"
  define d2 where "d2 = (if \<not> mDisablePolling d1 \<and> \<not> gTimer d1
    then (case ?n TimerArchProtocol d1 of (e, d') \<Rightarrow> d'\<lparr>mTimerEvent := e\<rparr>) else d1)"
  define d3 where "d3 = (case ?n LoadedImageProtocol d2 of (e, d') \<Rightarrow> d'\<lparr>mLoadedImageEvent := e\<rparr>)"
  define d4 where "d4 = (case ?n MemoryAttributeProtocol d3 of (e, d') \<Rightarrow> d'\<lparr>mLoadedImageEvent := e\<rparr>)"
  have "?same d d1" using n(1) unfolding d1_def by (cases "gCpu d") simp_all
  moreover have "?same d1 d2" using n(2) [of TimerArchProtocol d1] unfolding d2_def by (auto simp: split_beta)
  moreover have "?same d2 d3" "?same d3 d4" using n(3) unfolding d3_def d4_def by blast+
  moreover have "DxeDebugSetupCallbacks b d = (case dxe_service (CreateExitBootServicesEvent (ib_services b)) d4 of
      (None, d5) \<Rightarrow> d5 | (Some e, d5) \<Rightarrow> d5\<lparr>mExitBootServicesEvent := Some e\<rparr>)"
    unfolding DxeDebugSetupCallbacks_def Let_def d4_def d3_def d2_def d1_def ..
  ultimately show ?thesis using x [of d4] by simp
qed

lemma LoadedImage_keeps:
  assumes "keeps_handlers b installed" and "OnLoadedImageNotification b images d = Some (Inr d')"
  shows "installed (dxe_plat d') = installed (dxe_plat d) \<and> mDebuggerInitialized d' = mDebuggerInitialized d"
  using assms(2) image_loop_keeps [OF assms(1)]
  by (auto simp: OnLoadedImageNotification_def obind_eq_Inr dxe_plat_def split: if_splits)

lemma TimerRoutine_keeps:
  assumes "keeps_handlers b installed" and "DebugAgentTimerRoutine b d = Some (Inr d')"
  shows "installed (dxe_plat d') = installed (dxe_plat d) \<and> mDebuggerInitialized d' = mDebuggerInitialized d"
proof -
  obtain s where poll: "DebuggerPollInput (ib_CpuBreakpoint b) (ib_agent b) (stub d) = Some (Inr s)"
    and d': "d' = d\<lparr>stub := s\<rparr>"
    using assms(2) by (auto simp: DebugAgentTimerRoutine_def obind_eq_Inr)
  show ?thesis
    using DebuggerPollInput_world [OF poll, where P = "\<lambda>w. installed (plat w) = installed (dxe_plat d)"]
      keep(9) [OF assms(1)] d'
    by (simp add: dxe_plat_def)
qed


text \<open>Registration itself: with assertions enabled a failure does not return.\<close>

lemma ExceptionInitialize_DXE_asserts:
  assumes "registries_ok (ib_services b) installed"
    and "DebugAgentExceptionInitialize_DXE True (ib_services b) vs g p = Inr (ok, p')"
  shows "ok \<and> set vs \<subseteq> installed p'"
proof -
  have "ok"
    using assms(2) by (auto simp: DebugAgentExceptionInitialize_DXE_def ASSERT_def split: prod.splits bool.splits)
  then show ?thesis
    using ExceptionInitialize_DXE_installed [OF refl _ _ assms(2), of installed] assms(1)
    by (simp add: registries_ok_def)
qed

definition hooked :: "('p, ('p, 'z) machine_scheme) init_build \<Rightarrow> ('p \<Rightarrow> u64 set) \<Rightarrow>
    ('p, 'z) machine_scheme dxe_agent \<Rightarrow> bool" where
  "hooked b installed d \<longleftrightarrow>
     (mDebuggerInitialized d \<longrightarrow> set (ib_mArchExceptionTypes b) \<subseteq> installed (dxe_plat d))"

lemma CpuArch_hooked:
  assumes "keeps_handlers b installed" "registries_ok (ib_services b) installed" "ib_asserts b"
    and "OnCpuArchProtocolNotification b d = Inr d'" and "hooked b installed d"
  shows "hooked b installed d'"
proof -
  obtain found d1 where l: "dxe_service (LocateProtocol (ib_services b) CpuArchProtocol) d = (found, d1)" by fastforce
  then have d1: "installed (dxe_plat d1) = installed (dxe_plat d)" "mDebuggerInitialized d1 = mDebuggerInitialized d"
    using services_keep(6) [OF assms(1), of CpuArchProtocol d] by (auto simp: dxe_service_eq split: prod.splits)
  show ?thesis
  proof (cases found)
    case False
    then show ?thesis using assms(4,5) l d1 by (simp add: OnCpuArchProtocolNotification_def hooked_def)
  next
    case True
    then obtain ok p where init: "DebugAgentExceptionInitialize_DXE True (ib_services b)
        (ib_mArchExceptionTypes b) True (dxe_plat d1) = Inr (ok, p)"
      and d': "(if \<not> ok then Inl AssertFailed else Inr (set_plat p (d1\<lparr>gCpu := True\<rparr>))) = Inr d'"
      using assms(3,4) l by (auto simp: OnCpuArchProtocolNotification_def Let_def ASSERT_def split: if_splits)
    from ExceptionInitialize_DXE_asserts [OF assms(2) init] d' show ?thesis by (auto simp: hooked_def)
  qed
qed

lemma Initialize_hooked:
  assumes "keeps_handlers b installed" "registries_ok (ib_services b) installed" "ib_asserts b"
    and "InitializeDebugAgent_DXE b f hob d = Some (Inr d')" and "f \<noteq> DEBUG_AGENT_INIT_TERMINATE"
    and "hooked b installed d"
  shows "hooked b installed d'"
proof (cases f)
  case DEBUG_AGENT_INIT_DXE_CORE
  obtain ok d1 where t: "dxe_service (DebugTransportInitialize (ib_services b)) d = (ok, d1)" by fastforce
  then have d1: "installed (dxe_plat d1) = installed (dxe_plat d)" "mDebuggerInitialized d1 = mDebuggerInitialized d"
    using services_keep(1) [OF assms(1), of d] by (auto simp: dxe_service_eq split: prod.splits)
  show ?thesis
  proof (cases "debug_config (ib_PcdForceEnableDebugger b) DefaultDebugConfig_DXE DxeDebugEnabled hob")
    case None
    then show ?thesis using assms(4,6) DEBUG_AGENT_INIT_DXE_CORE by (simp add: InitializeDebugAgent_DXE_def)
  next
    case (Some h)
    show ?thesis
    proof (cases ok)
      case False
      then show ?thesis using assms(4,6) DEBUG_AGENT_INIT_DXE_CORE Some t d1
        by (simp add: InitializeDebugAgent_DXE_def hooked_def)
    next
      case True
      define d2 where "d2 = d1\<lparr>stub := (stub d1)\<lparr>world := ib_DebugArchInit b h (world (stub d1))\<rparr>\<rparr>"
      let ?init = "DebugAgentExceptionInitialize_DXE True (ib_services b) (ib_mArchExceptionTypes b) (gCpu d2) (dxe_plat d2)"
      define rest where "rest = (\<lambda>(ok', p). if \<not> ok' then Some (Inr (set_plat p d2))
          else (let d4 = (set_plat p d2)\<lparr>mDebuggerInitialized := True, mDisablePolling := DisablePolling h\<rparr> in
            if InitialBreakpoint h
            then obind (DebuggerInitialBreakpoint (ib_CpuBreakpoint b) (InitialBreakpointTimeout h) (stub d4))
              (\<lambda>s. Some (Inr (d4\<lparr>stub := s\<rparr>)))
            else Some (Inr d4)))"
      have "InitializeDebugAgent_DXE b f hob d = obind (Some ?init) rest"
        using assms(3) unfolding d2_def rest_def Let_def
        by (simp add: InitializeDebugAgent_DXE_def DEBUG_AGENT_INIT_DXE_CORE Some t True Let_def cong: if_cong)
      then have "\<exists>x. Some ?init = Some (Inr x) \<and> rest x = Some (Inr d')"
        using assms(4) unfolding obind_eq_Inr [symmetric] by simp
      then obtain ok' p where init: "?init = Inr (ok', p)" and rest: "rest (ok', p) = Some (Inr d')"
        by (metis option.inject surj_pair)
      have p: "ok'" "set (ib_mArchExceptionTypes b) \<subseteq> installed p"
        using ExceptionInitialize_DXE_asserts [OF assms(2) init] by auto
      have brk: "installed (plat (world s')) = installed (plat (world s))"
        if "DebuggerInitialBreakpoint (ib_CpuBreakpoint b) T s = Some (Inr s')" for T s s'
        using that break_keeps [OF assms(1)] by (fastforce simp: DebuggerInitialBreakpoint_def)
      show ?thesis
        using rest p brk by (auto simp: rest_def Let_def hooked_def obind_eq_Inr split: if_splits)
    qed
  qed
next
  case DEBUG_AGENT_INIT_DXE_CORE_LATE
  then show ?thesis
    using assms(4,6) SetupCallbacks_keeps [OF assms(1), of d]
    by (auto simp: InitializeDebugAgent_DXE_def hooked_def split: if_splits)
qed (use assms(4-6) in \<open>simp_all add: InitializeDebugAgent_DXE_def\<close>)

text \<open>The invariant of the state machine: until the debugger is shut down, an initialised one has its handlers.\<close>

lemma event_hooked:
  assumes "keeps_handlers b installed" "registries_ok (ib_services b) installed" "ib_asserts b"
    and "dxe_event_step b hob e d = Some (Inr d')" and "e \<notin> {Entry DEBUG_AGENT_INIT_TERMINATE, Exit_boot_services}"
    and "hooked b installed d"
  shows "hooked b installed d'"
proof (cases e)
  case (Entry f)
  then show ?thesis using Initialize_hooked [OF assms(1-3)] assms(4-6) by auto
next
  case Notify_CpuArch
  then show ?thesis using CpuArch_hooked [OF assms(1-3)] assms(4,6) by simp
next
  case Notify_TimerArch
  have "mDebuggerInitialized (OnTimerArchProtocolNotification b d) = mDebuggerInitialized d"
    by (simp add: OnTimerArchProtocolNotification_def DebugAgentInitializeTimer_def dxe_service_eq split_beta
        split: option.split)
  with Notify_TimerArch show ?thesis using TimerArch_keeps [OF assms(1), of d] assms(4,6) by (auto simp: hooked_def)
next
  case Notify_MemoryAttribute
  have "mDebuggerInitialized (OnMemoryAttributeProtocolNotification b d) = mDebuggerInitialized d"
    by (simp add: OnMemoryAttributeProtocolNotification_def dxe_service_eq split_beta)
  with Notify_MemoryAttribute show ?thesis
    using MemoryAttribute_keeps [OF assms(1), of d] assms(4,6) by (auto simp: hooked_def)
next
  case (Notify_LoadedImage images)
  then show ?thesis using LoadedImage_keeps [OF assms(1)] assms(4,6) by (auto simp: hooked_def)
next
  case Timer_tick
  then show ?thesis using TimerRoutine_keeps [OF assms(1)] assms(4,6) by (auto simp: hooked_def)
qed (use assms(5) in simp)

lemma run_hooked:
  assumes "keeps_handlers b installed" "registries_ok (ib_services b) installed" "ib_asserts b"
    and "set es \<inter> {Entry DEBUG_AGENT_INIT_TERMINATE, Exit_boot_services} = {}"
  shows "dxe_run nf b hob es d = Some (Inr d') \<Longrightarrow> hooked b installed d \<Longrightarrow> hooked b installed d'"
  using assms(4)
proof (induction es arbitrary: d)
  case (Cons e es)
  then obtain d1 where "(if registered nf e (dxe_plat d) then dxe_event_step b hob e d else Some (Inr d)) = Some (Inr d1)"
    "dxe_run nf b hob es d1 = Some (Inr d')"
    by (auto simp: obind_eq_Inr)
  with Cons event_hooked [OF assms(1-3), of hob e d d1] show ?case by (auto split: if_splits)
qed simp

text \<open>Shut-down: through the CPU protocol the handlers go, without it they stay.\<close>

lemma OnExitBootServices_handlers:
  assumes "keeps_handlers b installed" "registries_ok (ib_services b) installed"
  shows "installed (dxe_plat (OnExitBootServices b d)) =
    (if gCpu d then installed (dxe_plat d) - set (ib_mArchExceptionTypes b) else installed (dxe_plat d))"
proof -
  have t: "installed (dxe_plat (DebugAgentTimerDestroy (ib_services b) d)) = installed (dxe_plat d)"
    "gCpu (DebugAgentTimerDestroy (ib_services b) d) = gCpu d"
    using keep(7) [OF assms(1)] by (simp_all add: DebugAgentTimerDestroy_def split: option.split)
  show ?thesis
    using remove_handlers_installed [of "RegisterInterruptHandler (ib_services b)" installed] assms(2) t
    by (simp add: OnExitBootServices_def Let_def DebugAgentExceptionDestroy_DXE_def registries_ok_def)
qed



section \<open>The name of a module\<close>

definition file_name :: "u8 list \<Rightarrow> u8 list" where
  "file_name p = rev (takeWhile (\<lambda>c. c \<noteq> 92 \<and> c \<noteq> 47) (rev p))"

definition base_name :: "u8 list \<Rightarrow> u8 list" where
  "base_name p = takeWhile (\<lambda>c. c \<noteq> 46) (file_name p)"

lemma strip_directories_eq:
  "n \<le> length p \<Longrightarrow> strip_directories p n = file_name (take n p) @ drop n p"
proof (induction n)
  case (Suc n)
  then show ?case
    by (auto simp: file_name_def take_Suc_conv_app_nth Cons_nth_drop_Suc)
qed (simp add: file_name_def)

lemma set_file_name: "set (file_name p) \<subseteq> set p"
  by (auto simp: file_name_def dest: set_takeWhileD)

lemma image_name_eq:
  assumes "0 \<notin> set p" and "length (file_name p) < 64"
  shows "\<exists>Name. image_name asserts (p @ 0 # r) = Inr Name \<and> cstr Name = base_name p"
proof -
  have strip: "strip_directories (p @ 0 # r) (AsciiStrLen (p @ 0 # r)) = file_name p @ 0 # r"
    using assms(1) strip_directories_eq [of "length p" "p @ 0 # r"] by simp
  have zero: "0 \<notin> set (file_name p)" using assms(1) set_file_name by blast
  define f where "f = file_name p"
  have f: "0 \<notin> set f" "length f < 64" using zero assms(2) by (simp_all add: f_def)
  have "\<exists>Name. (case ScanMem8 (f @ [0]) (AsciiStrLen (f @ [0])) 46 of
      None \<Rightarrow> Inr (f @ [0]) | Some e \<Rightarrow> Inr ((f @ [0])[e := 0])) = (Inr Name :: stop + u8 list) \<and>
    cstr Name = takeWhile (\<lambda>c. c \<noteq> 46) f"
  proof (cases "46 \<in> set f")
    case True
    then obtain g h where gh: "f = g @ 46 # h" "46 \<notin> set g" using split_list_first by metis
    then have "0 \<notin> set g" using f(1) by simp
    moreover have "ScanMem8 (f @ [0]) (AsciiStrLen (f @ [0])) 46 = Some (length g)"
    proof -
      have "AsciiStrLen (f @ [0]) = length f" using f(1) by simp
      then show ?thesis using ScanMem8_first [OF gh(2), of "length f" "h @ [0]"] gh(1) by simp
    qed
    moreover have "takeWhile (\<lambda>c. c \<noteq> 46) f = g" unfolding gh(1) using gh(2) by (induction g) auto
    ultimately show ?thesis using gh(1) by simp
  next
    case False
    then have none: "ScanMem8 (f @ [0]) (AsciiStrLen (f @ [0])) 46 = None" using f(1) by simp
    have all: "takeWhile (\<lambda>c. c \<noteq> 46) f = f" using False by (simp add: takeWhile_eq_all_conv) metis
    show ?thesis unfolding none all using f(1) by simp
  qed
  moreover have tk: "take (AsciiStrLen (f @ 0 # r)) (f @ 0 # r) = f" "AsciiStrLen (f @ 0 # r) = length f"
    using f(1) by simp_all
  ultimately show ?thesis
    using f(2) unfolding image_name_def Let_def strip f_def [symmetric] base_name_def tk(1) by (simp add: tk(2))
qed

text \<open>The comparison of BaseLib that ignores case, on strings.\<close>

definition stricmp_ok :: "lib \<Rightarrow> bool" where
  "stricmp_ok L \<longleftrightarrow> (\<forall>a b. AsciiStriCmp L a b = 0 \<longleftrightarrow> map AsciiCharToUpper (cstr a) = map AsciiCharToUpper (cstr b))"

definition same_module :: "u8 list \<Rightarrow> u8 list \<Rightarrow> bool" where
  "same_module wanted p \<longleftrightarrow> map AsciiCharToUpper (base_name p) = map AsciiCharToUpper (cstr wanted)"

text \<open>Images with a PDB pointer, and images without one.\<close>

lemma image_loop_eq:
  assumes "stricmp_ok (ag_lib (ib_agent b))"
    and "\<forall>p. Some p \<in> set ps \<longrightarrow> 0 \<notin> set p \<and> length (file_name p) < 64"
  shows "OnLoadedImageNotification_loop b (map (\<lambda>p. Some (map_option (\<lambda>p. p @ [0]) p)) ps) s =
    (if \<exists>p. Some p \<in> set ps \<and> same_module (mDbgBreakOnModuleLoadString (world s)) p
     then DebuggerBreak (ib_CpuBreakpoint b) BreakpointReasonModuleLoad s else Some (Inr s))"
  using assms(2)
proof (induction ps)
  case (Cons x ps)
  show ?case
  proof (cases x)
    case (Some p)
    obtain Name where n: "image_name (ib_asserts b) (p @ [0]) = Inr Name" "cstr Name = base_name p"
      using image_name_eq [of p "ib_asserts b" "[]"] Cons.prems Some by auto
    let ?w = "mDbgBreakOnModuleLoadString (world s)"
    have "AsciiStrLen Name = AsciiStrLen ?w \<and> AsciiStriCmp (ag_lib (ib_agent b)) ?w Name = 0 \<longleftrightarrow> same_module ?w p"
      using assms(1) n(2) by (auto simp: stricmp_ok_def same_module_def AsciiStrLen_def dest: map_eq_imp_length_eq)
    then show ?thesis using Cons n(1) Some by (auto simp: Let_def)
  qed (use Cons in simp)
qed simp

end
