(* ===== verification/Phases.thy ===== *)
theory Phases
  imports DxeAgent Targets
begin

text \<open>
  The agents of MM and PEI over their lifetime. The MM agent is a state machine over the
  calls of \<open>InitializeDebugAgent\<close> in DebugAgentMm.c, with what its flag says of the installed
  handlers; the PEI agent of DebugAgentPeiLib.c starts, stops at its initial breakpoint and
  serves a debugger there. Last, a poll that a break character turns into a whole session.
\<close>

section \<open>The MM agent\<close>

abbreviation mm_plat :: "('p, 'z) machine_scheme mm_agent \<Rightarrow> 'p" where
  "mm_plat d \<equiv> plat (world (mm_stub d))"

text \<open>The calls in the order in which the MM core and the terminating application make them.\<close>

fun mm_run ::
  "('p, ('p, 'z) machine_scheme) init_build \<Rightarrow> DEBUGGER_CONTROL_HOB option \<Rightarrow> INIT_FLAG list \<Rightarrow>
   ('p, 'z) machine_scheme mm_agent \<Rightarrow> (stop + ('p, 'z) machine_scheme mm_agent) option" where
  "mm_run b hob [] d = Some (Inr d)"
| "mm_run b hob (f # fs) d = obind (InitializeDebugAgent_MM b f hob d) (mm_run b hob fs)"

lemma mm_run_append: "mm_run b hob (fs @ gs) d = obind (mm_run b hob fs d) (mm_run b hob gs)"
proof (induction fs arbitrary: d)
  case (Cons f fs)
  then have "mm_run b hob (fs @ gs) = (\<lambda>d. obind (mm_run b hob fs d) (mm_run b hob gs))" by (rule ext)
  then show ?case by (simp add: obind_assoc)
qed simp

text \<open>What the debugger has seen and sent, and its breakpoints.\<close>

definition same_talk :: "'w gdb \<Rightarrow> 'w gdb \<Rightarrow> bool" where
  "same_talk s s' \<longleftrightarrow> rx s' = rx s \<and> tx s' = tx s \<and> mBreakpoints s' = mBreakpoints s"

lemma same_talk_refl [simp]: "same_talk s s"
  by (simp add: same_talk_def)

lemma same_talk_world [simp]: "same_talk s (s\<lparr>world := w\<rparr>)"
  by (simp add: same_talk_def)

lemma same_talk_trans: "same_talk s s1 \<Longrightarrow> same_talk s1 s2 \<Longrightarrow> same_talk s s2"
  by (simp add: same_talk_def)

lemma poll_keeps:
  assumes "keeps_handlers b installed" and "DebuggerPollInput (ib_CpuBreakpoint b) ag s = Some (Inr s')"
  shows "installed (plat (world s')) = installed (plat (world s))"
  using DebuggerPollInput_world [OF assms(2), where P = "\<lambda>w. installed (plat w) = installed (plat (world s))"]
    keep(9) [OF assms(1)] by auto

text \<open>A start either leaves the flag, or ends with every handler installed.\<close>

lemma InitializeDebugAgent_MM_start:
  assumes "keeps_handlers b installed" and "registries_ok (ib_services b) installed" and "ib_asserts b"
    and "InitializeDebugAgent_MM b DEBUG_AGENT_INIT_SMM hob d = Some (Inr d')"
  shows "mm_mDebuggerInitialized d' = mm_mDebuggerInitialized d \<and> installed (mm_plat d') = installed (mm_plat d) \<and>
      same_talk (mm_stub d) (mm_stub d') \<or>
    mm_mDebuggerInitialized d' \<and> set (ib_mArchExceptionTypes b) \<subseteq> installed (mm_plat d')"
proof (cases "debug_config (ib_PcdForceEnableDebugger b) DefaultDebugConfig_MM MmDebugEnabled hob")
  case None
  then show ?thesis using assms(4) by (simp add: InitializeDebugAgent_MM_def)
next
  case (Some h)
  obtain ok1 p1 where t: "DebugTransportInitialize (ib_services b) (mm_plat d) = (ok1, p1)" by fastforce
  have p1: "installed p1 = installed (mm_plat d)" by (rule keep(1) [OF assms(1) t])
  show ?thesis
  proof (cases ok1)
    case False
    then have "d' = d\<lparr>mm_stub := (mm_stub d)\<lparr>world := (world (mm_stub d))\<lparr>plat := p1\<rparr>\<rparr>\<rparr>"
      using assms(4) Some t by (simp add: InitializeDebugAgent_MM_def on_plat_eq)
    then show ?thesis using p1 by simp
  next
    case True
    let ?w = "ib_DebugArchInit b h ((world (mm_stub d))\<lparr>plat := p1\<rparr>)"
    obtain ok p where e: "DebugAgentExceptionInitialize_MM True (ib_services b) (ib_mArchExceptionTypes b) p1 = Inr (ok, p)"
      using assms(3,4) Some t True keep(8) [OF assms(1)]
      by (cases "DebugAgentExceptionInitialize_MM True (ib_services b) (ib_mArchExceptionTypes b) p1")
        (auto simp: InitializeDebugAgent_MM_def on_plat_eq)
    have ok: ok
      using e by (auto simp: DebugAgentExceptionInitialize_MM_def ASSERT_def split: prod.splits bool.splits)
    have p: "set (ib_mArchExceptionTypes b) \<subseteq> installed p"
      using ExceptionInitialize_MM_installed [OF _ _ e, of installed] assms(2) ok by (auto simp: registries_ok_def)
    let ?s = "(mm_stub d)\<lparr>world := ?w\<lparr>plat := p\<rparr>\<rparr>"
    obtain s4 where s4: "(if InitialBreakpoint h
        then DebuggerInitialBreakpoint (ib_CpuBreakpoint b) (InitialBreakpointTimeout h) ?s else Some (Inr ?s)) = Some (Inr s4)"
      and d': "d' = d\<lparr>mm_stub := s4, mm_mDebuggerInitialized := True\<rparr>"
      using assms(3,4) Some t True e ok keep(8) [OF assms(1)]
      by (auto simp: InitializeDebugAgent_MM_def on_plat_eq obind_eq_Inr Let_def cong: if_cong)
    have "installed (plat (world s4)) = installed p"
      using s4 break_keeps [OF assms(1)] by (fastforce simp: DebuggerInitialBreakpoint_def split: if_splits)
    with p d' show ?thesis by simp
  qed
qed

text \<open>One call, and a run of them.\<close>

lemma InitializeDebugAgent_MM_simps:
  "InitializeDebugAgent_MM b DEBUG_AGENT_INIT_ENTER_SMI hob d =
     (if mm_mDebuggerInitialized d
      then obind (DebuggerPollInput (ib_CpuBreakpoint b) (ib_agent b) (mm_stub d)) (\<lambda>s. Some (Inr (d\<lparr>mm_stub := s\<rparr>)))
      else Some (Inr d))"
  "InitializeDebugAgent_MM b DEBUG_AGENT_INIT_TERMINATE hob d =
     (if mm_mDebuggerInitialized d
      then Some (Inr (d\<lparr>mm_stub := (mm_stub d)\<lparr>world := (world (mm_stub d))\<lparr>plat :=
        DebugAgentExceptionDestroy_MM (ib_services b) (ib_mArchExceptionTypes b) (mm_plat d)\<rparr>\<rparr>\<rparr>))
      else Some (Inr d))"
  "f \<notin> {DEBUG_AGENT_INIT_SMM, DEBUG_AGENT_INIT_ENTER_SMI, DEBUG_AGENT_INIT_TERMINATE} \<Longrightarrow>
     InitializeDebugAgent_MM b f hob d = Some (Inr d)"
  by (simp_all add: InitializeDebugAgent_MM_def split: INIT_FLAG.split)

definition mm_hooked :: "('p, ('p, 'z) machine_scheme) init_build \<Rightarrow> ('p \<Rightarrow> u64 set) \<Rightarrow>
    ('p, 'z) machine_scheme mm_agent \<Rightarrow> bool" where
  "mm_hooked b installed d \<longleftrightarrow>
     (mm_mDebuggerInitialized d \<longrightarrow> set (ib_mArchExceptionTypes b) \<subseteq> installed (mm_plat d))"

lemma InitializeDebugAgent_MM_entry:
  assumes keeps: "keeps_handlers b installed" and regs: "registries_ok (ib_services b) installed" and "ib_asserts b"
    and init: "InitializeDebugAgent_MM b f hob d = Some (Inr d')"
  shows "(mm_mDebuggerInitialized d \<longrightarrow> mm_mDebuggerInitialized d') \<and>
    (\<not> mm_mDebuggerInitialized d' \<longrightarrow> same_talk (mm_stub d) (mm_stub d')) \<and>
    (f \<noteq> DEBUG_AGENT_INIT_TERMINATE \<longrightarrow> mm_hooked b installed d \<longrightarrow> mm_hooked b installed d') \<and>
    (f = DEBUG_AGENT_INIT_TERMINATE \<longrightarrow> mm_mDebuggerInitialized d' \<longrightarrow>
      installed (mm_plat d') \<inter> set (ib_mArchExceptionTypes b) = {})"
proof -
  consider (start) "f = DEBUG_AGENT_INIT_SMM"
    | (poll) "f = DEBUG_AGENT_INIT_ENTER_SMI" "mm_mDebuggerInitialized d"
    | (stop) "f = DEBUG_AGENT_INIT_TERMINATE" "mm_mDebuggerInitialized d"
    | (same) "InitializeDebugAgent_MM b f hob d = Some (Inr d)"
        "f = DEBUG_AGENT_INIT_TERMINATE \<longrightarrow> \<not> mm_mDebuggerInitialized d"
    using InitializeDebugAgent_MM_simps(1,2) [of b hob d] InitializeDebugAgent_MM_simps(3) [of f b hob d]
    by (metis insertE emptyE)
  then show ?thesis
  proof cases
    case start
    from InitializeDebugAgent_MM_start [OF keeps regs assms(3) init [unfolded start]] show ?thesis
      using start by (auto simp: mm_hooked_def)
  next
    case poll
    obtain s where s: "DebuggerPollInput (ib_CpuBreakpoint b) (ib_agent b) (mm_stub d) = Some (Inr s)"
      and d': "d' = d\<lparr>mm_stub := s\<rparr>"
      using init poll by (auto simp: InitializeDebugAgent_MM_simps obind_eq_Inr)
    show ?thesis using poll poll_keeps [OF keeps s] d' by (simp add: mm_hooked_def)
  next
    case stop
    have "installed (remove_handlers (RegisterCpuInterruptHandler (ib_services b)) (ib_mArchExceptionTypes b) (mm_plat d)) \<inter>
        set (ib_mArchExceptionTypes b) = {}"
      using regs by (intro remove_after_failure) (simp_all add: registries_ok_def)
    moreover have "d' = d\<lparr>mm_stub := (mm_stub d)\<lparr>world := (world (mm_stub d))\<lparr>plat :=
        remove_handlers (RegisterCpuInterruptHandler (ib_services b)) (ib_mArchExceptionTypes b) (mm_plat d)\<rparr>\<rparr>\<rparr>"
      using init stop by (simp add: InitializeDebugAgent_MM_simps DebugAgentExceptionDestroy_MM_def)
    ultimately show ?thesis using stop by simp
  next
    case same
    then show ?thesis using init by simp
  qed
qed

lemma mm_run_entries:
  assumes "keeps_handlers b installed" and "registries_ok (ib_services b) installed" and "ib_asserts b"
  shows "mm_run b hob fs d = Some (Inr d') \<Longrightarrow>
    (\<not> mm_mDebuggerInitialized d' \<longrightarrow> \<not> mm_mDebuggerInitialized d \<and> same_talk (mm_stub d) (mm_stub d')) \<and>
    (DEBUG_AGENT_INIT_TERMINATE \<notin> set fs \<longrightarrow> mm_hooked b installed d \<longrightarrow> mm_hooked b installed d')"
proof (induction fs arbitrary: d)
  case (Cons f fs)
  obtain d1 where d1: "InitializeDebugAgent_MM b f hob d = Some (Inr d1)" and run: "mm_run b hob fs d1 = Some (Inr d')"
    using Cons.prems by (auto simp: obind_eq_Inr)
  show ?case
    using InitializeDebugAgent_MM_entry [OF assms d1] Cons.IH [OF run] same_talk_trans by auto
qed simp

text \<open>A call of a terminated agent from an SMI still polls, with no handler for the break it takes.\<close>

lemma mm_run_terminated:
  assumes "keeps_handlers b installed" and "registries_ok (ib_services b) installed" and "ib_asserts b"
    and "mm_run b hob (fs @ [DEBUG_AGENT_INIT_TERMINATE]) d = Some (Inr d')" and "mm_mDebuggerInitialized d'"
  shows "installed (mm_plat d') \<inter> set (ib_mArchExceptionTypes b) = {}"
proof -
  obtain d1 where "InitializeDebugAgent_MM b DEBUG_AGENT_INIT_TERMINATE hob d1 = Some (Inr d')"
    using assms(4) by (auto simp: mm_run_append obind_eq_Inr)
  from InitializeDebugAgent_MM_entry [OF assms(1-3) this] assms(5) show ?thesis by simp
qed

lemma MM_break:
  assumes "mm_mDebuggerInitialized d" and "clock_total (ib_agent b) (world (mm_stub d))" and "rx (mm_stub d) = Some 3 # r"
  shows "InitializeDebugAgent_MM b DEBUG_AGENT_INIT_ENTER_SMI hob d =
    obind (DebuggerBreak (ib_CpuBreakpoint b) BreakpointReasonDebuggerBreak
        ((mm_stub d)\<lparr>rx := r, clock_reads := Suc (clock_reads (mm_stub d))\<rparr>))
      (\<lambda>s. obind (DebuggerPollInput (ib_CpuBreakpoint b) (ib_agent b) s) (\<lambda>s. Some (Inr (d\<lparr>mm_stub := s\<rparr>))))"
  using assms DebuggerPollInput_break [OF assms(2,3), of "ib_CpuBreakpoint b"]
  by (simp add: InitializeDebugAgent_MM_def obind_assoc)

section \<open>The PEI agent\<close>

text \<open>
  The machine that the start-up leaves: \<open>p1\<close> is the firmware after the transport has been
  initialised, \<open>p2\<close> after the handlers have been installed.
\<close>

definition pei_machine :: "'p \<Rightarrow> 'p \<Rightarrow> 'p x64 \<Rightarrow> 'p x64" where
  "pei_machine p1 p2 w =
     (DebugArchInit_X64 (PerformanceCounterFreq DefaultPeiDebugConfig) (w\<lparr>plat := p1\<rparr>))\<lparr>plat := p2\<rparr>"

lemma pei_machine_simps [simp]:
  "memory (pei_machine p1 p2 w) = memory w" "plat (pei_machine p1 p2 w) = p2"
  "CR3 (pei_machine p1 p2 w) = CR3 w" "CR4 (pei_machine p1 p2 w) = CR4 w"
  "mPerformanceCounterFreq (pei_machine p1 p2 w) = 0x300000"
  by (simp_all add: pei_machine_def DebugArchInit_X64_def DefaultPeiDebugConfig_def)

lemma pei_machine_slots: "x64_slots (pei_machine p1 p2 w) = [None, None, None, None]"
proof -
  have "x64_slots (pei_machine p1 p2 w) =
      x64_slots (DebugArchInit_X64 (PerformanceCounterFreq DefaultPeiDebugConfig) (w\<lparr>plat := p1\<rparr>))"
    unfolding pei_machine_def by (intro x64_slots_more) simp
  then show ?thesis by (simp add: DebugArchInit_X64_slots)
qed

lemma slots_none: "slots_unique [None, None, None, None]" "slots_armed [None, None, None, None] = {}"
  by (simp_all add: slots_unique_def slots_armed_def)

text \<open>The start-up is its initial breakpoint on that machine.\<close>

lemma DebugAgentPeiEntry_start:
  assumes "ib_PcdForceEnableDebugger b" and "ib_DebugArchInit b = (\<lambda>h. DebugArchInit_X64 (PerformanceCounterFreq h))"
    and "DebugTransportInitialize (ib_services b) (plat (world s)) = (True, p1)"
    and "DebugAgentExceptionInitialize_PEI (ib_asserts b) (ib_services b) (ib_mArchExceptionTypes b) p1 = Inr (True, p2)"
  shows "DebugAgentPeiEntry b s = DebuggerInitialBreakpoint (ib_CpuBreakpoint b) 0 (s\<lparr>world := pei_machine p1 p2 (world s)\<rparr>)"
  using assms
  by (simp add: DebugAgentPeiEntry_def InitializeDebugAgent_PEI_def on_plat_eq pei_machine_def DebugArchInit_X64_def)

lemma pei_session_X64:
  assumes conf: "configured env off attrs" and quiet: "watchdog_quiet wd attrs"
    and "ib_PcdForceEnableDebugger b" and "ib_DebugArchInit b = (\<lambda>h. DebugArchInit_X64 (PerformanceCounterFreq h))"
    and cpu: "ib_CpuBreakpoint b = DebuggerExceptionHandler_X64 wd off ag EXCEPT_X64_BREAKPOINT c"
    and ag: "ag = agent_X64_PEI env off"
    and "DebugTransportInitialize (ib_services b) (plat (world s)) = (True, p1)"
    and "DebugAgentExceptionInitialize_PEI (ib_asserts b) (ib_services b) (ib_mArchExceptionTypes b) p1 = Inr (True, p2)"
    and table: "bp_table_ok (mBreakpoints s)" and boot: "\<not> mRebootOnContinue s"
    and wait: "waits_end ag (s\<lparr>world := pei_machine p1 p2 (world s)\<rparr>)"
    and msgs: "\<forall>(k, e) \<in> set cs. message_ok (ag_gRegisterOffsets ag) e"
    and T0: "T0 = \<lparr>tg_registers = ctx_set64 c (off X_Rip) (ctx_get64 c (off X_Rip) - 1), tg_memory = memory (world s),
        tg_breakpoints = saved_code 1 (mBreakpoints s), tg_watchpoints = {},
        tg_protection = (attrs p2, CR3 (world s), CR4 (world s))\<rparr>"
    and adm: "admissible_all (platform_X64 ag pei_readable_X64 pei_writable_X64) (requests cs) T0"
    and rx: "rx s = stream cs @ replicate n None @ map Some (frame (str ''vCont;c''))"
    and T1: "T1 = snd (serve_all (platform_X64 ag pei_readable_X64 pei_writable_X64) (requests cs) T0)"
  shows "\<exists>s'. DebugAgentPeiEntry b s = Some (Inr s') \<and>
    target_X64 ag attrs s' = T1\<lparr>tg_registers := resume_X64 off EXCEPT_X64_BREAKPOINT (tg_memory T1) (tg_registers T1)\<rparr> \<and>
    tx s' = tx s @ frame (str ''T05thread:01;'') @
      transcript (platform_X64 ag pei_readable_X64 pei_writable_X64) cs (str ''T05thread:01;'') False T0 @ str ''+'' \<and>
    DebuggerBreakpointReason s' = BreakpointReasonNone \<and> gRunning s' \<and> rx s' = [] \<and>
    ready ag (x64_sound (configured env off attrs)) s'"
proof -
  define w where "w = pei_machine p1 p2 (world s)"
  define s0 where "s0 = s\<lparr>world := w, mNextBreakpointTimeout := 0, DebuggerBreakpointReason := BreakpointReasonInitial\<rparr>"
  have w: "memory w = memory (world s)" "plat w = p2" "CR3 w = CR3 (world s)" "CR4 w = CR4 (world s)"
      "mPerformanceCounterFreq w = 0x300000" "x64_slots w = [None, None, None, None]"
    by (simp_all add: w_def pei_machine_slots)
  have "clock_total ag w"
    using w(5) by (simp add: clock_total_def ag agent_defs DebugGetTimeMs_X64_def)
  then have ready: "ready ag (x64_sound (configured env off attrs)) s0"
    using table boot conf w(6) slots_none by (simp add: ready_def x64_sound_def s0_def)
  have wait0: "waits_end ag s0" using wait by (simp add: s0_def w_def)
  have rx0: "rx s0 = stream cs @ replicate n None @ map Some (frame (str ''vCont;c''))" using rx by (simp add: s0_def)
  have len: "length (ag_mArchBreakpointInstruction ag) = 1" by (simp add: ag agent_defs mArchBreakpointInstruction_X64_def)
  have T0': "T0 = target_X64 ag attrs (s0\<lparr>gSystemContext := fst (DebuggerExceptionHandler_X64_entry off EXCEPT_X64_BREAKPOINT c)\<rparr>)"
    using w len by (simp add: slots_none T0 target_X64_def target_of_def protection_X64_def s0_def entry_X64)
  have "stub_session ag mPerformanceCounterFreq memory x64_key (\<lambda>w. slots_armed (x64_slots w)) 4
      (x64_sound (configured env off attrs)) (protection_X64 attrs) pei_readable_X64 pei_writable_X64"
    unfolding ag by (rule x64_pei_session.stub_session_axioms)
  from session_X64 [OF this quiet ready wait0 msgs T0' adm rx0 T1] obtain s1 where s1:
    "ib_CpuBreakpoint b s0 = Some (Inr s1)"
    "target_X64 ag attrs s1 = T1\<lparr>tg_registers := resume_X64 off EXCEPT_X64_BREAKPOINT (tg_memory T1) (tg_registers T1)\<rparr>"
    "tx s1 = tx s0 @ frame (str ''T05thread:01;'') @
      transcript (platform_X64 ag pei_readable_X64 pei_writable_X64) cs (str ''T05thread:01;'') False T0 @ str ''+''"
    "gRunning s1" "rx s1 = []" "ready ag (x64_sound (configured env off attrs)) s1"
    unfolding cpu by blast
  let ?s' = "s1\<lparr>DebuggerBreakpointReason := BreakpointReasonNone\<rparr>"
  have "DebugAgentPeiEntry b s = Some (Inr ?s')"
    unfolding DebugAgentPeiEntry_start [OF assms(3,4,7,8)] DebuggerInitialBreakpoint_def DebuggerBreak_def
    using s1(1) by (simp add: s0_def w_def)
  moreover have "target_X64 ag attrs ?s' = target_X64 ag attrs s1" by (simp add: target_X64_def target_of_def)
  moreover have "tx s0 = tx s" by (simp add: s0_def)
  ultimately show ?thesis using s1(2-) by (intro exI [of _ ?s']) (simp add: ready_def)
qed

section \<open>Breaking into a running target\<close>

text \<open>
  A poll takes the break character behind other bytes, the handler serves the conversation
  that follows, and the poll returns. The breakpoint instruction's context is \<open>c\<close>.
\<close>

lemma break_session_X64:
  assumes sess: "stub_session ag mPerformanceCounterFreq memory x64_key (\<lambda>w. slots_armed (x64_slots w)) 4
      (x64_sound conf) (protection_X64 attrs) readable writable"
    and wd: "watchdog_quiet wd attrs" and ready: "ready ag (x64_sound conf) s"
    and wait: "waits_end ag (break_state xs r s)" and rx: "rx s = map Some xs @ Some 3 # r" and xs: "3 \<notin> set xs"
    and msgs: "\<forall>(k, e) \<in> set cs. message_ok (ag_gRegisterOffsets ag) e"
    and T0: "T0 = target_X64 ag attrs (s\<lparr>gSystemContext := ctx_set64 c (off X_Rip) (ctx_get64 c (off X_Rip) - 1)\<rparr>)"
    and adm: "admissible_all (platform_X64 ag readable writable) (requests cs) T0"
    and r: "r = stream cs @ replicate n None @ map Some (frame (str ''vCont;c''))"
    and T1: "T1 = snd (serve_all (platform_X64 ag readable writable) (requests cs) T0)"
  shows "\<exists>s'. DebuggerPollInput (DebuggerExceptionHandler_X64 wd off ag EXCEPT_X64_BREAKPOINT c) ag s = Some (Inr s') \<and>
    target_X64 ag attrs s' = T1\<lparr>tg_registers := resume_X64 off EXCEPT_X64_BREAKPOINT (tg_memory T1) (tg_registers T1)\<rparr> \<and>
    tx s' = tx s @ frame (str ''T05thread:01;'') @
      transcript (platform_X64 ag readable writable) cs (str ''T05thread:01;'') False T0 @ str ''+'' \<and>
    DebuggerBreakpointReason s' = BreakpointReasonNone \<and> gRunning s' \<and> rx s' = [] \<and> ready ag (x64_sound conf) s'"
proof -
  let ?s0 = "break_state xs r s"
  have ready0: "ready ag (x64_sound conf) ?s0" using ready by (simp add: ready_def)
  have T0': "T0 = target_X64 ag attrs (?s0\<lparr>gSystemContext := fst (DebuggerExceptionHandler_X64_entry off EXCEPT_X64_BREAKPOINT c)\<rparr>)"
    by (simp add: T0 target_X64_def target_of_def entry_X64)
  have rx0: "rx ?s0 = stream cs @ replicate n None @ map Some (frame (str ''vCont;c''))" using r by simp
  from session_X64 [OF sess wd ready0 wait msgs T0' adm rx0 T1] obtain s1 where s1:
    "DebuggerExceptionHandler_X64 wd off ag EXCEPT_X64_BREAKPOINT c ?s0 = Some (Inr s1)"
    "target_X64 ag attrs s1 = T1\<lparr>tg_registers := resume_X64 off EXCEPT_X64_BREAKPOINT (tg_memory T1) (tg_registers T1)\<rparr>"
    "tx s1 = tx s @ frame (str ''T05thread:01;'') @
      transcript (platform_X64 ag readable writable) cs (str ''T05thread:01;'') False T0 @ str ''+''"
    "gRunning s1" "rx s1 = []" "ready ag (x64_sound conf) s1"
    by auto
  have total: "clock_total ag (world s)" using ready by (simp add: ready_def)
  let ?s' = "s1\<lparr>DebuggerBreakpointReason := BreakpointReasonNone\<rparr>"
  have "target_X64 ag attrs ?s' = target_X64 ag attrs s1" by (simp add: target_X64_def target_of_def)
  then show ?thesis
    using DebuggerPollInput_break_in [where cpu = "DebuggerExceptionHandler_X64 wd off ag EXCEPT_X64_BREAKPOINT c",
        OF total xs rx s1(1,5)] s1(2-)
    by (intro exI [of _ ?s']) (simp add: ready_def)
qed

lemma break_session_AARCH64:
  assumes sess: "stub_session ag CounterFreq memory aarch64_key (\<lambda>w. slots_armed (aarch64_slots w)) MAX_WATCHPOINTS
      (aarch64_sound conf) (protection_AARCH64 attrs) readable writable"
    and wd: "watchdog_quiet wd attrs" and ready: "ready ag (aarch64_sound conf) s"
    and wait: "waits_end ag (break_state xs r s)" and rx: "rx s = map Some xs @ Some 3 # r" and xs: "3 \<notin> set xs"
    and msgs: "\<forall>(k, e) \<in> set cs. message_ok (ag_gRegisterOffsets ag) e"
    and T0: "T0 = target_AARCH64 ag attrs (s\<lparr>gSystemContext := c\<rparr>)"
    and adm: "admissible_all (platform_AARCH64 ag readable writable) (requests cs) T0"
    and r: "r = stream cs @ replicate n None @ map Some (frame (str ''vCont;c''))"
    and T1: "T1 = snd (serve_all (platform_AARCH64 ag readable writable) (requests cs) T0)"
  shows "\<exists>s'. DebuggerPollInput (DebuggerExceptionHandler_AARCH64 wd off ag c) ag s = Some (Inr s') \<and>
    target_AARCH64 ag attrs s' =
      T1\<lparr>tg_registers := resume_AARCH64 off (esr_class off c) (tg_memory T1) (tg_registers T1)\<rparr> \<and>
    tx s' = tx s @ frame (str ''T05thread:01;'') @
      transcript (platform_AARCH64 ag readable writable) cs (str ''T05thread:01;'') False T0 @ str ''+'' \<and>
    DebuggerBreakpointReason s' = BreakpointReasonNone \<and> gRunning s' \<and> rx s' = [] \<and> ready ag (aarch64_sound conf) s'"
proof -
  let ?s0 = "break_state xs r s"
  have ready0: "ready ag (aarch64_sound conf) ?s0" using ready by (simp add: ready_def)
  have T0': "T0 = target_AARCH64 ag attrs (?s0\<lparr>gSystemContext := c\<rparr>)"
    by (simp add: T0 target_AARCH64_def target_of_def)
  have rx0: "rx ?s0 = stream cs @ replicate n None @ map Some (frame (str ''vCont;c''))" using r by simp
  from session_AARCH64 [OF sess wd ready0 wait msgs T0' adm rx0 T1] obtain s1 where s1:
    "DebuggerExceptionHandler_AARCH64 wd off ag c ?s0 = Some (Inr s1)"
    "target_AARCH64 ag attrs s1 =
      T1\<lparr>tg_registers := resume_AARCH64 off (esr_class off c) (tg_memory T1) (tg_registers T1)\<rparr>"
    "tx s1 = tx s @ frame (str ''T05thread:01;'') @
      transcript (platform_AARCH64 ag readable writable) cs (str ''T05thread:01;'') False T0 @ str ''+''"
    "gRunning s1" "rx s1 = []" "ready ag (aarch64_sound conf) s1"
    by auto
  have total: "clock_total ag (world s)" using ready by (simp add: ready_def)
  let ?s' = "s1\<lparr>DebuggerBreakpointReason := BreakpointReasonNone\<rparr>"
  have "target_AARCH64 ag attrs ?s' = target_AARCH64 ag attrs s1" by (simp add: target_AARCH64_def target_of_def)
  then show ?thesis
    using DebuggerPollInput_break_in [where cpu = "DebuggerExceptionHandler_AARCH64 wd off ag c",
        OF total xs rx s1(1,5)] s1(2-)
    by (intro exI [of _ ?s']) (simp add: ready_def)
qed

end
