(* ===== verification/Bounds.thy ===== *)
theory Bounds
  imports Builds
begin

text \<open>
  Accesses stay in bounds: no command makes a handler read or write outside the request, the
  scratch buffer or the response, except a memory request with an excessive length. The
  predicate \<open>safe\<close> says so of an outcome; its rules follow the structure of the handlers.
\<close>

named_theorems safe_intros

definition safe :: "stop + 'a \<Rightarrow> bool" where
  "safe r \<longleftrightarrow> r \<noteq> Inl OutOfBounds"

lemma safe_Inr [simp, safe_intros]: "safe (Inr x)"
  by (simp add: safe_def)

lemma safe_ebind [safe_intros]: "safe m \<Longrightarrow> (\<And>x. m = Inr x \<Longrightarrow> safe (f x)) \<Longrightarrow> safe (ebind m f)"
  by (cases m) (auto simp: safe_def)

lemma safe_ASSERT [safe_intros]: "safe k \<Longrightarrow> safe (ASSERT asserts c k)"
  by (simp add: safe_def ASSERT_def)

lemma safe_if [safe_intros]: "(c \<Longrightarrow> safe a) \<Longrightarrow> (\<not> c \<Longrightarrow> safe b) \<Longrightarrow> safe (if c then a else b)"
  by simp

section \<open>Responses\<close>

lemma safe_response: "AsciiStrLen R \<le> MAX_RESPONSE_SIZE \<Longrightarrow> safe (SendGdbResponse ag (Some R) s)"
  by (simp add: SendGdbResponse_eq)

lemma safe_text [safe_intros]: "length R \<le> MAX_RESPONSE_SIZE \<Longrightarrow> safe (SendGdbResponse ag (Some R) s)"
  by (rule safe_response) (rule order_trans [OF AsciiStrLen_le])

lemma safe_literal [simp, safe_intros]:
  "safe (SendGdbResponse ag (Some (str '''')) s)" "safe (SendGdbResponse ag (Some (str ''OK'')) s)"
  "safe (SendGdbError ag e s)" "safe (SendStopReply ag s)"
  by (simp_all add: SendGdbError_eq SendStopReply_eq safe_text str_def MAX_RESPONSE_SIZE_def)

section \<open>Digits\<close>

lemma safe_HexToByte: "2 \<le> length Chars \<Longrightarrow> safe (HexToByte asserts Chars)"
  unfolding HexToByte_def HexToByte_digit_def Let_def by (auto intro!: safe_intros)

lemma safe_HexToBytes: "2 * n \<le> length Input \<Longrightarrow> safe (HexToBytes asserts n Input)"
proof (induction n arbitrary: Input)
  case (Suc n)
  then show ?case using safe_HexToByte [of Input asserts] by (auto intro!: safe_intros)
qed simp

section \<open>Registers\<close>

lemma safe_WriteRegisterToContext:
  assumes "reg_Size (t ! i) \<le> 10"
  shows "safe (WriteRegisterToContext asserts t c i Input)"
proof -
  have "2 * reg_Size (t ! i) \<le> length Input" if "\<not> AsciiStrLen Input < reg_Size (t ! i) * 2"
    using that AsciiStrLen_le [of Input] by linarith
  then show ?thesis
    using assms unfolding WriteRegisterToContext_def Let_def
    by (auto intro!: safe_intros safe_HexToBytes)
qed

lemma safe_WriteGeneralRegisters_loop:
  assumes "\<forall>i \<in> set is. reg_Size (t ! i) \<le> 10"
  shows "safe (WriteGeneralRegisters_loop asserts t is Ptr c)"
  using assms
proof (induction "is" arbitrary: Ptr c)
  case (Cons i "is")
  then have "safe (WriteRegisterToContext asserts t c i Ptr)" by (simp add: safe_WriteRegisterToContext)
  with Cons show ?case by (auto intro!: safe_intros split: option.split)
qed simp

section \<open>The v packets\<close>

lemma delimiter_at:
  "ProcessVCommand_delimiter C n \<le> n \<and>
    (ProcessVCommand_delimiter C n < n \<and> ProcessVCommand_delimiter C n < length C \<longrightarrow>
      C ! ProcessVCommand_delimiter C n = 59 \<or> C ! ProcessVCommand_delimiter C n = 63)"
  by (induction C n rule: ProcessVCommand_delimiter.induct) auto

lemma safe_ProcessVCommand: "safe (ProcessVCommand ag (body @ 0 # r) (length body) s)"
proof -
  define C where "C = body @ 0 # r"
  define d where "d = ProcessVCommand_delimiter C (length body)"
  have d: "d < length C" using delimiter_at [of C "length body"] by (simp add: d_def C_def)
  moreover have "Suc d < length C" if "C ! d = 59"
  proof -
    have "d \<noteq> length body" using that by (auto simp: C_def)
    moreover have "d \<le> length body" using delimiter_at by (simp add: d_def)
    ultimately show ?thesis by (simp add: C_def)
  qed
  ultimately show ?thesis
    unfolding ProcessVCommand_def C_def [symmetric] Let_def d_def [symmetric]
    by (auto intro!: safe_intros simp: MAX_RESPONSE_SIZE_def str_def split: prod.split)
qed

section \<open>Queries\<close>

lemma safe_ProcessMonitorCmd: "safe (ProcessMonitorCmd ag C s)"
proof -
  have "safe (HexToBytes (ag_asserts ag) (AsciiStrLen C div 2) C)"
    by (rule safe_HexToBytes, rule order_trans [OF _ AsciiStrLen_le]) simp
  moreover have "length (79 # ConvertResponseToHex m (of_nat MAX_RESPONSE_SIZE - 1) @ [0]) \<le> MAX_RESPONSE_SIZE" for m
    by (simp add: ConvertResponseToHex_eq MAX_RESPONSE_SIZE_def)
  ultimately show ?thesis
    unfolding ProcessMonitorCmd_def Let_def
    by (auto intro!: safe_intros split: prod.split simp del: length_append list.size)
qed

text \<open>The space left for the register list never runs out, so its error is never sent.\<close>

lemma ReadTargetRegisters_loop_room:
  assumes "lib_ok L" and "length xml + unat Remaining = MAX_RESPONSE_SIZE" and "0 < Remaining"
    and "ReadTargetRegisters_loop L rs n xml Remaining = (xml', Remaining')"
  shows "length xml' + unat Remaining' = MAX_RESPONSE_SIZE \<and> 0 < Remaining'"
  using assms(2-4)
proof (induction rs arbitrary: n xml Remaining)
  case (Cons r rs)
  show ?case
  proof (cases "reg_Name r")
    case None
    then show ?thesis using Cons by simp
  next
    case (Some Name)
    define W where "W = AsciiSPrint L (unat Remaining) (str ''<reg name=\"%a\" bitsize=\"%d\" type=\"%a\" regnum=\"%d\"/>'')
        [PStr Name, PNum (of_nat (reg_Size r * 8)), PStr (reg_Type r), PNum (of_nat n)]"
    have "0 < unat Remaining" using Cons.prems(2) by (simp add: word_less_nat_alt)
    then have W: "length W < unat Remaining" unfolding W_def using lib_ok_SPrint [OF assms(1)] by blast
    moreover have "unat Remaining < 2 ^ 64" using unsigned_less [of Remaining] by simp
    ultimately have u: "unat (of_nat (length W) :: u64) = length W" by (simp add: unat_of_nat)
    with W have "unat (Remaining - of_nat (length W)) = unat Remaining - length W"
      by (subst unat_sub) (simp_all add: word_le_nat_alt)
    moreover have "ReadTargetRegisters_loop L rs (Suc n) (xml @ W) (Remaining - of_nat (length W)) = (xml', Remaining')"
      using Cons.prems(3) Some by (simp add: W_def Let_def)
    ultimately show ?thesis
      using Cons.IH [of "xml @ W" "Remaining - of_nat (length W)" "Suc n"] Cons.prems(1) W
      by (simp add: word_less_nat_alt)
  qed
qed simp


lemma ReadTargetRegisters_sent:
  assumes "lib_ok (ag_lib ag)"
  shows "\<exists>body. length body < MAX_RESPONSE_SIZE \<and> ReadTargetRegisters ag s = SendGdbResponse ag (Some body) s"
proof -
  let ?L = "ag_lib ag"
  define start where "start = AsciiSPrint ?L MAX_RESPONSE_SIZE
      (str ''l<?xml version=\"1.0\"?><!DOCTYPE target SYSTEM \"gdb-target.dtd\"><feature name=\"%a\">'')
      [PStr (RegistersFeature (ag_GdbTargetInfo ag))]"
  obtain xml Rem where loop: "ReadTargetRegisters_loop ?L (ag_gRegisterOffsets ag) 0 start
      (of_nat MAX_RESPONSE_SIZE - of_nat (length start)) = (xml, Rem)"
    by fastforce
  have l: "length start < MAX_RESPONSE_SIZE"
    unfolding start_def by (rule lib_ok_SPrint [OF assms]) (simp add: MAX_RESPONSE_SIZE_def)
  have "unat (of_nat MAX_RESPONSE_SIZE - of_nat (length start) :: u64) = MAX_RESPONSE_SIZE - length start"
    using l unfolding MAX_RESPONSE_SIZE_def
    by (subst unat_sub) (simp_all add: word_le_nat_alt unat_of_nat)
  then have "length start + unat (of_nat MAX_RESPONSE_SIZE - of_nat (length start) :: u64) = MAX_RESPONSE_SIZE \<and>
      0 < (of_nat MAX_RESPONSE_SIZE - of_nat (length start) :: u64)"
    using l by (simp add: word_less_nat_alt)
  then have room: "length xml + unat Rem = MAX_RESPONSE_SIZE" "0 < Rem"
    using ReadTargetRegisters_loop_room [OF assms _ _ loop] by auto
  define W where "W = AsciiSPrint ?L (unat Rem) (str ''</feature>'') []"
  have "0 < unat Rem" using room(2) by (simp add: word_less_nat_alt)
  then have W: "length W < unat Rem" unfolding W_def by (rule lib_ok_SPrint [OF assms])
  have "Rem - of_nat (length W) \<noteq> 0"
  proof
    assume "Rem - of_nat (length W) = 0"
    then have "unat Rem = length W mod 2 ^ 64" by (simp add: unat_of_nat)
    with W show False by (metis mod_less_eq_dividend not_le)
  qed
  then have "ReadTargetRegisters ag s = SendGdbResponse ag (Some (xml @ W)) s"
    unfolding ReadTargetRegisters_def Let_def start_def [symmetric] loop by (simp add: W_def)
  moreover have "length (xml @ W) < MAX_RESPONSE_SIZE" using W room(1) by simp
  ultimately show ?thesis by blast
qed

lemma safe_ReadTargetDescription: "lib_ok (ag_lib ag) \<Longrightarrow> safe (ReadTargetDescription ag s)"
  unfolding ReadTargetDescription_def
  by (intro safe_text less_imp_le lib_ok_SPrint) (simp_all add: MAX_RESPONSE_SIZE_def)

lemma safe_ProcessQuery:
  assumes "lib_ok (ag_lib ag)"
  shows "safe (ProcessQuery ag C s)"
proof -
  have "safe (ReadTargetRegisters ag s)"
    using ReadTargetRegisters_sent [OF assms, of s] safe_text [OF less_imp_le] by metis
  then show ?thesis
    unfolding ProcessQuery_def
    by (intro safe_if safe_ProcessMonitorCmd safe_ReadTargetDescription assms safe_text)
      (simp_all add: str_def MAX_RESPONSE_SIZE_def)
qed

section \<open>Memory\<close>

text \<open>The length a memory request asks for, as the handler parses it.\<close>

definition requested_length :: "'w agent \<Rightarrow> bool \<Rightarrow> u8 list \<Rightarrow> nat \<Rightarrow> u64 option" where
  "requested_length ag Write Command n =
     (case ScanMem8 Command n 44 of
        None \<Rightarrow> None
      | Some i \<Rightarrow>
          (case (if Write then ScanMem8 (Command[i := 0]) n 58 else Some 0) of
             None \<Rightarrow> None
           | Some v \<Rightarrow> AsciiStrHexToUint64S (ag_lib ag)
               (drop (i + 1) (if Write then Command[i := 0, v := 0] else Command[i := 0]))))"

lemma safe_write_loop:
  assumes "2 * unat Length \<le> length V"
  shows "safe (ProcessMemoryCommand_loop ag True A Length V R w)"
  using assms
proof (induction "unat Length" arbitrary: A Length V w rule: less_induct)
  case less
  show ?case
  proof (cases "Length = 0")
    case False
    let ?k = "min Length (of_nat SCRATCH_SIZE)"
    have k: "unat ?k \<le> unat Length" "unat (Length - ?k) = unat Length - unat ?k"
      by (auto simp: min_def word_le_nat_alt unat_sub)
    have dec: "unat (Length - ?k) < unat Length" by (rule min_chunk_decreases [OF False])
    have h: "safe (HexToBytes (ag_asserts ag) (unat ?k) V)" using k(1) less.prems by (intro safe_HexToBytes) simp
    have rec: "safe (ProcessMemoryCommand_loop ag True (A + ?k) (Length - ?k) V' R w')"
      if "HexToBytes (ag_asserts ag) (unat ?k) V = Inr (bs, V')" for bs V' w'
      using less.hyps [OF dec, of V'] HexToBytes_length [OF that] less.prems k by simp
    show ?thesis
      using h rec False
      by (subst ProcessMemoryCommand_loop.simps)
        (auto simp: Let_def intro!: safe_intros split: prod.split)
  qed simp
qed

lemma read_loop_short:
  assumes "\<forall>a n w. length (fst (snd (ag_DbgReadMemory ag a n w))) \<le> n"
    and "unat Length \<le> SCRATCH_SIZE"
  shows "\<exists>r w'. ProcessMemoryCommand_loop ag False A Length V [] w = Inr (r, w') \<and>
    (\<forall>R. r = Some R \<longrightarrow> length R \<le> 2 * SCRATCH_SIZE)"
proof (cases "Length = 0")
  case False
  have k: "min Length (of_nat SCRATCH_SIZE) = Length"
    using assms(2) by (simp add: SCRATCH_SIZE_def min_def word_le_nat_alt)
  obtain ok bs w' where rd: "(if windbg_page ag A Length then (True, replicate (unat Length) 0, w)
      else ag_DbgReadMemory ag A (unat Length) w) = (ok, bs, w')"
    by (metis prod_cases3)
  then have "length bs \<le> unat Length"
    using assms(1) [rule_format, of A "unat Length" w] by (auto split: if_splits)
  moreover have "2 * unat Length \<le> RESPONSE_FULL_SIZE - 1" "\<not> SCRATCH_SIZE < unat Length"
    using assms(2) by (simp_all add: size_defs)
  ultimately show ?thesis
    using False assms(2)
    by (subst ProcessMemoryCommand_loop.simps) (simp add: Let_def k rd)
qed simp

lemma safe_ProcessMemoryCommand:
  assumes "\<forall>a n w. length (fst (snd (ag_DbgReadMemory ag a n w))) \<le> n"
    and "\<forall>L. requested_length ag Write C n = Some L \<longrightarrow> unat L \<le> (if Write then 2 ^ 63 - 1 else SCRATCH_SIZE)"
  shows "safe (ProcessMemoryCommand ag Write C n s)"
proof (cases "ScanMem8 C n 44")
  case None
  then show ?thesis unfolding ProcessMemoryCommand_def None by simp
next
  case (Some i)
  show ?thesis
  proof (cases Write)
    case False
    have "safe (ebind (ProcessMemoryCommand_loop ag False A L V [] (world s)) (\<lambda>(Resp, w').
        case Resp of None \<Rightarrow> SendGdbError ag GDB_ERROR_BAD_MEM_ADDRESS (s\<lparr>world := w'\<rparr>)
        | Some mResponse \<Rightarrow> SendGdbResponse ag (Some (mResponse @ [0])) (s\<lparr>world := w'\<rparr>)))"
      if len: "unat L \<le> SCRATCH_SIZE" for A L V
    proof -
      obtain r w' where r: "ProcessMemoryCommand_loop ag False A L V [] (world s) = Inr (r, w')"
        "\<forall>R. r = Some R \<longrightarrow> length R \<le> 2 * SCRATCH_SIZE"
        using read_loop_short [of ag L A V "world s"] assms(1) len by blast
      then show ?thesis by (cases r) (auto intro!: safe_text simp: size_defs)
    qed
    with False Some assms(2) show ?thesis
      by (auto simp: ProcessMemoryCommand_def requested_length_def Let_def cong: option.case_cong prod.case_cong
          split: option.split)
  next
    case True
    have "safe (ProcessMemoryCommand_loop ag True A L V [] w)"
      if "of_nat (AsciiStrLen V) = L * 2" "unat L < 2 ^ 63" for A L V w
    proof -
      have "unat (L * 2) = unat L * 2" using that(2) by (simp add: unat_mult_lem [THEN iffD1])
      then have "AsciiStrLen V mod 2 ^ 64 = unat L * 2" using arg_cong [OF that(1), of unat] by (simp add: unat_of_nat)
      then have "2 * unat L \<le> AsciiStrLen V" by (metis mod_less_eq_dividend mult.commute)
      then show ?thesis using AsciiStrLen_le [of V] by (intro safe_write_loop) linarith
    qed
    with True Some assms(2) show ?thesis
      by (auto simp: ProcessMemoryCommand_def requested_length_def Let_def intro!: safe_intros
          split: option.split prod.split)
  qed
qed


section \<open>Breakpoints and the dispatcher\<close>

lemma safe_ProcessBreakpoint:
  assumes "length (ag_mArchBreakpointInstruction ag) \<le> MAX_BREAKPOINT_SIZE"
  shows "safe (ProcessBreakpoint ag Remove C s)"
proof -
  have "safe (AddSoftwareBreakpoint ag A tw)" for A tw
    using assms unfolding AddSoftwareBreakpoint_def Let_def
    by (cases tw) (auto intro!: safe_intros split: option.split prod.split)
  then show ?thesis
    unfolding ProcessBreakpoint_def Let_def by (auto intro!: safe_intros split: option.split prod.split)
qed

text \<open>What a build fixes: register sizes, responses that fit, and a reboot that is no memory error.\<close>

definition build_fits :: "'w agent \<Rightarrow> bool" where
  "build_fits ag \<longleftrightarrow> lib_ok (ag_lib ag) \<and> regs_fit (ag_gRegisterOffsets ag) \<and>
     (\<forall>r \<in> set (ag_gRegisterOffsets ag). reg_Size r \<le> 10) \<and>
     length (ag_mArchBreakpointInstruction ag) \<le> MAX_BREAKPOINT_SIZE \<and>
     (\<forall>a n w. length (fst (snd (ag_DbgReadMemory ag a n w))) \<le> n) \<and>
     (\<forall>w. ag_DebugReboot ag w \<noteq> Inl OutOfBounds)"

lemma safe_registers:
  assumes "build_fits ag"
  shows "safe (ReadGeneralRegisters ag s)" "safe (WriteGeneralRegisters ag C s)"
    "safe (ReadRegister ag C s)" "safe (WriteRegister ag C s)"
proof -
  note b = assms [unfolded build_fits_def]
  have size: "reg_Size (ag_gRegisterOffsets ag ! i) \<le> 10" if "i < length (ag_gRegisterOffsets ag)" for i
    using b that nth_mem by blast
  show "safe (ReadGeneralRegisters ag s)" using b by (simp add: ReadGeneralRegisters_eq)
  show "safe (WriteGeneralRegisters ag C s)"
    using size unfolding WriteGeneralRegisters_def
    by (auto intro!: safe_intros safe_WriteGeneralRegisters_loop split: prod.split)
  have "length (ReadRegisterFromContext t c i @ [0]) \<le> MAX_RESPONSE_SIZE" if "reg_Size (t ! i) \<le> 10" for t c i
    using that by (simp add: MAX_RESPONSE_SIZE_def)
  then show "safe (ReadRegister ag C s)"
    using size unfolding ReadRegister_def Let_def by (auto intro!: safe_intros)
  show "safe (WriteRegister ag C s)"
    using size unfolding WriteRegister_def Let_def
    by (auto intro!: safe_intros safe_WriteRegisterToContext split: option.split prod.split)
qed


lemma safe_ExecuteGdbCommand:
  assumes b: "build_fits ag"
    and len: "\<forall>L. c = 109 \<and> requested_length ag False (body @ 0 # r) (length body) = Some L \<longrightarrow> unat L \<le> SCRATCH_SIZE"
      "\<forall>L. c = 77 \<and> requested_length ag True (body @ 0 # r) (length body) = Some L \<longrightarrow> unat L < 2 ^ 63"
  shows "safe (ExecuteGdbCommand ag (c # body @ 0 # r) (Suc (length body)) s)"
proof -
  note bd = b [unfolded build_fits_def]
  have "safe (ProcessMemoryCommand ag False (body @ 0 # r) (length body) s)" if "c = 109"
    using that bd len(1) by (intro safe_ProcessMemoryCommand) auto
  moreover have "safe (ProcessMemoryCommand ag True (body @ 0 # r) (length body) s)" if "c = 77"
    using that bd len(2) by (intro safe_ProcessMemoryCommand) auto
  moreover have "safe (ebind (ag_DebugReboot ag (world s))
      (\<lambda>w'. SendGdbError ag GDB_ERROR_UNSUPPORTED (s\<lparr>world := w'\<rparr>)))"
    using bd by (intro safe_ebind safe_literal) (simp add: safe_def)
  ultimately show ?thesis
    using bd
    unfolding ExecuteGdbCommand_def list.case 
    by (intro safe_if)
      (simp_all add: safe_registers [OF b] safe_ProcessBreakpoint safe_ProcessQuery safe_ProcessVCommand)
qed


text \<open>The lengths of memory requests that stay in bounds.\<close>

definition lengths_ok :: "'w agent \<Rightarrow> u8 \<Rightarrow> u8 list \<Rightarrow> nat \<Rightarrow> bool" where
  "lengths_ok ag c C n \<longleftrightarrow>
     (\<forall>L. (c = 109 \<and> requested_length ag False C n = Some L \<longrightarrow> unat L \<le> SCRATCH_SIZE) \<and>
          (c = 77 \<and> requested_length ag True C n = Some L \<longrightarrow> unat L < 2 ^ 63))"

text \<open>The six builds fit.\<close>

lemma read_bounded:
  "length (fst (snd (DbgReadMemory_DXE ma rd wr a n w))) \<le> n"
  "length (fst (snd (DbgReadMemory_MM smm a n w))) \<le> n"
  "length (fst (snd (DbgReadMemory_PEI rd a n w))) \<le> n"
  by (metis dxe_memory.rd_length prod.collapse, metis mm_memory.rd_length prod.collapse,
      simp add: DbgReadMemory_PEI_def)

lemma builds_fit_X64:
  assumes "lib_ok (env_lib env)" and "ag \<in> {agent_X64_DXE env off ma, agent_X64_MM env off smm, agent_X64_PEI env off}"
  shows "build_fits ag"
proof -
  have "\<forall>r \<in> set (gRegisterOffsets_X64 off). reg_Size r \<le> 10"
    by (simp add: gRegisterOffsets_X64_def present_def absent_def)
  then show ?thesis
    using assms
    by (auto simp: build_fits_def agent_defs regs_fit_X64 read_bounded DebugReboot_DXE_def DebugReboot_MM_def
        DebugReboot_PEI_def mArchBreakpointInstruction_X64_def MAX_BREAKPOINT_SIZE_def)
qed

lemma builds_fit_AARCH64:
  assumes "lib_ok (env_lib env)"
    and "ag \<in> {agent_AARCH64_DXE env off ma, agent_AARCH64_MM env off smm, agent_AARCH64_PEI env off}"
  shows "build_fits ag"
proof -
  have "\<forall>r \<in> set (gRegisterOffsets_AARCH64 off). reg_Size r \<le> 10"
    by (simp add: gRegisterOffsets_AARCH64_def present_def)
  then show ?thesis
    using assms
    by (auto simp: build_fits_def agent_defs regs_fit_AARCH64 read_bounded DebugReboot_DXE_def DebugReboot_MM_def
        DebugReboot_PEI_def mArchBreakpointInstruction_AARCH64_def MAX_BREAKPOINT_SIZE_def)
qed

end
