(* ===== verification/Samples.thy ===== *)
theory Samples
  imports WellFormed AddressCheckAarch64 Phases Bounds
begin

text \<open>
  Concrete configurations: context layouts, machines, a stub state with a running clock.
  The properties' hypotheses are discharged on them.
\<close>

section \<open>Layouts of the context structures\<close>

fun sample_X64 :: "X64_FIELD \<Rightarrow> nat" where
  "sample_X64 X_Rax = 0" | "sample_X64 X_Rbx = 8" | "sample_X64 X_Rcx = 16" | "sample_X64 X_Rdx = 24"
| "sample_X64 X_Rsi = 32" | "sample_X64 X_Rdi = 40" | "sample_X64 X_Rbp = 48" | "sample_X64 X_Rsp = 56"
| "sample_X64 X_R8 = 64" | "sample_X64 X_R9 = 72" | "sample_X64 X_R10 = 80" | "sample_X64 X_R11 = 88"
| "sample_X64 X_R12 = 96" | "sample_X64 X_R13 = 104" | "sample_X64 X_R14 = 112" | "sample_X64 X_R15 = 120"
| "sample_X64 X_Rip = 128" | "sample_X64 X_Rflags = 136" | "sample_X64 X_Cs = 144" | "sample_X64 X_Ss = 152"
| "sample_X64 X_Ds = 160" | "sample_X64 X_Es = 168" | "sample_X64 X_Fs = 176" | "sample_X64 X_Gs = 184"
| "sample_X64 X_Cr0 = 192" | "sample_X64 X_Cr2 = 200" | "sample_X64 X_Cr3 = 208" | "sample_X64 X_Cr4 = 216"
| "sample_X64 X_Cr8 = 224"

fun sample_AARCH64 :: "AARCH64_FIELD \<Rightarrow> nat" where
  "sample_AARCH64 (A_X n) = 8 * n + 56" | "sample_AARCH64 A_FP = 0" | "sample_AARCH64 A_LR = 8"
| "sample_AARCH64 A_SP = 16" | "sample_AARCH64 A_ELR = 24" | "sample_AARCH64 A_FPSR = 32"
| "sample_AARCH64 A_SPSR = 40" | "sample_AARCH64 A_ESR = 48"

lemma apart_multiples:
  fixes off :: "'f \<Rightarrow> nat"
  assumes "\<And>f. 8 dvd off f" and "inj off"
  shows "ctx_offsets_ok off"
  unfolding ctx_offsets_ok_def
proof (intro conjI allI impI)
  fix f
  have "\<not> 8 dvd REG_NOT_PRESENT" by (simp add: REG_NOT_PRESENT_def)
  then show "off f \<noteq> REG_NOT_PRESENT" using assms(1) by metis
  fix g assume "f \<noteq> g"
  then have "off f \<noteq> off g" using assms(2) by (simp add: inj_eq)
  with assms(1) [of f] assms(1) [of g] show "off f + 8 \<le> off g \<or> off g + 8 \<le> off f"
    by (auto elim!: dvdE)
qed

lemma sample_X64_ok: "ctx_offsets_ok sample_X64"
proof (rule apart_multiples)
  show "8 dvd sample_X64 f" for f by (cases f) simp_all
  show "inj sample_X64"
  proof (rule injI)
    fix f g assume "sample_X64 f = sample_X64 g"
    then show "f = g" by (cases f; cases g) simp_all
  qed
qed

lemma sample_AARCH64_ok: "ctx_offsets_ok sample_AARCH64"
proof (rule apart_multiples)
  show "8 dvd sample_AARCH64 f" for f by (cases f) simp_all
  show "inj sample_AARCH64"
  proof (rule injI)
    fix f g assume "sample_AARCH64 f = sample_AARCH64 g"
    then show "f = g" by (cases f; cases g) auto
  qed
qed

section \<open>Machines\<close>

type_synonym attrs = "u64 \<Rightarrow> u64"

definition sample_env :: "attrs environment" where
  "sample_env = \<lparr>env_asserts = True, env_lib = doc_lib,
     env_InvalidateInstructionCacheRange = (\<lambda>a n p. p), env_WindbgWorkarounds = False\<rparr>"

text \<open>Every page is read-only, nothing is read-protected; all memory is zero.\<close>

definition sample_x64 :: "attrs x64" where
  "sample_x64 = \<lparr>memory = (\<lambda>_. 0), mDbgBreakOnModuleLoadString = replicate 64 0,
     plat = (\<lambda>_. EFI_MEMORY_RO),
     DR0 = 0, DR1 = 0, DR2 = 0, DR3 = 0, DR6 = 0, DR7 = 0, CR3 = 0, CR4 = 0,
     TR = 0, IDTR = (0, 0), GDTR = (0, 0), MSR = (\<lambda>_. 0), mPerformanceCounterFreq = 0x300000\<rparr>"

definition sample_aarch64 :: "attrs aarch64" where
  "sample_aarch64 = \<lparr>memory = (\<lambda>_. 0), mDbgBreakOnModuleLoadString = replicate 64 0,
     plat = (\<lambda>_. EFI_MEMORY_RO),
     MDSCR_EL1 = 0, DAIF = 0, OSLSR_EL1 = 0, TCR = 0, TTBR0 = 0, DBGW = replicate 4 (0, 0), CounterFreq = 62500000\<rparr>"

text \<open>A stub before its first entry, over a given world, with the given input.\<close>

definition sample_gdb :: "u8 option list \<Rightarrow> 'w \<Rightarrow> 'w gdb" where
  "sample_gdb input w = \<lparr>
     gSystemContext = (\<lambda>_. 0),
     gExceptionInfo = \<lparr>ExceptionType = ExceptionDebugStep, ExceptionAddress = 0, ArchExceptionCode = 0\<rparr>,
     gRunning = False, mRebootOnContinue = False, mResponseFull = [], mResponseAcknowledged = True,
     mNextBreakpointTimeout = 0, mConnectionOccurred = False, mBreakpoints = mBreakpoints_init,
     DebuggerBreakpointReason = BreakpointReasonNone, log_suspended = False,
     rx = input, tx = [], clock = of_nat, clock_reads = 0, world = w\<rparr>"

abbreviation sample_dxe :: "attrs x64 agent" where
  "sample_dxe \<equiv> agent_X64_DXE sample_env sample_X64 (Some table_services)"

abbreviation sample_dxe_arm :: "attrs aarch64 agent" where
  "sample_dxe_arm \<equiv> agent_AARCH64_DXE sample_env sample_AARCH64 (Some table_services)"

lemma sample_env_facts: "lib_ok (env_lib sample_env)" "\<not> env_WindbgWorkarounds sample_env"
  by (simp_all add: sample_env_def lib_ok_doc_lib)

section \<open>What the samples satisfy\<close>

lemma sample_lib: "lib_ok (ag_lib sample_dxe)" "lib_ok (ag_lib sample_dxe_arm)"
  by (simp_all add: agent_defs sample_env_def lib_ok_doc_lib)

lemma sample_clock_total: "clock_total sample_dxe sample_x64" "clock_total sample_dxe_arm sample_aarch64"
  by (simp_all add: clock_total_def agent_defs sample_env_def sample_x64_def sample_aarch64_def
      DebugGetTimeMs_X64_def DebugGetTimeMs_AARCH64_def)

lemma sample_time: "ag_DebugGetTimeMs sample_dxe c sample_x64 = Inr (c div 0x300000)"
  "ag_DebugGetTimeMs sample_dxe_arm c sample_aarch64 = Inr (c div 62500)"
  by (simp_all add: agent_defs sample_env_def sample_x64_def sample_aarch64_def
      DebugGetTimeMs_X64_def DebugGetTimeMs_AARCH64_def)

text \<open>
  A counter that advances with every reading, divided down to milliseconds, runs as long as
  the waits do not reach its end.
\<close>

lemma clock_runs_counter:
  fixes T0 f :: u64
  assumes time: "\<And>c. ag_DebugGetTimeMs ag c w = Inr (c div f)" and f: "f \<noteq> 0"
    and room: "N + (unat T0 + 1) * unat f < 2 ^ 64"
  shows "clock_runs ag of_nat w T0 N"
  unfolding clock_runs_def time
proof (intro allI impI, elim conjE)
  fix n t T assume n: "n \<le> N" "T \<le> T0" and t: "Inr (of_nat n div f) = (Inr t :: stop + u64)"
  define m where "m = n + (unat T + 1) * unat f"
  have f0: "0 < unat f" using f by (simp add: unat_gt_0)
  have "unat T \<le> unat T0" using n(2) by (simp add: word_le_nat_alt)
  then have "(unat T + 1) * unat f \<le> (unat T0 + 1) * unat f" by (intro mult_le_mono1) simp
  then have m: "m < 2 ^ 64" using n(1) room unfolding m_def by linarith
  moreover have "n \<le> m" by (simp add: m_def)
  ultimately have "n < 2 ^ 64" by linarith
  then have un: "unat (of_nat n :: u64) = n" and um: "unat (of_nat m :: u64) = m"
    using m by (simp_all add: unat_of_nat take_bit_nat_eq_self)
  have div: "m div unat f = unat T + 1 + n div unat f"
    unfolding m_def using f0 by (intro div_mult_self1) simp
  have ut: "unat t = n div unat f" using t un by (auto simp: unat_div_distrib)
  then have "unat t + unat T \<le> m div unat f" using div by simp
  moreover have "m div unat f \<le> m" by simp
  ultimately have "unat t + unat T < 2 ^ 64" using m by linarith
  then have "unat (t + T) = unat t + unat T" by (intro unat_add_lem [THEN iffD1]) simp
  then have "t + T \<le> of_nat m div f"
    using ut um div by (simp add: word_le_nat_alt unat_div_distrib)
  moreover have "n < m" using f0 by (simp add: m_def)
  ultimately show "\<exists>m > n. \<forall>t'. Inr (of_nat m div f) = (Inr t' :: stop + u64) \<longrightarrow> t + T \<le> t'" by blast
qed

lemma sample_clock_runs:
  assumes "N \<le> 2 ^ 32" and "T0 \<le> 1000"
  shows "clock_runs sample_dxe of_nat sample_x64 T0 N" "clock_runs sample_dxe_arm of_nat sample_aarch64 T0 N"
proof -
  have T0: "unat T0 \<le> 1000" using assms(2) by (simp add: word_le_nat_alt)
  show "clock_runs sample_dxe of_nat sample_x64 T0 N"
    by (rule clock_runs_counter [OF sample_time(1)]) (use assms(1) T0 in simp_all)
  show "clock_runs sample_dxe_arm of_nat sample_aarch64 T0 N"
    by (rule clock_runs_counter [OF sample_time(2)]) (use assms(1) T0 in simp_all)
qed

lemma sample_gdb_simps [simp]:
  "rx (sample_gdb input w) = input" "world (sample_gdb input w) = w"
  "mBreakpoints (sample_gdb input w) = mBreakpoints_init" "tx (sample_gdb input w) = []"
  "clock (sample_gdb input w) = of_nat" "clock_reads (sample_gdb input w) = 0"
  "mNextBreakpointTimeout (sample_gdb input w) = 0" "gRunning (sample_gdb input w) = False"
  "mRebootOnContinue (sample_gdb input w) = False" "mConnectionOccurred (sample_gdb input w) = False"
  "mResponseFull (sample_gdb input w) = []"
  by (simp_all add: sample_gdb_def)


section \<open>A stop that is resumed\<close>

definition sample_step :: EXCEPTION_INFO where
  "sample_step = \<lparr>ExceptionType = ExceptionDebugStep, ExceptionAddress = 0, ArchExceptionCode = 0\<rparr>"

lemma sample_sent_ok: "sent_ok (sample_gdb input w)"
  by (auto simp: sent_ok_def wire_ok_def intro: exI [of _ "[]"])

lemma sample_resume:
  "\<exists>s'. ReportEntryToDebugger sample_dxe sample_step c
     (sample_gdb (map Some (frame (str ''vCont;c''))) sample_x64) = Some (Inr s')"
  using x64_dxe_clock.resume_continue [where s = "sample_gdb (map Some (frame (str ''vCont;c''))) sample_x64"
      and info = sample_step and c = c and env = sample_env and off = sample_X64 and ma = "Some table_services"]
  by (auto simp: sample_lib sample_clock_total sample_clock_runs sample_step_def str_def)


section \<open>Accesses on the samples\<close>

lemma bp_separate_init: "bp_separate n mBreakpoints_init"
  by (auto simp: bp_separate_def mBreakpoints_init_def)

lemma table_services_access:
  assumes "\<forall>b. plat w b AND EFI_MEMORY_RP = 0"
    and "AccessMemory_DXE (Some table_services) rd wr a d n W w = (ok, bs, w')"
  shows "ok \<and> plat w' = plat w"
  using DXE_pages [OF table_services_ok table_services_set assms(2)] assms(1) table_services_known by blast

lemma bp_accessible_sample:
  assumes "\<forall>b. plat w b AND EFI_MEMORY_RP = 0"
  shows "bp_accessible (agent_X64_DXE env off (Some table_services)) a w"
proof -
  let ?rd = "\<lambda>a w. IsPageReadable_X64 w a" and ?wr = "\<lambda>a w. IsPageWritable_X64 w a"
  obtain ok1 b1 w1 where 1: "AccessMemory_DXE (Some table_services) ?rd ?wr a [] 1 False w = (ok1, b1, w1)"
    by (metis prod_cases3)
  obtain ok2 b2 w2 where 2: "AccessMemory_DXE (Some table_services) ?rd ?wr a [0xCC] 1 True w1 = (ok2, b2, w2)"
    by (metis prod_cases3)
  have "ok1" "plat w1 = plat w" using table_services_access [OF assms 1] by blast+
  then have "ok2" using table_services_access [OF _ 2] assms by simp
  with \<open>ok1\<close> 1 2 show ?thesis
    by (simp add: bp_accessible_def agent_defs mArchBreakpointInstruction_X64_def
        DbgReadMemory_DXE_def DbgWriteMemory_DXE_def)
qed

lemma sample_x64_unprotected: "\<forall>b. plat sample_x64 b AND EFI_MEMORY_RP = 0"
  by (simp add: sample_x64_def EFI_MEMORY_RO_def EFI_MEMORY_RP_def)

lemma sample_add:
  "\<exists>t' w'. AddSoftwareBreakpoint sample_dxe a (mBreakpoints_init, sample_x64) = Inr (True, t', w') \<and>
     bp_step sample_dxe (mBreakpoints_init, sample_x64) (t', w')"
proof -
  let ?I = "ag_mArchBreakpointInstruction sample_dxe"
  obtain okr bs w1 where rd: "ag_DbgReadMemory sample_dxe a (length ?I) sample_x64 = (okr, bs, w1)"
    by (metis prod_cases3)
  obtain okw w2 where wr: "ag_DbgWriteMemory sample_dxe a ?I w1 = (okw, w2)" by fastforce
  have free: "\<exists>e \<in> set mBreakpoints_init. \<not> bp_Active e"
    and none: "bp_map mBreakpoints_init a = None" and apart: "bp_apart n a mBreakpoints_init" for n
    by (simp_all add: bp_map_init) (simp_all add: mBreakpoints_init_def MAX_BREAKPOINTS_def bp_apart_def)
  obtain t' w' where add: "AddSoftwareBreakpoint sample_dxe a (mBreakpoints_init, sample_x64) = Inr (True, t', w')"
    using x64_dxe.add_new [OF bp_table_ok_init none free rd wr] by metis
  then show ?thesis
    using bp_step.bp_add [OF add none apart bp_accessible_sample [OF sample_x64_unprotected]] by blast
qed



section \<open>Page tables\<close>

text \<open>
  A top table at 0x1000 whose first two entries point to a table at 0x2000; the first entry
  there is a large page with the given low bytes.
\<close>

definition sample_tables :: "u8 \<Rightarrow> u8 \<Rightarrow> u64 \<Rightarrow> u8" where
  "sample_tables b0 b1 = (\<lambda>a. if a = 0x1000 \<or> a = 0x1008 then 3 else if a = 0x1001 \<or> a = 0x1009 then 0x20
     else if a = 0x2000 then b0 else if a = 0x2001 then b1 else 0)"

lemma sample_tables_entries:
  "read_u64 (sample_tables b0 b1) 0x1000 = 0x2003" "read_u64 (sample_tables b0 b1) 0x1008 = 0x2003"
  "read_u64 (sample_tables 0x83 0) 0x2000 = 0x83" "read_u64 (sample_tables 0xC5 4) 0x2000 = 0x4C5"
  "\<not> bit (read_u64 (sample_tables b0 b1) 0x1001) 0"
  by (simp_all add: read_u64_def read_bytes_def word_of_bytes_def sample_tables_def upt_rec)

definition paged_x64 :: "attrs x64" where
  "paged_x64 = sample_x64\<lparr>memory := sample_tables 0x83 0, CR3 := 0x1000\<rparr>"

definition paged_aarch64 :: "attrs aarch64" where
  "paged_aarch64 = sample_aarch64\<lparr>memory := sample_tables 0xC5 4, TCR := 16, TTBR0 := 0x1000\<rparr>"

lemma paged_x64_simps: "memory paged_x64 = sample_tables 0x83 0" "CR3 paged_x64 = 0x1000" "CR4 paged_x64 = 0"
  by (simp_all add: paged_x64_def sample_x64_def)

lemma paged_aarch64_simps:
  "memory paged_aarch64 = sample_tables 0xC5 4" "TCR paged_aarch64 = 16" "TTBR0 paged_aarch64 = 0x1000"
  by (simp_all add: paged_aarch64_def sample_aarch64_def)

lemma paged_x64_entries:
  assumes "a \<in> {0x200000, 2 ^ 39}"
  shows "walk_entry (sample_tables 0x83 0) 0x1000 4 a = 0x2003"
    and "walk_entry (sample_tables 0x83 0) 0x2003 3 a = 0x83"
  using assms
  by (auto simp: walk_entry_def frame_bits_def get_field_def sample_tables_entries take_bit_eq_mod drop_bit_eq_div)

lemma paged_x64_walk:
  assumes "a \<in> {0x200000, 2 ^ 39}"
  shows "tables_ok (memory paged_x64) (CR3 paged_x64) a"
    and "x64_leaf (memory paged_x64) (CR3 paged_x64) a = Some 0x83"
proof -
  have "table_ok 0x1000" "table_ok 0x2003" "Present 0x2003" "Present 0x83" "MustBe1 0x83"
    by (simp_all add: table_ok_def frame_bits_def ADDRESS_BITS_def Present_def MustBe1_def)
  then show "tables_ok (memory paged_x64) (CR3 paged_x64) a"
    and "x64_leaf (memory paged_x64) (CR3 paged_x64) a = Some 0x83"
    unfolding paged_x64_simps tables_ok_def x64_leaf_def Let_def paged_x64_entries [OF assms] by simp_all
qed

lemma paged_aarch64_walk:
  "\<not> tt_is_block (tt_entry (memory paged_aarch64) (TTBR0 paged_aarch64) 0 0x200000)"
  "aarch64_leaf (memory paged_aarch64) (TTBR0 paged_aarch64) 0x200000 = Some 0x4C5"
  by (simp_all add: paged_aarch64_simps tt_entry_def aarch64_leaf_def Let_def tt_next_def get_field_def
      sample_tables_entries tt_is_block_def tt_is_table_def take_bit_eq_mod drop_bit_eq_div)



section \<open>A stop with one request\<close>

lemma resume_length: "length (str ''vCont;c'') \<le> MAX_REQUEST_SIZE" "length (str ''vCont;s'') \<le> MAX_REQUEST_SIZE"
  by (simp_all add: str_def MAX_REQUEST_SIZE_def)

lemma sample_request:
  assumes "length body \<le> MAX_REQUEST_SIZE"
  shows "one_request body sample_dxe (sample_gdb (map Some (frame body)) sample_x64)"
    "one_request body sample_dxe_arm (sample_gdb (map Some (frame body)) sample_aarch64)"
  using assms unfolding MAX_REQUEST_SIZE_def
  by (simp_all add: one_request_def sample_lib sample_clock_total sample_clock_runs)

definition sample_watchdog :: "'p watchdog" where
  "sample_watchdog = \<lparr>WatchdogSuspend = Pair True, WatchdogResume = (\<lambda>_ p. p)\<rparr>"

text \<open>A context whose syndrome register holds the given exception class.\<close>

definition esr_context :: "u64 \<Rightarrow> ctx" where
  "esr_context v = ctx_set64 (\<lambda>_. 0) (sample_AARCH64 A_ESR) (push_bit 26 v)"

lemma esr_context_class: "v \<in> {0x3c, 0x32} \<Longrightarrow> esr_class sample_AARCH64 (esr_context v) = v"
  by (auto simp: esr_class_def esr_context_def drop_bit_eq_div)



section \<open>A start-up\<close>

text \<open>Firmware whose state is the set of vectors with a handler; every service succeeds.\<close>

definition table_register :: "u64 \<Rightarrow> bool \<Rightarrow> u64 set \<Rightarrow> bool \<times> u64 set" where
  "table_register v on p = (True, if on then insert v p else p - {v})"

definition sample_services :: "u64 set services" where
  "sample_services = \<lparr>RegisterInterruptHandler = table_register, RegisterCpuInterruptHandler = table_register,
     InitializeCpuExceptionHandlers = Pair True, DebugTransportInitialize = Pair True,
     CreateTimerEvent = Pair (Some 0), SetTimer = (\<lambda>e. Pair True), CloseEvent = (\<lambda>e p. p),
     EfiCreateProtocolNotifyEvent = (\<lambda>x. Pair (Some 1)), CreateExitBootServicesEvent = Pair (Some 2),
     LocateProtocol = (\<lambda>x. Pair True)\<rparr>"

definition boot_x64 :: "u64 set x64" where
  "boot_x64 = \<lparr>memory = (\<lambda>_. 0), mDbgBreakOnModuleLoadString = str ''Mod'' @ replicate 61 0, plat = {},
     DR0 = 0, DR1 = 0, DR2 = 0, DR3 = 0, DR6 = 0, DR7 = 0, CR3 = 0, CR4 = 0,
     TR = 0, IDTR = (0, 0), GDTR = (0, 0), MSR = (\<lambda>_. 0), mPerformanceCounterFreq = 1\<rparr>"

definition boot_env :: "u64 set environment" where
  "boot_env = \<lparr>env_asserts = True,
     env_lib = doc_lib\<lparr>AsciiStriCmp := (\<lambda>a b. if map AsciiCharToUpper (cstr a) = map AsciiCharToUpper (cstr b) then 0 else 1)\<rparr>,
     env_InvalidateInstructionCacheRange = (\<lambda>a n p. p), env_WindbgWorkarounds = False\<rparr>"

text \<open>The build of DXE on X64; a breakpoint instruction returns at once.\<close>

definition boot_build :: "(u64 set, u64 set x64) init_build" where
  "boot_build = \<lparr>ib_asserts = True, ib_services = sample_services, ib_mArchExceptionTypes = mArchExceptionTypes_X64,
     ib_DebugArchInit = (\<lambda>h. DebugArchInit_X64 (PerformanceCounterFreq h)), ib_PcdForceEnableDebugger = False,
     ib_CpuBreakpoint = (\<lambda>s. Some (Inr s)), ib_agent = agent_X64_DXE boot_env sample_X64 None\<rparr>"

definition boot_agent :: "u64 set x64 dxe_agent" where
  "boot_agent = \<lparr>stub = sample_gdb [] boot_x64, gCpu = False, gTimer = False, mMemoryAttributeProtocol = False,
     mTimerEvent = None, mCpuArchEvent = None, mLoadedImageEvent = None, mExitBootServicesEvent = None,
     mDebuggerInitialized = False, mDisablePolling = False\<rparr>"

definition boot_notifications :: "u64 set notifications" where
  "boot_notifications = \<lparr>nf_protocol = (\<lambda>x p. p \<noteq> {}), nf_timer = (\<lambda>p. p \<noteq> {}), nf_exit = (\<lambda>p. p \<noteq> {})\<rparr>"

lemma boot_registries: "registries_ok (ib_services boot_build) (\<lambda>p. p)"
  by (simp add: registries_ok_def registry_ok_def removal_ok_def table_register_def boot_build_def sample_services_def)

lemma boot_keeps: "keeps_handlers boot_build (\<lambda>p. p)"
  by (simp add: keeps_handlers_def boot_build_def sample_services_def DebugArchInit_X64_def)

lemma boot_stricmp: "stricmp_ok (ag_lib (ib_agent boot_build))"
  by (simp add: stricmp_ok_def boot_build_def agent_defs boot_env_def)

lemma table_remove: "remove_handlers table_register vs p = p - set vs"
  by (induction vs arbitrary: p) (auto simp: table_register_def)

lemma table_install: "install_handlers table_register vs p = (True, p \<union> set vs)"
  by (induction vs arbitrary: p) (auto simp: table_register_def)

lemma boot_install:
  "DebugAgentExceptionInitialize_DXE True (ib_services boot_build) (ib_mArchExceptionTypes boot_build) g p =
     Inr (True, p \<union> set mArchExceptionTypes_X64)"
  by (auto simp: DebugAgentExceptionInitialize_DXE_def DebugAgentExceptionDestroy_DXE_def boot_build_def
      sample_services_def table_install table_remove)


section \<open>A debugging session\<close>

lemma sample_configured: "configured sample_env sample_X64 (\<lambda>p. p)" "configured sample_env sample_AARCH64 (\<lambda>p. p)"
  by (simp_all add: configured_def sample_env_facts sample_X64_ok sample_AARCH64_ok) (simp_all add: sample_env_def)

lemma sample_services_fit: "services_fit table_services (\<lambda>p. p)"
  by (simp add: services_fit_def table_services_ok table_services_set table_services_known)

lemma sample_slots:
  "x64_slots sample_x64 = replicate 4 None" "aarch64_slots sample_aarch64 = replicate 4 None"
  by (simp_all add: x64_slots_def x64_slot_def sample_x64_def aarch64_slots_def aarch64_slot_def
      sample_aarch64_def eval_nat_numeral
      DR7_L_def WCR_Enabled_def get_field_def)

lemma sample_ready:
  "ready sample_dxe (x64_sound (configured sample_env sample_X64 (\<lambda>p. p))) (sample_gdb input sample_x64)"
  "ready sample_dxe_arm (aarch64_sound (configured sample_env sample_AARCH64 (\<lambda>p. p)))
     (sample_gdb input sample_aarch64)"
  by (simp_all add: ready_def x64_sound_def aarch64_sound_def sample_configured sample_services_fit sample_slots
      slots_unique_def bp_table_ok_init sample_clock_total MAX_WATCHPOINTS_def)

lemma sample_watchdog_quiet: "watchdog_quiet sample_watchdog attrs"
  by (simp add: watchdog_quiet_def sample_watchdog_def)

text \<open>A conversation: a write, a demand to repeat its answer, a breakpoint, a read of both bytes.\<close>

definition sample_talk :: "GDB_REGISTER_OFFSET_DATA list \<Rightarrow> nat \<Rightarrow> conversation" where
  "sample_talk t k = (let send = (\<lambda>r. Send (encode t k r) r) in
     [(2, Acknowledge), (1, send (Set_memory 0x1000 [0xAB, 0xCD])), (0, Noise 3), (3, Repeat),
      (0, send (Insert_breakpoint 0x1000)), (7, send (Get_memory 0x1000 4))])"

lemma sample_talk_requests:
  "requests (sample_talk t k) = [Set_memory 0x1000 [0xAB, 0xCD], Insert_breakpoint 0x1000, Get_memory 0x1000 4]"
  by (simp add: sample_talk_def)

lemma sample_numerals: "hex_numeral 4096 = str ''1000''" "hex_numeral 2 = str ''2''"
  "hex_numeral (Suc (Suc 0)) = str ''2''" "hex_numeral (Suc 0) = str ''1''" "hex_numeral 4 = str ''4''"
  by (simp_all add: hex_numeral.simps HexChars_def str_def)

lemma sample_talk_ok:
  assumes "k \<in> {1, 4}"
  shows "\<forall>(j, e) \<in> set (sample_talk t k). message_ok t e"
proof -
  have texts: "request_text t (encode t k r) r" if "expressible r" for r
    using assms that by (auto intro!: encode_request_text)
  have "message_ok t (Send (encode t k r) r)" if "expressible r" "length (encode t k r) \<le> 40" for r
    using texts that by (simp add: MAX_REQUEST_SIZE_def)
  moreover have "length (encode t k r) \<le> 40"
    if "r \<in> {Set_memory 0x1000 [0xAB, 0xCD], Insert_breakpoint 0x1000, Get_memory 0x1000 4}" for r
    using assms that by (auto simp: sample_numerals str_def hex_bytes_def hex_byte_def)
  moreover have "message_ok t Acknowledge" "message_ok t Repeat" "message_ok t (Noise 3)" by simp_all
  ultimately show ?thesis by (simp add: sample_talk_def del: encode.simps message_ok.simps)
qed

lemma sample_talk_waits:
  assumes "k \<in> {1, 4}"
  shows "waits_end sample_dxe (sample_gdb (stream (sample_talk t k) @ replicate 5 None @
      map Some (frame (str ''vCont;c''))) sample_x64)"
    "waits_end sample_dxe_arm (sample_gdb (stream (sample_talk t k) @ replicate 5 None @
      map Some (frame (str ''vCont;c''))) sample_aarch64)"
proof -
  have "length (stream (sample_talk t k)) \<le> 200"
    using assms by (auto simp: sample_talk_def sample_numerals str_def hex_bytes_def hex_byte_def)
  then show "waits_end sample_dxe (sample_gdb (stream (sample_talk t k) @ replicate 5 None @
      map Some (frame (str ''vCont;c''))) sample_x64)"
    "waits_end sample_dxe_arm (sample_gdb (stream (sample_talk t k) @ replicate 5 None @
      map Some (frame (str ''vCont;c''))) sample_aarch64)"
    by (simp_all add: sample_clock_runs str_def)
qed

lemma sample_accessible: "dxe_access (\<lambda>_. EFI_MEMORY_RO, v) m a n = n"
  by (simp add: dxe_access_def EFI_MEMORY_RO_def EFI_MEMORY_RP_def)

lemma sample_target:
  "target_X64 sample_dxe (\<lambda>p. p) (sample_gdb input sample_x64\<lparr>gSystemContext := c\<rparr>) =
     \<lparr>tg_registers = c, tg_memory = \<lambda>_. 0, tg_breakpoints = Map.empty, tg_watchpoints = {},
      tg_protection = (\<lambda>_. EFI_MEMORY_RO, 0, 0)\<rparr>"
  "target_AARCH64 sample_dxe_arm (\<lambda>p. p) (sample_gdb input sample_aarch64\<lparr>gSystemContext := c\<rparr>) =
     \<lparr>tg_registers = c, tg_memory = \<lambda>_. 0, tg_breakpoints = Map.empty, tg_watchpoints = {},
      tg_protection = (\<lambda>_. EFI_MEMORY_RO, 0, 0)\<rparr>"
  by (simp_all add: target_X64_def target_AARCH64_def target_of_def sample_slots slots_armed_def
      protection_X64_def protection_AARCH64_def)
     (auto simp: sample_x64_def sample_aarch64_def saved_code_def bp_map_init)

lemma sample_platform:
  "pf_instruction (platform_X64 sample_dxe readable writable) = [0xCC]" "pf_readable (platform_X64 sample_dxe readable writable) = readable"
  "pf_writable (platform_X64 sample_dxe readable writable) = writable"
  "pf_instruction (platform_AARCH64 sample_dxe_arm readable writable) = mArchBreakpointInstruction_AARCH64"
  "pf_readable (platform_AARCH64 sample_dxe_arm readable writable) = readable"
  "pf_writable (platform_AARCH64 sample_dxe_arm readable writable) = writable"
  by (simp_all add: platform_X64_def platform_AARCH64_def platform_of_def agent_defs mArchBreakpointInstruction_X64_def)


text \<open>A stop that is only continued, through the handlers.\<close>

lemma sample_handler:
  "\<exists>s'. DebuggerExceptionHandler_X64 sample_watchdog sample_X64 sample_dxe ty c
     (sample_gdb (map Some (frame (str ''vCont;c''))) sample_x64) = Some (Inr s')"
proof -
  let ?s = "sample_gdb (map Some (frame (str ''vCont;c''))) sample_x64"
  have rx: "rx ?s = stream [] @ replicate 0 None @ map Some (frame (str ''vCont;c''))" by simp
  have "ready sample_dxe (x64_sound (configured sample_env sample_X64 (\<lambda>p. p) \<and> services_fit table_services (\<lambda>p. p))) ?s"
    using sample_ready(1) sample_services_fit by simp
  moreover have "waits_end sample_dxe ?s" by (simp add: sample_clock_runs str_def)
  ultimately show ?thesis
    using session_X64 [OF x64_dxe_session.stub_session_axioms [where ma = table_services] sample_watchdog_quiet _ _ _ refl _ rx refl,
        where off = sample_X64 and ty = ty and c = c]
    by fastforce
qed

lemma sample_well_formed: "well_formed fine_X64 (sample_gdb input sample_x64)"
  "well_formed fine_AARCH64 (sample_gdb input sample_aarch64)"
  by (simp_all add: well_formed_def sample_sent_ok bp_table_ok_init fine_X64_def fine_AARCH64_def sample_slots
      slots_unique_def MAX_WATCHPOINTS_def) (simp_all add: sample_x64_def sample_aarch64_def)


section \<open>An MM agent\<close>

definition mm_start :: "u64 set x64 mm_agent" where
  "mm_start = \<lparr>mm_stub = sample_gdb [] boot_x64, mm_mDebuggerInitialized = False\<rparr>"

definition mm_config :: "DEBUGGER_CONTROL_HOB option" where
  "mm_config = Some \<lparr>Control = 4, PerformanceCounterFreq = 5, InitialBreakpointTimeout = 0\<rparr>"

text \<open>Started and terminated, it keeps its flag and has no handler.\<close>

lemma mm_life:
  "\<exists>d'. mm_run boot_build mm_config ([DEBUG_AGENT_INIT_SMM] @ [DEBUG_AGENT_INIT_TERMINATE]) mm_start = Some (Inr d') \<and>
     mm_mDebuggerInitialized d' \<and> world (mm_stub d') = DebugArchInit_X64 5 boot_x64 \<and> rx (mm_stub d') = []"
  by (simp add: mm_start_def mm_config_def InitializeDebugAgent_MM_def debug_config_def MmDebugEnabled_def
      InitialBreakpoint_def on_plat_def DebugAgentExceptionInitialize_MM_def DebugAgentExceptionDestroy_MM_def
      boot_build_def sample_services_def table_remove table_install DebugArchInit_X64_def boot_x64_def)

section \<open>A start in PEI\<close>

abbreviation pei_dbg :: "u64 set x64 agent" where
  "pei_dbg \<equiv> agent_X64_PEI boot_env sample_X64"

text \<open>The PEI build, whose breakpoint instruction enters the X64 handler.\<close>

definition pei_build :: "(u64 set, u64 set x64) init_build" where
  "pei_build = boot_build\<lparr>ib_PcdForceEnableDebugger := True,
     ib_CpuBreakpoint := DebuggerExceptionHandler_X64 sample_watchdog sample_X64 pei_dbg EXCEPT_X64_BREAKPOINT (\<lambda>_. 0),
     ib_agent := pei_dbg\<rparr>"

lemma pei_build_simps:
  "ib_PcdForceEnableDebugger pei_build"
  "ib_DebugArchInit pei_build = (\<lambda>h. DebugArchInit_X64 (PerformanceCounterFreq h))"
  "ib_CpuBreakpoint pei_build =
     DebuggerExceptionHandler_X64 sample_watchdog sample_X64 pei_dbg EXCEPT_X64_BREAKPOINT (\<lambda>_. 0)"
  "DebugTransportInitialize (ib_services pei_build) p = (True, p)"
  "DebugAgentExceptionInitialize_PEI (ib_asserts pei_build) (ib_services pei_build) (ib_mArchExceptionTypes pei_build) p =
     Inr (True, p \<union> set mArchExceptionTypes_X64)"
  by (simp_all add: pei_build_def boot_build_def sample_services_def DebugAgentExceptionInitialize_PEI_def table_install)

lemma boot_configured: "configured boot_env sample_X64 (\<lambda>_ _. 0)"
  using sample_configured(1)
  by (simp add: configured_def sample_env_def boot_env_def lib_ok_def)

text \<open>A conversation that sets a watchpoint.\<close>

definition watch_talk :: conversation where
  "watch_talk = (let r = Insert_watchpoint On_write 0x2000 4 in [(1, Acknowledge), (2, Send (encode [] 1 r) r)])"

lemma watch_talk_requests: "requests watch_talk = [Insert_watchpoint On_write 0x2000 4]"
  by (simp add: watch_talk_def)

lemma watch_numerals: "hex_numeral 8192 = str ''2000''"
  by (simp add: hex_numeral.simps HexChars_def str_def)

lemma watch_talk_ok: "\<forall>(j, e) \<in> set watch_talk. message_ok t e"
proof -
  let ?r = "Insert_watchpoint On_write 0x2000 4"
  have "request_text t (encode t 1 ?r) ?r" by (intro encode_request_text) simp_all
  moreover have "encode t 1 ?r = encode [] 1 ?r" "length (encode [] 1 ?r) = 9"
    by (simp_all add: watch_numerals sample_numerals str_def)
  ultimately show ?thesis by (simp add: watch_talk_def Let_def MAX_REQUEST_SIZE_def del: encode.simps)
qed

abbreviation watch_input :: "u8 option list" where
  "watch_input \<equiv> stream watch_talk @ replicate 3 None @ map Some (frame (str ''vCont;c''))"

lemma watch_input_length: "length (stream watch_talk) = 17"
  by (simp add: watch_talk_def watch_numerals sample_numerals str_def)

lemma watch_waits:
  assumes "length xs \<le> 100"
  shows "waits_end sample_dxe (break_state xs watch_input (sample_gdb [] sample_x64))"
    "waits_end sample_dxe_arm (break_state xs watch_input (sample_gdb [] sample_aarch64))"
  using assms by (simp_all add: break_state_def sample_clock_runs watch_input_length str_def)

lemma pei_waits:
  "waits_end pei_dbg ((sample_gdb watch_input boot_x64)\<lparr>world := pei_machine {} p (world (sample_gdb watch_input boot_x64))\<rparr>)"
proof -
  have "ag_DebugGetTimeMs pei_dbg c (pei_machine {} p boot_x64) = Inr (c div 0x300000)" for c
    by (simp add: agent_defs DebugGetTimeMs_X64_def)
  then have "clock_runs pei_dbg of_nat (pei_machine {} p boot_x64) 1000 N" if "N \<le> 2 ^ 32" for N
    using that by (intro clock_runs_counter [where f = "0x300000"]) simp_all
  then show ?thesis by (simp add: watch_input_length str_def)
qed

end
