(* ===== verification/SystemRegisters.thy ===== *)
theory SystemRegisters
  imports DebugAarch64
begin

text \<open>
  AARCH64/Registers.S: the routines that read and write system registers, as programs of a
  small machine with two general registers, the outcome of the last comparison and the
  system registers. \<open>reflects\<close> relates that machine to the fields of \<open>aarch64\<close> which the rest
  of the development uses; the lemmas show that every routine reads or writes exactly the
  field it stands for, at exception levels 1, 2 and 3.
\<close>

section \<open>The machine\<close>

datatype sysreg = CurrentEL | mdscr_el1 | oslsr_el1 | oslar_el1 | daif | tcr_el1 | tcr_el2
  | ttbr0_el1 | ttbr0_el2 | dbgwvr nat | dbgwcr nat

datatype gpr = X0 | X1

text \<open>A branch names a numeric label further down, as \<open>1f\<close> does.\<close>

datatype insn = MRS gpr sysreg | MSR sysreg gpr | CMP gpr u64 | BLT nat | BR nat | LABEL nat
  | LDR gpr u64 | ANDR gpr gpr gpr | ISB | RET

record cpu =
  GPR :: "gpr \<Rightarrow> u64"
  LT :: bool
  SYS :: "sysreg \<Rightarrow> u64"

text \<open>Writing the OS lock access register sets the lock bit of the status register.\<close>

definition write_sysreg :: "sysreg \<Rightarrow> u64 \<Rightarrow> (sysreg \<Rightarrow> u64) \<Rightarrow> sysreg \<Rightarrow> u64" where
  "write_sysreg r v S =
     (if r = oslar_el1
      then S(oslsr_el1 := (S oslsr_el1 AND NOT OSLSR_LOCKED) OR push_bit 1 (v AND 1))
      else S(r := v))"

fun forward :: "nat \<Rightarrow> insn list \<Rightarrow> insn list option" where
  "forward n [] = None"
| "forward n (i # is') = (if i = LABEL n then Some is' else forward n is')"

lemma forward_shorter: "forward n is' = Some r \<Longrightarrow> length r < length is'"
  by (induction is') (auto split: if_splits)

text \<open>None: the program runs off its end, or branches to a label that is not there.\<close>

function run_asm :: "insn list \<Rightarrow> cpu \<Rightarrow> cpu option" where
  "run_asm [] c = None"
| "run_asm (MRS d r # is') c = run_asm is' (c\<lparr>GPR := (GPR c)(d := SYS c r)\<rparr>)"
| "run_asm (MSR r d # is') c = run_asm is' (c\<lparr>SYS := write_sysreg r (GPR c d) (SYS c)\<rparr>)"
| "run_asm (CMP d v # is') c = run_asm is' (c\<lparr>LT := GPR c d <s v\<rparr>)"
| "run_asm (BLT n # is') c = (if LT c then (case forward n is' of None \<Rightarrow> None | Some r \<Rightarrow> run_asm r c) else run_asm is' c)"
| "run_asm (BR n # is') c = (case forward n is' of None \<Rightarrow> None | Some r \<Rightarrow> run_asm r c)"
| "run_asm (LABEL n # is') c = run_asm is' c"
| "run_asm (LDR d v # is') c = run_asm is' (c\<lparr>GPR := (GPR c)(d := v)\<rparr>)"
| "run_asm (ANDR d a b # is') c = run_asm is' (c\<lparr>GPR := (GPR c)(d := GPR c a AND GPR c b)\<rparr>)"
| "run_asm (ISB # is') c = run_asm is' c"
| "run_asm (RET # is') c = Some c"
  by pat_completeness auto
termination
  by (relation "measure (\<lambda>(is', c). length is')") (auto dest: forward_shorter)

section \<open>The routines\<close>

definition DebugReadMdscrEl1 :: "insn list" where "DebugReadMdscrEl1 = [MRS X0 mdscr_el1, RET]"
definition DebugWriteMdscrEl1 :: "insn list" where "DebugWriteMdscrEl1 = [MSR mdscr_el1 X0, RET]"
definition DebugReadOslsrEl1 :: "insn list" where "DebugReadOslsrEl1 = [MRS X0 oslsr_el1, RET]"
definition DebugWriteOslarEl1 :: "insn list" where "DebugWriteOslarEl1 = [MSR oslar_el1 X0, RET]"
definition DebugReadDaif :: "insn list" where "DebugReadDaif = [MRS X0 daif, RET]"
definition DebugWriteDaif :: "insn list" where "DebugWriteDaif = [MSR daif X0, RET]"

definition DebugGetTCR :: "insn list" where
  "DebugGetTCR = [MRS X1 CurrentEL, CMP X1 0x8, BLT 1, BR 2, LABEL 1, MRS X0 tcr_el1, BR 3,
     LABEL 2, MRS X0 tcr_el2, LABEL 3, ISB, RET]"

definition DebugGetTTBR0BaseAddress :: "insn list" where
  "DebugGetTTBR0BaseAddress = [MRS X1 CurrentEL, CMP X1 0x8, BLT 1, BR 2, LABEL 1, MRS X0 ttbr0_el1, BR 3,
     LABEL 2, MRS X0 ttbr0_el2, LABEL 3, LDR X1 0xFFFFFFFFFFFF, ANDR X0 X0 X1, ISB, RET]"

definition DebugReadDbgWvr0El1 :: "insn list" where "DebugReadDbgWvr0El1 = [MRS X0 (dbgwvr 0), RET]"
definition DebugWriteDbgWvr0El1 :: "insn list" where "DebugWriteDbgWvr0El1 = [MSR (dbgwvr 0) X0, RET]"
definition DebugReadDbgWcr0El1 :: "insn list" where "DebugReadDbgWcr0El1 = [MRS X0 (dbgwcr 0), RET]"
definition DebugWriteDbgWcr0El1 :: "insn list" where "DebugWriteDbgWcr0El1 = [MSR (dbgwcr 0) X0, RET]"
definition DebugReadDbgWvr1El1 :: "insn list" where "DebugReadDbgWvr1El1 = [MRS X0 (dbgwvr 1), RET]"
definition DebugWriteDbgWvr1El1 :: "insn list" where "DebugWriteDbgWvr1El1 = [MSR (dbgwvr 1) X0, RET]"
definition DebugReadDbgWcr1El1 :: "insn list" where "DebugReadDbgWcr1El1 = [MRS X0 (dbgwcr 1), RET]"
definition DebugWriteDbgWcr1El1 :: "insn list" where "DebugWriteDbgWcr1El1 = [MSR (dbgwcr 1) X0, RET]"
definition DebugReadDbgWvr2El1 :: "insn list" where "DebugReadDbgWvr2El1 = [MRS X0 (dbgwvr 2), RET]"
definition DebugWriteDbgWvr2El1 :: "insn list" where "DebugWriteDbgWvr2El1 = [MSR (dbgwvr 2) X0, RET]"
definition DebugReadDbgWcr2El1 :: "insn list" where "DebugReadDbgWcr2El1 = [MRS X0 (dbgwcr 2), RET]"
definition DebugWriteDbgWcr2El1 :: "insn list" where "DebugWriteDbgWcr2El1 = [MSR (dbgwcr 2) X0, RET]"
definition DebugReadDbgWvr3El1 :: "insn list" where "DebugReadDbgWvr3El1 = [MRS X0 (dbgwvr 3), RET]"
definition DebugWriteDbgWvr3El1 :: "insn list" where "DebugWriteDbgWvr3El1 = [MSR (dbgwvr 3) X0, RET]"
definition DebugReadDbgWcr3El1 :: "insn list" where "DebugReadDbgWcr3El1 = [MRS X0 (dbgwcr 3), RET]"
definition DebugWriteDbgWcr3El1 :: "insn list" where "DebugWriteDbgWcr3El1 = [MSR (dbgwcr 3) X0, RET]"

text \<open>The table of DebugAarch64.c through which the watchpoint registers are reached.\<close>

record DEBUG_WATCHPOINT_REGISTERS =
  ReadValue :: "insn list"
  WriteValue :: "insn list"
  ReadControl :: "insn list"
  WriteControl :: "insn list"

definition DebugWatchpointRegisters :: "DEBUG_WATCHPOINT_REGISTERS list" where
  "DebugWatchpointRegisters = [
     \<lparr>ReadValue = DebugReadDbgWvr0El1, WriteValue = DebugWriteDbgWvr0El1,
      ReadControl = DebugReadDbgWcr0El1, WriteControl = DebugWriteDbgWcr0El1\<rparr>,
     \<lparr>ReadValue = DebugReadDbgWvr1El1, WriteValue = DebugWriteDbgWvr1El1,
      ReadControl = DebugReadDbgWcr1El1, WriteControl = DebugWriteDbgWcr1El1\<rparr>,
     \<lparr>ReadValue = DebugReadDbgWvr2El1, WriteValue = DebugWriteDbgWvr2El1,
      ReadControl = DebugReadDbgWcr2El1, WriteControl = DebugWriteDbgWcr2El1\<rparr>,
     \<lparr>ReadValue = DebugReadDbgWvr3El1, WriteValue = DebugWriteDbgWvr3El1,
      ReadControl = DebugReadDbgWcr3El1, WriteControl = DebugWriteDbgWcr3El1\<rparr>]"

lemmas routine_defs =
  DebugReadMdscrEl1_def DebugWriteMdscrEl1_def DebugReadOslsrEl1_def DebugWriteOslarEl1_def
  DebugReadDaif_def DebugWriteDaif_def DebugGetTCR_def DebugGetTTBR0BaseAddress_def
  DebugReadDbgWvr0El1_def DebugWriteDbgWvr0El1_def DebugReadDbgWcr0El1_def DebugWriteDbgWcr0El1_def
  DebugReadDbgWvr1El1_def DebugWriteDbgWvr1El1_def DebugReadDbgWcr1El1_def DebugWriteDbgWcr1El1_def
  DebugReadDbgWvr2El1_def DebugWriteDbgWvr2El1_def DebugReadDbgWcr2El1_def DebugWriteDbgWcr2El1_def
  DebugReadDbgWvr3El1_def DebugWriteDbgWvr3El1_def DebugReadDbgWcr3El1_def DebugWriteDbgWcr3El1_def

section \<open>What they do to the fields of the model\<close>

text \<open>
  The exception level is in bits 2 and 3 of \<open>CurrentEL\<close>. From level 2 up the translation
  registers of level 2 are the ones in use.
\<close>

definition reflects :: "cpu \<Rightarrow> 'p aarch64 \<Rightarrow> bool" where
  "reflects c m \<longleftrightarrow> SYS c CurrentEL \<in> {4, 8, 12} \<and>
     MDSCR_EL1 m = SYS c mdscr_el1 \<and> OSLSR_EL1 m = SYS c oslsr_el1 \<and> DAIF m = SYS c daif \<and>
     TCR m = SYS c (if SYS c CurrentEL = 4 then tcr_el1 else tcr_el2) \<and>
     TTBR0 m = take_bit 48 (SYS c (if SYS c CurrentEL = 4 then ttbr0_el1 else ttbr0_el2)) \<and>
     DBGW m = map (\<lambda>i. (SYS c (dbgwvr i), SYS c (dbgwcr i))) [0..<MAX_WATCHPOINTS]"

definition reads_field :: "insn list \<Rightarrow> ('p aarch64 \<Rightarrow> u64) \<Rightarrow> cpu \<Rightarrow> 'p aarch64 \<Rightarrow> bool" where
  "reads_field p f c m \<longleftrightarrow> (\<exists>c'. run_asm p c = Some c' \<and> GPR c' X0 = f m \<and> reflects c' m)"

definition writes_field :: "insn list \<Rightarrow> (u64 \<Rightarrow> 'p aarch64 \<Rightarrow> 'p aarch64) \<Rightarrow> cpu \<Rightarrow> 'p aarch64 \<Rightarrow> bool" where
  "writes_field p f c m \<longleftrightarrow> (\<exists>c'. run_asm p c = Some c' \<and> reflects c' (f (GPR c X0) m))"

lemma mask_48: "v AND 0xFFFFFFFFFFFF = take_bit 48 (v :: u64)"
  by (simp add: take_bit_eq_mask mask_eq_exp_minus_1)

lemma level_less: "SYS c CurrentEL \<in> {4, 8, 12} \<Longrightarrow> SYS c CurrentEL <s 8 \<longleftrightarrow> SYS c CurrentEL = 4"
  by (auto simp: word_sless_alt)

lemma reads_registers:
  assumes "reflects c m"
  shows "reads_field DebugReadMdscrEl1 MDSCR_EL1 c m" and "reads_field DebugReadOslsrEl1 OSLSR_EL1 c m"
    and "reads_field DebugReadDaif DAIF c m" and "reads_field DebugGetTCR TCR c m"
    and "reads_field DebugGetTTBR0BaseAddress TTBR0 c m"
  using assms
  by (auto simp: reads_field_def routine_defs reflects_def level_less mask_48)

lemma writes_registers:
  assumes "reflects c m"
  shows "writes_field DebugWriteMdscrEl1 (\<lambda>v m. m\<lparr>MDSCR_EL1 := v\<rparr>) c m"
    and "writes_field DebugWriteDaif (\<lambda>v m. m\<lparr>DAIF := v\<rparr>) c m"
    and "GPR c X0 = 0 \<Longrightarrow> writes_field DebugWriteOslarEl1 (\<lambda>v. DebugWriteOslarEl1_0) c m"
  using assms
  by (auto simp: writes_field_def routine_defs reflects_def write_sysreg_def DebugWriteOslarEl1_0_def)

lemma watchpoint_registers:
  assumes "reflects c m" and "i < MAX_WATCHPOINTS"
  shows "reads_field (ReadValue (DebugWatchpointRegisters ! i)) (\<lambda>m. fst (DBGW m ! i)) c m"
    and "reads_field (ReadControl (DebugWatchpointRegisters ! i)) (\<lambda>m. snd (DBGW m ! i)) c m"
    and "writes_field (WriteValue (DebugWatchpointRegisters ! i))
      (\<lambda>v m. m\<lparr>DBGW := (DBGW m)[i := (v, snd (DBGW m ! i))]\<rparr>) c m"
    and "writes_field (WriteControl (DebugWatchpointRegisters ! i))
      (\<lambda>v m. m\<lparr>DBGW := (DBGW m)[i := (fst (DBGW m ! i), v)]\<rparr>) c m"
proof -
  have i: "i \<in> {0, 1, 2, 3}" using assms(2) by (auto simp: MAX_WATCHPOINTS_def)
  have "DebugWatchpointRegisters ! i = \<lparr>ReadValue = [MRS X0 (dbgwvr i), RET], WriteValue = [MSR (dbgwvr i) X0, RET],
      ReadControl = [MRS X0 (dbgwcr i), RET], WriteControl = [MSR (dbgwcr i) X0, RET]\<rparr>"
    using i by (auto simp: DebugWatchpointRegisters_def routine_defs)
  then show "reads_field (ReadValue (DebugWatchpointRegisters ! i)) (\<lambda>m. fst (DBGW m ! i)) c m"
    "reads_field (ReadControl (DebugWatchpointRegisters ! i)) (\<lambda>m. snd (DBGW m ! i)) c m"
    "writes_field (WriteValue (DebugWatchpointRegisters ! i))
      (\<lambda>v m. m\<lparr>DBGW := (DBGW m)[i := (v, snd (DBGW m ! i))]\<rparr>) c m"
    "writes_field (WriteControl (DebugWatchpointRegisters ! i))
      (\<lambda>v m. m\<lparr>DBGW := (DBGW m)[i := (fst (DBGW m ! i), v)]\<rparr>) c m"
    using assms
    by (auto simp: reads_field_def writes_field_def reflects_def write_sysreg_def intro!: nth_equalityI simp: nth_list_update)
qed

text \<open>The table has as many entries as the code counts.\<close>

lemma length_DebugWatchpointRegisters: "length DebugWatchpointRegisters = MAX_WATCHPOINTS"
  by (simp add: DebugWatchpointRegisters_def MAX_WATCHPOINTS_def)

end
