(* ===== verification/VirtualMemory.thy ===== *)
theory VirtualMemory
  imports AddressCheckX64
begin

text \<open>
  X64/VirtualMemory.h: the unions of page table entries as sequences of named
  bit fields, lowest first, each taken from or put into the 64 bit word. The fields that
  AddressCheck.c reads are the bits that \<open>AddressCheckX64\<close> tests, in each kind of entry.
\<close>

section \<open>Bit fields\<close>

type_synonym layout = "(string \<times> nat) list"

fun union_field :: "layout \<Rightarrow> string \<Rightarrow> u64 \<Rightarrow> u64" where
  "union_field [] n e = 0"
| "union_field ((m, k) # L) n e = (if m = n then take_bit k e else union_field L n (drop_bit k e))"

fun union_pack :: "layout \<Rightarrow> (string \<Rightarrow> u64) \<Rightarrow> u64" where
  "union_pack [] f = 0"
| "union_pack ((m, k) # L) f = take_bit k (f m) OR push_bit k (union_pack L f)"

fun union_width :: "layout \<Rightarrow> nat" where
  "union_width [] = 0"
| "union_width ((m, k) # L) = k + union_width L"

lemma bit_pack: "bit (union_pack L f) i \<Longrightarrow> i < union_width L"
proof (induction L arbitrary: i rule: union_width.induct)
  case (2 m k L)
  then show ?case by (force simp: bit_simps)
qed simp

lemma drop_pack:
  assumes "k + union_width L \<le> 64"
  shows "drop_bit k (take_bit k v OR push_bit k (union_pack L f)) = union_pack L f"
proof (rule bit_word_eqI)
  fix i assume "i < LENGTH(64)"
  show "bit (drop_bit k (take_bit k v OR push_bit k (union_pack L f))) i \<longleftrightarrow> bit (union_pack L f) i"
    using assms bit_pack [of L f i] by (auto simp: bit_simps)
qed

lemma field_pack:
  assumes "distinct (map fst L)" and "union_width L \<le> 64" and "(n, k) \<in> set L"
  shows "union_field L n (union_pack L f) = take_bit k (f n)"
  using assms
proof (induction L rule: union_width.induct)
  case (2 m j L)
  show ?case
  proof (cases "m = n")
    case True
    with 2 have "j = k" by (auto simp: rev_image_eqI)
    moreover have "take_bit k (take_bit k (f n) OR push_bit k (union_pack L f)) = take_bit k (f n)"
      by (rule bit_word_eqI) (auto simp: bit_simps)
    ultimately show ?thesis using True by simp
  next
    case False
    with 2 show ?thesis by (simp add: drop_pack del: drop_bit_or)
  qed
qed simp

lemma pack_cong: "(\<And>n. n \<in> fst ` set L \<Longrightarrow> f n = g n) \<Longrightarrow> union_pack L f = union_pack L g"
  by (induction L rule: union_width.induct) auto

lemma pack_field: "distinct (map fst L) \<Longrightarrow> union_pack L (\<lambda>n. union_field L n e) = take_bit (union_width L) e"
proof (induction L arbitrary: e rule: union_width.induct)
  case (2 m k L)
  have "union_pack L (\<lambda>n. union_field ((m, k) # L) n e) = union_pack L (\<lambda>n. union_field L n (drop_bit k e))"
    using 2(2) by (intro pack_cong) auto
  also have "\<dots> = take_bit (union_width L) (drop_bit k e)" using 2 by simp
  finally have p: "union_pack L (\<lambda>n. union_field ((m, k) # L) n e) = take_bit (union_width L) (drop_bit k e)" .
  have "union_pack ((m, k) # L) (\<lambda>n. union_field ((m, k) # L) n e) = take_bit k e OR push_bit k (take_bit (union_width L) (drop_bit k e))"
    by (simp only: union_pack.simps p) simp
  also have "\<dots> = take_bit (k + union_width L) e"
  proof (rule bit_word_eqI)
    fix i assume "i < LENGTH(64)"
    show "bit (take_bit k e OR push_bit k (take_bit (union_width L) (drop_bit k e))) i \<longleftrightarrow> bit (take_bit (k + union_width L) e) i"
      by (cases "i < k") (auto simp: bit_simps dest: bit_imp_le_length)
  qed
  finally show ?case by simp
qed simp

section \<open>The unions\<close>

definition PAGE_MAP_AND_DIRECTORY_POINTER :: layout where
  "PAGE_MAP_AND_DIRECTORY_POINTER = [
     (''Present'', 1), (''ReadWrite'', 1), (''UserSupervisor'', 1), (''WriteThrough'', 1),
     (''CacheDisabled'', 1), (''Accessed'', 1), (''Reserved'', 1), (''MustBeZero'', 2), (''Available'', 3), (''PageTableBaseAddress'', 40), (''AvailableHigh'', 11), (''Nx'', 1)]"

definition PAGE_TABLE_4K_ENTRY :: layout where
  "PAGE_TABLE_4K_ENTRY = [
     (''Present'', 1), (''ReadWrite'', 1), (''UserSupervisor'', 1), (''WriteThrough'', 1),
     (''CacheDisabled'', 1), (''Accessed'', 1), (''Dirty'', 1), (''PAT'', 1), (''Global'', 1),
     (''Available'', 3), (''PageTableBaseAddress'', 40), (''AvailableHigh'', 11), (''Nx'', 1)]"

definition PAGE_TABLE_ENTRY :: layout where
  "PAGE_TABLE_ENTRY = [
     (''Present'', 1), (''ReadWrite'', 1), (''UserSupervisor'', 1), (''WriteThrough'', 1),
     (''CacheDisabled'', 1), (''Accessed'', 1), (''Dirty'', 1), (''MustBe1'', 1), (''Global'', 1),
     (''Available'', 3), (''PAT'', 1), (''MustBeZero'', 8), (''PageTableBaseAddress'', 31),
     (''AvailableHigh'', 11), (''Nx'', 1)]"

definition PAGE_TABLE_1G_ENTRY :: layout where
  "PAGE_TABLE_1G_ENTRY = [
     (''Present'', 1), (''ReadWrite'', 1), (''UserSupervisor'', 1), (''WriteThrough'', 1),
     (''CacheDisabled'', 1), (''Accessed'', 1), (''Dirty'', 1), (''MustBe1'', 1), (''Global'', 1),
     (''Available'', 3), (''PAT'', 1), (''MustBeZero'', 17), (''PageTableBaseAddress'', 22),
     (''AvailableHigh'', 11), (''Nx'', 1)]"

section \<open>What the page check reads of them\<close>

definition layout_ok :: "layout \<Rightarrow> bool" where
  "layout_ok L \<longleftrightarrow> distinct (map fst L) \<and> union_width L = 64"

lemma layouts_ok: "layout_ok PAGE_MAP_AND_DIRECTORY_POINTER" "layout_ok PAGE_TABLE_4K_ENTRY"
  "layout_ok PAGE_TABLE_ENTRY" "layout_ok PAGE_TABLE_1G_ENTRY"
  by (simp_all add: layout_ok_def PAGE_MAP_AND_DIRECTORY_POINTER_def PAGE_TABLE_4K_ENTRY_def PAGE_TABLE_ENTRY_def PAGE_TABLE_1G_ENTRY_def)

text \<open>The fields of an entry determine it, and any fields that fit are those of an entry.\<close>

lemma entry_roundtrip:
  assumes "layout_ok L"
  shows "union_pack L (\<lambda>n. union_field L n e) = e" and "(n, k) \<in> set L \<Longrightarrow> union_field L n (union_pack L f) = take_bit k (f n)"
  using assms pack_field [of L e] field_pack [of L n k f] by (simp_all add: layout_ok_def take_bit_word_eq_self)

lemma page_fields:
  assumes "L \<in> {PAGE_MAP_AND_DIRECTORY_POINTER, PAGE_TABLE_4K_ENTRY, PAGE_TABLE_ENTRY, PAGE_TABLE_1G_ENTRY}"
  shows "union_field L ''Present'' e = 1 \<longleftrightarrow> Present e" and "union_field L ''ReadWrite'' e = 1 \<longleftrightarrow> ReadWrite e"
  using assms by (auto simp: PAGE_MAP_AND_DIRECTORY_POINTER_def PAGE_TABLE_4K_ENTRY_def PAGE_TABLE_ENTRY_def PAGE_TABLE_1G_ENTRY_def Present_def ReadWrite_def
      bit_iff_odd_drop_bit odd_iff_mod_2_eq_one)

lemma page_size_field:
  assumes "L \<in> {PAGE_TABLE_ENTRY, PAGE_TABLE_1G_ENTRY}"
  shows "union_field L ''MustBe1'' e = 1 \<longleftrightarrow> MustBe1 e"
  using assms by (auto simp: PAGE_MAP_AND_DIRECTORY_POINTER_def PAGE_TABLE_4K_ENTRY_def PAGE_TABLE_ENTRY_def PAGE_TABLE_1G_ENTRY_def MustBe1_def
      bit_iff_odd_drop_bit odd_iff_mod_2_eq_one eval_nat_numeral)

end
