(* ===== verification/Transport.thy ===== *)
theory Transport
  imports Handlers
begin

text \<open>
  The libraries of the package around the agent: DebugTransportSerialLib, which hands the
  transport's calls to the platform's serial port, and the null instances of the watchdog
  and log control libraries. The serial port is a parameter; the script the stub's state
  carries is one such port, so that what is proved of the stub holds of the stub linked with
  the serial library.
\<close>

section \<open>The serial transport\<close>

text \<open>
  A serial port over a state: a read returns the bytes it got, a write the number of bytes
  it sent. Results of the initialisation are True for success.
\<close>

record 'q serial_port =
  SerialPortInitialize :: "'q \<Rightarrow> bool \<times> 'q"
  SerialPortRead :: "nat \<Rightarrow> 'q \<Rightarrow> u8 list \<times> 'q"
  SerialPortWrite :: "u8 list \<Rightarrow> 'q \<Rightarrow> nat \<times> 'q"
  SerialPortPoll :: "'q \<Rightarrow> bool \<times> 'q"

definition DebugTransportInitialize_Serial :: "'q serial_port \<Rightarrow> 'q \<Rightarrow> bool \<times> 'q" where
  "DebugTransportInitialize_Serial sp q = SerialPortInitialize sp q"

definition DebugTransportRead_Serial :: "'q serial_port \<Rightarrow> nat \<Rightarrow> nat \<Rightarrow> 'q \<Rightarrow> u8 list \<times> 'q" where
  "DebugTransportRead_Serial sp NumberOfBytes Timeout q = SerialPortRead sp NumberOfBytes q"

definition DebugTransportWrite_Serial :: "'q serial_port \<Rightarrow> u8 list \<Rightarrow> 'q \<Rightarrow> nat \<times> 'q" where
  "DebugTransportWrite_Serial sp Buffer q = SerialPortWrite sp Buffer q"

definition DebugTransportPoll_Serial :: "'q serial_port \<Rightarrow> 'q \<Rightarrow> bool \<times> 'q" where
  "DebugTransportPoll_Serial sp q = SerialPortPoll sp q"

text \<open>The port whose input and output are the scripts of the stub; a read takes what is pending.\<close>

fun pending_bytes :: "nat \<Rightarrow> u8 option list \<Rightarrow> u8 list \<times> u8 option list" where
  "pending_bytes (Suc n) (Some b # r) = (case pending_bytes n r of (bs, r') \<Rightarrow> (b # bs, r'))"
| "pending_bytes n r = ([], r)"

definition script_port :: "'w gdb serial_port" where
  "script_port = \<lparr>
     SerialPortInitialize = Pair True,
     SerialPortRead = (\<lambda>n s. case pending_bytes n (rx s) of (bs, r) \<Rightarrow> (bs, s\<lparr>rx := r\<rparr>)),
     SerialPortWrite = (\<lambda>bs s. (length bs, s\<lparr>tx := tx s @ bs\<rparr>)),
     SerialPortPoll = (\<lambda>s. case rx s of [] \<Rightarrow> (False, s) | None # r \<Rightarrow> (False, s\<lparr>rx := r\<rparr>) | Some b # r \<Rightarrow> (True, s))\<rparr>"

lemma Poll_is_serial: "DebugTransportPoll s = DebugTransportPoll_Serial script_port s"
  by (simp add: DebugTransportPoll_Serial_def script_port_def split: list.split option.split)

lemma Read_is_serial:
  "DebugTransportRead old s =
    (case DebugTransportRead_Serial script_port 1 T s of (bs, s') \<Rightarrow> (if bs = [] then old else hd bs, s'))"
  by (simp add: DebugTransportRead_Serial_def script_port_def split: list.split option.split)

lemma Write_is_serial: "DebugTransportWrite bs s = snd (DebugTransportWrite_Serial script_port bs s)"
  by (simp add: DebugTransportWrite_def DebugTransportWrite_Serial_def script_port_def)

section \<open>Null libraries\<close>

definition WatchdogSuspend_Null :: "'p \<Rightarrow> bool \<times> 'p" where
  "WatchdogSuspend_Null p = (False, p)"

definition WatchdogResume_Null :: "bool \<Rightarrow> 'p \<Rightarrow> 'p" where
  "WatchdogResume_Null PreviouslyRunning p = p"

definition TransportLogSuspend_Null :: "'p \<Rightarrow> 'p" where
  "TransportLogSuspend_Null p = p"

definition TransportLogResume_Null :: "'p \<Rightarrow> 'p" where
  "TransportLogResume_Null p = p"

definition watchdog_null :: "'p watchdog" where
  "watchdog_null = \<lparr>WatchdogSuspend = WatchdogSuspend_Null, WatchdogResume = WatchdogResume_Null\<rparr>"

text \<open>With the null watchdog the handler is the stop itself and the step past the instruction.\<close>

lemma handler_X64_null:
  "DebuggerExceptionHandler_X64 watchdog_null off ag V c s =
    (case DebuggerExceptionHandler_X64_entry off V c of (c1, info) \<Rightarrow>
       obind (ReportEntryToDebugger ag info c1 s) (\<lambda>s1.
         let a = ctx_get64 (gSystemContext s1) (off X_Rip) in
         Some (Inr (s1\<lparr>gSystemContext := (if V = EXCEPT_X64_BREAKPOINT \<and> memory (world s1) a = 0xCC
           then ctx_set64 (gSystemContext s1) (off X_Rip) (a + 1) else gSystemContext s1)\<rparr>))))"
  by (simp add: DebuggerExceptionHandler_X64_def watchdog_null_def WatchdogSuspend_Null_def WatchdogResume_Null_def
      Let_def cong: if_cong)

end
