(* ===== verification/Spec2Isabelle.thy ===== *)
theory Spec2Isabelle
  imports Samples SystemRegisters VirtualMemory Transport "HOL-Library.Sublist"
begin

text \<open>
  The UEFI debugger of DebuggerFeaturePkg: a GDB remote stub that runs inside firmware.
  An exception handler of the processor stops the machine and enters the stub
  (GdbStub/GdbStub.c), which answers requests that arrive on a serial transport until one
  of them resumes execution. The stub reads and changes registers in the saved context,
  memory through the boot phase's access routines, and breakpoints through Breakpoint.c and
  the debug registers of the architecture.

  The parts, and the theory that models each (file names under DebuggerFeaturePkg/Library/DebugAgent):

  Prelude: machine types, the outcomes of a call that does not return (\<open>stop\<close>: a failed
  assertion, a system reset, an access outside a buffer), byte ranges of memory, bit fields.
  BaseLib: the string routines of the EDK II libraries. The number parsers and the printer
  are fields of the record \<open>lib\<close>; \<open>lib_ok\<close> states their documented behaviour and
  \<open>doc_lib\<close> is an implementation of it.
  DebugAgent: DebugAgent.h, with the record \<open>agent\<close> of the routines that an architecture and
  a boot phase link into the stub, and the contracts \<open>debug_memory\<close> and \<open>watchpoint_unit\<close>.
  HexCodec: HexToByte and ConvertResponseToHex of GdbStub.c.
  Breakpoint: Breakpoint.c. The statics are the list of 64 entries; the contract
  \<open>breakpoint_memory\<close> is what its lemmas need from memory accesses.
  Registers: the tables of GdbStubX64.c and GdbStubAarch64.c and the register transfer of
  GdbStub.c. The context structures are defined outside the repository: their field
  offsets are the argument \<open>off\<close>.
  GdbPacket, GdbCommands, GdbStub: GdbStub.c. The record \<open>gdb\<close> holds the statics of the
  file, the transport and the clock as scripts (\<open>rx\<close>: what each poll finds, \<open>tx\<close>: what was
  sent), and the machine as the field \<open>world\<close>. A handler returns the new state or a \<open>stop\<close>;
  a loop that may wait forever returns an option, None meaning that it does not return.
  DebugX64, AddressCheckX64, DebugAarch64: the directories X64 and AARCH64. Debug
  registers and system registers are fields that extend the record \<open>machine\<close>.
  VirtualMemory: the unions of X64/VirtualMemory.h as layouts of bit fields. SystemRegisters:
  the routines of AARCH64/Registers.S as programs of a small machine, related by \<open>reflects\<close>
  to the fields that DebugAarch64 reads and writes.
  AccessMemory: DbgReadMemory, DbgWriteMemory and their neighbours in DebugAgentDxe.c,
  DebugAgentMm.c and DebugAgentPeiLib.c, with the page attribute services as a parameter.
  AgentInit: the configuration HOB (DebuggerControlHob.h, DebugConfigPei), the registration
  of exception handlers and InitializeDebugAgent of DebugAgentMm.c and DebugAgentPeiLib.c.
  The firmware's services are the record \<open>services\<close>, functions on the part \<open>plat\<close> of the
  machine; a property of them is a named predicate (\<open>registry_ok\<close>, \<open>removal_ok\<close>).
  DxeAgent: the rest of DebugAgentDxe.c. Its statics are the record \<open>dxe_agent\<close>; its entry,
  notifications, timer routine and exit handler are the steps of \<open>dxe_run\<close>, in any order in
  which the firmware delivers them.
  Transport: DebugTransportSerialLib over a serial port, the null watchdog and log control
  libraries; the scripts \<open>rx\<close> and \<open>tx\<close> are a serial port.
  Builds: the six builds (two architectures, three phases) as instances of \<open>agent\<close>, and the
  interpretations of the contracts on them.
  Samples: concrete machines and stub states, on which the properties are applied; their
  counters run at three million ticks and at 62500 ticks a millisecond.

  The specification: Protocol has the debugger as its client sees it, requests and replies
  without their text and the function \<open>serve\<close> on an abstract target (context, memory, a map of
  breakpoints, a set of watchpoints, the page protections), with the texts \<open>encode\<close> and
  \<open>reply_text\<close> of both. Simulation states the contract \<open>stub_target\<close> under which the commands of
  GdbCommands implement \<open>serve\<close>; Conversation extends it to a whole stop (\<open>stub_session\<close>), with
  pauses, repeats and stray bytes; Targets discharges both contracts for the six builds and
  composes them with the exception handlers. WellFormed has the type of the stub's state and
  the contract \<open>stub_invariant\<close> that keeps it. Phases has the life of the MM agent, a start
  in PEI that a debugger attends, and breaking into a running target.

  The lemmas: CommandFacts has the outcome of each command from the characters of its
  request; Effects shows every handler and loop to be a sequence of small steps, so that an
  invariant of the steps holds of every session; Session has packet collection,
  termination, timeouts and resumption; Watchpoints is the abstract row of slots that both
  architectures refine; Bytes has little-endian values in memory and in the context;
  AddressCheckX64 and AddressCheckAarch64 show the page checks equal to a walk of the tables;
  Handlers composes an exception with a session of one request, a poll with an exception, and
  a resume with an armed reboot; Bounds shows which requests can access memory outside a buffer;
  DxeAgent has the invariant that ties the initialised flag to the installed handlers, and
  the names of modules.

  No fuel is used. Loops over bounded data are recursive functions with a measure; the
  polling loops are \<open>partial_function (option)\<close>, and that they end is proved where a clock
  that runs makes them end. The clock is a function from the number of the reading to the
  counter's value. That it runs (\<open>clock_runs\<close>) is asked only of waits that begin within the
  first \<open>N\<close> readings, since a counter of 64 bits stops advancing in the end; \<open>N\<close> is the
  readings so far and twice the input that is left (\<open>spent\<close>), which no read of a byte
  exceeds. \<open>clock_runs_counter\<close> shows it of counters at any frequency.

  Not modelled. The log buffers of DBG_DEBUG builds and DEBUG messages: output only. The
  registration tokens of protocol notifications and the boot services table used before gBS
  is set: they only reach the services, which are a parameter. SerialPortLib and the
  platform's watchdog, which are parameters. The processor's own delivery of exceptions: a
  breakpoint instruction inside the debugger is the parameter \<open>CpuBreakpoint\<close>, which the
  properties of breaking in and of the start in PEI instantiate with the handler. Constants
  of AARCH64/AArch64Mmu.h and descriptors of X64/VirtualMemory.h that no code reads. The
  scripts and build settings on the host.
\<close>

section \<open>Debugging sessions\<close>







text \<open>
  C4. The stub's state keeps its type. Through every exception and every poll, with any input,
  in all six builds: the breakpoint table keeps 64 entries of four saved bytes and no two
  active entries for one address; the packet kept for a resend is empty or one frame that
  fits its buffer, and what was transmitted is a sequence of acknowledgements and frames;
  the array with the module name keeps its 64 bytes; the watchpoint registers number four
  and no two watch the same.
\<close>

theorem stub_state_well_formed:
  assumes "ag \<in> {agent_X64_DXE env off ma, agent_X64_MM env off smm, agent_X64_PEI env off}"
    and "arm \<in> {agent_AARCH64_DXE env off' ma', agent_AARCH64_MM env off' smm', agent_AARCH64_PEI env' off'}"
    and "well_formed fine_X64 s" and "well_formed fine_AARCH64 t"
  shows "(DebuggerExceptionHandler_X64 wd off ag ty c s = Some (Inr s') \<longrightarrow> well_formed fine_X64 s') \<and>
    (DebuggerPollInput (DebuggerExceptionHandler_X64 wd off ag EXCEPT_X64_BREAKPOINT c) ag s = Some (Inr s') \<longrightarrow>
      well_formed fine_X64 s') \<and>
    (DebuggerExceptionHandler_AARCH64 wd' off' arm c t = Some (Inr t') \<longrightarrow> well_formed fine_AARCH64 t') \<and>
    (DebuggerPollInput (DebuggerExceptionHandler_AARCH64 wd' off' arm c) arm t = Some (Inr t') \<longrightarrow>
      well_formed fine_AARCH64 t')"
proof -
  have x: "stub_invariant ag memory fine_X64"
    using assms(1) x64_dxe_fine.stub_invariant_axioms x64_mm_fine.stub_invariant_axioms
      x64_pei_fine.stub_invariant_axioms by blast
  have a: "stub_invariant arm memory fine_AARCH64"
    using assms(2) aarch64_dxe_fine.stub_invariant_axioms aarch64_mm_fine.stub_invariant_axioms
      aarch64_pei_fine.stub_invariant_axioms by blast
  note handlers = handler_X64_well_formed [OF x _ assms(3)] handler_AARCH64_well_formed [OF a _ assms(4)]
  note polls = stub_invariant.DebuggerPollInput_well_formed [OF x _ handler_X64_well_formed [OF x], rule_format, OF _ _ _ refl assms(3)]
    stub_invariant.DebuggerPollInput_well_formed [OF a _ handler_AARCH64_well_formed [OF a], rule_format, OF _ _ _ refl assms(4)]
  show ?thesis by (intro conjI impI) (erule handlers | erule polls; assumption)+
qed

theorem stub_state_well_formed_witness:
  "\<exists>s'. DebuggerExceptionHandler_X64 sample_watchdog sample_X64 sample_dxe EXCEPT_X64_DEBUG (\<lambda>_. 0)
      (sample_gdb (map Some (frame (str ''vCont;c''))) sample_x64) = Some (Inr s') \<and> well_formed fine_X64 s'"
proof -
  obtain s' where run: "DebuggerExceptionHandler_X64 sample_watchdog sample_X64 sample_dxe EXCEPT_X64_DEBUG (\<lambda>_. 0)
      (sample_gdb (map Some (frame (str ''vCont;c''))) sample_x64) = Some (Inr s')"
    using sample_handler by blast
  show ?thesis
    using run stub_state_well_formed [OF insertI1 insertI1 sample_well_formed (1) sample_well_formed (2) [of "[]"], THEN conjunct1] by blast
qed

section \<open>Packets\<close>

text \<open>
  C5. A framed request that arrives is delivered: \<open>ProcessInputData\<close> collects exactly the
  frame, acknowledges it with a plus, notes the connection, and runs the interpreter on the
  body followed by a terminating zero; then it goes on with what the command left, reading
  the next input. For every body without a hash that fits the buffer, whatever follows it.
\<close>

theorem packet_delivery:
  assumes "lib_ok (ag_lib ag)" and "clock_total ag (world s)"
    and "35 \<notin> set body" and "length body + 4 \<le> MAX_REQUEST_SIZE"
    and "rx s = map Some (frame body) @ r"
  shows "ProcessInputData ag s =
    obind (Some (ExecuteGdbCommand ag (body @ 0 # request_tail body) (length body)
        (s\<lparr>rx := r, clock_reads := clock_reads s + (length body + 4),
           tx := tx s @ str ''+'', mConnectionOccurred := True\<rparr>)))
      (\<lambda>s2. ProcessInputData_loop ag (36 # body @ 0 # request_tail body) s2)"
  using ProcessInputData_deliver [OF assms(1-3) _ assms(5), of "replicate MAX_REQUEST_SIZE 0"] assms(4)
  by (simp add: ProcessInputData_def request_tail_def)

theorem packet_delivery_witness:
  "ProcessInputData sample_dxe (sample_gdb (map Some (frame (str ''?''))) sample_x64) =
    obind (Some (ExecuteGdbCommand sample_dxe (str ''?'' @ 0 # request_tail (str ''?'')) 1
        ((sample_gdb (map Some (frame (str ''?''))) sample_x64)
          \<lparr>rx := [], clock_reads := 5, tx := str ''+'', mConnectionOccurred := True\<rparr>)))
      (\<lambda>s2. ProcessInputData_loop sample_dxe (36 # str ''?'' @ 0 # request_tail (str ''?'')) s2)"
  using packet_delivery [of sample_dxe "sample_gdb (map Some (frame (str ''?''))) sample_x64" "str ''?''" "[]"]
  by (simp add: sample_lib sample_clock_total str_def MAX_REQUEST_SIZE_def)

text \<open>
  C6. A packet is executed exactly when its two checksum characters are hexadecimal digits
  whose value is the sum of the body's bytes; it is then acknowledged with a plus and the
  interpreter sees the body as a terminated string. Any other checksum is answered with a
  minus and nothing else changes, the buffer included.
\<close>

theorem packet_checksum:
  assumes "lib_ok (ag_lib ag)" and "35 \<notin> set body"
  shows "ProcessGdbPacket ag (36 # body @ 35 # a # b # r) (length body + 4) s =
    (if is_hex a \<and> is_hex b \<and> of_nat (hex_val [a, b]) = sum_list body
     then ebind (ExecuteGdbCommand ag (body @ 0 # a # b # r) (length body)
                   (s\<lparr>tx := tx s @ str ''+'', mConnectionOccurred := True\<rparr>))
            (\<lambda>s2. Inr (36 # body @ 0 # a # b # r, s2))
     else Inr (36 # body @ 35 # a # b # r, s\<lparr>tx := tx s @ str ''-''\<rparr>))"
  by (rule ProcessGdbPacket_eq [OF assms])

theorem packet_checksum_witness:
  "ProcessGdbPacket sample_dxe (str ''$g#68'') 5 (sample_gdb [] sample_x64) =
    Inr (str ''$g#68'', (sample_gdb [] sample_x64)\<lparr>tx := str ''-''\<rparr>)"
  using packet_checksum [of sample_dxe "[103]" 54 56 "[]" "sample_gdb [] sample_x64"]
  by (simp add: sample_lib str_def is_hex_def hex_val_def hex_digit_def)

section \<open>Software breakpoints\<close>

text \<open>
  C7. Software breakpoints refine a map from addresses to saved bytes, in all six builds:
  adding reports success exactly when the address has a breakpoint already or fewer than 64
  are set, and then the map gains that address and no other; removing reports success exactly
  when the address has a breakpoint, and the map loses that address only; a duplicate, a full
  table or a missing breakpoint leaves table and machine as they were.
\<close>

theorem breakpoints_refine_map:
  assumes "ag \<in> {agent_X64_DXE env off ma, agent_X64_MM env off smm, agent_X64_PEI env off}"
    and "arm \<in> {agent_AARCH64_DXE env' off' ma', agent_AARCH64_MM env' off' smm', agent_AARCH64_PEI env' off'}"
    and "bp_table_ok t"
  shows "(AddSoftwareBreakpoint ag a (t, w) = Inr (r, t', w') \<longrightarrow>
      inserted (bp_map t) a r (bp_map t') \<and> (r \<and> a \<notin> dom (bp_map t) \<or> t' = t \<and> w' = w)) \<and>
    (RemoveSoftwareBreakpoint ag a (t, w) = (r, t', w') \<longrightarrow>
      deleted (bp_map t) a r (bp_map t') \<and> (r \<or> t' = t \<and> w' = w)) \<and>
    (AddSoftwareBreakpoint arm a (t, v) = Inr (r, t', v') \<longrightarrow>
      inserted (bp_map t) a r (bp_map t') \<and> (r \<and> a \<notin> dom (bp_map t) \<or> t' = t \<and> v' = v)) \<and>
    (RemoveSoftwareBreakpoint arm a (t, v) = (r, t', v') \<longrightarrow>
      deleted (bp_map t) a r (bp_map t') \<and> (r \<or> t' = t \<and> v' = v))"
proof -
  have x: "breakpoint_memory ag memory"
    using assms(1) x64_dxe.breakpoint_memory_axioms x64_mm.breakpoint_memory_axioms
      x64_pei.breakpoint_memory_axioms by blast
  have a: "breakpoint_memory arm memory"
    using assms(2) aarch64_dxe.breakpoint_memory_axioms aarch64_mm.breakpoint_memory_axioms
      aarch64_pei.breakpoint_memory_axioms by blast
  note laws = breakpoint_memory.add_inserts [OF _ assms(3)] breakpoint_memory.remove_deletes [OF _ assms(3)]
  show ?thesis using laws [OF x] laws [OF a] by blast
qed

theorem breakpoints_refine_map_witness:
  "\<exists>t' w' v. AddSoftwareBreakpoint sample_dxe 0x1000 (mBreakpoints_init, sample_x64) = Inr (True, t', w') \<and>
     bp_map t' = [0x1000 \<mapsto> v]"
proof -
  obtain t' w' where add: "AddSoftwareBreakpoint sample_dxe 0x1000 (mBreakpoints_init, sample_x64) = Inr (True, t', w')"
    using sample_add by blast
  show ?thesis
    using add breakpoints_refine_map [OF insertI1 insertI1 bp_table_ok_init, THEN conjunct1, THEN mp, OF add]
    by (auto simp: bp_map_init inserted_def)
qed

text \<open>
  C8. Breakpoints are transparent, in all six builds: over any sequence of add and remove
  requests whose memory accesses succeed and that do not overlap, the memory with the saved
  bytes put back stays what it was before. In particular removing every breakpoint restores
  the program.
\<close>

theorem breakpoints_transparent:
  assumes "ag \<in> {agent_X64_DXE env off ma, agent_X64_MM env off smm, agent_X64_PEI env off}"
    and "arm \<in> {agent_AARCH64_DXE env' off' ma', agent_AARCH64_MM env' off' smm', agent_AARCH64_PEI env' off'}"
    and "bp_table_ok t"
  shows "((bp_step ag)\<^sup>*\<^sup>* (t, w) (t', w') \<and> bp_separate 1 t \<longrightarrow>
      unpatched 1 t' (memory w') = unpatched 1 t (memory w) \<and>
      ((\<forall>e \<in> set t'. \<not> bp_Active e) \<longrightarrow> memory w' = unpatched 1 t (memory w))) \<and>
    ((bp_step arm)\<^sup>*\<^sup>* (t, v) (t', v') \<and> bp_separate 4 t \<longrightarrow>
      unpatched 4 t' (memory v') = unpatched 4 t (memory v) \<and>
      ((\<forall>e \<in> set t'. \<not> bp_Active e) \<longrightarrow> memory v' = unpatched 4 t (memory v)))"
proof -
  have len: "length (ag_mArchBreakpointInstruction ag) = 1" "length (ag_mArchBreakpointInstruction arm) = 4"
    using assms(1,2)
    by (auto simp: agent_defs mArchBreakpointInstruction_X64_def mArchBreakpointInstruction_AARCH64_def)
  have x: "breakpoint_memory ag memory"
    using assms(1) x64_dxe.breakpoint_memory_axioms x64_mm.breakpoint_memory_axioms
      x64_pei.breakpoint_memory_axioms by blast
  have a: "breakpoint_memory arm memory"
    using assms(2) aarch64_dxe.breakpoint_memory_axioms aarch64_mm.breakpoint_memory_axioms
      aarch64_pei.breakpoint_memory_axioms by blast
  show ?thesis
    using breakpoint_memory.steps_unpatched [OF x _ assms(3), unfolded len, of w t' w']
      breakpoint_memory.steps_unpatched [OF a _ assms(3), unfolded len, of v t' v']
      unpatched_no_active [of t' 1 "memory w'"] unpatched_no_active [of t' 4 "memory v'"] by auto
qed

theorem breakpoints_transparent_witness:
  "\<exists>t' w'. AddSoftwareBreakpoint sample_dxe 0x1000 (mBreakpoints_init, sample_x64) = Inr (True, t', w') \<and>
     unpatched 1 t' (memory w') = unpatched 1 mBreakpoints_init (memory sample_x64)"
proof -
  obtain t' w' where add: "AddSoftwareBreakpoint sample_dxe 0x1000 (mBreakpoints_init, sample_x64) = Inr (True, t', w')"
    and step: "bp_step sample_dxe (mBreakpoints_init, sample_x64) (t', w')"
    using sample_add by blast
  have run: "(bp_step sample_dxe)\<^sup>*\<^sup>* (mBreakpoints_init, sample_x64) (t', w') \<and> bp_separate 1 mBreakpoints_init"
    using step bp_separate_init by (blast intro: r_into_rtranclp)
  show ?thesis
    using add breakpoints_transparent [OF insertI1 insertI1 bp_table_ok_init, THEN conjunct1, THEN mp, OF run] by blast
qed

section \<open>Memory commands\<close>






section \<open>Registers\<close>

text \<open>
  C11. Register transfer on X64: writing back the digits that \<open>g\<close> produced for any context
  makes the saved context agree with it in every register of the table, so that \<open>g\<close> then
  answers the same digits, and changes no byte outside the registers; written into the
  context it came from, it changes nothing. For every context layout with fields eight bytes
  apart, including the sixteen registers that are absent from the context.
\<close>

theorem registers_roundtrip_X64:
  assumes "ctx_offsets_ok off" and "ag_gRegisterOffsets ag = gRegisterOffsets_X64 off"
  shows "\<exists>c. ExecuteGdbCommand ag (71 # ReadGeneralRegisters_chars (gRegisterOffsets_X64 off) c0 @ 0 # r) n s =
        Inr (responded (str ''OK'') (s\<lparr>gSystemContext := c\<rparr>)) \<and>
      ExecuteGdbCommand ag (103 # r') n' (s\<lparr>gSystemContext := c\<rparr>) =
        Inr (responded (ReadGeneralRegisters_chars (gRegisterOffsets_X64 off) c0) (s\<lparr>gSystemContext := c\<rparr>)) \<and>
      (gSystemContext s = c0 \<longrightarrow> c = c0) \<and>
      (\<forall>j. (\<forall>i < 29. j < reg_Offset (gRegisterOffsets_X64 off ! i) \<or>
             reg_Offset (gRegisterOffsets_X64 off ! i) + reg_Size (gRegisterOffsets_X64 off ! i) \<le> j) \<longrightarrow>
           c j = gSystemContext s j)"
proof -
  let ?t = "gRegisterOffsets_X64 off"
  let ?v = "\<lambda>i. ctx_bytes c0 (reg_Offset (?t ! i)) (reg_Size (?t ! i))"
  have lay: "regs_layout (ag_gRegisterOffsets ag) 29" "regs_disjoint ?t 29" and fit: "regs_fit (ag_gRegisterOffsets ag)"
    unfolding assms(2) using regs_X64 [OF assms(1)] regs_fit_X64 by blast+
  show ?thesis
    using WriteGeneralRegisters_dump [OF lay(1), of c0 r s]
      ReadGeneralRegisters_eq [OF fit, of "s\<lparr>gSystemContext := store_regs ?t ?v [0..<29] (gSystemContext s)\<rparr>"]
      ReadGeneralRegisters_chars_store_regs [OF lay(1) [unfolded assms(2)] lay(2), of c0 "gSystemContext s"]
      store_regs_same [of ?t c0 "[0..<29]"] store_regs_outside [of "[0..<29]" _ ?t ?v "gSystemContext s"]
    by (intro exI [of _ "store_regs ?t ?v [0..<29] (gSystemContext s)"])
      (auto simp: ExecuteGdbCommand_simps assms(2))
qed

theorem registers_roundtrip_X64_witness:
  "\<exists>c. ExecuteGdbCommand sample_dxe
        (71 # ReadGeneralRegisters_chars (gRegisterOffsets_X64 sample_X64) (\<lambda>_. 7) @ 0 # []) 0
        (sample_gdb [] sample_x64) =
      Inr (responded (str ''OK'') ((sample_gdb [] sample_x64)\<lparr>gSystemContext := c\<rparr>))"
proof -
  have t: "ag_gRegisterOffsets sample_dxe = gRegisterOffsets_X64 sample_X64" by (simp add: agent_defs)
  show ?thesis
    using registers_roundtrip_X64 [OF sample_X64_ok t, of "\<lambda>_. 7" "[]" 0 "sample_gdb [] sample_x64"] by blast
qed








section \<open>Watchpoints\<close>

text \<open>
  C15. The four debug registers of X64 refine a set of (address, access, length) keys of
  capacity four. A request succeeds exactly when its key is watched already or fewer than
  four are, and then exactly that key is added; a removal succeeds exactly on a watched key
  and removes only it; whatever fails leaves every register as it was. The set is read off
  DR7's enable, access and length fields and DR0 to DR3.
\<close>

theorem watchpoints_refine_set_X64:
  assumes "slots_unique (x64_slots w)"
    and "AddWatchpoint_X64 a l r s w = (ok, w1)" and "RemoveWatchpoint_X64 a l r s w = (ok', w2)"
  shows "let k = (a, if r then 3 else 1, LengthToDebugRegLen l); S = slots_armed (x64_slots w) in
    (ok \<longleftrightarrow> k \<in> S \<or> card S < 4) \<and> (if ok then slots_armed (x64_slots w1) = insert k S else w1 = w) \<and>
    (ok' \<longleftrightarrow> k \<in> S) \<and> (if ok' then slots_armed (x64_slots w2) = S - {k} else w2 = w) \<and>
    slots_unique (x64_slots w1) \<and> slots_unique (x64_slots w2)"
proof -
  have inv: "slots_unique (x64_slots w) \<and> length (x64_slots w) = 4" using assms(1) by (simp add: x64_slots_def)
  note laws = x64_wp.add_True [OF inv, of a l r s w1] x64_wp.add_False [OF inv, of a l r s w1]
    x64_wp.remove_True [OF inv, of a l r s w2] x64_wp.remove_False [OF inv, of a l r s w2]
    x64_wp.add_inv [OF inv assms(2)] x64_wp.remove_inv [OF inv assms(3)]
    x64_wp.armed_capacity [of w1] x64_wp.armed_capacity [OF inv]
  show ?thesis
    using laws assms(2,3) by (cases ok; cases ok') (auto simp: x64_key_def Let_def card_insert_if)
qed

theorem watchpoints_refine_set_X64_witness:
  "\<exists>w1. AddWatchpoint_X64 0x1000 8 False True sample_x64 = (True, w1) \<and>
     slots_armed (x64_slots w1) = {(0x1000, 1, 2)}"
proof -
  have empty: "x64_slots sample_x64 = [None, None, None, None]"
    by (simp add: x64_slots_def x64_slot_def sample_x64_def DR7_L_def get_field_def)
  obtain ok w1 ok' w2 where add: "AddWatchpoint_X64 0x1000 8 False True sample_x64 = (ok, w1)"
    and rm: "RemoveWatchpoint_X64 0x1000 8 False True sample_x64 = (ok', w2)"
    by (metis surj_pair)
  have "slots_unique (x64_slots sample_x64)" "slots_armed (x64_slots sample_x64) = {}"
    unfolding empty by (simp_all add: slots_unique_def slots_armed_def)
  with watchpoints_refine_set_X64 [OF _ add rm] add show ?thesis
    by (auto simp: Let_def LengthToDebugRegLen_def)
qed

text \<open>
  C16. The watchpoint registers of AARCH64 refine the same set of capacity four: a request of
  length 0 is refused, every other one denotes a key of address, byte mask and access bits.
\<close>

theorem watchpoints_refine_set_AARCH64:
  assumes "slots_unique (aarch64_slots w)" and "length (DBGW w) = 4"
    and "AddWatchpoint_AARCH64 a l r s w = (ok, w1)" and "RemoveWatchpoint_AARCH64 a l r s w = (ok', w2)"
  shows "let k = (a, wp_Bas l, wp_Lsc r s); S = slots_armed (aarch64_slots w) in
    (ok \<longleftrightarrow> l \<noteq> 0 \<and> (k \<in> S \<or> card S < 4)) \<and>
    (if ok then slots_armed (aarch64_slots w1) = insert k S else w1 = w) \<and>
    (ok' \<longleftrightarrow> l \<noteq> 0 \<and> k \<in> S) \<and> (if ok' then slots_armed (aarch64_slots w2) = S - {k} else w2 = w) \<and>
    slots_unique (aarch64_slots w1) \<and> slots_unique (aarch64_slots w2)"
proof -
  have inv: "slots_unique (aarch64_slots w) \<and> length (aarch64_slots w) = MAX_WATCHPOINTS"
    using assms(1,2) by (simp add: aarch64_slots_def MAX_WATCHPOINTS_def)
  note laws = aarch64_wp.add_True [OF inv, of a l r s w1] aarch64_wp.add_False [OF inv, of a l r s w1]
    aarch64_wp.remove_True [OF inv, of a l r s w2] aarch64_wp.remove_False [OF inv, of a l r s w2]
    aarch64_wp.add_inv [OF inv assms(3)] aarch64_wp.remove_inv [OF inv assms(4)]
    aarch64_wp.armed_capacity [of w1] aarch64_wp.armed_capacity [OF inv]
  show ?thesis
    using laws assms(3,4)
    by (cases ok; cases ok'; cases "l = 0") (auto simp: aarch64_key_def Let_def card_insert_if MAX_WATCHPOINTS_def)
qed

theorem watchpoints_refine_set_AARCH64_witness:
  "\<exists>w1. AddWatchpoint_AARCH64 0x1000 8 False True sample_aarch64 = (True, w1) \<and>
     slots_armed (aarch64_slots w1) = {(0x1000, 0xFF, 2)}"
proof -
  have empty: "aarch64_slots sample_aarch64 = [None, None, None, None]"
    by (simp add: aarch64_slots_def aarch64_slot_def sample_aarch64_def WCR_Enabled_def get_field_def
        numeral_eq_Suc)
  obtain ok w1 ok' w2 where add: "AddWatchpoint_AARCH64 0x1000 8 False True sample_aarch64 = (ok, w1)"
    and rm: "RemoveWatchpoint_AARCH64 0x1000 8 False True sample_aarch64 = (ok', w2)"
    by (metis surj_pair)
  have "slots_unique (aarch64_slots sample_aarch64)" "slots_armed (aarch64_slots sample_aarch64) = {}"
    "length (DBGW (sample_aarch64 :: attrs aarch64)) = 4"
    unfolding empty by (simp_all add: slots_unique_def slots_armed_def sample_aarch64_def)
  with watchpoints_refine_set_AARCH64 [OF _ _ add rm] add show ?thesis
    by (auto simp: Let_def wp_Bas_def wp_Lsc_def)
qed

text \<open>
  Initialisation of the debug unit leaves no watchpoint armed on either architecture,
  stores the counter frequency on X64, and on AARCH64 ends with debug exceptions unmasked,
  the OS lock released and monitor and kernel debug enabled; memory is not touched.
\<close>

lemma debug_unit_initialised:
  "x64_slots (DebugArchInit_X64 f w) = replicate 4 None \<and>
   mPerformanceCounterFreq (DebugArchInit_X64 f w) = f \<and> memory (DebugArchInit_X64 f w) = memory w \<and>
   aarch64_slots (DebugArchInit_AARCH64 v) = replicate (length (DBGW v)) None \<and>
   DAIF (DebugArchInit_AARCH64 v) AND DAIF_DEBUG = 0 \<and> OSLSR_EL1 (DebugArchInit_AARCH64 v) AND OSLSR_LOCKED = 0 \<and>
   MDSCR_EL1 (DebugArchInit_AARCH64 v) AND (MDSCR_MDE OR MDSCR_KDE) = MDSCR_MDE OR MDSCR_KDE \<and>
   memory (DebugArchInit_AARCH64 v) = memory v"
proof -
  have "x64_slots (DebugArchInit_X64 f w) = replicate 4 None"
    unfolding DebugArchInit_X64_slots by (simp add: numeral_eq_Suc)
  then show ?thesis
    by (intro conjI DebugArchInit_AARCH64_slots DebugArchInit_AARCH64_enabled)
      (simp_all add: DebugArchInit_X64_def DebugArchInit_AARCH64_def Let_def DebugWriteOslarEl1_0_def)
qed


section \<open>Page tables\<close>



text \<open>
  Above 512 GiB the page check is wrong: the index into the top table is added to its
  address without the size of an entry. There is a machine whose tables map the address
  2^39 for reading and writing, and the check reports it as not valid.
\<close>

lemma page_check_misses_high_page:
  "\<exists>w :: attrs x64. \<not> LA57 (CR4 w) \<and> tables_ok (memory w) (CR3 w) (2 ^ 39) \<and>
     (\<exists>e. x64_leaf (memory w) (CR3 w) (2 ^ 39) = Some e \<and> ReadWrite e) \<and> \<not> IsPageReadable_X64 w (2 ^ 39)"
proof -
  have "GetPageIs paged_x64 (2 ^ 39) = GetPageIs_from_Pml4 (sample_tables 0x83 0) 0x1001 (2 ^ 39)"
    by (subst GetPageIs_unscaled) (simp_all add: paged_x64_simps LA57_def ADDRESS_BITS_def get_field_def)
  also have "\<dots> = PAGE_IS_NOT_VALID"
    using sample_tables_entries(5) [of "0x83" 0] by (simp add: GetPageIs_from_Pml4_def Present_def Let_def)
  finally have "\<not> IsPageReadable_X64 paged_x64 (2 ^ 39)" by (simp add: IsPageReadable_X64_def)
  moreover have "\<not> LA57 (CR4 paged_x64)" "ReadWrite 0x83"
    by (simp_all add: paged_x64_simps LA57_def ReadWrite_def bit_numeral_rec)
  moreover note paged_x64_walk [of "2 ^ 39"]
  ultimately show ?thesis by (intro exI [of _ paged_x64]) auto
qed





section \<open>Exception handlers\<close>

text \<open>
  C19. Stepping on X64: a step request from a debug exception resumes with the trap flag set
  and everything else in the context unchanged, and a continue request with the trap flag
  clear; so a step traps once. RIP is not moved.
\<close>

theorem single_step_X64:
  assumes "ag \<in> {agent_X64_DXE env off ma, agent_X64_MM env off smm, agent_X64_PEI env off}"
    and "one_request (str ''vCont;s'') ag s" and "one_request (str ''vCont;c'') ag s'"
  shows "\<exists>s2 s2'. DebuggerExceptionHandler_X64 wd off ag EXCEPT_X64_DEBUG c s = Some (Inr s2) \<and>
    gSystemContext s2 = ctx_set64 c (off X_Rflags) (ctx_get64 c (off X_Rflags) OR TF_BIT) \<and>
    memory (world s2) = memory (world s) \<and> gRunning s2 \<and>
    DebuggerExceptionHandler_X64 wd off ag EXCEPT_X64_DEBUG c s' = Some (Inr s2') \<and>
    gSystemContext s2' = ctx_set64 c (off X_Rflags) (ctx_get64 c (off X_Rflags) AND NOT TF_BIT) \<and>
    memory (world s2') = memory (world s') \<and> gRunning s2'"
proof -
  have clk: "stub_clock ag mPerformanceCounterFreq"
    using assms(1) x64_dxe_clock.stub_clock_axioms x64_mm_clock.stub_clock_axioms
      x64_pei_clock.stub_clock_axioms by blast
  let ?e = "DebuggerExceptionHandler_X64_entry off EXCEPT_X64_DEBUG c"
  let ?w = "\<lambda>s :: 'a x64 gdb. (world s)\<lparr>plat := snd (WatchdogSuspend wd (plat (world s)))\<rparr>"
  let ?c = "ctx_set64 (fst ?e) (off X_Rflags) (ctx_get64 (fst ?e) (off X_Rflags) OR TF_BIT)"
  have arm: "ag_AddSingleStep ag (fst ?e) w = (?c, w)" for w
    using assms(1) by (auto simp: agent_defs AddSingleStep_X64_def)
  have nb: "EXCEPT_X64_DEBUG \<noteq> EXCEPT_X64_BREAKPOINT" by (simp add: EXCEPT_X64_DEBUG_def EXCEPT_X64_BREAKPOINT_def)
  obtain s1 where s1: "ReportEntryToDebugger ag (snd ?e) (fst ?e) (s\<lparr>world := ?w s\<rparr>) = Some (Inr s1)"
    "gSystemContext s1 = ?c" "world s1 = ?w s" "gRunning s1"
    using stub_clock.step_outcome [OF clk assms(2) _ arm, where info = "snd ?e" and w = "?w s"] by auto
  obtain s1' where s1': "ReportEntryToDebugger ag (snd ?e) (fst ?e) (s'\<lparr>world := ?w s'\<rparr>) = Some (Inr s1')"
    "gSystemContext s1' = fst ?e" "world s1' = ?w s'" "gRunning s1'"
    using stub_clock.continue_outcome [OF clk assms(3), of "?w s'"] by auto
  show ?thesis
    unfolding handler_X64 [OF s1(1)] handler_X64 [OF s1'(1)] using s1(2-4) s1'(2-4) nb
    by (simp add: entry_X64 TF_twice)
qed

theorem single_step_X64_witness:
  "\<exists>s2. DebuggerExceptionHandler_X64 sample_watchdog sample_X64 sample_dxe EXCEPT_X64_DEBUG (\<lambda>_. 0)
      (sample_gdb (map Some (frame (str ''vCont;s''))) sample_x64) = Some (Inr s2) \<and>
    gSystemContext s2 = ctx_set64 (\<lambda>_. 0) 136 (ctx_get64 (\<lambda>_. 0) 136 OR TF_BIT)"
  using single_step_X64 [OF insertI1 sample_request(1) [OF resume_length(2)] sample_request(1) [OF resume_length(1)], of sample_watchdog "\<lambda>_. 0"] by auto

text \<open>
  C20. Stepping on AARCH64: a step request from a software step exception resumes with the
  step bit of SPSR set, debug exceptions unmasked in it, and stepping enabled in MDSCR; a
  continue request resumes with the saved context unchanged and stepping disabled.
\<close>

theorem single_step_AARCH64:
  assumes "ag \<in> {agent_AARCH64_DXE env off ma, agent_AARCH64_MM env off smm, agent_AARCH64_PEI env off}"
    and "one_request (str ''vCont;s'') ag s" and "one_request (str ''vCont;c'') ag s'"
    and "esr_class off c \<in> {0x32, 0x33}"
  shows "\<exists>s2 s2'. DebuggerExceptionHandler_AARCH64 wd off ag c s = Some (Inr s2) \<and>
    (let spsr = ctx_get64 (gSystemContext s2) (off A_SPSR) in bit spsr 21 \<and> \<not> bit spsr 9 \<and>
       gSystemContext s2 = ctx_set64 c (off A_SPSR) spsr) \<and>
    MDSCR_EL1 (world s2) AND (MDSCR_SS OR MDSCR_MDE OR MDSCR_KDE) = MDSCR_SS OR MDSCR_MDE OR MDSCR_KDE \<and>
    memory (world s2) = memory (world s) \<and> gRunning s2 \<and>
    DebuggerExceptionHandler_AARCH64 wd off ag c s' = Some (Inr s2') \<and> gSystemContext s2' = c \<and>
    MDSCR_EL1 (world s2') AND MDSCR_SS = 0 \<and> memory (world s2') = memory (world s') \<and> gRunning s2'"
proof -
  have clk: "stub_clock ag CounterFreq"
    using assms(1) aarch64_dxe_clock.stub_clock_axioms aarch64_mm_clock.stub_clock_axioms
      aarch64_pei_clock.stub_clock_axioms by blast
  let ?w = "\<lambda>s :: 'a aarch64 gdb. ((world s)\<lparr>plat := snd (WatchdogSuspend wd (plat (world s)))\<rparr>)
      \<lparr>MDSCR_EL1 := MDSCR_EL1 (world s) AND NOT MDSCR_SS\<rparr>"
  let ?info = "\<lparr>ExceptionType = ExceptionDebugStep, ExceptionAddress = ctx_get64 c (off A_ELR),
      ArchExceptionCode = esr_class off c\<rparr>"
  have e: "DebuggerExceptionHandler_AARCH64_entry off c ((world s)\<lparr>plat := snd (WatchdogSuspend wd (plat (world s)))\<rparr>) =
      (esr_class off c, ?info, ?w s)" for s
    by (simp add: entry_AARCH64(2) [OF assms(4)])
  have nb: "esr_class off c \<noteq> 0x3c" using assms(4) by auto
  obtain c' w' where arm: "ag_AddSingleStep ag c (?w s) = (c', w')" by fastforce
  then have c': "c' = ctx_set64 c (off A_SPSR) ((ctx_get64 c (off A_SPSR) AND NOT 0x200) OR 0x200000)"
    and w': "w' = (?w s)\<lparr>MDSCR_EL1 := MDSCR_EL1 (?w s) OR (MDSCR_SS OR MDSCR_MDE OR MDSCR_KDE)\<rparr>"
    using assms(1) by (auto simp: agent_defs AddSingleStep_AARCH64_def Let_def)
  obtain s1 where s1: "ReportEntryToDebugger ag ?info c (s\<lparr>world := ?w s\<rparr>) = Some (Inr s1)"
    "gSystemContext s1 = c'" "world s1 = w'" "gRunning s1"
    using stub_clock.step_outcome [OF clk assms(2) _ arm, where info = ?info] by auto
  obtain s1' where s1': "ReportEntryToDebugger ag ?info c (s'\<lparr>world := ?w s'\<rparr>) = Some (Inr s1')"
    "gSystemContext s1' = c" "world s1' = ?w s'" "gRunning s1'"
    using stub_clock.continue_outcome [OF clk assms(3), of "?w s'"] by auto
  have bits: "(v OR x) AND x = x" "(v AND NOT x) AND x = 0" for v x :: u64
    by (rule bit_word_eqI, auto simp: bit_simps)+
  have "bit ((v AND NOT 0x200) OR 0x200000) 21" "\<not> bit ((v AND NOT 0x200) OR 0x200000) 9" for v :: u64
    by (simp_all add: bit_simps)
  then show ?thesis
    unfolding handler_AARCH64 [OF e s1(1)] handler_AARCH64 [OF e s1'(1)]
    using s1(2-4) s1'(2-4) nb by (simp add: c' w' bits Let_def)
qed

theorem single_step_AARCH64_witness:
  "\<exists>s2. DebuggerExceptionHandler_AARCH64 sample_watchdog sample_AARCH64 sample_dxe_arm (esr_context 0x32)
      (sample_gdb (map Some (frame (str ''vCont;s''))) sample_aarch64) = Some (Inr s2) \<and> gRunning s2"
proof -
  have cls: "esr_class sample_AARCH64 (esr_context 0x32) \<in> {0x32, 0x33}" by (simp add: esr_context_class)
  show ?thesis
    using single_step_AARCH64 [OF insertI1 sample_request(2) [OF resume_length(2)] sample_request(2) [OF resume_length(1)] cls, of sample_watchdog] by blast
qed


text \<open>
  C21. System registers on AARCH64, from the assembly: whatever the exception level, every
  routine that reads a register returns the field of the machine that the C code's model
  reads, with the translation base masked to 48 bits; every routine that writes one changes
  that field and no other; and the entries of \<open>DebugWatchpointRegisters\<close> reach the value and
  the control register of their own index.
\<close>

theorem system_registers_AARCH64:
  assumes "reflects c m" and "i < length DebugWatchpointRegisters"
  shows "(\<forall>(p, f) \<in> {(DebugReadMdscrEl1, MDSCR_EL1), (DebugReadOslsrEl1, OSLSR_EL1), (DebugReadDaif, DAIF),
        (DebugGetTCR, TCR), (DebugGetTTBR0BaseAddress, TTBR0),
        (ReadValue (DebugWatchpointRegisters ! i), \<lambda>m. fst (DBGW m ! i)),
        (ReadControl (DebugWatchpointRegisters ! i), \<lambda>m. snd (DBGW m ! i))}. reads_field p f c m) \<and>
    writes_field DebugWriteMdscrEl1 (\<lambda>v m. m\<lparr>MDSCR_EL1 := v\<rparr>) c m \<and>
    writes_field DebugWriteDaif (\<lambda>v m. m\<lparr>DAIF := v\<rparr>) c m \<and>
    (GPR c X0 = 0 \<longrightarrow> writes_field DebugWriteOslarEl1 (\<lambda>v. DebugWriteOslarEl1_0) c m) \<and>
    writes_field (WriteValue (DebugWatchpointRegisters ! i))
      (\<lambda>v m. m\<lparr>DBGW := (DBGW m)[i := (v, snd (DBGW m ! i))]\<rparr>) c m \<and>
    writes_field (WriteControl (DebugWatchpointRegisters ! i))
      (\<lambda>v m. m\<lparr>DBGW := (DBGW m)[i := (fst (DBGW m ! i), v)]\<rparr>) c m"
  using reads_registers [OF assms(1)] writes_registers [OF assms(1)] watchpoint_registers [OF assms(1)] assms(2)
  by (simp add: length_DebugWatchpointRegisters)

theorem system_registers_AARCH64_witness:
  "reflects \<lparr>GPR = \<lambda>_. 0, LT = False, SYS = (\<lambda>_. 0)(CurrentEL := 8, tcr_el1 := 5, tcr_el2 := 16)\<rparr>
      (sample_aarch64\<lparr>TCR := 16\<rparr>) \<and>
    reads_field DebugGetTCR TCR \<lparr>GPR = \<lambda>_. 0, LT = False, SYS = (\<lambda>_. 0)(CurrentEL := 8, tcr_el1 := 5, tcr_el2 := 16)\<rparr>
      (sample_aarch64\<lparr>TCR := 16\<rparr>)"
proof -
  let ?c = "\<lparr>GPR = \<lambda>_. 0, LT = False, SYS = (\<lambda>_. 0)(CurrentEL := 8, tcr_el1 := 5, tcr_el2 := 16)\<rparr>"
  have "[0..<MAX_WATCHPOINTS] = [0, 1, 2, 3]" by (simp add: MAX_WATCHPOINTS_def upt_rec)
  moreover have "replicate 4 (0, 0) = [(0, 0), (0, 0), (0, 0), (0 :: u64, 0 :: u64)]" by (simp add: eval_nat_numeral)
  ultimately have r: "reflects ?c (sample_aarch64\<lparr>TCR := 16\<rparr>)"
    by (simp add: reflects_def sample_aarch64_def)
  moreover have "0 < length DebugWatchpointRegisters" by (simp add: DebugWatchpointRegisters_def)
  ultimately show ?thesis
    using system_registers_AARCH64 [of ?c "sample_aarch64\<lparr>TCR := 16\<rparr>" 0] by simp
qed

section \<open>Waiting\<close>



text \<open>
  C23. Without a timeout the stub never resumes on its own: an entry from any exception, with
  nobody on the wire, does not return, whatever the clock does. The same holds of a
  breakpoint when no timeout is armed.
\<close>

theorem stop_waits_for_debugger:
  assumes "ExceptionType info \<noteq> ExceptionBreakpoint \<or> mNextBreakpointTimeout s = 0" and "silent s"
  shows "ReportEntryToDebugger ag info c s = None"
  by (rule ReportEntryToDebugger_waits [OF assms])

theorem stop_waits_for_debugger_witness:
  "ReportEntryToDebugger sample_dxe sample_step (\<lambda>_. 0) (sample_gdb [None, None] sample_x64) = None"
proof -
  have "silent (sample_gdb [None, None] sample_x64)" by (simp add: silent_def)
  from stop_waits_for_debugger [OF _ this] show ?thesis by (simp add: sample_step_def)
qed

text \<open>
  C24. The request loops end: when the clock runs, \<open>ProcessInputData\<close> and the input loop of the
  entry return (or stop) for every input, complete or not, correct or not; and a run that
  starts with a byte pending consumes input. In all six builds.
\<close>

theorem request_loops_end:
  assumes "ag \<in> {agent_X64_DXE env off ma, agent_X64_MM env off smm, agent_X64_PEI env off}"
    and "arm \<in> {agent_AARCH64_DXE env' off' ma', agent_AARCH64_MM env' off' smm', agent_AARCH64_PEI env' off'}"
    and "waits_end ag s" and "waits_end arm t"
  shows "(\<exists>res. ProcessInputData ag s = Some res) \<and> (\<exists>res. ReportEntryToDebugger_input ag s = Some res) \<and>
    (\<exists>res. ProcessInputData arm t = Some res) \<and> (\<exists>res. ReportEntryToDebugger_input arm t = Some res) \<and>
    (\<forall>b r s'. rx s = Some b # r \<and> ProcessInputData ag s = Some (Inr s') \<longrightarrow> length (rx s') < length (rx s)) \<and>
    (\<forall>b r t'. rx t = Some b # r \<and> ProcessInputData arm t = Some (Inr t') \<longrightarrow> length (rx t') < length (rx t))"
proof -
  have clk: "stub_clock ag mPerformanceCounterFreq"
    using assms(1) x64_dxe_clock.stub_clock_axioms x64_mm_clock.stub_clock_axioms
      x64_pei_clock.stub_clock_axioms by blast
  have clk': "stub_clock arm CounterFreq"
    using assms(2) aarch64_dxe_clock.stub_clock_axioms aarch64_mm_clock.stub_clock_axioms
      aarch64_pei_clock.stub_clock_axioms by blast
  show ?thesis
    using stub_clock.ProcessInputData_ends [OF clk assms(3), unfolded ends_within_def]
      stub_clock.ProcessInputData_ends [OF clk' assms(4), unfolded ends_within_def]
      stub_clock.ReportEntryToDebugger_input_ends [OF clk assms(3)]
      stub_clock.ReportEntryToDebugger_input_ends [OF clk' assms(4)]
    by (intro conjI allI impI) (blast dest: ProcessInputData_consumes)+
qed

theorem request_loops_end_witness:
  "\<exists>res. ProcessInputData sample_dxe (sample_gdb [Some 36, None, Some 3] sample_x64) = Some res"
proof -
  have w: "waits_end sample_dxe (sample_gdb [Some 36, None, Some 3] sample_x64)"
    "waits_end sample_dxe_arm (sample_gdb [] sample_aarch64)" by (simp_all add: sample_clock_runs)
  show ?thesis using request_loops_end [OF insertI1 insertI1 w] by blast
qed

text \<open>
  C25. Polling while the target runs: bytes up to the first break character are discarded,
  the break character enters the debugger with the reason set to a debugger break, after
  which polling goes on; without one, everything pending is drained and the stub's state is
  otherwise unchanged. \<open>cpu\<close> is the effect of the breakpoint instruction.
\<close>

theorem poll_breaks_on_control_c:
  assumes "clock_total ag (world s)" and "3 \<notin> set xs"
  shows "(rx s = map Some xs @ Some 3 # r \<longrightarrow> DebuggerPollInput cpu ag s =
      obind (DebuggerBreak cpu BreakpointReasonDebuggerBreak
          (s\<lparr>rx := r, clock_reads := clock_reads s + length xs + 1\<rparr>)) (DebuggerPollInput cpu ag)) \<and>
    (rx s = map Some xs \<longrightarrow> DebuggerPollInput cpu ag s =
      Some (Inr (s\<lparr>rx := [], clock_reads := clock_reads s + length xs\<rparr>)))"
proof (intro conjI impI)
  assume rx: "rx s = map Some xs @ Some 3 # r"
  let ?s1 = "s\<lparr>rx := Some 3 # r, clock_reads := clock_reads s + length xs\<rparr>"
  have "DebuggerPollInput cpu ag s = DebuggerPollInput cpu ag ?s1"
    using DebuggerPollInput_discards [OF assms rx] .
  then show "DebuggerPollInput cpu ag s =
      obind (DebuggerBreak cpu BreakpointReasonDebuggerBreak
          (s\<lparr>rx := r, clock_reads := clock_reads s + length xs + 1\<rparr>)) (DebuggerPollInput cpu ag)"
    using DebuggerPollInput_break [of ag ?s1 r cpu] assms(1) by simp
next
  assume "rx s = map Some xs"
  then have rx: "rx s = map Some xs @ []" by simp
  show "DebuggerPollInput cpu ag s = Some (Inr (s\<lparr>rx := [], clock_reads := clock_reads s + length xs\<rparr>))"
    unfolding DebuggerPollInput_discards [OF assms rx] by (subst DebuggerPollInput_idle) simp_all
qed

theorem poll_breaks_on_control_c_witness:
  "DebuggerPollInput (\<lambda>s. Some (Inr s)) sample_dxe (sample_gdb [Some 43, Some 36] sample_x64) =
     Some (Inr ((sample_gdb [Some 43, Some 36] sample_x64)\<lparr>rx := [], clock_reads := 2\<rparr>))"
  using poll_breaks_on_control_c [of sample_dxe "sample_gdb [Some 43, Some 36] sample_x64" "[43, 36]"]
  by (simp add: sample_clock_total)





text \<open>
  C28. Retransmission: while the last packet is not acknowledged, a minus sends exactly that
  packet again; a plus acknowledges it, and any other byte outside a packet is ignored, in
  both cases without sending anything. The packet kept for this is never changed.
\<close>

theorem retransmission:
  assumes "clock_total ag (world s)" and "rx s = Some b # r" and "b \<noteq> 36"
    and "mResponseFull s = frame body" and "\<not> mResponseAcknowledged s"
  shows "\<exists>m. ProcessInputData ag s = ProcessInputData_loop ag m
    (s\<lparr>rx := r, clock_reads := clock_reads s + 1,
       tx := tx s @ (if b = 45 then frame body else []), mResponseAcknowledged := (b = 43)\<rparr>)"
proof (intro exI [of _ "(replicate MAX_REQUEST_SIZE 0)[0 := b]"])
  have len: "4 \<le> length (mResponseFull s)" using assms(4) by simp
  show "ProcessInputData ag s = ProcessInputData_loop ag ((replicate MAX_REQUEST_SIZE 0)[0 := b])
    (s\<lparr>rx := r, clock_reads := clock_reads s + 1,
       tx := tx s @ (if b = 45 then frame body else []), mResponseAcknowledged := (b = 43)\<rparr>)"
    using ProcessInputData_loop_read [OF assms(1-3)] assms(4,5) len
    by (simp add: ProcessInputData_def Let_def SendGdbResponse_resend, cases s, simp)
qed

theorem retransmission_witness:
  "\<exists>m. ProcessInputData sample_dxe ((sample_gdb [Some 45] sample_x64)
      \<lparr>mResponseFull := frame (str ''OK''), mResponseAcknowledged := False\<rparr>) =
    ProcessInputData_loop sample_dxe m ((sample_gdb [] sample_x64)
      \<lparr>mResponseFull := frame (str ''OK''), mResponseAcknowledged := False, tx := frame (str ''OK''), clock_reads := 1\<rparr>)"
  using retransmission [of sample_dxe "(sample_gdb [Some 45] sample_x64)
      \<lparr>mResponseFull := frame (str ''OK''), mResponseAcknowledged := False\<rparr>" 45 "[]" "str ''OK''"]
  by (simp add: sample_clock_total sample_gdb_def)


section \<open>Other commands\<close>



text \<open>
  C30. A reboot armed by the monitor command happens on the next continue: in the DXE builds
  the entry ends in a system reset; in those of MM and PEI, whose reboot routine is empty,
  the target resumes as if none had been armed. On both architectures.
\<close>

theorem reboot_on_continue:
  assumes "ag \<in> {agent_X64_DXE env off ma, agent_X64_MM env off smm, agent_X64_PEI env off}"
    and "arm \<in> {agent_AARCH64_DXE env' off' ma', agent_AARCH64_MM env' off' smm', agent_AARCH64_PEI env' off'}"
    and "one_request (str ''vCont;c'') ag (s\<lparr>mRebootOnContinue := False\<rparr>)" and "mRebootOnContinue s"
    and "one_request (str ''vCont;c'') arm (t\<lparr>mRebootOnContinue := False\<rparr>)" and "mRebootOnContinue t"
  shows "(ag = agent_X64_DXE env off ma \<longrightarrow> ReportEntryToDebugger ag info c s = Some (Inl SystemReset)) \<and>
    (arm = agent_AARCH64_DXE env' off' ma' \<longrightarrow> ReportEntryToDebugger arm info c t = Some (Inl SystemReset)) \<and>
    (ag \<in> {agent_X64_MM env off smm, agent_X64_PEI env off} \<longrightarrow>
      (\<exists>s'. ReportEntryToDebugger ag info c s = Some (Inr s') \<and>
         gSystemContext s' = c \<and> world s' = world s \<and> gRunning s')) \<and>
    (arm \<in> {agent_AARCH64_MM env' off' smm', agent_AARCH64_PEI env' off'} \<longrightarrow>
      (\<exists>t'. ReportEntryToDebugger arm info c t = Some (Inr t') \<and>
         gSystemContext t' = c \<and> world t' = world t \<and> gRunning t'))"
proof -
  have clk: "stub_clock ag mPerformanceCounterFreq"
    using assms(1) x64_dxe_clock.stub_clock_axioms x64_mm_clock.stub_clock_axioms
      x64_pei_clock.stub_clock_axioms by blast
  have clk': "stub_clock arm CounterFreq"
    using assms(2) aarch64_dxe_clock.stub_clock_axioms aarch64_mm_clock.stub_clock_axioms
      aarch64_pei_clock.stub_clock_axioms by blast
  have boot: "ag_DebugReboot (agent_X64_DXE env off ma) w = Inl SystemReset"
      "ag_DebugReboot (agent_X64_MM env off smm) w = Inr w" "ag_DebugReboot (agent_X64_PEI env off) w = Inr w"
      "ag_DebugReboot (agent_AARCH64_DXE env' off' ma') v = Inl SystemReset"
      "ag_DebugReboot (agent_AARCH64_MM env' off' smm') v = Inr v" "ag_DebugReboot (agent_AARCH64_PEI env' off') v = Inr v" for w v
    by (simp_all add: agent_defs DebugReboot_DXE_def DebugReboot_MM_def DebugReboot_PEI_def)
  show ?thesis
    using stub_clock.reboot_outcome [OF clk assms(3,4), of info c]
      stub_clock.reboot_outcome [OF clk' assms(5,6), of info c] boot by auto
qed

theorem reboot_on_continue_witness:
  "ReportEntryToDebugger sample_dxe sample_step (\<lambda>_. 0)
     ((sample_gdb (map Some (frame (str ''vCont;c''))) sample_x64)\<lparr>mRebootOnContinue := True\<rparr>) = Some (Inl SystemReset)"
proof -
  let ?s = "\<lambda>w. (sample_gdb (map Some (frame (str ''vCont;c''))) w)\<lparr>mRebootOnContinue := True\<rparr>"
  have r: "one_request (str ''vCont;c'') sample_dxe (?s sample_x64\<lparr>mRebootOnContinue := False\<rparr>)"
    "one_request (str ''vCont;c'') sample_dxe_arm (?s sample_aarch64\<lparr>mRebootOnContinue := False\<rparr>)"
    by (simp_all add: one_request_def sample_lib sample_clock_total sample_clock_runs str_def)
  have b: "mRebootOnContinue (?s sample_x64)" "mRebootOnContinue (?s sample_aarch64)" by simp_all
  show ?thesis using reboot_on_continue [OF insertI1 insertI1 r(1) b(1) r(2) b(2)] by blast
qed

text \<open>
  C31. A read of more than 1024 bytes, which the advertised packet size allows, leaves the
  scratch buffer: as soon as the first chunk has been read, the loop that prints it runs to
  the full length. For every build, whatever the address.
\<close>

theorem long_read_out_of_bounds:
  assumes "lib_ok (ag_lib ag)" and "numeral_of da A" and "numeral_of dl L"
    and "SCRATCH_SIZE < L" and "\<not> windbg_page ag (of_nat A) (of_nat SCRATCH_SIZE)"
    and "ag_DbgReadMemory ag (of_nat A) SCRATCH_SIZE (world s) = (True, bs, w')"
  shows "ExecuteGdbCommand ag (109 # da @ 44 # dl @ 0 # r) (length da + length dl + 2) s = Inl OutOfBounds"
proof -
  have scan: "ScanMem8 (da @ 44 # dl @ 0 # r) (length da + length dl + 1) 44 = Some (length da)"
    using numeral_of_notin [OF assms(2)] by (intro ScanMem8_first) auto
  have L: "unat (of_nat L :: u64) = L" by (rule unat_numeral [OF assms(3)])
  have "min (of_nat L :: u64) (of_nat SCRATCH_SIZE) = of_nat SCRATCH_SIZE" "(of_nat L :: u64) \<noteq> 0"
    using L assms(4) by (auto simp: min_def word_le_nat_alt SCRATCH_SIZE_def)
  moreover have "unat (of_nat SCRATCH_SIZE :: u64) = SCRATCH_SIZE" by (simp add: SCRATCH_SIZE_def)
  ultimately have "ProcessMemoryCommand_loop ag False (of_nat A) (of_nat L) V [] (world s) = Inl OutOfBounds" for V
    using assms(4-6) L by (subst ProcessMemoryCommand_loop.simps) (simp add: Let_def)
  then show ?thesis
    using numeral_of_Uint64S [OF assms(2,1)] numeral_of_Uint64S [OF assms(3,1)]
    by (simp add: ExecuteGdbCommand_simps ProcessMemoryCommand_def scan [simplified])
qed

theorem long_read_out_of_bounds_witness:
  "ExecuteGdbCommand sample_dxe (109 # str ''1000'' @ 44 # str ''401'' @ 0 # [])
     (length (str ''1000'') + length (str ''401'') + 2) (sample_gdb [] sample_x64) = Inl OutOfBounds"
proof -
  have n: "numeral_of (str ''1000'') 0x1000" "numeral_of (str ''401'') 0x401"
    by (simp_all add: numeral_of_def str_def is_hex_def hex_val_def hex_digit_def)
  obtain ok bs w' where rd: "AccessMemory_DXE (Some table_services) (\<lambda>a w. IsPageReadable_X64 w a)
      (\<lambda>a w. IsPageWritable_X64 w a) 0x1000 [] SCRATCH_SIZE False sample_x64 = (ok, bs, w')"
    by (metis prod_cases3)
  then have "ok" using table_services_access [OF sample_x64_unprotected rd] by blast
  with rd have "ag_DbgReadMemory sample_dxe (of_nat 0x1000) SCRATCH_SIZE (world (sample_gdb [] sample_x64)) = (True, bs, w')"
    by (simp add: agent_defs DbgReadMemory_DXE_def)
  then show ?thesis
    using long_read_out_of_bounds [OF sample_lib(1) n, of "sample_gdb [] sample_x64"]
    by (simp add: SCRATCH_SIZE_def windbg_page_def agent_defs sample_env_def)
qed

text \<open>
  C32. Malformed memory requests change nothing: without a comma, and in a write without a
  colon, the answer is error 04; a write whose length does not match its data, modulo 2^64,
  stops at an assertion in builds that have them and is answered with error 04 in others.
\<close>

theorem malformed_memory_request:
  assumes "lib_ok (ag_lib ag)" and "numeral_of da A" and "numeral_of dl L"
    and "0 \<notin> set data" and "of_nat (length data) \<noteq> (of_nat (2 * L) :: u64)"
    and "44 \<notin> set C" and "58 \<notin> set C" and "58 \<notin> set D"
  shows "ExecuteGdbCommand ag (77 # da @ 44 # dl @ 58 # data @ 0 # r) (length da + length dl + length data + 3) s =
      (if ag_asserts ag then Inl AssertFailed else Inr (responded (error_text GDB_ERROR_BAD_REQUEST) s)) \<and>
    ExecuteGdbCommand ag (109 # C) n s = Inr (responded (error_text GDB_ERROR_BAD_REQUEST) s) \<and>
    ExecuteGdbCommand ag (77 # C) n s = Inr (responded (error_text GDB_ERROR_BAD_REQUEST) s) \<and>
    ExecuteGdbCommand ag (77 # C @ 44 # D) n s = Inr (responded (error_text GDB_ERROR_BAD_REQUEST) s)"
proof -
  let ?bad = "Inr (responded (error_text GDB_ERROR_BAD_REQUEST) s)"
  have bad: "SendGdbError ag GDB_ERROR_BAD_REQUEST s = ?bad" by (rule SendGdbError_eq)
  have no_comma: "ProcessMemoryCommand ag W C k s = ?bad" for W k
  proof -
    have none: "ScanMem8 C k 44 = None" using assms(6) by (auto dest: in_set_takeD)
    show ?thesis unfolding ProcessMemoryCommand_def none by (simp add: bad)
  qed
  have no_colon: "ProcessMemoryCommand ag True (C @ 44 # D) k s = ?bad" for k
  proof (cases "ScanMem8 (C @ 44 # D) k 44")
    case (Some i)
    have "length C < k"
    proof (rule ccontr)
      assume "\<not> length C < k"
      then have "ScanMem8 (C @ 44 # D) k 44 = None" using assms(6) by (auto dest: in_set_takeD)
      with Some show False by simp
    qed
    then have "i = length C" using ScanMem8_first [of 44 C k D] assms(6) Some by simp
    have scan: "ScanMem8 (C @ 0 # D) k 58 = None" using assms(7,8) by (auto dest: in_set_takeD)
    show ?thesis using Some unfolding \<open>i = length C\<close> by (simp add: ProcessMemoryCommand_def Let_def scan bad)
  next
    case None
    show ?thesis unfolding ProcessMemoryCommand_def None by (simp add: bad)
  qed
  have mis: "ProcessMemoryCommand ag True (da @ 44 # dl @ 58 # data @ 0 # r)
      (length da + length dl + length data + 3 - 1) s = (if ag_asserts ag then Inl AssertFailed else ?bad)"
    by (rule ProcessMemoryCommand_write_mismatch [OF assms(1-5)]) simp
  show ?thesis
    unfolding ExecuteGdbCommand_simps no_comma no_colon mis by simp
qed

theorem malformed_memory_request_witness:
  "ExecuteGdbCommand sample_dxe (77 # str ''10'' @ 44 # str ''2'' @ 58 # str ''ab'' @ 0 # []) 8 (sample_gdb [] sample_x64) =
     Inl AssertFailed"
proof -
  have n: "numeral_of (str ''10'') 0x10" "numeral_of (str ''2'') 2"
    by (simp_all add: numeral_of_def str_def is_hex_def hex_val_def hex_digit_def)
  have a: "ag_asserts sample_dxe" by (simp add: agent_defs sample_env_def)
  show ?thesis
    using malformed_memory_request [OF sample_lib(1) n, of "str ''ab''" "[]" "[]" "[]" "sample_gdb [] sample_x64"] a
    by (simp add: str_def)
qed

text \<open>
  C33. Resume packets: a continue request resumes without an answer, a step request arms a
  single step first, the question lists the actions, any other gets the empty answer. The
  name is compared on its own length only, so every prefix of \<open>Cont\<close> is taken for it: the
  request \<open>v;c\<close> resumes as well.
\<close>

theorem resume_packets:
  assumes "59 \<notin> set name" and "63 \<notin> set name" and "0 \<notin> set name" and "length name + 1 < n"
  shows "ExecuteGdbCommand ag (118 # name @ 59 # c # r) n s =
    (if prefix name (str ''Cont'') \<and> c = 99 then Inr (s\<lparr>gRunning := True\<rparr>)
     else if prefix name (str ''Cont'') \<and> c = 115 then
       (case ag_AddSingleStep ag (gSystemContext s) (world s) of (ctx', w') \<Rightarrow>
          Inr (s\<lparr>gSystemContext := ctx', world := w', gRunning := True\<rparr>))
     else Inr (responded (str '''') s)) \<and>
    ExecuteGdbCommand ag (118 # name @ 63 # c # r) n s =
      Inr (responded (if prefix name (str ''Cont'') then str ''vCont;c;C;s;S'' else str '''') s)"
proof -
  have p: "name = take (length name) (str ''Cont'') \<longleftrightarrow> prefix name (str ''Cont'')"
    by (metis prefix_def append_eq_conv_conj append_take_drop_id)
  have n: "length name < n - 1" using assms(4) by simp
  show ?thesis
    unfolding ExecuteGdbCommand_simps ProcessVCommand_eq [OF assms(1-3) disjI1 [OF refl] n]
      ProcessVCommand_eq [OF assms(1-3) disjI2 [OF refl] n] p
    by simp
qed

theorem resume_packets_witness:
  "ExecuteGdbCommand sample_dxe (118 # [] @ 59 # 99 # 0 # []) 3 (sample_gdb [] sample_x64) =
     Inr ((sample_gdb [] sample_x64)\<lparr>gRunning := True\<rparr>)"
  using resume_packets [of "[]" 3 sample_dxe 99 "[0]" "sample_gdb [] sample_x64"] by simp



section \<open>Start-up\<close>



text \<open>
  C35. From configuration to debugger: with source debugging enabled, the PEI module leaves a
  HOB with the configured flags, the timeout and the measured frequency; DXE on X64, reading
  it, initialises the debug registers with that frequency, installs its handlers and takes
  the flags over, and takes the initial breakpoint exactly when its flag is set, with the
  configured timeout.
\<close>

theorem configuration_reaches_dxe:
  assumes "bit flags 1" and "\<not> ib_PcdForceEnableDebugger b"
    and "ib_DebugArchInit b = (\<lambda>h. DebugArchInit_X64 (PerformanceCounterFreq h))"
    and "DebugTransportInitialize (ib_services b) (dxe_plat d) = (True, p1)"
    and "DebugAgentExceptionInitialize_DXE (ib_asserts b) (ib_services b) (ib_mArchExceptionTypes b)
      (gCpu d) p1 = Inr (True, p2)"
  shows "\<exists>h d4. DebugConfigPeiEntry (ArchDebugConfig_X64 t0 t1) flags T True True [] = (True, [h]) \<and>
    InitializeDebugAgent_DXE b DEBUG_AGENT_INIT_DXE_CORE (Some h) d =
      (if bit flags 0
       then obind (DebuggerInitialBreakpoint (ib_CpuBreakpoint b) T (stub d4)) (\<lambda>s. Some (Inr (d4\<lparr>stub := s\<rparr>)))
       else Some (Inr d4)) \<and>
    mDebuggerInitialized d4 \<and> mDisablePolling d4 = bit flags 3 \<and> dxe_plat d4 = p2 \<and>
    mPerformanceCounterFreq (world (stub d4)) = t1 - t0 \<and> x64_slots (world (stub d4)) = replicate 4 None \<and>
    memory (world (stub d4)) = memory (world (stub d))"
proof -
  define h where "h = \<lparr>Control = flags, PerformanceCounterFreq = t1 - t0, InitialBreakpointTimeout = T\<rparr>"
  define w where "w = DebugArchInit_X64 (t1 - t0) ((world (stub d))\<lparr>plat := p1\<rparr>)"
  define d4 where "d4 = (set_plat p2 (d\<lparr>stub := (stub d)\<lparr>world := w\<rparr>\<rparr>))
    \<lparr>mDebuggerInitialized := True, mDisablePolling := bit flags 3\<rparr>"
  have h: "DebugConfigPeiEntry (ArchDebugConfig_X64 t0 t1) flags T True True [] = (True, [h])"
    by (simp add: DebugConfigPeiEntry_def ArchDebugConfig_X64_def h_def)
  have w: "plat w = p1" "memory w = memory (world (stub d))" "mPerformanceCounterFreq w = t1 - t0"
    by (simp_all add: w_def DebugArchInit_X64_def)
  have slots: "x64_slots (w\<lparr>plat := p\<rparr>) = replicate 4 None" for p
  proof -
    have "x64_slots (w\<lparr>plat := p\<rparr>) = x64_slots w" by (simp add: x64_slots_def)
    then show ?thesis unfolding w_def DebugArchInit_X64_slots by (simp add: numeral_eq_Suc)
  qed
  have "debug_config (ib_PcdForceEnableDebugger b) DefaultDebugConfig_DXE DxeDebugEnabled (Some h) = Some h"
    using assms(1,2) by (simp add: debug_config_def DxeDebugEnabled_def h_def)
  then have init: "InitializeDebugAgent_DXE b DEBUG_AGENT_INIT_DXE_CORE (Some h) d =
      (if bit flags 0
       then obind (DebuggerInitialBreakpoint (ib_CpuBreakpoint b) T (stub d4)) (\<lambda>s. Some (Inr (d4\<lparr>stub := s\<rparr>)))
       else Some (Inr d4))"
    using assms(3-5) w(1)
    by (simp add: InitializeDebugAgent_DXE_def dxe_service_eq Let_def set_plat_def d4_def w_def h_def
        InitialBreakpoint_def DisablePolling_def cong: if_cong)
  have "mDebuggerInitialized d4" "mDisablePolling d4 = bit flags 3" "dxe_plat d4 = p2"
    "mPerformanceCounterFreq (world (stub d4)) = t1 - t0" "x64_slots (world (stub d4)) = replicate 4 None"
    "memory (world (stub d4)) = memory (world (stub d))"
    using w slots by (simp_all add: d4_def)
  then show ?thesis using h init by blast
qed

theorem configuration_reaches_dxe_witness:
  "\<exists>d4. InitializeDebugAgent_DXE boot_build DEBUG_AGENT_INIT_DXE_CORE
      (Some \<lparr>Control = 2, PerformanceCounterFreq = 5, InitialBreakpointTimeout = 9\<rparr>) boot_agent = Some (Inr d4) \<and>
    dxe_plat d4 = set mArchExceptionTypes_X64 \<and> mPerformanceCounterFreq (world (stub d4)) = 5"
proof -
  have t: "DebugTransportInitialize (ib_services boot_build) (dxe_plat boot_agent) = (True, {})"
    by (simp add: boot_build_def sample_services_def boot_agent_def dxe_plat_def boot_x64_def)
  have a: "ib_asserts boot_build = True" "\<not> ib_PcdForceEnableDebugger boot_build"
    "ib_DebugArchInit boot_build = (\<lambda>h. DebugArchInit_X64 (PerformanceCounterFreq h))"
    by (simp_all add: boot_build_def)
  have i: "DebugAgentExceptionInitialize_DXE (ib_asserts boot_build) (ib_services boot_build)
      (ib_mArchExceptionTypes boot_build) (gCpu boot_agent) {} = Inr (True, set mArchExceptionTypes_X64)"
    unfolding a(1) boot_install by simp
  have f: "bit (2 :: u32) 1" "\<not> bit (2 :: u32) 0" "\<not> bit (2 :: u32) 3" by simp_all
  obtain h d4 where "DebugConfigPeiEntry (ArchDebugConfig_X64 10 15) 2 9 True True [] = (True, [h])"
    "InitializeDebugAgent_DXE boot_build DEBUG_AGENT_INIT_DXE_CORE (Some h) boot_agent = Some (Inr d4)"
    "dxe_plat d4 = set mArchExceptionTypes_X64" "mPerformanceCounterFreq (world (stub d4)) = 15 - 10"
    using configuration_reaches_dxe [OF f(1) a(2,3) t i, of 10 15 9] f(2) by auto
  then show ?thesis by (auto simp: DebugConfigPeiEntry_def ArchDebugConfig_X64_def)
qed

text \<open>
  C36. The handlers of an initialised DXE debugger stay installed: over every sequence of
  entries, protocol notifications, module loads and timer ticks that does not shut it down,
  with any number of breakpoints taken on the way, in builds with assertions. In particular
  the handover from the early registration to the CPU protocol loses none.
\<close>

theorem handlers_stay_installed:
  assumes "keeps_handlers b installed" and "registries_ok (ib_services b) installed" and "ib_asserts b"
    and "set es \<inter> {Entry DEBUG_AGENT_INIT_TERMINATE, Exit_boot_services} = {}"
    and "dxe_run nf b hob es d = Some (Inr d')" and "\<not> mDebuggerInitialized d"
  shows "mDebuggerInitialized d' \<longrightarrow> set (ib_mArchExceptionTypes b) \<subseteq> installed (dxe_plat d')"
  using run_hooked [OF assms(1-5)] assms(6) by (simp add: hooked_def)

theorem handlers_stay_installed_witness:
  "\<exists>d'. dxe_run boot_notifications boot_build (Some \<lparr>Control = 2, PerformanceCounterFreq = 5, InitialBreakpointTimeout = 9\<rparr>)
      [Entry DEBUG_AGENT_INIT_DXE_CORE, Notify_CpuArch] boot_agent = Some (Inr d') \<and>
    (mDebuggerInitialized d' \<longrightarrow> set mArchExceptionTypes_X64 \<subseteq> dxe_plat d')"
proof -
  let ?hob = "Some \<lparr>Control = 2, PerformanceCounterFreq = 5, InitialBreakpointTimeout = 9\<rparr>"
  let ?es = "[Entry DEBUG_AGENT_INIT_DXE_CORE, Notify_CpuArch]"
  have a: "ib_asserts boot_build" by (simp add: boot_build_def)
  have i: "DebugAgentExceptionInitialize_DXE True (ib_services boot_build) (ib_mArchExceptionTypes boot_build) g p =
     Inr (True, p \<union> set mArchExceptionTypes_X64)" for g p by (rule boot_install)
  have "\<exists>d'. InitializeDebugAgent_DXE boot_build DEBUG_AGENT_INIT_DXE_CORE ?hob boot_agent = Some (Inr d')"
    using i a by (simp add: InitializeDebugAgent_DXE_def debug_config_def DxeDebugEnabled_def InitialBreakpoint_def
        dxe_service_eq split_beta Let_def) (simp add: boot_build_def sample_services_def)
  then obtain d1 where d1: "InitializeDebugAgent_DXE boot_build DEBUG_AGENT_INIT_DXE_CORE ?hob boot_agent = Some (Inr d1)" ..
  have "\<exists>d'. OnCpuArchProtocolNotification boot_build d1 = Inr d'"
    using i a by (simp add: OnCpuArchProtocolNotification_def dxe_service_eq split_beta Let_def)
  then have "\<exists>d'. dxe_run boot_notifications boot_build ?hob ?es boot_agent = Some (Inr d')"
    by (cases "nf_protocol boot_notifications CpuArchProtocol (dxe_plat d1)") (auto simp: d1)
  then obtain d' where run: "dxe_run boot_notifications boot_build ?hob ?es boot_agent = Some (Inr d')" ..
  have new: "set ?es \<inter> {Entry DEBUG_AGENT_INIT_TERMINATE, Exit_boot_services} = {}" "\<not> mDebuggerInitialized boot_agent"
    by (simp_all add: boot_agent_def)
  show ?thesis
    using run handlers_stay_installed [OF boot_keeps boot_registries a new(1) run new(2)] by (simp add: boot_build_def)
qed


text \<open>
  C37. Shut-down of the DXE debugger, by the terminating entry or when boot services exit:
  once the CPU protocol is known every debugger vector is removed and no other, but with
  only the early registration in place none is. Memory is left alone.
\<close>

theorem shutdown_removes_handlers:
  assumes "keeps_handlers b installed" and "registries_ok (ib_services b) installed" and "mDebuggerInitialized d"
  shows "\<exists>d'. InitializeDebugAgent_DXE b DEBUG_AGENT_INIT_TERMINATE hob d = Some (Inr d') \<and>
    OnExitBootServices b d = d' \<and>
    installed (dxe_plat d') =
      (if gCpu d then installed (dxe_plat d) - set (ib_mArchExceptionTypes b) else installed (dxe_plat d)) \<and>
    memory (world (stub d')) = memory (world (stub d))"
proof -
  have "memory (world (stub (OnExitBootServices b d))) = memory (world (stub d))"
    by (simp add: OnExitBootServices_def DebugAgentTimerDestroy_def Let_def set_plat_def split: option.split)
  then show ?thesis
    using OnExitBootServices_handlers [OF assms(1,2), of d] assms(3) by (simp add: InitializeDebugAgent_DXE_def)
qed

theorem shutdown_removes_handlers_witness:
  "dxe_plat (OnExitBootServices boot_build
     (set_plat {1, 3} (boot_agent\<lparr>gCpu := True, mDebuggerInitialized := True\<rparr>))) = {}"
proof -
  let ?d = "set_plat {1, 3} (boot_agent\<lparr>gCpu := True, mDebuggerInitialized := True\<rparr>)"
  have d: "mDebuggerInitialized ?d" "gCpu ?d" "dxe_plat ?d = {1, 3}" by simp_all
  have "{1, 3} - set (ib_mArchExceptionTypes boot_build) = {}"
    by (simp add: boot_build_def mArchExceptionTypes_X64_def EXCEPT_X64_DEBUG_def EXCEPT_X64_BREAKPOINT_def)
  then show ?thesis
    using shutdown_removes_handlers [OF boot_keeps boot_registries d(1)] d(2,3) by auto
qed

text \<open>
  C38. The life of the MM debugger, over every sequence of calls of its entry, with any input
  and any number of breakpoints taken on the way, in builds with assertions: until a start
  succeeds nothing is received or sent; from then on, as long as no call terminates it, every
  debugger vector has its handler; a call that terminates it removes them all. But the agent
  stays marked as initialised, so that the next SMI that finds a break character still
  executes a breakpoint instruction, which no handler of the debugger catches.
\<close>

theorem mm_agent_life_cycle:
  assumes "keeps_handlers b installed" and "registries_ok (ib_services b) installed" and "ib_asserts b"
    and "mm_run b hob fs d = Some (Inr d')" and "\<not> mm_mDebuggerInitialized d"
  shows "(\<not> mm_mDebuggerInitialized d' \<longrightarrow> same_talk (mm_stub d) (mm_stub d')) \<and>
    (mm_mDebuggerInitialized d' \<and> DEBUG_AGENT_INIT_TERMINATE \<notin> set fs \<longrightarrow>
       set (ib_mArchExceptionTypes b) \<subseteq> installed (mm_plat d')) \<and>
    (mm_mDebuggerInitialized d' \<and> suffix [DEBUG_AGENT_INIT_TERMINATE] fs \<longrightarrow>
       installed (mm_plat d') \<inter> set (ib_mArchExceptionTypes b) = {} \<and>
       (\<forall>r. clock_total (ib_agent b) (world (mm_stub d')) \<and> rx (mm_stub d') = Some 3 # r \<longrightarrow>
          InitializeDebugAgent_MM b DEBUG_AGENT_INIT_ENTER_SMI hob d' =
            obind (DebuggerBreak (ib_CpuBreakpoint b) BreakpointReasonDebuggerBreak
                ((mm_stub d')\<lparr>rx := r, clock_reads := Suc (clock_reads (mm_stub d'))\<rparr>))
              (\<lambda>s. obind (DebuggerPollInput (ib_CpuBreakpoint b) (ib_agent b) s)
                 (\<lambda>s. Some (Inr (d'\<lparr>mm_stub := s\<rparr>))))))"
  using mm_run_entries [OF assms(1-4)] mm_run_terminated [OF assms(1-3), of hob _ d d'] MM_break [of d' b] assms(4,5)
  by (auto simp: mm_hooked_def suffix_def)

theorem mm_agent_life_cycle_witness:
  "\<exists>d'. mm_run boot_build mm_config ([DEBUG_AGENT_INIT_SMM] @ [DEBUG_AGENT_INIT_TERMINATE]) mm_start = Some (Inr d') \<and>
    mm_mDebuggerInitialized d' \<and> mm_plat d' \<inter> set mArchExceptionTypes_X64 = {}"
proof -
  obtain d' where run: "mm_run boot_build mm_config ([DEBUG_AGENT_INIT_SMM] @ [DEBUG_AGENT_INIT_TERMINATE]) mm_start = Some (Inr d')"
    and on: "mm_mDebuggerInitialized d'" using mm_life by blast
  have a: "ib_asserts boot_build" "\<not> mm_mDebuggerInitialized mm_start" "ib_mArchExceptionTypes boot_build = mArchExceptionTypes_X64"
    by (simp_all add: boot_build_def mm_start_def)
  have "mm_plat d' \<inter> set (ib_mArchExceptionTypes boot_build) = {}"
    using mm_agent_life_cycle [OF boot_keeps boot_registries a(1) run a(2)] on by (simp add: suffix_def)
  with run on a(3) show ?thesis by auto
qed



text \<open>
  Memory in the MM build: on the documented attribute services every read of up to 1024
  bytes is answered with the bytes in memory and every write stores exactly the bytes sent,
  read protected and read-only pages included, and each leaves the protections as it found
  them.
\<close>

lemma mm_memory_commands:
  assumes "lib_ok (env_lib env)" and "numeral_of da A" and "numeral_of dl (length bs)"
    and "bs \<noteq> []" and "length bs \<le> SCRATCH_SIZE" and "\<not> env_WindbgWorkarounds env"
    and "attribute_services_ok ma attrs" and "attributes_set ma" and "attributes_known ma"
  shows "\<exists>w1 w2.
    ExecuteGdbCommand (agent_X64_MM env off ma) (109 # da @ 44 # dl @ 0 # r) (length da + length dl + 2) s =
      Inr (responded (hex_bytes (read_bytes (memory (world s)) (of_nat A) (length bs))) (s\<lparr>world := w1\<rparr>)) \<and>
    memory w1 = memory (world s) \<and> attrs (plat w1) = attrs (plat (world s)) \<and>
    ExecuteGdbCommand (agent_X64_MM env off ma) (77 # da @ 44 # dl @ 58 # hex_bytes bs @ 0 # r)
        (length da + length dl + 2 * length bs + 3) s = Inr (responded (str ''OK'') (s\<lparr>world := w2\<rparr>)) \<and>
    memory w2 = write_bytes (memory (world s)) (of_nat A) bs \<and> attrs (plat w2) = attrs (plat (world s))"
proof -
  let ?ag = "agent_X64_MM env off ma"
  have lib: "lib_ok (ag_lib ?ag)" and win: "\<not> windbg_page ?ag a l" for a l
    using assms(1,6) by (simp_all add: agent_defs windbg_page_def)
  have pos: "0 < length bs" using assms(4) by simp
  obtain ok1 out w1 where rd: "ag_DbgReadMemory ?ag (of_nat A) (length bs) (world s) = (ok1, out, w1)"
    by (metis prod_cases3)
  then have rd': "AccessMemory_MM ma (of_nat A) [] (length bs) False (world s) = (ok1, out, w1)"
    by (simp add: agent_defs DbgReadMemory_MM_def)
  obtain ok2 x w2 where acc: "AccessMemory_MM ma (of_nat A) bs (length bs) True (world s) = (ok2, x, w2)"
    by (metis prod_cases3)
  then have wr: "ag_DbgWriteMemory ?ag (of_nat A) bs (world s) = (ok2, w2)"
    by (simp add: agent_defs DbgWriteMemory_MM_def)
  have ok: "ok1" "ok2" and at: "attrs (plat w1) = attrs (plat (world s))" "attrs (plat w2) = attrs (plat (world s))"
    using MM_pages [OF assms(7,8) rd'] MM_pages [OF assms(7,8) acc] assms(9) by auto
  have ok2: "ok2 = True" using ok(2) by simp
  have out: "out = read_bytes (memory (world s)) (of_nat A) (length bs)"
    using x64_mm.rd_success rd ok(1) by simp
  have len: "length out \<le> length bs" using x64_mm.rd_length [OF rd] by simp
  have "ExecuteGdbCommand ?ag (109 # da @ 44 # dl @ 0 # r) (length da + length dl + 2) s =
      Inr (responded (hex_bytes out) (s\<lparr>world := w1\<rparr>))"
    using ProcessMemoryCommand_read [OF lib assms(2,3) pos assms(5) win rd len] ok(1)
    by (simp add: ExecuteGdbCommand_simps)
  moreover have "ExecuteGdbCommand ?ag (77 # da @ 44 # dl @ 58 # hex_bytes bs @ 0 # r)
      (length da + length dl + 2 * length bs + 3) s = Inr (responded (str ''OK'') (s\<lparr>world := w2\<rparr>))"
    using ProcessMemoryCommand_write [OF lib assms(2-5) wr, of "length da + length dl + 2 * length bs + 2" r] ok(2)
    by (simp add: ExecuteGdbCommand_simps add.assoc)
  moreover have "memory w1 = memory (world s)" using x64_mm.rd_frame [OF rd] .
  moreover have "memory w2 = write_bytes (memory (world s)) (of_nat A) bs"
    using x64_mm.wr_success [OF wr [unfolded ok2]] assms(5) by (simp add: SCRATCH_SIZE_def)
  ultimately show ?thesis using at out by blast
qed

lemma mm_memory_commands_witness:
  "\<exists>w2. ExecuteGdbCommand (agent_X64_MM sample_env sample_X64 table_services)
      (77 # str ''1000'' @ 44 # str ''2'' @ 58 # hex_bytes [1, 2] @ 0 # [])
      (length (str ''1000'') + length (str ''2'') + 2 * length [1 :: u8, 2] + 3) (sample_gdb [] sample_x64) =
    Inr (responded (str ''OK'') ((sample_gdb [] sample_x64)\<lparr>world := w2\<rparr>)) \<and>
    memory w2 = write_bytes (\<lambda>_. 0) 0x1000 [1, 2] \<and> plat w2 = plat sample_x64"
proof -
  have n: "numeral_of (str ''1000'') 0x1000" "numeral_of (str ''2'') (length [1 :: u8, 2])"
    by (simp_all add: numeral_of_def str_def is_hex_def hex_val_def hex_digit_def)
  have m: "memory sample_x64 = (\<lambda>_. 0)" by (simp add: sample_x64_def)
  show ?thesis
    using mm_memory_commands [OF _ n, of sample_env table_services "\<lambda>p. p" sample_X64 "[]" "sample_gdb [] sample_x64"]
      sample_env_facts m
    by (auto simp: SCRATCH_SIZE_def table_services_ok table_services_set table_services_known)
qed



section \<open>Bounds\<close>



end
